(* ===== verification/AIP_Prelude.thy ===== *)
theory AIP_Prelude
  imports Complex_Main "HOL-Library.Word"
begin

text \<open>
  Shared vocabulary of the development: instants and durations, error values, symbolic
  format strings, string maps, and the collections of rewrite rules the component theories
  fill and use.

  Instants (\<open>time.Time\<close>) and durations (\<open>time.Duration\<close>) are integers counting nanoseconds.
  Go strings are byte strings, so they are values of type \<^typ>\<open>string\<close>.  Go maps from strings to
  strings are association lists that are only read with \<^const>\<open>map_of\<close> and written with
  \<open>map_put\<close>.
\<close>

named_theorems prog_simps \<open>weakest preconditions and traces of client programs\<close>

named_theorems type_defs \<open>constants of the API package\<close>

type_synonym time = int
type_synonym duration = int
type_synonym strmap = "(string \<times> string) list"


section \<open>Time\<close>

definition nanosecond :: duration where
  "nanosecond = 1"

definition millisecond :: duration where
  "millisecond = 1000000"

definition second :: duration where
  "second = 1000000000"

definition minute :: duration where
  "minute = 60 * second"

definition hour :: duration where
  "hour = 60 * minute"

text \<open>The zero value of \<open>time.Time\<close>: 1 January of year 1, UTC.\<close>

definition zero_time :: time where
  "zero_time = - 62135596800 * second"

lemmas time_units = nanosecond_def millisecond_def second_def minute_def hour_def

text \<open>Go's integer division truncates towards zero; \<open>int32(d / time.Second)\<close> then keeps the low
  32 bits as a signed number.\<close>

definition quot :: "int \<Rightarrow> int \<Rightarrow> int" where
  "quot a b = sgn a * sgn b * (\<bar>a\<bar> div \<bar>b\<bar>)"

definition int32 :: "int \<Rightarrow> int" where
  "int32 n = sint (word_of_int n :: 32 word)"

lemma int32_id: "- (2 ^ 31) \<le> n \<Longrightarrow> n < 2 ^ 31 \<Longrightarrow> int32 n = n"
  by (simp add: int32_def sint_sbintrunc' signed_take_bit_int_eq_self)

lemma int32_bounds: "- (2 ^ 31) \<le> int32 n \<and> int32 n < 2 ^ 31"
  using sint_ge [of "word_of_int n :: 32 word"] sint_lt [of "word_of_int n :: 32 word"]
  by (simp add: int32_def)


section \<open>Errors\<close>

text \<open>The reason of an API status error as the predicates of the apimachinery package read it.
  \<open>ApiOther\<close> is every other reason (timeouts, forbidden, server errors).\<close>

datatype api_reason = NotFound | AlreadyExists | Conflict | Invalid | BadRequest | ApiOther string

text \<open>\<open>Wrapped\<close> is \<open>fmt.Errorf\<close> with \<open>%w\<close>; \<open>NoMatch\<close> is the error of an unregistered kind;
  \<open>Panic\<close> stands for a nil dereference, which ends the goroutine.\<close>

datatype error =
    Api api_reason
  | NoMatch
  | Plain string
  | Wrapped string error
  | Joined error error
  | Panic

type_synonym 'a result = "error + 'a"

fun reason_of :: "error \<Rightarrow> api_reason option" where
  "reason_of (Api r) = Some r"
| "reason_of (Wrapped _ e) = reason_of e"
| "reason_of (Joined e1 e2) = (case reason_of e1 of None \<Rightarrow> reason_of e2 | Some r \<Rightarrow> Some r)"
| "reason_of NoMatch = None"
| "reason_of (Plain _) = None"
| "reason_of Panic = None"

definition IsNotFound :: "error \<Rightarrow> bool" where
  "IsNotFound e \<longleftrightarrow> reason_of e = Some NotFound"

definition IsAlreadyExists :: "error \<Rightarrow> bool" where
  "IsAlreadyExists e \<longleftrightarrow> reason_of e = Some AlreadyExists"

definition IsConflict :: "error \<Rightarrow> bool" where
  "IsConflict e \<longleftrightarrow> reason_of e = Some Conflict"

definition IsInvalid :: "error \<Rightarrow> bool" where
  "IsInvalid e \<longleftrightarrow> reason_of e = Some Invalid"

definition IsBadRequest :: "error \<Rightarrow> bool" where
  "IsBadRequest e \<longleftrightarrow> reason_of e = Some BadRequest"

lemmas error_preds = IsNotFound_def IsAlreadyExists_def IsConflict_def IsInvalid_def
  IsBadRequest_def

lemma error_preds_Api [simp]:
  "IsNotFound (Api r) \<longleftrightarrow> r = NotFound"
  "IsAlreadyExists (Api r) \<longleftrightarrow> r = AlreadyExists"
  "IsConflict (Api r) \<longleftrightarrow> r = Conflict"
  "IsInvalid (Api r) \<longleftrightarrow> r = Invalid"
  "IsBadRequest (Api r) \<longleftrightarrow> r = BadRequest"
  by (simp_all add: error_preds)

lemma error_preds_exclusive:
  "IsNotFound e \<Longrightarrow> \<not> IsAlreadyExists e"
  "IsNotFound e \<Longrightarrow> \<not> IsConflict e"
  "IsAlreadyExists e \<Longrightarrow> \<not> IsConflict e"
  by (simp_all add: error_preds)


section \<open>Format strings\<close>

text \<open>Human-readable messages are kept symbolic: the format string with its arguments.  No
  component compares two formatted messages, so rendering is not needed.\<close>

datatype fmt_arg =
    ArgS string
  | ArgD int
  | ArgDur duration
  | ArgB bool
  | ArgErr error

datatype message =
    Text string
  | Sprintf string "fmt_arg list"


section \<open>String maps and lists\<close>

fun map_put :: "'k \<Rightarrow> 'v \<Rightarrow> ('k \<times> 'v) list \<Rightarrow> ('k \<times> 'v) list" where
  "map_put k v [] = [(k, v)]"
| "map_put k v ((k', v') # m) = (if k = k' then (k, v) # m else (k', v') # map_put k v m)"

definition lookup_str :: "strmap \<Rightarrow> string \<Rightarrow> string" where
  "lookup_str m k = (case map_of m k of None \<Rightarrow> '''' | Some v \<Rightarrow> v)"

lemma map_of_map_put [simp]: "map_of (map_put k v m) = (map_of m)(k \<mapsto> v)"
  by (induction k v m rule: map_put.induct) (auto simp: fun_eq_iff)

lemma lookup_map_put [simp]:
  "lookup_str (map_put k v m) k' = (if k' = k then v else lookup_str m k')"
  by (simp add: lookup_str_def)

lemma map_put_not_Nil [simp]: "map_put k v m \<noteq> []"
  by (induction m) (auto split: if_splits)

end
