(* ===== verification/API_Types.thy ===== *)
theory API_Types
  imports AIP_Prelude
begin

text \<open>
  The API objects of \<open>src/api/v1alpha1\<close> with the fields the controllers and the gateway read or
  write.  Structs are records, optional pointers are \<^typ>\<open>'a option\<close> values, string enumerations with a fixed
  list of constants are datatypes with a catch-all constructor for any other string, raw JSON is
  the string of its bytes.  \<open>float64\<close> values that are only stored are rationals.  Kubernetes'
  own \<open>ObjectMeta\<close>, \<open>Condition\<close> and \<open>Lease\<close> are records with the fields the program uses.
\<close>

type_synonym raw_json = string
type_synonym float64 = rat


section \<open>Kubernetes metadata\<close>

record ObjectMeta =
  Name :: string
  GenerateName :: string
  Namespace :: string
  UID :: string
  ResourceVersion :: string
  Generation :: int
  CreationTimestamp :: time
  DeletionTimestamp :: "time option"
  Labels :: strmap
  Annotations :: strmap
  Finalizers :: "string list"

type_synonym objkey = "string \<times> string"

definition empty_meta :: ObjectMeta where
  "empty_meta = \<lparr>Name = '''', GenerateName = '''', Namespace = '''', UID = '''', ResourceVersion = '''', Generation = 0,
     CreationTimestamp = zero_time, DeletionTimestamp = None, Labels = [], Annotations = [],
     Finalizers = []\<rparr>"

definition key_of :: "ObjectMeta \<Rightarrow> objkey" where
  "key_of m = (Namespace m, Name m)"

datatype cond_status = CondTrue | CondFalse | CondUnknown

datatype cond_type =
    ConditionPolicyEvaluated
  | ConditionApproved
  | ConditionLockAcquired
  | ConditionRequiresApproval
  | ConditionExecuting
  | ConditionCompleted
  | ConditionFailed
  | ConditionOther string

record Condition =
  CondType :: cond_type
  CondStatus :: cond_status
  CondReason :: string
  CondMessage :: message
  LastTransitionTime :: time


section \<open>AgentRequest\<close>

datatype phase =
    PhaseUnset
  | PhasePending
  | PhaseApproved
  | PhaseDenied
  | PhaseExecuting
  | PhaseCompleted
  | PhaseFailed
  | PhaseAwaitingVerdict
  | PhaseExpired
  | PhaseObserved
  | PhaseOther string

fun phase_str :: "phase \<Rightarrow> string" where
  "phase_str PhaseUnset = ''''"
| "phase_str PhasePending = ''Pending''"
| "phase_str PhaseApproved = ''Approved''"
| "phase_str PhaseDenied = ''Denied''"
| "phase_str PhaseExecuting = ''Executing''"
| "phase_str PhaseCompleted = ''Completed''"
| "phase_str PhaseFailed = ''Failed''"
| "phase_str PhaseAwaitingVerdict = ''AwaitingVerdict''"
| "phase_str PhaseExpired = ''Expired''"
| "phase_str PhaseObserved = ''Observed''"
| "phase_str (PhaseOther s) = s"

definition ModeObserve :: string where [type_defs]: "ModeObserve = ''observe''"
definition ModeGovern :: string where [type_defs]: "ModeGovern = ''govern''"

record Target =
  URI :: string
  ResourceType :: "string option"
  Attributes :: strmap

record AffectedTarget =
  AffectedURI :: string
  EffectType :: string

record CascadeModel =
  AffectedTargets :: "AffectedTarget list"
  ModelSourceTrust :: "string option"
  ModelSourceID :: "string option"

record ReasoningTrace =
  ConfidenceScore :: "float64 option"
  ComponentConfidence :: "(string \<times> float64) list"
  CalibrationEvidence :: "string option"
  TraceReference :: "string option"
  Alternatives :: "string list"

record ScopeBounds =
  PermittedActions :: "string list"
  PermittedTargetPatterns :: "string list"
  TimeBoundSeconds :: int

record GovernedResourceRef =
  RefName :: string
  RefGeneration :: int

record HumanApproval =
  Decision :: string
  DecisionReason :: string
  ForGeneration :: int
  ApprovedBy :: string

record AgentRequestSpec =
  AgentIdentity :: string
  Action :: string
  TargetOf :: Target
  Reason :: string
  Mode :: string
  Classification :: string
  DedupKey :: string
  IntentPlanRef :: "string option"
  Priority :: "int option"
  Cascade :: "CascadeModel option"
  Reasoning :: "ReasoningTrace option"
  Interruptibility :: "bool option"
  Parameters :: "raw_json option"
  ExecutionMode :: "string option"
  Scope :: "ScopeBounds option"
  Approval :: "HumanApproval option"
  SpecGovernedResourceRef :: "GovernedResourceRef option"

record PolicyResult =
  PolicyName :: string
  RuleName :: string
  Result :: string
  PolicyGeneration :: int

record DenialResponse =
  Code :: string
  DenialMessage :: message
  PolicyResults :: "PolicyResult list"
  RetryAfterSeconds :: "int option"

record ControlPlaneVerification =
  EvaluatedStateFingerprint :: string
  TargetExists :: bool
  HasActiveEndpoints :: bool
  ActiveEndpointCount :: int
  ReadyReplicas :: int
  SpecReplicas :: int
  DownstreamServices :: "string list"
  FetchedAt :: time

record AgentRequestResult =
  ResultURL :: string
  ResultSummary :: string

record AgentRequestStatus =
  Phase :: phase
  Conditions :: "Condition list"
  Denial :: "DenialResponse option"
  LeaseName :: string
  EvaluationGeneration :: int
  CPV :: "ControlPlaneVerification option"
  ProviderContext :: "raw_json option"
  Verdict :: string
  VerdictReasonCode :: string
  VerdictNote :: string
  VerdictBy :: string
  VerdictAt :: "time option"
  StatusGovernedResourceRef :: "GovernedResourceRef option"
  ResultOf :: "AgentRequestResult option"

record AgentRequest =
  Meta :: ObjectMeta
  Spec :: AgentRequestSpec
  Status :: AgentRequestStatus

definition DenialCodePolicyViolation :: string where
  [type_defs]: "DenialCodePolicyViolation = ''POLICY_VIOLATION''"
definition DenialCodeLockTimeout :: string where
  [type_defs]: "DenialCodeLockTimeout = ''LOCK_TIMEOUT''"
definition DenialCodeEvaluationFailure :: string where
  [type_defs]: "DenialCodeEvaluationFailure = ''EVALUATION_FAILURE''"
definition DenialCodeIdentityInvalid :: string where
  [type_defs]: "DenialCodeIdentityInvalid = ''IDENTITY_INVALID''"
definition DenialCodeActionNotPermitted :: string where
  [type_defs]: "DenialCodeActionNotPermitted = ''ACTION_NOT_PERMITTED''"
definition DenialCodeCascadeDenied :: string where
  [type_defs]: "DenialCodeCascadeDenied = ''CASCADE_DENIED''"
definition DenialCodeStateDrifted :: string where
  [type_defs]: "DenialCodeStateDrifted = ''STATE_DRIFTED''"
definition DenialCodeGenerationMismatch :: string where
  [type_defs]: "DenialCodeGenerationMismatch = ''GENERATION_MISMATCH''"
definition DenialCodeGovernedResourceDeleted :: string where
  [type_defs]: "DenialCodeGovernedResourceDeleted = ''GOVERNED_RESOURCE_DELETED''"

definition ResultAllow :: string where [type_defs]: "ResultAllow = ''Allow''"
definition ResultDeny :: string where [type_defs]: "ResultDeny = ''Deny''"
definition ResultLog :: string where [type_defs]: "ResultLog = ''Log''"
definition ResultRequireApproval :: string where
  [type_defs]: "ResultRequireApproval = ''RequireApproval''"
definition ResultEvaluationFailed :: string where
  [type_defs]: "ResultEvaluationFailed = ''EvaluationFailed''"

lemma results_distinct [simp]:
  "ResultAllow \<noteq> ResultDeny" "ResultDeny \<noteq> ResultAllow"
  "ResultAllow \<noteq> ResultLog" "ResultLog \<noteq> ResultAllow"
  "ResultAllow \<noteq> ResultRequireApproval" "ResultRequireApproval \<noteq> ResultAllow"
  "ResultDeny \<noteq> ResultLog" "ResultLog \<noteq> ResultDeny"
  "ResultDeny \<noteq> ResultRequireApproval" "ResultRequireApproval \<noteq> ResultDeny"
  "ResultLog \<noteq> ResultRequireApproval" "ResultRequireApproval \<noteq> ResultLog"
  by (simp_all add: type_defs)


section \<open>Trust levels\<close>

definition TrustLevelObserver :: string where [type_defs]: "TrustLevelObserver = ''Observer''"
definition TrustLevelAdvisor :: string where [type_defs]: "TrustLevelAdvisor = ''Advisor''"
definition TrustLevelSupervised :: string where
  [type_defs]: "TrustLevelSupervised = ''Supervised''"
definition TrustLevelTrusted :: string where [type_defs]: "TrustLevelTrusted = ''Trusted''"
definition TrustLevelAutonomous :: string where
  [type_defs]: "TrustLevelAutonomous = ''Autonomous''"

definition trustLevelOrder :: "(string \<times> int) list" where
  "trustLevelOrder = [(TrustLevelObserver, 0), (TrustLevelAdvisor, 1), (TrustLevelSupervised, 2),
     (TrustLevelTrusted, 3), (TrustLevelAutonomous, 4)]"

definition TrustLevelRank :: "string \<Rightarrow> int \<times> bool" where
  "TrustLevelRank level = (case map_of trustLevelOrder level of
     None \<Rightarrow> (-1, False) | Some rank \<Rightarrow> (rank, True))"

lemma TrustLevelRank_simps [simp]:
  "TrustLevelRank TrustLevelObserver = (0, True)"
  "TrustLevelRank TrustLevelAdvisor = (1, True)"
  "TrustLevelRank TrustLevelSupervised = (2, True)"
  "TrustLevelRank TrustLevelTrusted = (3, True)"
  "TrustLevelRank TrustLevelAutonomous = (4, True)"
  by (simp_all add: TrustLevelRank_def trustLevelOrder_def type_defs)


section \<open>Annotations\<close>

definition AnnotationEffectiveTrustLevel :: string where
  [type_defs]: "AnnotationEffectiveTrustLevel = ''governance.aip.io/effective-trust-level''"
definition AnnotationRequiresHumanApproval :: string where
  [type_defs]: "AnnotationRequiresHumanApproval = ''governance.aip.io/requires-human-approval''"
definition AnnotationCanExecute :: string where
  [type_defs]: "AnnotationCanExecute = ''governance.aip.io/can-execute''"
definition AnnotationGatewayDenied :: string where
  [type_defs]: "AnnotationGatewayDenied = ''governance.aip.io/gateway-denied''"


section \<open>SafetyPolicy\<close>

text \<open>Label selectors are evaluated by the apimachinery package, so they stay abstract: a value
  the selector parameter of the controller interprets.\<close>

datatype LabelSelector = LabelSelector "strmap" "(string \<times> string \<times> string list) list"

record Rule =
  RuleNameOf :: string
  RuleType :: string
  RuleAction :: string
  RuleMessage :: "string option"
  Expression :: string
  RuleConfig :: "raw_json option"

record SafetyPolicy =
  PolicyMeta :: ObjectMeta
  GovernedResourceSelector :: LabelSelector
  ContextType :: string
  Rules :: "Rule list"
  FailureMode :: "string option"


section \<open>GovernedResource\<close>

definition GovernedResourceFinalizer :: string where
  [type_defs]: "GovernedResourceFinalizer = ''governance.aip.io/active-requests''"

record TrustRequirements =
  MinTrustLevel :: string
  MaxAutonomyLevel :: string

record GovernedResource =
  GRMeta :: ObjectMeta
  URIPattern :: string
  GRPermittedActions :: "string list"
  PermittedAgents :: "string list"
  ContextFetcher :: string
  ContextSchema :: "raw_json option"
  Description :: string
  SoakMode :: bool
  TrustReqs :: "TrustRequirements option"


section \<open>AuditRecord\<close>

datatype audit_event =
    AuditEventRequestSubmitted
  | AuditEventRequestObserved
  | AuditEventRequestApproved
  | AuditEventRequestDenied
  | AuditEventRequestExecuting
  | AuditEventRequestCompleted
  | AuditEventRequestFailed
  | AuditEventRequestRevoked
  | AuditEventRequestExpired
  | AuditEventVerdictSubmitted
  | AuditEventLockAcquired
  | AuditEventLockReleased
  | AuditEventLockExpired
  | AuditEventPolicyEvaluated
  | AuditEventCascadeMismatch
  | AuditEventHeartbeatTimeout
  | AuditEventStateDrifted
  | AuditEventStateDriftedVerify
  | AuditEventTrustProfileUpdated

fun audit_event_str :: "audit_event \<Rightarrow> string" where
  "audit_event_str AuditEventRequestSubmitted = ''request.submitted''"
| "audit_event_str AuditEventRequestObserved = ''request.observed''"
| "audit_event_str AuditEventRequestApproved = ''request.approved''"
| "audit_event_str AuditEventRequestDenied = ''request.denied''"
| "audit_event_str AuditEventRequestExecuting = ''request.executing''"
| "audit_event_str AuditEventRequestCompleted = ''request.completed''"
| "audit_event_str AuditEventRequestFailed = ''request.failed''"
| "audit_event_str AuditEventRequestRevoked = ''request.revoked''"
| "audit_event_str AuditEventRequestExpired = ''request.expired''"
| "audit_event_str AuditEventVerdictSubmitted = ''verdict.submitted''"
| "audit_event_str AuditEventLockAcquired = ''lock.acquired''"
| "audit_event_str AuditEventLockReleased = ''lock.released''"
| "audit_event_str AuditEventLockExpired = ''lock.expired''"
| "audit_event_str AuditEventPolicyEvaluated = ''policy.evaluated''"
| "audit_event_str AuditEventCascadeMismatch = ''cascade.mismatch''"
| "audit_event_str AuditEventHeartbeatTimeout = ''heartbeat.timeout''"
| "audit_event_str AuditEventStateDrifted = ''state.drifted''"
| "audit_event_str AuditEventStateDriftedVerify = ''state.drifted.verify''"
| "audit_event_str AuditEventTrustProfileUpdated = ''agent.trustprofile.updated''"

record PhaseTransition =
  From :: string
  To :: string

record AuditPolicyEvaluation =
  EvalPolicyName :: string
  EvalRuleName :: string
  EvalResult :: string
  EvalReason :: string

record AuditRecordSpec =
  Timestamp :: time
  AuditAgentIdentity :: string
  AgentRequestRef :: string
  Event :: audit_event
  AuditAction :: string
  TargetURI :: string
  AuditReason :: string
  TransitionOf :: "PhaseTransition option"
  PolicyEvaluations :: "AuditPolicyEvaluation list"
  AuditAnnotations :: strmap
  Details :: "raw_json option"

record AuditRecord =
  AuditMeta :: ObjectMeta
  AuditSpec :: AuditRecordSpec
  OwnerRequest :: string

text \<open>\<open>OwnerRequest\<close> is the name in the controller reference of the record, empty when the
  record has none.\<close>


section \<open>Lease\<close>

record Lease =
  LeaseMeta :: ObjectMeta
  HolderIdentity :: "string option"
  LeaseDurationSeconds :: "int option"
  AcquireTime :: "time option"
  RenewTime :: "time option"


section \<open>Trust objects\<close>

record AgentTrustProfileStatus =
  TrustLevel :: string
  ProfileDiagnosticAccuracy :: "float64 option"
  RecentAccuracy :: "float64 option"
  ProfileTotalReviewed :: int
  TotalExecutions :: int
  SuccessRate :: "float64 option"
  LastPromotedAt :: "time option"
  LastDemotedAt :: "time option"
  LastEvaluatedAt :: "time option"

record AgentTrustProfile =
  ProfileMeta :: ObjectMeta
  ProfileAgentIdentity :: string
  ProfileStatus :: AgentTrustProfileStatus

record AccuracyBand =
  AccuracyMin :: "float64 option"
  AccuracyMax :: "float64 option"
  DemotionBuffer :: "float64 option"

record ExecutionBand =
  ExecutionsMin :: "int option"
  ExecutionsMax :: "int option"

record GraduationLevel =
  LevelName :: string
  CanExecute :: bool
  RequiresHumanApproval :: bool
  Accuracy :: "AccuracyBand option"
  Executions :: "ExecutionBand option"

record DemotionPolicy =
  AccuracyDropThreshold :: float64
  WindowSize :: int
  GracePeriod :: string

record AgentGraduationPolicy =
  GradMeta :: ObjectMeta
  EvaluationWindowCount :: int
  AwaitingVerdictTTL :: string
  Levels :: "GraduationLevel list"
  Demotion :: DemotionPolicy

record DiagnosticAccuracySummaryStatus =
  TotalReviewed :: int
  CorrectCount :: int
  PartialCount :: int
  IncorrectCount :: int
  DiagnosticAccuracy :: "float64 option"
  LastUpdatedAt :: "time option"
  RecentVerdicts :: "string list"

record DiagnosticAccuracySummary =
  SummaryMeta :: ObjectMeta
  SummaryAgentIdentity :: string
  SummaryStatus :: DiagnosticAccuracySummaryStatus


section \<open>Agent registrations\<close>

datatype ExternalIdentityType =
    ExternalIdentityStaticSecret
  | ExternalIdentityAzureWorkloadIdentity
  | ExternalIdentityAWSWebIdentity
  | ExternalIdentityKubernetesOIDC
  | ExternalIdentityKubernetesTokenRequest
  | ExternalIdentityOther string

record StaticSecretCredential =
  StaticName :: string
  StaticKey :: string
  StaticNamespace :: string

record AzureWorkloadIdentityCredential =
  AzureTenantID :: string
  AzureClientID :: string
  AzureScope :: string

record AWSWebIdentityCredential =
  RoleARN :: string
  RoleSessionName :: string
  Region :: string
  DurationSeconds :: "int option"
  STSEndpoint :: string

record KubernetesOIDCCredential =
  TokenExchangeURL :: string
  OIDCAudience :: string

record KubernetesTokenRequestCredential =
  ServiceAccountName :: string
  ServiceAccountNamespace :: string
  ExpirationSeconds :: "int option"
  Audiences :: "string list"

record ExternalIdentityBinding =
  Service :: string
  BindingType :: ExternalIdentityType
  StaticSecret :: "StaticSecretCredential option"
  AzureWorkloadIdentity :: "AzureWorkloadIdentityCredential option"
  AWSWebIdentity :: "AWSWebIdentityCredential option"
  KubernetesOIDC :: "KubernetesOIDCCredential option"
  KubernetesTokenRequest :: "KubernetesTokenRequestCredential option"

record AgentRegistrationOIDC =
  Issuer :: string
  SubjectClaim :: string
  AllowedSubjects :: "string list"

definition AgentRegistrationModeStanding :: string where
  "AgentRegistrationModeStanding = ''Standing''"

definition AgentRegistrationModeGoverned :: string where
  "AgentRegistrationModeGoverned = ''Governed''"

record AgentRegistrationSpec =
  RegAgentIdentity :: string
  RegMode :: string
  RequestedServices :: "string list"
  OIDC :: "AgentRegistrationOIDC option"
  ExternalIdentities :: "ExternalIdentityBinding list"

record AgentRegistrationStatus =
  RegPhase :: string
  RegisteredBy :: string
  ApprovedServices :: "string list"
  ApprovedAt :: "time option"
  RegConditions :: "Condition list"

record AgentRegistration =
  RegMeta :: ObjectMeta
  RegSpec :: AgentRegistrationSpec
  RegStatus :: AgentRegistrationStatus


section \<open>MCP servers and secrets\<close>

record MCPServerTool =
  ToolName :: string
  ToolReadOnly :: bool

record SecretKeySelector =
  SecretRefName :: string
  SecretRefKey :: string

record MCPServerSpec =
  MCPURL :: string
  SecretNamespace :: string
  BearerTokenSecretRef :: "SecretKeySelector option"
  ReadOnlyTools :: "string list"

record MCPServerStatus =
  LastSyncTime :: "time option"
  ObservedGeneration :: int
  MCPConditions :: "Condition list"
  DiscoveredToolCount :: int
  Tools :: "MCPServerTool list"

record MCPServer =
  MCPMeta :: ObjectMeta
  MCPSpec :: MCPServerSpec
  MCPStatus :: MCPServerStatus

record Secret =
  SecretMeta :: ObjectMeta
  SecretType :: string
  SecretData :: strmap


section \<open>Workload objects the context fetchers read\<close>

record Deployment =
  DeploymentMeta :: ObjectMeta
  Replicas :: "int option"
  DeploymentReadyReplicas :: int

record Endpoint =
  Ready :: "bool option"
  Addresses :: "string list"

record EndpointSlice =
  SliceMeta :: ObjectMeta
  Endpoints :: "Endpoint list"

end
