(* ===== verification/K8s_Client.thy ===== *)
theory K8s_Client
  imports API_Types
begin

text \<open>
  The boundary between the program and everything outside it.  The controllers and the gateway
  act only through the controller-runtime client (\<open>Get\<close>, \<open>List\<close>, \<open>Create\<close>, \<open>Patch\<close>, \<open>Update\<close>,
  \<open>Delete\<close>, on the main resource or on the status subresource), the clock and the metrics
  registry.  A piece of the program is therefore a value of type \<open>'a prog\<close>: a tree that issues
  one such call and continues with the answer.  The API server is not defined here: an
  execution of a program is a trace of calls with \<^emph>\<open>arbitrary\<close> answers, so a statement about all
  executions holds for every server, every interleaving with other clients and every failure.
  Statements that need the server to behave as documented take the laws of the locale
  \<open>api_server\<close> (theory \<open>API_Server\<close>) as hypotheses.

  An answer to \<open>Patch\<close> or \<open>Update\<close> is the caller's object after the call: the client decodes the
  server's reply into it.
\<close>


section \<open>Calls\<close>

datatype reader = Cached | Direct

datatype subresource = MainResource | StatusSubresource

datatype kind =
    KAgentRequest
  | KSafetyPolicy
  | KGovernedResource
  | KAuditRecord
  | KLease
  | KAgentTrustProfile
  | KAgentGraduationPolicy
  | KDiagnosticAccuracySummary
  | KAgentRegistration
  | KMCPServer
  | KSecret
  | KDeployment
  | KEndpointSlice

datatype object =
    OAgentRequest AgentRequest
  | OSafetyPolicy SafetyPolicy
  | OGovernedResource GovernedResource
  | OAuditRecord AuditRecord
  | OLease Lease
  | OAgentTrustProfile AgentTrustProfile
  | OAgentGraduationPolicy AgentGraduationPolicy
  | ODiagnosticAccuracySummary DiagnosticAccuracySummary
  | OAgentRegistration AgentRegistration
  | OMCPServer MCPServer
  | OSecret Secret
  | ODeployment Deployment
  | OEndpointSlice EndpointSlice

text \<open>\<open>InNamespace\<close> empty means all namespaces; \<open>MatchingFields\<close> is an index lookup; \<open>Limit\<close> 0
  means no paging.\<close>

record list_options =
  InNamespace :: string
  MatchingLabels :: strmap
  MatchingFields :: strmap
  Limit :: int
  Continue :: string

definition list_all_objects :: list_options where
  "list_all_objects = \<lparr>InNamespace = '''', MatchingLabels = [], MatchingFields = [], Limit = 0,
     Continue = ''''\<rparr>"

datatype metric =
    AgentRequestTotal phase
  | AgentRequestDeniedTotal string
  | AgentRequestEvalDuration
  | AgentRequestActive int
  | OpsLockContentionTotal
  | OpsLockExpiredTotal
  | OpsLockActive int
  | GcScanObjectsEvaluatedTotal
  | GcObjectsSkippedTotal string
  | GcObjectsDeletedTotal string
  | GcScanDurationSeconds duration
  | SseAPIReaderGetTotal

text \<open>\<open>OptimisticLock\<close> is \<open>client.MergeFromWithOptimisticLock\<close>: the patch carries the base's resource
  version.  \<open>Preconditions\<close> is the resource version a delete is conditioned on.\<close>

datatype patch_kind = MergeFrom | OptimisticLock

datatype 'a prog =
    Ret 'a
  | Get reader kind objkey "object result \<Rightarrow> 'a prog"
  | ListObjects reader kind list_options "(object list \<times> string) result \<Rightarrow> 'a prog"
  | Create object "object result \<Rightarrow> 'a prog"
  | Patch subresource patch_kind object object "object result \<Rightarrow> 'a prog"
  | Update subresource object "object result \<Rightarrow> 'a prog"
  | Delete object "string option" "unit result \<Rightarrow> 'a prog"
  | Now "time \<Rightarrow> 'a prog"
  | Metric metric "'a prog"

primrec bind :: "'a prog \<Rightarrow> ('a \<Rightarrow> 'b prog) \<Rightarrow> 'b prog" where
  "bind (Ret x) g = g x"
| "bind (Get rd k key f) g = Get rd k key (\<lambda>r. bind (f r) g)"
| "bind (ListObjects rd k opts f) g = ListObjects rd k opts (\<lambda>r. bind (f r) g)"
| "bind (Create obj f) g = Create obj (\<lambda>r. bind (f r) g)"
| "bind (Patch sub pk base obj f) g = Patch sub pk base obj (\<lambda>r. bind (f r) g)"
| "bind (Update sub obj f) g = Update sub obj (\<lambda>r. bind (f r) g)"
| "bind (Delete obj pre f) g = Delete obj pre (\<lambda>r. bind (f r) g)"
| "bind (Now f) g = Now (\<lambda>t. bind (f t) g)"
| "bind (Metric m p) g = Metric m (bind p g)"

lemma bind_Ret_right [simp]: "bind p Ret = p"
  by (induction p) auto

lemma bind_assoc: "bind (bind p g) h = bind p (\<lambda>x. bind (g x) h)"
  by (induction p) auto


text \<open>A loop over a list.\<close>

primrec for_each :: "('a \<Rightarrow> unit prog) \<Rightarrow> 'a list \<Rightarrow> unit prog" where
  "for_each f [] = Ret ()"
| "for_each f (x # xs) = bind (f x) (\<lambda>_. for_each f xs)"


section \<open>Typed calls\<close>

text \<open>The client decodes an answer into a variable of the requested type; an object of another
  kind is a decoding error.\<close>

definition decode_error :: error where
  "decode_error = Plain ''unable to decode object''"

fun as_AgentRequest :: "object result \<Rightarrow> AgentRequest result" where
  "as_AgentRequest (Inr (OAgentRequest a)) = Inr a"
| "as_AgentRequest (Inl e) = Inl e"
| "as_AgentRequest _ = Inl decode_error"

fun as_GovernedResource :: "object result \<Rightarrow> GovernedResource result" where
  "as_GovernedResource (Inr (OGovernedResource a)) = Inr a"
| "as_GovernedResource (Inl e) = Inl e"
| "as_GovernedResource _ = Inl decode_error"

fun as_Lease :: "object result \<Rightarrow> Lease result" where
  "as_Lease (Inr (OLease a)) = Inr a"
| "as_Lease (Inl e) = Inl e"
| "as_Lease _ = Inl decode_error"

fun as_Deployment :: "object result \<Rightarrow> Deployment result" where
  "as_Deployment (Inr (ODeployment a)) = Inr a"
| "as_Deployment (Inl e) = Inl e"
| "as_Deployment _ = Inl decode_error"

fun as_AuditRecord :: "object result \<Rightarrow> AuditRecord result" where
  "as_AuditRecord (Inr (OAuditRecord a)) = Inr a"
| "as_AuditRecord (Inl e) = Inl e"
| "as_AuditRecord _ = Inl decode_error"

fun as_AgentTrustProfile :: "object result \<Rightarrow> AgentTrustProfile result" where
  "as_AgentTrustProfile (Inr (OAgentTrustProfile a)) = Inr a"
| "as_AgentTrustProfile (Inl e) = Inl e"
| "as_AgentTrustProfile _ = Inl decode_error"

fun as_AgentGraduationPolicy :: "object result \<Rightarrow> AgentGraduationPolicy result" where
  "as_AgentGraduationPolicy (Inr (OAgentGraduationPolicy a)) = Inr a"
| "as_AgentGraduationPolicy (Inl e) = Inl e"
| "as_AgentGraduationPolicy _ = Inl decode_error"

fun as_DiagnosticAccuracySummary :: "object result \<Rightarrow> DiagnosticAccuracySummary result" where
  "as_DiagnosticAccuracySummary (Inr (ODiagnosticAccuracySummary a)) = Inr a"
| "as_DiagnosticAccuracySummary (Inl e) = Inl e"
| "as_DiagnosticAccuracySummary _ = Inl decode_error"

fun as_AgentRegistration :: "object result \<Rightarrow> AgentRegistration result" where
  "as_AgentRegistration (Inr (OAgentRegistration a)) = Inr a"
| "as_AgentRegistration (Inl e) = Inl e"
| "as_AgentRegistration _ = Inl decode_error"

fun as_MCPServer :: "object result \<Rightarrow> MCPServer result" where
  "as_MCPServer (Inr (OMCPServer a)) = Inr a"
| "as_MCPServer (Inl e) = Inl e"
| "as_MCPServer _ = Inl decode_error"

fun as_Secret :: "object result \<Rightarrow> Secret result" where
  "as_Secret (Inr (OSecret a)) = Inr a"
| "as_Secret (Inl e) = Inl e"
| "as_Secret _ = Inl decode_error"

fun as_unit :: "object result \<Rightarrow> unit result" where
  "as_unit (Inr _) = Inr ()"
| "as_unit (Inl e) = Inl e"

lemma as_AgentRequest_Inr: "as_AgentRequest r = Inr a \<longleftrightarrow> r = Inr (OAgentRequest a)"
  by (cases r rule: as_AgentRequest.cases) auto

lemma as_Lease_Inr: "as_Lease r = Inr a \<longleftrightarrow> r = Inr (OLease a)"
  by (cases r rule: as_Lease.cases) auto

fun pick_SafetyPolicies :: "object list \<Rightarrow> SafetyPolicy list" where
  "pick_SafetyPolicies (OSafetyPolicy p # os) = p # pick_SafetyPolicies os"
| "pick_SafetyPolicies (_ # os) = pick_SafetyPolicies os"
| "pick_SafetyPolicies [] = []"

fun pick_AuditRecords :: "object list \<Rightarrow> AuditRecord list" where
  "pick_AuditRecords (OAuditRecord p # os) = p # pick_AuditRecords os"
| "pick_AuditRecords (_ # os) = pick_AuditRecords os"
| "pick_AuditRecords [] = []"

fun pick_AgentRequests :: "object list \<Rightarrow> AgentRequest list" where
  "pick_AgentRequests (OAgentRequest p # os) = p # pick_AgentRequests os"
| "pick_AgentRequests (_ # os) = pick_AgentRequests os"
| "pick_AgentRequests [] = []"

fun pick_EndpointSlices :: "object list \<Rightarrow> EndpointSlice list" where
  "pick_EndpointSlices (OEndpointSlice p # os) = p # pick_EndpointSlices os"
| "pick_EndpointSlices (_ # os) = pick_EndpointSlices os"
| "pick_EndpointSlices [] = []"


fun pick_GovernedResources :: "object list \<Rightarrow> GovernedResource list" where
  "pick_GovernedResources (OGovernedResource p # os) = p # pick_GovernedResources os"
| "pick_GovernedResources (_ # os) = pick_GovernedResources os"
| "pick_GovernedResources [] = []"

fun pick_AgentRegistrations :: "object list \<Rightarrow> AgentRegistration list" where
  "pick_AgentRegistrations (OAgentRegistration p # os) = p # pick_AgentRegistrations os"
| "pick_AgentRegistrations (_ # os) = pick_AgentRegistrations os"
| "pick_AgentRegistrations [] = []"

fun pick_DiagnosticAccuracySummaries :: "object list \<Rightarrow> DiagnosticAccuracySummary list" where
  "pick_DiagnosticAccuracySummaries (ODiagnosticAccuracySummary p # os) = p # pick_DiagnosticAccuracySummaries os"
| "pick_DiagnosticAccuracySummaries (_ # os) = pick_DiagnosticAccuracySummaries os"
| "pick_DiagnosticAccuracySummaries [] = []"

fun pick_MCPServers :: "object list \<Rightarrow> MCPServer list" where
  "pick_MCPServers (OMCPServer p # os) = p # pick_MCPServers os"
| "pick_MCPServers (_ # os) = pick_MCPServers os"
| "pick_MCPServers [] = []"


section \<open>Executions\<close>

datatype event =
    EGet reader kind objkey "object result"
  | EList reader kind list_options "(object list \<times> string) result"
  | ECreate object "object result"
  | EPatch subresource patch_kind object object "object result"
  | EUpdate subresource object "object result"
  | EDelete object "string option" "unit result"
  | ENow time
  | EMetric metric

inductive exec :: "'a prog \<Rightarrow> event list \<Rightarrow> 'a \<Rightarrow> bool" where
  exec_Ret: "exec (Ret x) [] x"
| exec_Get: "exec (f r) es x \<Longrightarrow> exec (Get rd k key f) (EGet rd k key r # es) x"
| exec_List: "exec (f r) es x \<Longrightarrow> exec (ListObjects rd k opts f) (EList rd k opts r # es) x"
| exec_Create: "exec (f r) es x \<Longrightarrow> exec (Create obj f) (ECreate obj r # es) x"
| exec_Patch: "exec (f r) es x \<Longrightarrow>
    exec (Patch sub pk base obj f) (EPatch sub pk base obj r # es) x"
| exec_Update: "exec (f r) es x \<Longrightarrow> exec (Update sub obj f) (EUpdate sub obj r # es) x"
| exec_Delete: "exec (f r) es x \<Longrightarrow> exec (Delete obj pre f) (EDelete obj pre r # es) x"
| exec_Now: "exec (f t) es x \<Longrightarrow> exec (Now f) (ENow t # es) x"
| exec_Metric: "exec p es x \<Longrightarrow> exec (Metric m p) (EMetric m # es) x"

inductive_simps exec_simps [prog_simps]:
  "exec (Ret x) es y"
  "exec (Get rd k key f) es y"
  "exec (ListObjects rd k opts f) es y"
  "exec (Create obj f) es y"
  "exec (Patch sub pk base obj f) es y"
  "exec (Update sub obj f) es y"
  "exec (Delete obj pre f) es y"
  "exec (Now f) es y"
  "exec (Metric m p) es y"

inductive_cases exec_GetE: "exec (Get rd k key f) es y"
inductive_cases exec_CreateE: "exec (Create obj f) es y"
inductive_cases exec_PatchE: "exec (Patch sub pk base obj f) es y"

lemma exec_bindI:
  assumes "exec p es x" and "exec (g x) es' y"
  shows "exec (bind p g) (es @ es') y"
  using assms by (induction rule: exec.induct) (auto intro: exec.intros)

section \<open>Weakest liberal preconditions\<close>

text \<open>\<open>wlp p Q\<close>: every execution of \<open>p\<close>, whatever the answers, ends with a trace and a result
  that satisfy \<open>Q\<close>.\<close>

primrec wlp :: "'a prog \<Rightarrow> (event list \<Rightarrow> 'a \<Rightarrow> bool) \<Rightarrow> bool" where
  "wlp (Ret x) Q \<longleftrightarrow> Q [] x"
| "wlp (Get rd k key f) Q \<longleftrightarrow> (\<forall>r. wlp (f r) (\<lambda>es. Q (EGet rd k key r # es)))"
| "wlp (ListObjects rd k opts f) Q \<longleftrightarrow> (\<forall>r. wlp (f r) (\<lambda>es. Q (EList rd k opts r # es)))"
| "wlp (Create obj f) Q \<longleftrightarrow> (\<forall>r. wlp (f r) (\<lambda>es. Q (ECreate obj r # es)))"
| "wlp (Patch sub pk base obj f) Q \<longleftrightarrow>
     (\<forall>r. wlp (f r) (\<lambda>es. Q (EPatch sub pk base obj r # es)))"
| "wlp (Update sub obj f) Q \<longleftrightarrow> (\<forall>r. wlp (f r) (\<lambda>es. Q (EUpdate sub obj r # es)))"
| "wlp (Delete obj pre f) Q \<longleftrightarrow> (\<forall>r. wlp (f r) (\<lambda>es. Q (EDelete obj pre r # es)))"
| "wlp (Now f) Q \<longleftrightarrow> (\<forall>t. wlp (f t) (\<lambda>es. Q (ENow t # es)))"
| "wlp (Metric m p) Q \<longleftrightarrow> wlp p (\<lambda>es. Q (EMetric m # es))"

lemma wlp_iff: "wlp p Q \<longleftrightarrow> (\<forall>es x. exec p es x \<longrightarrow> Q es x)"
  by (induction p arbitrary: Q) (auto simp: exec_simps)

lemma wlpI: "(\<And>es x. exec p es x \<Longrightarrow> Q es x) \<Longrightarrow> wlp p Q"
  by (simp add: wlp_iff)

lemma wlpD: "wlp p Q \<Longrightarrow> exec p es x \<Longrightarrow> Q es x"
  by (simp add: wlp_iff)

lemma wlp_bind: "wlp (bind p g) Q \<longleftrightarrow>
    wlp p (\<lambda>es1 x. wlp (g x) (\<lambda>es2 y. Q (es1 @ es2) y))"
  by (induction p arbitrary: Q) auto

lemma exec_bind: "exec (bind p g) es y \<longleftrightarrow>
    (\<exists>es1 es2 x. es = es1 @ es2 \<and> exec p es1 x \<and> exec (g x) es2 y)"
proof
  assume ex: "exec (bind p g) es y"
  have "wlp (bind p g) (\<lambda>es y. \<exists>es1 es2 x. es = es1 @ es2 \<and> exec p es1 x \<and> exec (g x) es2 y)"
    unfolding wlp_bind by (blast intro: wlpI)
  from wlpD [OF this ex] show "\<exists>es1 es2 x. es = es1 @ es2 \<and> exec p es1 x \<and> exec (g x) es2 y" .
qed (blast intro: exec_bindI)

lemma wlp_mono: "wlp p Q \<Longrightarrow> (\<And>es x. Q es x \<Longrightarrow> Q' es x) \<Longrightarrow> wlp p Q'"
  by (simp add: wlp_iff)

lemma wlp_conj: "wlp p (\<lambda>es x. Q es x \<and> Q' es x) \<longleftrightarrow> wlp p Q \<and> wlp p Q'"
  by (auto simp: wlp_iff)

lemma wlp_bindI:
  assumes "wlp p R" and "\<And>es1 x. R es1 x \<Longrightarrow> wlp (g x) (\<lambda>es2 y. Q (es1 @ es2) y)"
  shows "wlp (bind p g) Q"
  using assms by (auto simp: wlp_bind intro: wlp_mono)

text \<open>\<open>all_events P p\<close>: every call of every execution satisfies \<open>P\<close>.\<close>

abbreviation all_events :: "(event \<Rightarrow> bool) \<Rightarrow> 'a prog \<Rightarrow> bool" where
  "all_events P p \<equiv> wlp p (\<lambda>es _. list_all P es)"

lemma all_events_bind:
  "all_events P p \<Longrightarrow> (\<And>x. all_events P (g x)) \<Longrightarrow> all_events P (bind p g)"
  by (rule wlp_bindI, assumption) (auto elim: wlp_mono)

lemma all_events_for_each:
  "(\<And>x. x \<in> set xs \<Longrightarrow> all_events P (f x)) \<Longrightarrow> all_events P (for_each f xs)"
  by (induction xs) (auto intro: all_events_bind)

lemma all_eventsD: "all_events P p \<Longrightarrow> exec p es x \<Longrightarrow> e \<in> set es \<Longrightarrow> P e"
  by (auto simp: wlp_iff list_all_iff)


section \<open>Running a program against a concrete environment\<close>

text \<open>An environment answers every call from its own state; \<open>run\<close> produces the execution.\<close>

record 'w env =
  env_get :: "reader \<Rightarrow> kind \<Rightarrow> objkey \<Rightarrow> 'w \<Rightarrow> object result \<times> 'w"
  env_list :: "reader \<Rightarrow> kind \<Rightarrow> list_options \<Rightarrow> 'w \<Rightarrow> (object list \<times> string) result \<times> 'w"
  env_create :: "object \<Rightarrow> 'w \<Rightarrow> object result \<times> 'w"
  env_patch :: "subresource \<Rightarrow> patch_kind \<Rightarrow> object \<Rightarrow> object \<Rightarrow> 'w \<Rightarrow> object result \<times> 'w"
  env_update :: "subresource \<Rightarrow> object \<Rightarrow> 'w \<Rightarrow> object result \<times> 'w"
  env_delete :: "object \<Rightarrow> string option \<Rightarrow> 'w \<Rightarrow> unit result \<times> 'w"
  env_now :: "'w \<Rightarrow> time \<times> 'w"

primrec run :: "'w env \<Rightarrow> 'a prog \<Rightarrow> 'w \<Rightarrow> event list \<times> 'a \<times> 'w" where
  "run E (Ret x) w = ([], x, w)"
| "run E (Get rd k key f) w =
     (let (r, w1) = env_get E rd k key w; (es, y, w2) = run E (f r) w1
      in (EGet rd k key r # es, y, w2))"
| "run E (ListObjects rd k opts f) w =
     (let (r, w1) = env_list E rd k opts w; (es, y, w2) = run E (f r) w1
      in (EList rd k opts r # es, y, w2))"
| "run E (Create obj f) w =
     (let (r, w1) = env_create E obj w; (es, y, w2) = run E (f r) w1
      in (ECreate obj r # es, y, w2))"
| "run E (Patch sub pk base obj f) w =
     (let (r, w1) = env_patch E sub pk base obj w; (es, y, w2) = run E (f r) w1
      in (EPatch sub pk base obj r # es, y, w2))"
| "run E (Update sub obj f) w =
     (let (r, w1) = env_update E sub obj w; (es, y, w2) = run E (f r) w1
      in (EUpdate sub obj r # es, y, w2))"
| "run E (Delete obj pre f) w =
     (let (r, w1) = env_delete E obj pre w; (es, y, w2) = run E (f r) w1
      in (EDelete obj pre r # es, y, w2))"
| "run E (Now f) w =
     (let (t, w1) = env_now E w; (es, y, w2) = run E (f t) w1 in (ENow t # es, y, w2))"
| "run E (Metric m p) w = (let (es, y, w2) = run E p w in (EMetric m # es, y, w2))"

lemma run_exec: "run E p w = (es, y, w') \<Longrightarrow> exec p es y"
  by (induction p arbitrary: w es) (auto simp: Let_def exec_simps split: prod.splits)

lemma exec_total: "\<exists>es y. exec p es y"
  by (induction p) (blast intro: exec.intros)+

end
