(* ===== verification/Libraries.thy ===== *)
theory Libraries
  imports K8s_Client
begin

text \<open>
  The pure functions of other packages that the program calls: the condition helpers of
  \<open>k8s.io/apimachinery/pkg/api/meta\<close>, label selectors, controller references, the JSON schema
  validator, hashing and encoding.  They are fields of a record that every definition using
  them takes as an argument.  The locale \<open>condition_lib\<close> states the documented behaviour of the
  condition helpers; it is interpreted on the reference functions of this theory, which follow
  the documentation of that package.  \<open>GlobCompile\<close> is \<open>glob.Compile(pattern, '/')\<close>; a compiled
  pattern is its \<open>Match\<close> function.
\<close>

record parsed_url =
  url_scheme :: string
  url_host :: string
  url_path :: string

datatype schema_outcome = SchemaError error | SchemaValid | SchemaInvalid string

record libs =
  FindStatusCondition :: "Condition list \<Rightarrow> cond_type \<Rightarrow> Condition option"
  IsStatusConditionTrue :: "Condition list \<Rightarrow> cond_type \<Rightarrow> bool"
  SetStatusCondition :: "time \<Rightarrow> Condition list \<Rightarrow> Condition \<Rightarrow> Condition list"
  RemoveStatusCondition :: "Condition list \<Rightarrow> cond_type \<Rightarrow> Condition list"
  SelectorMatches :: "LabelSelector \<Rightarrow> strmap \<Rightarrow> bool result"
  SetControllerReference :: "AgentRequest \<Rightarrow> AuditRecord \<Rightarrow> string result"
  ValidateSchema :: "raw_json \<Rightarrow> raw_json \<Rightarrow> schema_outcome"
  Sha256Hex :: "string \<Rightarrow> string"
  MarshalResult :: "AgentRequestResult \<Rightarrow> raw_json result"
  UrlParse :: "string \<Rightarrow> parsed_url result"
  SetProfileReference :: "AgentTrustProfile \<Rightarrow> AuditRecord \<Rightarrow> string result"
  ParseDuration :: "string \<Rightarrow> duration result"
  GlobCompile :: "string \<Rightarrow> (string \<Rightarrow> bool) result"

text \<open>\<open>SetStatusCondition\<close> reads the wall clock, hence its first argument.  A condition is
  built without a transition time.\<close>

definition mk_cond :: "cond_type \<Rightarrow> cond_status \<Rightarrow> string \<Rightarrow> message \<Rightarrow> Condition" where
  "mk_cond t s r m = \<lparr>CondType = t, CondStatus = s, CondReason = r, CondMessage = m,
     LastTransitionTime = zero_time\<rparr>"

lemma mk_cond_sel [simp]:
  "CondType (mk_cond t s r m) = t"
  "CondStatus (mk_cond t s r m) = s"
  "CondReason (mk_cond t s r m) = r"
  "CondMessage (mk_cond t s r m) = m"
  "LastTransitionTime (mk_cond t s r m) = zero_time"
  by (simp_all add: mk_cond_def)

definition updated_cond :: "time \<Rightarrow> Condition option \<Rightarrow> Condition \<Rightarrow> Condition" where
  "updated_cond t old c =
     (let fresh = (if LastTransitionTime c = zero_time then t else LastTransitionTime c)
      in c\<lparr>LastTransitionTime := (case old of
             None \<Rightarrow> fresh
           | Some o' \<Rightarrow> if CondStatus o' = CondStatus c then LastTransitionTime o' else fresh)\<rparr>)"

lemma updated_cond_sel [simp]:
  "CondType (updated_cond t old c) = CondType c"
  "CondStatus (updated_cond t old c) = CondStatus c"
  "CondReason (updated_cond t old c) = CondReason c"
  by (simp_all add: updated_cond_def Let_def)

locale condition_lib =
  fixes L :: libs
  assumes find_set: "FindStatusCondition L (SetStatusCondition L t cs c) ty =
      (if ty = CondType c then Some (updated_cond t (FindStatusCondition L cs ty) c)
       else FindStatusCondition L cs ty)"
    and find_remove: "FindStatusCondition L (RemoveStatusCondition L cs ty') ty =
      (if ty = ty' then None else FindStatusCondition L cs ty)"
    and is_true: "IsStatusConditionTrue L cs ty \<longleftrightarrow>
      (\<exists>c. FindStatusCondition L cs ty = Some c \<and> CondStatus c = CondTrue)"
    and find_type: "FindStatusCondition L cs ty = Some c \<Longrightarrow> CondType c = ty"
    and find_nil: "FindStatusCondition L [] ty = None"
begin

lemma is_true_set [simp]:
  "IsStatusConditionTrue L (SetStatusCondition L t cs c) ty \<longleftrightarrow>
     (if ty = CondType c then CondStatus c = CondTrue else IsStatusConditionTrue L cs ty)"
  by (simp add: is_true find_set)

lemma is_true_remove [simp]:
  "IsStatusConditionTrue L (RemoveStatusCondition L cs ty') ty \<longleftrightarrow>
     ty \<noteq> ty' \<and> IsStatusConditionTrue L cs ty"
  by (simp add: is_true find_remove)

lemma is_true_nil [simp]: "\<not> IsStatusConditionTrue L [] ty"
  by (simp add: is_true find_nil)

lemma set_changes:
  "\<not> IsStatusConditionTrue L cs (CondType c) \<Longrightarrow> CondStatus c = CondTrue \<Longrightarrow>
     SetStatusCondition L t cs c \<noteq> cs"
  by (metis is_true_set)

text \<open>Setting a condition that already has the status keeps its transition time.\<close>

lemma set_keeps_transition_time:
  "FindStatusCondition L cs (CondType c) = Some old \<Longrightarrow> CondStatus old = CondStatus c \<Longrightarrow>
   \<exists>c'. FindStatusCondition L (SetStatusCondition L t cs c) (CondType c) = Some c' \<and>
        LastTransitionTime c' = LastTransitionTime old"
  by (simp add: find_set updated_cond_def Let_def)

end


section \<open>Reference functions\<close>

fun cond_find :: "Condition list \<Rightarrow> cond_type \<Rightarrow> Condition option" where
  "cond_find [] ty = None"
| "cond_find (c # cs) ty = (if CondType c = ty then Some c else cond_find cs ty)"

definition cond_true :: "Condition list \<Rightarrow> cond_type \<Rightarrow> bool" where
  "cond_true cs ty = (case cond_find cs ty of None \<Rightarrow> False | Some c \<Rightarrow> CondStatus c = CondTrue)"

fun cond_set :: "time \<Rightarrow> Condition list \<Rightarrow> Condition \<Rightarrow> Condition list" where
  "cond_set t [] c = [updated_cond t None c]"
| "cond_set t (d # cs) c =
     (if CondType d = CondType c then updated_cond t (Some d) c # cs else d # cond_set t cs c)"

definition cond_remove :: "Condition list \<Rightarrow> cond_type \<Rightarrow> Condition list" where
  "cond_remove cs ty = filter (\<lambda>c. CondType c \<noteq> ty) cs"

lemma cond_find_set: "cond_find (cond_set t cs c) ty =
    (if ty = CondType c then Some (updated_cond t (cond_find cs ty) c) else cond_find cs ty)"
  by (induction t cs c rule: cond_set.induct) auto

lemma cond_find_remove:
  "cond_find (cond_remove cs ty') ty = (if ty = ty' then None else cond_find cs ty)"
  by (induction cs) (auto simp: cond_remove_def)

lemma cond_find_type: "cond_find cs ty = Some c \<Longrightarrow> CondType c = ty"
  by (induction cs) (auto split: if_splits)

text \<open>A concrete library: the condition helpers above and simple total functions elsewhere.\<close>

definition ref_libs :: libs where
  "ref_libs = \<lparr>FindStatusCondition = cond_find, IsStatusConditionTrue = cond_true,
     SetStatusCondition = cond_set, RemoveStatusCondition = cond_remove,
     SelectorMatches = (\<lambda>sel ls. case sel of LabelSelector m _ \<Rightarrow>
        Inr (list_all (\<lambda>(k, v). map_of ls k = Some v) m)),
     SetControllerReference = (\<lambda>req _. Inr (Name (Meta req))),
     ValidateSchema = (\<lambda>_ _. SchemaValid),
     Sha256Hex = (\<lambda>s. take 64 (s @ replicate 64 CHR ''0'')),
     MarshalResult = (\<lambda>r. Inr (ResultURL r @ '' '' @ ResultSummary r)),
     UrlParse = (\<lambda>s. Inl (Plain ''unsupported'')),
     SetProfileReference = (\<lambda>profile _. Inr (Name (ProfileMeta profile))),
     ParseDuration = (\<lambda>s. if s = ''1h'' then Inr hour else Inl (Plain ''invalid duration'')),
     GlobCompile = (\<lambda>p. if p = '''' then Inl (Plain ''empty pattern'')
       else Inr (\<lambda>s. if last p = CHR ''*'' then take (length p - 1) s = butlast p else s = p))\<rparr>"

lemma ref_libs_sel [simp]:
  "FindStatusCondition ref_libs = cond_find"
  "IsStatusConditionTrue ref_libs = cond_true"
  "SetStatusCondition ref_libs = cond_set"
  "RemoveStatusCondition ref_libs = cond_remove"
  "SetControllerReference ref_libs = (\<lambda>req _. Inr (Name (Meta req)))"
  "Sha256Hex ref_libs = (\<lambda>s. take 64 (s @ replicate 64 CHR ''0''))"
  "SetProfileReference ref_libs = (\<lambda>profile _. Inr (Name (ProfileMeta profile)))"
  by (simp_all add: ref_libs_def)

interpretation ref: condition_lib ref_libs
  by unfold_locales
    (auto simp: cond_find_set cond_find_remove cond_true_def cond_find_type split: option.splits)

end
