(* ===== verification/Samples.thy ===== *)
theory Samples
  imports Libraries
begin

text \<open>
  Concrete objects for the witnesses: small requests, policies, leases and a governed resource
  whose fields can be set by record update.
\<close>

definition sample_meta :: "string \<Rightarrow> ObjectMeta" where
  "sample_meta n = empty_meta\<lparr>Name := n, Namespace := ''ns'', Generation := 1,
     CreationTimestamp := 0\<rparr>"

definition sample_spec :: AgentRequestSpec where
  "sample_spec = \<lparr>AgentIdentity = ''bot'', Action = ''scale'',
     TargetOf = \<lparr>URI = ''k8s://prod/default/deployment/api'', ResourceType = None, Attributes = []\<rparr>,
     Reason = ''load'', Mode = '''', Classification = '''', DedupKey = '''', IntentPlanRef = None,
     Priority = None, Cascade = None, Reasoning = None, Interruptibility = None,
     Parameters = None, ExecutionMode = None, Scope = None, Approval = None,
     SpecGovernedResourceRef = None\<rparr>"

definition sample_status :: AgentRequestStatus where
  "sample_status = \<lparr>Phase = PhaseUnset, Conditions = [], Denial = None, LeaseName = '''',
     EvaluationGeneration = 0, CPV = None, ProviderContext = None, Verdict = '''',
     VerdictReasonCode = '''', VerdictNote = '''', VerdictBy = '''', VerdictAt = None,
     StatusGovernedResourceRef = None, ResultOf = None\<rparr>"

definition sample_request :: AgentRequest where
  "sample_request = \<lparr>Meta = sample_meta ''req-1'', Spec = sample_spec, Status = sample_status\<rparr>"

definition sample_rule :: "string \<Rightarrow> string \<Rightarrow> Rule" where
  "sample_rule a e = \<lparr>RuleNameOf = ''r1'', RuleType = ''cel'', RuleAction = a, RuleMessage = None,
     Expression = e, RuleConfig = None\<rparr>"

definition sample_policy :: "string \<Rightarrow> Rule list \<Rightarrow> SafetyPolicy" where
  "sample_policy n rs = \<lparr>PolicyMeta = sample_meta n, GovernedResourceSelector = LabelSelector [] [],
     ContextType = '''', Rules = rs, FailureMode = None\<rparr>"

definition sample_gr :: GovernedResource where
  "sample_gr = \<lparr>GRMeta = sample_meta ''gr'', URIPattern = ''k8s://prod/*'',
     GRPermittedActions = [''scale''], PermittedAgents = [], ContextFetcher = ''none'',
     ContextSchema = None, Description = '''', SoakMode = False, TrustReqs = None\<rparr>"

definition sample_lease :: "string \<Rightarrow> string \<Rightarrow> time \<Rightarrow> Lease" where
  "sample_lease n holder renewed = \<lparr>LeaseMeta = sample_meta n, HolderIdentity = Some holder,
     LeaseDurationSeconds = Some 300, AcquireTime = Some renewed, RenewTime = Some renewed\<rparr>"

lemmas sample_defs = sample_meta_def sample_spec_def sample_status_def sample_request_def
  sample_rule_def sample_policy_def sample_gr_def sample_lease_def empty_meta_def

end
