(* ===== verification/Evaluator.thy ===== *)
theory Evaluator
  imports Samples
begin

text \<open>
  SafetyPolicy evaluation: \<open>src/internal/evaluation/target_context.go\<close>, \<open>cel.go\<close> and
  \<open>evaluator.go\<close>.  The CEL compiler and interpreter (cel-go), the conversion of a request to an
  unstructured map and JSON decoding are the fields of \<open>cel_lib\<close>.  The program cache of
  \<open>CELEnvironment\<close> is explicit state; the lemmas show that it never changes an outcome, that the
  loop over policies and rules computes the most restrictive applicable action, and which code
  and message accompany it.
\<close>


section \<open>Target context\<close>

record TargetContext =
  Exists :: bool
  CtxHasActiveEndpoints :: bool
  CtxActiveEndpointCount :: int
  CtxReadyReplicas :: int
  CtxSpecReplicas :: int
  CtxDownstreamServices :: "string list"
  StateFingerprint :: string

definition empty_TargetContext :: TargetContext where
  "empty_TargetContext = \<lparr>Exists = False, CtxHasActiveEndpoints = False,
     CtxActiveEndpointCount = 0, CtxReadyReplicas = 0, CtxSpecReplicas = 0,
     CtxDownstreamServices = [], StateFingerprint = ''''\<rparr>"

datatype cel_value =
    CelBool bool
  | CelInt int
  | CelString string
  | CelList "cel_value list"
  | CelMap "(string \<times> cel_value) list"
  | CelError string
  | CelOther string

type_synonym cel_map = "(string \<times> cel_value) list"

definition AsMap :: "TargetContext \<Rightarrow> cel_map" where
  "AsMap t = [(''exists'', CelBool (Exists t)),
     (''hasActiveEndpoints'', CelBool (CtxHasActiveEndpoints t)),
     (''activeEndpointCount'', CelInt (CtxActiveEndpointCount t)),
     (''readyReplicas'', CelInt (CtxReadyReplicas t)),
     (''specReplicas'', CelInt (CtxSpecReplicas t)),
     (''downstreamServices'', CelList (map CelString (CtxDownstreamServices t)))]"

record ParsedTargetURI =
  Cluster :: string
  ParsedNamespace :: string
  ParsedResourceType :: string
  ParsedName :: string

fun split_on :: "char \<Rightarrow> string \<Rightarrow> string list" where
  "split_on c [] = [[]]"
| "split_on c (x # xs) = (if x = c then [] # split_on c xs
     else (case split_on c xs of [] \<Rightarrow> [[x]] | p # ps \<Rightarrow> (x # p) # ps))"

fun TrimPrefix :: "string \<Rightarrow> string \<Rightarrow> string" where
  "TrimPrefix s [] = s"
| "TrimPrefix [] (p # ps) = []"
| "TrimPrefix (c # s) (p # ps) = (if take (length ps + 1) (c # s) = p # ps
     then drop (length ps + 1) (c # s) else c # s)"

definition ParseTargetURI :: "libs \<Rightarrow> string \<Rightarrow> ParsedTargetURI" where
  "ParseTargetURI L uri =
     (let zero = \<lparr>Cluster = '''', ParsedNamespace = '''', ParsedResourceType = '''',
                   ParsedName = ''''\<rparr>
      in case UrlParse L uri of
           Inl _ \<Rightarrow> zero
         | Inr u \<Rightarrow>
             if url_scheme u \<noteq> ''k8s'' then zero
             else
               (let parts = split_on CHR ''/'' (TrimPrefix (url_path u) ''/'')
                in \<lparr>Cluster = url_host u,
                    ParsedNamespace = (if length parts \<ge> 1 then parts ! 0 else ''''),
                    ParsedResourceType = (if length parts \<ge> 2 then parts ! 1 else ''''),
                    ParsedName = (if length parts \<ge> 3 then parts ! 2 else '''')\<rparr>))"


section \<open>CEL environment\<close>

record ('ast, 'prg) cel_lib =
  ToUnstructured :: "AgentRequest \<Rightarrow> cel_map result"
  UnmarshalMap :: "raw_json \<Rightarrow> cel_map result"
  Compile :: "string \<Rightarrow> 'ast result"
  Program :: "'ast \<Rightarrow> 'prg result"
  Eval :: "'prg \<Rightarrow> cel_map \<Rightarrow> cel_value result"

record ('ast, 'prg) CELEnvironment =
  astCache :: "(string \<times> 'ast) list"
  prgCache :: "(string \<times> 'prg) list"

definition NewCELEnvironment :: "('ast, 'prg) CELEnvironment" where
  "NewCELEnvironment = \<lparr>astCache = [], prgCache = []\<rparr>"

definition map_copy :: "('k \<times> 'v) list \<Rightarrow> ('k \<times> 'v) list \<Rightarrow> ('k \<times> 'v) list" where
  "map_copy dst src = fold (\<lambda>(k, v) m. map_put k v m) src dst"

definition PrepareVariables ::
  "('ast, 'prg) cel_lib \<Rightarrow> AgentRequest \<Rightarrow> TargetContext option \<Rightarrow> cel_map result" where
  "PrepareVariables C req targetCtx = (case ToUnstructured C req of
     Inl err \<Rightarrow> Inl err
   | Inr unstructuredMap \<Rightarrow>
       (let targetMap = (case targetCtx of
              Some t \<Rightarrow> AsMap t | None \<Rightarrow> AsMap empty_TargetContext);
            targetMap = (case ProviderContext (Status req) of
              None \<Rightarrow> targetMap
            | Some raw \<Rightarrow> (case UnmarshalMap C raw of
                  Inr providerCtxMap \<Rightarrow> map_copy targetMap providerCtxMap
                | Inl _ \<Rightarrow> targetMap))
        in Inr [(''request'', CelMap unstructuredMap), (''target'', CelMap targetMap)]))"

definition compile_program :: "('ast, 'prg) cel_lib \<Rightarrow> string \<Rightarrow> ('ast \<times> 'prg) result" where
  "compile_program C expr = (case Compile C expr of
     Inl e \<Rightarrow> Inl (Wrapped ''failed to compile CEL expression %q: %w'' e)
   | Inr ast \<Rightarrow> (case Program C ast of
         Inl e \<Rightarrow> Inl (Wrapped ''failed to instantiate CEL program %q: %w'' e)
       | Inr p \<Rightarrow> Inr (ast, p)))"

definition run_program :: "('ast, 'prg) cel_lib \<Rightarrow> 'prg \<Rightarrow> cel_map \<Rightarrow> bool result" where
  "run_program C prg vars = (case Eval C prg vars of
     Inl e \<Rightarrow> Inl (Wrapped ''evaluation error for %q: %w'' e)
   | Inr (CelError m) \<Rightarrow> Inl (Plain (''CEL result error: '' @ m))
   | Inr (CelBool b) \<Rightarrow> Inr b
   | Inr _ \<Rightarrow> Inl (Plain ''CEL expression did not return a boolean, got: %T''))"

definition EvaluateExpression ::
  "('ast, 'prg) cel_lib \<Rightarrow> string \<Rightarrow> cel_map \<Rightarrow> ('ast, 'prg) CELEnvironment \<Rightarrow>
     bool result \<times> ('ast, 'prg) CELEnvironment" where
  "EvaluateExpression C expr vars env = (case map_of (prgCache env) expr of
     Some prg \<Rightarrow> (run_program C prg vars, env)
   | None \<Rightarrow> (case compile_program C expr of
         Inl e \<Rightarrow> (Inl e, env)
       | Inr (ast, p) \<Rightarrow>
           (run_program C p vars,
            env\<lparr>astCache := map_put expr ast (astCache env),
                prgCache := map_put expr p (prgCache env)\<rparr>)))"

text \<open>The cache invariant: every cached program is the compilation of its expression.\<close>

definition cache_ok :: "('ast, 'prg) cel_lib \<Rightarrow> ('ast, 'prg) CELEnvironment \<Rightarrow> bool" where
  "cache_ok C env \<longleftrightarrow>
     (\<forall>expr prg. map_of (prgCache env) expr = Some prg \<longrightarrow>
        (\<exists>ast. compile_program C expr = Inr (ast, prg)))"

text \<open>Evaluation without a cache, the reference.\<close>

definition eval_expr :: "('ast, 'prg) cel_lib \<Rightarrow> string \<Rightarrow> cel_map \<Rightarrow> bool result" where
  "eval_expr C expr vars = (case compile_program C expr of
     Inl e \<Rightarrow> Inl e | Inr (_, p) \<Rightarrow> run_program C p vars)"

lemma cache_ok_New [simp]: "cache_ok C NewCELEnvironment"
  by (simp add: cache_ok_def NewCELEnvironment_def)

lemma EvaluateExpression_spec:
  assumes "cache_ok C env"
  shows "fst (EvaluateExpression C expr vars env) = eval_expr C expr vars"
    and "cache_ok C (snd (EvaluateExpression C expr vars env))"
proof -
  show "fst (EvaluateExpression C expr vars env) = eval_expr C expr vars"
  proof (cases "map_of (prgCache env) expr")
    case None
    then show ?thesis
      by (auto simp: EvaluateExpression_def eval_expr_def split: sum.splits)
  next
    case (Some prg)
    with assms obtain ast where "compile_program C expr = Inr (ast, prg)"
      by (auto simp: cache_ok_def)
    with Some show ?thesis
      by (simp add: EvaluateExpression_def eval_expr_def)
  qed
  show "cache_ok C (snd (EvaluateExpression C expr vars env))"
    using assms
    by (auto simp: EvaluateExpression_def cache_ok_def split: option.splits sum.splits)
qed


section \<open>Evaluate\<close>

record EvalResult =
  EvAction :: string
  EvCode :: string
  EvMessage :: message
  EvPolicyResults :: "PolicyResult list"

definition actionPriority :: "string \<Rightarrow> int" where
  "actionPriority a =
     (if a = ResultAllow then 1
      else if a = ResultLog then 2
      else if a = ResultRequireApproval then 3
      else if a = ResultDeny then 4
      else 0)"

definition failModeClosed :: string where
  "failModeClosed = ''FailClosed''"

definition failure_mode :: "SafetyPolicy \<Rightarrow> string" where
  "failure_mode policy = (case FailureMode policy of None \<Rightarrow> failModeClosed | Some m \<Rightarrow> m)"

text \<open>The variables the loops of \<open>Evaluate\<close> and \<open>evaluateCascade\<close> update.\<close>

record eval_state =
  highestPriority :: int
  stAction :: string
  denialCode :: string
  finalMessage :: message
  stResults :: "PolicyResult list"

definition mk_result :: "SafetyPolicy \<Rightarrow> Rule \<Rightarrow> string \<Rightarrow> PolicyResult" where
  "mk_result policy rule r = \<lparr>PolicyName = Name (PolicyMeta policy),
     RuleName = RuleNameOf rule, Result = r, PolicyGeneration = 0\<rparr>"

definition raise_deny :: "string \<Rightarrow> message \<Rightarrow> eval_state \<Rightarrow> eval_state" where
  "raise_deny code msg st =
     (if highestPriority st < actionPriority ResultDeny
      then st\<lparr>highestPriority := actionPriority ResultDeny, stAction := ResultDeny,
              denialCode := code, finalMessage := msg\<rparr>
      else st)"

definition rule_message :: "SafetyPolicy \<Rightarrow> Rule \<Rightarrow> string \<Rightarrow> message" where
  "rule_message policy rule lead = (case RuleMessage rule of
     Some m \<Rightarrow> Text m
   | None \<Rightarrow> Text (lead @ Name (PolicyMeta policy) @ '' rule: '' @ RuleNameOf rule))"

definition apply_match :: "SafetyPolicy \<Rightarrow> Rule \<Rightarrow> eval_state \<Rightarrow> eval_state" where
  "apply_match policy rule st =
     (let prio = actionPriority (RuleAction rule)
      in if prio > highestPriority st then
           (let st = st\<lparr>highestPriority := prio, stAction := RuleAction rule\<rparr>
            in if RuleAction rule = ResultDeny then
                 st\<lparr>denialCode := DenialCodePolicyViolation,
                    finalMessage := rule_message policy rule ''Denied by policy: ''\<rparr>
               else if RuleAction rule = ResultRequireApproval then
                 st\<lparr>finalMessage := rule_message policy rule ''Approval required by policy: ''\<rparr>
               else st)
         else st)"

definition append_result :: "PolicyResult \<Rightarrow> eval_state \<Rightarrow> eval_state" where
  "append_result pr st = st\<lparr>stResults := stResults st @ [pr]\<rparr>"

text \<open>The body of the rule loop of \<open>Evaluate\<close>.\<close>

definition eval_rule :: "bool result \<Rightarrow> SafetyPolicy \<Rightarrow> Rule \<Rightarrow> eval_state \<Rightarrow> eval_state" where
  "eval_rule r policy rule st = (case r of
     Inl err \<Rightarrow>
       if failure_mode policy = failModeClosed
       then append_result (mk_result policy rule ''EvaluationFailed (Deny)'')
              (raise_deny DenialCodeEvaluationFailure
                 (Sprintf ''CEL evaluation failed (FailClosed): %s'' [ArgErr err]) st)
       else append_result (mk_result policy rule ''EvaluationFailed'') st
   | Inr matched \<Rightarrow>
       (let prResult = (if matched then RuleAction rule else ''Allow'');
            st = (if matched then apply_match policy rule st else st)
        in if prResult \<noteq> ''Allow'' \<and> prResult \<noteq> ''''
           then append_result (mk_result policy rule prResult) st else st))"

text \<open>The body of the rule loop of \<open>evaluateCascade\<close>.\<close>

definition cascade_rule :: "bool result \<Rightarrow> SafetyPolicy \<Rightarrow> Rule \<Rightarrow> eval_state \<Rightarrow> eval_state" where
  "cascade_rule r policy rule st = (case r of
     Inl err \<Rightarrow>
       if failure_mode policy = failModeClosed
       then append_result (mk_result policy rule ''EvaluationFailed (Cascade Deny)'')
              (raise_deny DenialCodeEvaluationFailure
                 (Sprintf ''Cascade CEL evaluation failed (FailClosed): %s'' [ArgErr err]) st)
       else st
   | Inr matched \<Rightarrow>
       if matched \<and> RuleAction rule = ResultDeny
       then append_result (mk_result policy rule ''CascadeDeny'')
              (raise_deny DenialCodeCascadeDenied
                 (Text (''Cascade effect denied by policy: '' @ Name (PolicyMeta policy) @
                    '' rule: '' @ RuleNameOf rule)) st)
       else st)"

text \<open>The nested loops over policies and rules, threading the CEL environment.\<close>

definition rule_loop ::
  "('ast, 'prg) cel_lib \<Rightarrow> cel_map \<Rightarrow>
     (bool result \<Rightarrow> SafetyPolicy \<Rightarrow> Rule \<Rightarrow> eval_state \<Rightarrow> eval_state) \<Rightarrow> SafetyPolicy list \<Rightarrow>
     ('ast, 'prg) CELEnvironment \<times> eval_state \<Rightarrow> ('ast, 'prg) CELEnvironment \<times> eval_state" where
  "rule_loop C vars body policies =
     fold (\<lambda>policy. fold (\<lambda>rule (env, st).
         (let (r, env') = EvaluateExpression C (Expression rule) vars env
          in (env', body r policy rule st))) (Rules policy)) policies"

definition cascade_vars :: "(string \<times> TargetContext) list \<Rightarrow> AffectedTarget \<Rightarrow> cel_map" where
  "cascade_vars cascadeCtxs affected =
     [(''request'', CelMap [(''spec'', CelMap
         [(''action'', CelString (EffectType affected)),
          (''target'', CelMap [(''uri'', CelString (AffectedURI affected))])])]),
      (''target'', CelMap (case map_of cascadeCtxs (AffectedURI affected) of
         Some ctx \<Rightarrow> AsMap ctx | None \<Rightarrow> AsMap empty_TargetContext))]"

definition cascade_targets :: "AgentRequest \<Rightarrow> AffectedTarget list" where
  "cascade_targets req = (case Cascade (Spec req) of
     None \<Rightarrow> []
   | Some m \<Rightarrow> if Action (Spec req) = ''escalate'' then [] else AffectedTargets m)"

definition evaluateCascade ::
  "('ast, 'prg) cel_lib \<Rightarrow> AgentRequest \<Rightarrow> SafetyPolicy list \<Rightarrow> (string \<times> TargetContext) list \<Rightarrow>
     ('ast, 'prg) CELEnvironment \<times> eval_state \<Rightarrow> ('ast, 'prg) CELEnvironment \<times> eval_state" where
  "evaluateCascade C req policies cascadeCtxs =
     fold (\<lambda>affected. rule_loop C (cascade_vars cascadeCtxs affected) cascade_rule policies)
       (cascade_targets req)"

definition init_state :: eval_state where
  "init_state = \<lparr>highestPriority = actionPriority ResultAllow, stAction = ResultAllow,
     denialCode = '''', finalMessage = Text '''', stResults = []\<rparr>"

definition finish :: "eval_state \<Rightarrow> EvalResult" where
  "finish st =
     (let result = \<lparr>EvAction = stAction st, EvCode = '''', EvMessage = Text '''',
                     EvPolicyResults = stResults st\<rparr>
      in if stAction st = ResultDeny
         then result\<lparr>EvCode := denialCode st, EvMessage := finalMessage st\<rparr>
         else if stAction st = ResultRequireApproval
         then result\<lparr>EvMessage := finalMessage st\<rparr>
         else if stAction st = ResultAllow \<and> finalMessage st = Text ''''
         then result\<lparr>EvMessage := Text ''All policies passed''\<rparr>
         else result)"

definition Evaluate ::
  "('ast, 'prg) cel_lib \<Rightarrow> AgentRequest \<Rightarrow> SafetyPolicy list \<Rightarrow> TargetContext option \<Rightarrow>
     (string \<times> TargetContext) list \<Rightarrow> ('ast, 'prg) CELEnvironment \<Rightarrow>
     EvalResult result \<times> ('ast, 'prg) CELEnvironment" where
  "Evaluate C req policies targetCtx cascadeCtxs env =
     (case PrepareVariables C req targetCtx of
        Inl _ \<Rightarrow> (Inr \<lparr>EvAction = ResultDeny, EvCode = DenialCodeEvaluationFailure,
                   EvMessage = Text ''Failed to parse AgentRequest variables for evaluation'',
                   EvPolicyResults = []\<rparr>, env)
      | Inr reqVars \<Rightarrow>
          (let (env1, st1) = rule_loop C reqVars eval_rule policies (env, init_state);
               (env2, st2) = evaluateCascade C req policies cascadeCtxs (env1, st1)
           in (Inr (finish st2), env2)))"

section \<open>The loops without the cache\<close>

definition rule_pairs :: "SafetyPolicy list \<Rightarrow> (SafetyPolicy \<times> Rule) list" where
  "rule_pairs policies = concat (map (\<lambda>p. map (Pair p) (Rules p)) policies)"

definition pure_loop ::
  "('ast, 'prg) cel_lib \<Rightarrow> cel_map \<Rightarrow>
     (bool result \<Rightarrow> SafetyPolicy \<Rightarrow> Rule \<Rightarrow> eval_state \<Rightarrow> eval_state) \<Rightarrow>
     (SafetyPolicy \<times> Rule) list \<Rightarrow> eval_state \<Rightarrow> eval_state" where
  "pure_loop C vars body =
     fold (\<lambda>(policy, rule). body (eval_expr C (Expression rule) vars) policy rule)"

lemma rule_pairs_simps [simp]:
  "rule_pairs [] = []"
  "rule_pairs (p # ps) = map (Pair p) (Rules p) @ rule_pairs ps"
  by (simp_all add: rule_pairs_def)

lemma rules_fold_pure:
  "cache_ok C env \<Longrightarrow>
   let (env', st') = fold (\<lambda>rule (env, st).
         (let (r, env') = EvaluateExpression C (Expression rule) vars env
          in (env', body r policy rule st))) rules (env, st)
   in cache_ok C env' \<and> st' = pure_loop C vars body (map (Pair policy) rules) st"
proof (induction rules arbitrary: env st)
  case (Cons rule rules)
  have "cache_ok C (snd (EvaluateExpression C (Expression rule) vars env))"
    using Cons.prems by (rule EvaluateExpression_spec)
  from Cons.IH [OF this] show ?case
    by (simp add: pure_loop_def split_def Let_def EvaluateExpression_spec(1) [OF Cons.prems])
qed (simp add: pure_loop_def)

lemma rule_loop_pure:
  assumes "cache_ok C env"
  shows "\<exists>env'. cache_ok C env' \<and>
    rule_loop C vars body policies (env, st) = (env', pure_loop C vars body (rule_pairs policies) st)"
  using assms
proof (induction policies arbitrary: env st)
  case Nil
  then show ?case by (auto simp: rule_loop_def pure_loop_def)
next
  case (Cons p ps)
  from rules_fold_pure [OF Cons.prems, of vars body p "Rules p" st]
  obtain env' where "cache_ok C env'" and
    "fold (\<lambda>rule (env, st). (let (r, env') = EvaluateExpression C (Expression rule) vars env
          in (env', body r p rule st))) (Rules p) (env, st) =
       (env', pure_loop C vars body (map (Pair p) (Rules p)) st)"
    by (auto simp: Let_def split: prod.splits)
  with Cons.IH [OF this(1)] show ?case
    by (auto simp: rule_loop_def pure_loop_def)
qed

lemma evaluateCascade_pure:
  assumes "cache_ok C env"
  shows "\<exists>env'. cache_ok C env' \<and> evaluateCascade C req policies ctxs (env, st) =
    (env', fold (\<lambda>a. pure_loop C (cascade_vars ctxs a) cascade_rule (rule_pairs policies))
             (cascade_targets req) st)"
proof -
  have "\<exists>env'. cache_ok C env' \<and>
      fold (\<lambda>a. rule_loop C (cascade_vars ctxs a) cascade_rule policies) as (env, st) =
        (env', fold (\<lambda>a. pure_loop C (cascade_vars ctxs a) cascade_rule (rule_pairs policies))
                 as st)" for as
    using assms
  proof (induction as arbitrary: env st)
    case (Cons a as)
    from rule_loop_pure [OF Cons.prems] obtain env' where "cache_ok C env'" and
      "rule_loop C (cascade_vars ctxs a) cascade_rule policies (env, st) =
        (env', pure_loop C (cascade_vars ctxs a) cascade_rule (rule_pairs policies) st)"
      by blast
    with Cons.IH [OF this(1)] show ?case by simp
  qed simp
  then show ?thesis by (simp add: evaluateCascade_def)
qed

definition pure_state ::
  "('ast, 'prg) cel_lib \<Rightarrow> AgentRequest \<Rightarrow> SafetyPolicy list \<Rightarrow> cel_map \<Rightarrow>
     (string \<times> TargetContext) list \<Rightarrow> eval_state" where
  "pure_state C req policies vars ctxs =
     fold (\<lambda>a. pure_loop C (cascade_vars ctxs a) cascade_rule (rule_pairs policies))
       (cascade_targets req) (pure_loop C vars eval_rule (rule_pairs policies) init_state)"

lemma Evaluate_pure:
  assumes "cache_ok C env"
  shows "\<exists>env'. cache_ok C env' \<and> Evaluate C req policies t ctxs env =
    (Inr (case PrepareVariables C req t of
        Inl _ \<Rightarrow> \<lparr>EvAction = ResultDeny, EvCode = DenialCodeEvaluationFailure,
                  EvMessage = Text ''Failed to parse AgentRequest variables for evaluation'',
                  EvPolicyResults = []\<rparr>
      | Inr vars \<Rightarrow> finish (pure_state C req policies vars ctxs)), env')"
proof (cases "PrepareVariables C req t")
  case (Inl e)
  with assms show ?thesis by (auto simp: Evaluate_def)
next
  case (Inr vars)
  from rule_loop_pure [OF assms] obtain env1 where env1: "cache_ok C env1"
    "rule_loop C vars eval_rule policies (env, init_state) =
       (env1, pure_loop C vars eval_rule (rule_pairs policies) init_state)"
    by blast
  from evaluateCascade_pure [OF env1(1)] obtain env2 where "cache_ok C env2"
    "evaluateCascade C req policies ctxs
       (env1, pure_loop C vars eval_rule (rule_pairs policies) init_state) =
     (env2, pure_state C req policies vars ctxs)"
    unfolding pure_state_def by blast
  with env1 Inr show ?thesis
    by (auto simp: Evaluate_def)
qed


section \<open>The declarative outcome\<close>

definition rule_outcome ::
  "('ast, 'prg) cel_lib \<Rightarrow> cel_map \<Rightarrow> SafetyPolicy \<times> Rule \<Rightarrow> string option" where
  "rule_outcome C vars pr = (case pr of (policy, rule) \<Rightarrow>
     (case eval_expr C (Expression rule) vars of
        Inl _ \<Rightarrow> if failure_mode policy = failModeClosed then Some ResultDeny else None
      | Inr matched \<Rightarrow> if matched then Some (RuleAction rule) else None))"

definition cascade_denies ::
  "('ast, 'prg) cel_lib \<Rightarrow> cel_map \<Rightarrow> SafetyPolicy \<times> Rule \<Rightarrow> bool" where
  "cascade_denies C vars pr \<longleftrightarrow> rule_outcome C vars pr = Some ResultDeny"

text \<open>The action of a set of outcomes: the most restrictive one that occurs.\<close>

definition most_restrictive :: "string set \<Rightarrow> string" where
  "most_restrictive A =
     (if ResultDeny \<in> A then ResultDeny
      else if ResultRequireApproval \<in> A then ResultRequireApproval
      else if ResultLog \<in> A then ResultLog
      else ResultAllow)"

definition outcomes :: "('ast, 'prg) cel_lib \<Rightarrow> AgentRequest \<Rightarrow> SafetyPolicy list \<Rightarrow> cel_map \<Rightarrow>
     (string \<times> TargetContext) list \<Rightarrow> string set" where
  "outcomes C req policies vars ctxs =
     {a. Some a \<in> rule_outcome C vars ` set (rule_pairs policies)} \<union>
     (if \<exists>t\<in>set (cascade_targets req). \<exists>pr\<in>set (rule_pairs policies).
           cascade_denies C (cascade_vars ctxs t) pr
      then {ResultDeny} else {})"

definition known_actions :: "string set" where
  "known_actions = {ResultAllow, ResultLog, ResultRequireApproval, ResultDeny}"

definition st_ok :: "eval_state \<Rightarrow> bool" where
  "st_ok st \<longleftrightarrow> stAction st \<in> known_actions \<and> highestPriority st = actionPriority (stAction st) \<and>
     (stAction st = ResultDeny \<longrightarrow> denialCode st \<in>
        {DenialCodeEvaluationFailure, DenialCodePolicyViolation, DenialCodeCascadeDenied})"

definition stronger :: "string option \<Rightarrow> string \<Rightarrow> string" where
  "stronger o' a = (case o' of None \<Rightarrow> a
     | Some b \<Rightarrow> if actionPriority b > actionPriority a then b else a)"

lemma actionPriority_simps [simp]:
  "actionPriority ResultAllow = 1" "actionPriority ResultLog = 2"
  "actionPriority ResultRequireApproval = 3" "actionPriority ResultDeny = 4"
  by (simp_all add: actionPriority_def)

lemma actionPriority_pos: "0 < actionPriority a \<Longrightarrow> a \<in> known_actions"
  by (auto simp: actionPriority_def known_actions_def split: if_splits)

lemma actionPriority_le: "actionPriority a \<le> 4"
  by (simp add: actionPriority_def)

lemma known_pos: "a \<in> known_actions \<Longrightarrow> 0 < actionPriority a"
  by (auto simp: known_actions_def)

lemma st_ok_init [simp]: "st_ok init_state"
  by (simp add: st_ok_def init_state_def known_actions_def)

lemma append_result_sel [simp]:
  "stAction (append_result pr st) = stAction st"
  "st_ok (append_result pr st) \<longleftrightarrow> st_ok st"
  by (simp_all add: append_result_def st_ok_def)

lemma raise_deny_ok:
  assumes "st_ok st" and
    "code \<in> {DenialCodeEvaluationFailure, DenialCodePolicyViolation, DenialCodeCascadeDenied}"
  shows "st_ok (raise_deny code msg st)" and "stAction (raise_deny code msg st) = ResultDeny"
  using assms by (auto simp: st_ok_def raise_deny_def known_actions_def split: if_splits)

lemma apply_match_ok:
  assumes "st_ok st"
  shows "st_ok (apply_match p r st)"
    and "stAction (apply_match p r st) = stronger (Some (RuleAction r)) (stAction st)"
  using assms known_pos [of "stAction st"] actionPriority_pos [of "RuleAction r"]
  by (auto simp: st_ok_def apply_match_def stronger_def Let_def)

lemma eval_rule_ok:
  assumes "st_ok st"
  shows "st_ok (eval_rule (eval_expr C (Expression r) vars) p r st)"
    and "stAction (eval_rule (eval_expr C (Expression r) vars) p r st) =
           stronger (rule_outcome C vars (p, r)) (stAction st)"
proof -
  have deny: "stronger (Some ResultDeny) (stAction st) = ResultDeny"
    using assms by (auto simp: st_ok_def stronger_def known_actions_def)
  show "st_ok (eval_rule (eval_expr C (Expression r) vars) p r st)"
    using raise_deny_ok [OF assms] apply_match_ok [OF assms] assms
    by (auto simp: eval_rule_def Let_def split: sum.splits)
  show "stAction (eval_rule (eval_expr C (Expression r) vars) p r st) =
      stronger (rule_outcome C vars (p, r)) (stAction st)"
    using raise_deny_ok(2) [OF assms] apply_match_ok(2) [OF assms] deny
    by (auto simp: eval_rule_def rule_outcome_def Let_def stronger_def split: sum.splits)
qed

lemma cascade_rule_ok:
  assumes "st_ok st"
  shows "st_ok (cascade_rule (eval_expr C (Expression r) vars) p r st)"
    and "stAction (cascade_rule (eval_expr C (Expression r) vars) p r st) =
           (if cascade_denies C vars (p, r) then ResultDeny else stAction st)"
  using raise_deny_ok [OF assms] assms
  by (auto simp: cascade_rule_def cascade_denies_def rule_outcome_def
      split: sum.splits if_splits)

lemma eval_loop_ok:
  "st_ok st \<Longrightarrow> st_ok (pure_loop C vars eval_rule prs st) \<and>
     stAction (pure_loop C vars eval_rule prs st) =
       fold (\<lambda>pr. stronger (rule_outcome C vars pr)) prs (stAction st)"
  by (induction prs arbitrary: st) (auto simp: pure_loop_def eval_rule_ok)

lemma cascade_loop_ok:
  "st_ok st \<Longrightarrow> st_ok (pure_loop C vars cascade_rule prs st) \<and>
     stAction (pure_loop C vars cascade_rule prs st) =
       (if \<exists>pr\<in>set prs. cascade_denies C vars pr then ResultDeny else stAction st)"
  by (induction prs arbitrary: st) (auto simp: pure_loop_def cascade_rule_ok)

lemma cascade_fold_ok:
  "st_ok st \<Longrightarrow> st_ok (fold (\<lambda>a. pure_loop C (cascade_vars ctxs a) cascade_rule prs) as st) \<and>
     stAction (fold (\<lambda>a. pure_loop C (cascade_vars ctxs a) cascade_rule prs) as st) =
       (if \<exists>a\<in>set as. \<exists>pr\<in>set prs. cascade_denies C (cascade_vars ctxs a) pr
        then ResultDeny else stAction st)"
  by (induction as arbitrary: st) (auto simp: cascade_loop_ok)

lemma most_restrictive_insert:
  "a \<in> known_actions \<Longrightarrow>
   most_restrictive (insert (stronger (Some b) a) A) = most_restrictive (insert a (insert b A))"
  by (auto simp: stronger_def most_restrictive_def known_actions_def actionPriority_def
      split: if_splits)

lemma stronger_known: "a \<in> known_actions \<Longrightarrow> stronger o' a \<in> known_actions"
  using actionPriority_pos known_pos by (fastforce simp: stronger_def split: option.splits)

lemma most_restrictive_known: "a \<in> known_actions \<Longrightarrow> most_restrictive {a} = a"
  by (auto simp: most_restrictive_def known_actions_def)

lemma fold_stronger:
  "a \<in> known_actions \<Longrightarrow> fold (\<lambda>x. stronger (f x)) xs a =
     most_restrictive (insert a {b. Some b \<in> f ` set xs})"
proof (induction xs arbitrary: a)
  case Nil
  then show ?case by (simp add: most_restrictive_known)
next
  case (Cons x xs)
  have *: "{b. Some b \<in> f ` set (x # xs)} =
      (case f x of None \<Rightarrow> {b. Some b \<in> f ` set xs} | Some b \<Rightarrow> insert b {b. Some b \<in> f ` set xs})"
    by (auto split: option.splits)
  show ?case
  proof (cases "f x")
    case None
    then have "stronger (f x) a = a" by (simp add: stronger_def)
    with Cons * None show ?thesis by simp
  next
    case (Some b)
    then show ?thesis
      using Cons.IH [OF stronger_known [OF Cons.prems, of "f x"]]
        most_restrictive_insert [OF Cons.prems] *
      by simp
  qed
qed

lemma pure_state_ok: "st_ok (pure_state C req policies vars ctxs)"
  by (simp add: pure_state_def eval_loop_ok cascade_fold_ok)

lemma pure_state_action:
  "stAction (pure_state C req policies vars ctxs) =
     most_restrictive (outcomes C req policies vars ctxs)"
proof -
  have "stAction init_state = ResultAllow" by (simp add: init_state_def)
  then have "stAction (pure_loop C vars eval_rule (rule_pairs policies) init_state) =
      most_restrictive {a. Some a \<in> rule_outcome C vars ` set (rule_pairs policies)}"
    using eval_loop_ok [OF st_ok_init, of C vars "rule_pairs policies"]
    by (simp add: fold_stronger known_actions_def) (simp add: most_restrictive_def)
  then show ?thesis
    using eval_loop_ok [OF st_ok_init, of C vars "rule_pairs policies"]
    by (simp add: pure_state_def cascade_fold_ok outcomes_def most_restrictive_def)
qed

lemma pure_state_code:
  "stAction (pure_state C req policies vars ctxs) = ResultDeny \<Longrightarrow>
   denialCode (pure_state C req policies vars ctxs) \<in>
     {DenialCodeEvaluationFailure, DenialCodePolicyViolation, DenialCodeCascadeDenied}"
  using pure_state_ok [of C req policies vars ctxs] by (simp add: st_ok_def)

lemma finish_sel [simp]:
  "EvAction (finish st) = stAction st"
  "EvCode (finish st) = (if stAction st = ResultDeny then denialCode st else '''')"
  by (simp_all add: finish_def Let_def)

section \<open>Properties\<close>

text \<open>Evaluation as a function of its inputs, for the controller: the CEL environment starts
  empty, which by the cache lemmas is the same as any reachable one.\<close>

definition EvaluateFresh ::
  "('ast, 'prg) cel_lib \<Rightarrow> AgentRequest \<Rightarrow> SafetyPolicy list \<Rightarrow> TargetContext option \<Rightarrow>
     (string \<times> TargetContext) list \<Rightarrow> EvalResult result" where
  "EvaluateFresh C req policies t ctxs = fst (Evaluate C req policies t ctxs NewCELEnvironment)"

text \<open>C5. Evaluating all policies returns no error, and its action is the most restrictive
  outcome that any rule produces: a rule that matches contributes its action, a rule whose
  expression fails contributes Deny unless its policy says otherwise, a declared cascade target
  can only contribute Deny, and Allow is the default.  A request that cannot be converted to
  CEL variables is denied.\<close>

theorem Evaluate_most_restrictive:
  assumes "cache_ok C env"
  shows "\<exists>res env'. Evaluate C req policies t ctxs env = (Inr res, env') \<and>
    EvAction res = (case PrepareVariables C req t of
        Inl _ \<Rightarrow> ResultDeny
      | Inr vars \<Rightarrow> most_restrictive (outcomes C req policies vars ctxs))"
  using Evaluate_pure [OF assms, of req policies t ctxs]
  by (auto simp: pure_state_action split: sum.splits)

text \<open>C20. The cache of compiled CEL programs never changes a decision: from any environment
  whose cached programs are compilations of their expressions, evaluation returns the result
  it returns with an empty cache, and leaves such an environment behind.\<close>

theorem Evaluate_cache_transparent:
  assumes "cache_ok C env"
  shows "fst (Evaluate C req policies t ctxs env) = EvaluateFresh C req policies t ctxs \<and>
    cache_ok C (snd (Evaluate C req policies t ctxs env))"
  using Evaluate_pure [OF assms, of req policies t ctxs]
    Evaluate_pure [OF cache_ok_New, of C req policies t ctxs]
  by (auto simp: EvaluateFresh_def)

text \<open>A denial carries one of the three evaluation codes, and every other action carries
  none.\<close>

theorem Evaluate_denial_code:
  assumes "EvaluateFresh C req policies t ctxs = Inr res"
  shows "if EvAction res = ResultDeny
    then EvCode res \<in>
      {DenialCodeEvaluationFailure, DenialCodePolicyViolation, DenialCodeCascadeDenied}
    else EvCode res = ''''"
proof (cases "PrepareVariables C req t")
  case (Inl e)
  then show ?thesis
    using assms Evaluate_pure [OF cache_ok_New, of C req policies t ctxs]
    by (auto simp: EvaluateFresh_def)
next
  case (Inr vars)
  then show ?thesis
    using assms Evaluate_pure [OF cache_ok_New, of C req policies t ctxs]
      pure_state_code [of C req policies vars ctxs]
    by (auto simp: EvaluateFresh_def)
qed

lemma rule_pairs_set: "set (rule_pairs ps) = {(p, r). p \<in> set ps \<and> r \<in> set (Rules p)}"
  by (induction ps) auto

lemma outcomes_cong:
  "set policies = set policies' \<Longrightarrow> outcomes C req policies vars ctxs = outcomes C req policies' vars ctxs"
  by (simp add: outcomes_def rule_pairs_set)

lemma EvaluateFresh_action:
  "\<exists>res. EvaluateFresh C req policies t ctxs = Inr res \<and> EvAction res =
     (case PrepareVariables C req t of
        Inl _ \<Rightarrow> ResultDeny | Inr vars \<Rightarrow> most_restrictive (outcomes C req policies vars ctxs))"
  using Evaluate_pure [OF cache_ok_New, of C req policies t ctxs]
  by (auto simp: EvaluateFresh_def pure_state_action split: sum.splits)

text \<open>C19. The decision does not depend on the order in which the API server lists the
  policies, nor on duplicates.\<close>

theorem Evaluate_order_independent:
  assumes "set policies = set policies'"
  shows "\<exists>res res'. EvaluateFresh C req policies t ctxs = Inr res \<and>
    EvaluateFresh C req policies' t ctxs = Inr res' \<and> EvAction res = EvAction res'"
  using EvaluateFresh_action [of C req policies t ctxs] EvaluateFresh_action [of C req policies' t ctxs]
    outcomes_cong [OF assms, of C req _ ctxs]
  by (auto split: sum.splits)

lemma most_restrictive_mono:
  "A \<subseteq> B \<Longrightarrow> actionPriority (most_restrictive A) \<le> actionPriority (most_restrictive B)"
  by (auto simp: most_restrictive_def)

text \<open>C18. Adding policies never relaxes the decision.\<close>

theorem Evaluate_monotone:
  assumes "set policies \<subseteq> set policies'"
  shows "\<exists>res res'. EvaluateFresh C req policies t ctxs = Inr res \<and>
    EvaluateFresh C req policies' t ctxs = Inr res' \<and>
    actionPriority (EvAction res) \<le> actionPriority (EvAction res')"
proof -
  have "outcomes C req policies vars ctxs \<subseteq> outcomes C req policies' vars ctxs" for vars
    using assms by (auto simp: outcomes_def rule_pairs_set)
  then show ?thesis
    using EvaluateFresh_action [of C req policies t ctxs] EvaluateFresh_action [of C req policies' t ctxs]
    by (auto split: sum.splits simp: most_restrictive_mono)
qed

section \<open>Witnesses\<close>

text \<open>A small CEL library: an expression is its own program, \<open>fail\<close> raises an error and an
  expression matches when it is \<open>true\<close>.\<close>

definition sample_cel :: "(string, string) cel_lib" where
  "sample_cel = \<lparr>ToUnstructured = (\<lambda>_. Inr []), UnmarshalMap = (\<lambda>_. Inr []), Compile = Inr,
     Program = Inr, Eval = (\<lambda>e _. if e = ''fail'' then Inl (Plain ''no such key'')
       else Inr (CelBool (e = ''true'')))\<rparr>"

definition sample_policies :: "SafetyPolicy list" where
  "sample_policies =
     [sample_policy ''approve'' [sample_rule ResultRequireApproval ''true''],
      sample_policy ''deny'' [sample_rule ResultDeny ''false'', sample_rule ResultLog ''fail'']]"

lemma sample_vars:
  "\<exists>vars. PrepareVariables sample_cel sample_request None = Inr vars"
  by (simp add: PrepareVariables_def sample_cel_def Let_def)

lemma sample_outcomes:
  "most_restrictive (outcomes sample_cel sample_request sample_policies vars []) = ResultDeny"
  by (simp add: outcomes_def rule_pairs_def sample_policies_def sample_defs rule_outcome_def
      eval_expr_def compile_program_def run_program_def sample_cel_def failure_mode_def
      most_restrictive_def)

theorem Evaluate_most_restrictive_witness:
  "\<exists>res env'. Evaluate sample_cel sample_request sample_policies None [] NewCELEnvironment =
     (Inr res, env') \<and> EvAction res = ResultDeny"
  using Evaluate_most_restrictive [OF cache_ok_New, of sample_cel sample_request sample_policies None "[]"]
    sample_vars sample_outcomes
  by auto

lemma sample_cached: "cache_ok sample_cel
    (NewCELEnvironment\<lparr>astCache := [(''true'', ''true'')], prgCache := [(''true'', ''true'')]\<rparr>)"
  by (simp add: cache_ok_def NewCELEnvironment_def compile_program_def sample_cel_def)

theorem Evaluate_cache_transparent_witness:
  "fst (Evaluate sample_cel sample_request sample_policies None []
     (NewCELEnvironment\<lparr>astCache := [(''true'', ''true'')], prgCache := [(''true'', ''true'')]\<rparr>)) =
   EvaluateFresh sample_cel sample_request sample_policies None []"
  using Evaluate_cache_transparent [OF sample_cached, of sample_request sample_policies None "[]"]
  by simp

lemma sample_fresh:
  "\<exists>res. EvaluateFresh sample_cel sample_request sample_policies None [] = Inr res \<and>
     EvAction res = ResultDeny"
  using EvaluateFresh_action [of sample_cel sample_request sample_policies None "[]"]
    sample_vars sample_outcomes
  by auto

theorem Evaluate_denial_code_witness:
  "\<exists>res. EvaluateFresh sample_cel sample_request sample_policies None [] = Inr res \<and>
     EvCode res \<noteq> ''''"
proof -
  obtain res where res: "EvaluateFresh sample_cel sample_request sample_policies None [] = Inr res"
    "EvAction res = ResultDeny"
    using sample_fresh by blast
  with Evaluate_denial_code [OF res(1)] show ?thesis
    by (auto simp: type_defs)
qed

theorem Evaluate_order_independent_witness:
  "\<exists>res res'. EvaluateFresh sample_cel sample_request sample_policies None [] = Inr res \<and>
     EvaluateFresh sample_cel sample_request (rev sample_policies) None [] = Inr res' \<and>
     EvAction res = EvAction res'"
  using Evaluate_order_independent [of sample_policies "rev sample_policies" sample_cel
      sample_request None "[]"]
  by simp

theorem Evaluate_monotone_witness:
  "\<exists>res res'. EvaluateFresh sample_cel sample_request [] None [] = Inr res \<and>
     EvaluateFresh sample_cel sample_request sample_policies None [] = Inr res' \<and>
     actionPriority (EvAction res) \<le> actionPriority (EvAction res')"
  using Evaluate_monotone [of "[]" sample_policies sample_cel sample_request None "[]"] by simp

end
