(* ===== verification/Context_Fetchers.thy ===== *)
theory Context_Fetchers
  imports Evaluator
begin

text \<open>
  The control plane's own view of a target: \<open>KubernetesTargetContextFetcher\<close> of
  \<open>src/internal/evaluation/k8s_fetcher.go\<close>.  Its client is the manager's cached client.
\<close>

definition fetchDeploymentState :: "string \<Rightarrow> string \<Rightarrow> TargetContext \<Rightarrow> TargetContext prog" where
  "fetchDeploymentState name namespace result =
     Get Cached KDeployment (namespace, name) (\<lambda>r. case as_Deployment r of
         Inl _ \<Rightarrow> Ret result
       | Inr dep \<Rightarrow>
           (let result = result\<lparr>Exists := True\<rparr>;
                result = (case Replicas dep of
                    None \<Rightarrow> result | Some n \<Rightarrow> result\<lparr>CtxSpecReplicas := n\<rparr>)
            in Ret (result\<lparr>CtxReadyReplicas := DeploymentReadyReplicas dep,
                     StateFingerprint := ResourceVersion (DeploymentMeta dep)\<rparr>)))"

definition endpoint_ready :: "Endpoint \<Rightarrow> bool" where
  "endpoint_ready ep = (case Ready ep of None \<Rightarrow> True | Some b \<Rightarrow> b)"

definition add_endpoint :: "Endpoint \<Rightarrow> TargetContext \<Rightarrow> TargetContext" where
  "add_endpoint ep result =
     (if endpoint_ready ep
      then result\<lparr>CtxActiveEndpointCount :=
             CtxActiveEndpointCount result + int (length (Addresses ep))\<rparr>
      else result)"

definition add_slice :: "EndpointSlice \<Rightarrow> TargetContext \<Rightarrow> TargetContext" where
  "add_slice eps result = fold add_endpoint (Endpoints eps) (result\<lparr>Exists := True\<rparr>)"

definition fetchEndpointState :: "string \<Rightarrow> string \<Rightarrow> TargetContext \<Rightarrow> TargetContext prog" where
  "fetchEndpointState name namespace result =
     ListObjects Cached KEndpointSlice
       (list_all_objects\<lparr>InNamespace := namespace,
          MatchingLabels := [(''kubernetes.io/service-name'', name)]\<rparr>) (\<lambda>r. case r of
         Inl _ \<Rightarrow> Ret result
       | Inr (items, _) \<Rightarrow>
           (let result = fold add_slice (pick_EndpointSlices items) result
            in Ret (result\<lparr>CtxHasActiveEndpoints := (CtxActiveEndpointCount result > 0)\<rparr>)))"

definition Fetch :: "libs \<Rightarrow> string \<Rightarrow> string \<Rightarrow> (TargetContext option \<times> error option) prog" where
  "Fetch L targetURI namespace =
     (let parsed = ParseTargetURI L targetURI
      in if ParsedName parsed = '''' then Ret (Some empty_TargetContext, None)
         else
           (let ns = (if ParsedNamespace parsed = '''' then namespace else ParsedNamespace parsed)
            in bind (if ParsedResourceType parsed = ''deployment''
                     then fetchDeploymentState (ParsedName parsed) ns empty_TargetContext
                     else Ret empty_TargetContext)
                 (\<lambda>result. bind (fetchEndpointState (ParsedName parsed) ns result)
                    (\<lambda>result. Ret (Some result, None)))))"


section \<open>What a fetched context says\<close>

definition ready_addresses :: "EndpointSlice list \<Rightarrow> nat" where
  "ready_addresses slices =
     sum_list (map (\<lambda>ep. length (Addresses ep)) (filter endpoint_ready (concat (map Endpoints slices))))"

lemma add_endpoints_count:
  "CtxActiveEndpointCount (fold add_endpoint eps t) = CtxActiveEndpointCount t +
     int (sum_list (map (\<lambda>ep. length (Addresses ep)) (filter endpoint_ready eps)))"
  by (induction eps arbitrary: t) (auto simp: add_endpoint_def)

lemma add_slices_count:
  "CtxActiveEndpointCount (fold add_slice ss t) = CtxActiveEndpointCount t + int (ready_addresses ss)"
  by (induction ss arbitrary: t)
    (auto simp: add_slice_def add_endpoints_count ready_addresses_def)

lemma fetchDeploymentState_count:
  "wlp (fetchDeploymentState n ns t) (\<lambda>es t'. CtxActiveEndpointCount t' = CtxActiveEndpointCount t \<and>
     CtxHasActiveEndpoints t' = CtxHasActiveEndpoints t \<and>
     (\<exists>r. es = [EGet Cached KDeployment (ns, n) r] \<and> (\<forall>e. as_Deployment r = Inl e \<longrightarrow> t' = t)))"
  by (auto simp: fetchDeploymentState_def Let_def split: sum.splits option.splits)

lemma fetchEndpointState_spec:
  "wlp (fetchEndpointState n ns t) (\<lambda>es t'. \<exists>opts r. es = [EList Cached KEndpointSlice opts r] \<and>
     (case r of Inl _ \<Rightarrow> t' = t
      | Inr (items, _) \<Rightarrow> CtxActiveEndpointCount t' =
          CtxActiveEndpointCount t + int (ready_addresses (pick_EndpointSlices items)) \<and>
          CtxHasActiveEndpoints t' = (CtxActiveEndpointCount t' > 0)))"
  by (auto simp: fetchEndpointState_def Let_def add_slices_count split: sum.splits prod.splits)

definition failed_read :: "event \<Rightarrow> bool" where
  "failed_read e = (case e of
      EGet _ _ _ (Inl _) \<Rightarrow> True | EList _ _ _ (Inl _) \<Rightarrow> True | _ \<Rightarrow> False)"

lemma failed_read_simps [simp]:
  "failed_read (EGet rd k key r) \<longleftrightarrow> (\<exists>e. r = Inl e)"
  "failed_read (EList rd k opts r') \<longleftrightarrow> (\<exists>e. r' = Inl e)"
  by (auto simp: failed_read_def split: sum.splits)

text \<open>C22. The fetcher never reports an error, whatever the API server answers; when every read
  fails it reports the context of a target that does not exist and has no live endpoints, so a
  policy that denies on live traffic does not see the failure.\<close>

theorem Fetch_masks_failures:
  assumes "exec (Fetch L uri ns) es res"
  shows "snd res = None \<and> (list_all failed_read es \<longrightarrow> fst res = Some empty_TargetContext)"
proof -
  have "wlp (Fetch L uri ns)
    (\<lambda>es res. snd res = None \<and> (list_all failed_read es \<longrightarrow> fst res = Some empty_TargetContext))"
    unfolding Fetch_def Let_def
    by (auto simp: fetchDeploymentState_def fetchEndpointState_def wlp_bind Let_def
        split: sum.splits option.splits prod.splits)
  from wlpD [OF this assms] show ?thesis .
qed

text \<open>When the endpoint listing succeeds, the reported number of active endpoints is the number
  of addresses of the ready endpoints (an absent readiness counts as ready) over all returned
  slices, and the target counts as having active endpoints exactly when that number is positive,
  whatever happened to the Deployment read.\<close>

theorem Fetch_counts_ready:
  assumes "exec (Fetch L uri ns) es res"
    and "EList Cached KEndpointSlice opts (Inr (items, c)) \<in> set es"
  shows "\<exists>t. res = (Some t, None) \<and>
    CtxActiveEndpointCount t = int (ready_addresses (pick_EndpointSlices items)) \<and>
    CtxHasActiveEndpoints t = (ready_addresses (pick_EndpointSlices items) > 0)"
proof -
  have "wlp (Fetch L uri ns) (\<lambda>es res. EList Cached KEndpointSlice opts (Inr (items, c)) \<in> set es \<longrightarrow>
    (\<exists>t. res = (Some t, None) \<and>
      CtxActiveEndpointCount t = int (ready_addresses (pick_EndpointSlices items)) \<and>
      CtxHasActiveEndpoints t = (ready_addresses (pick_EndpointSlices items) > 0)))"
    unfolding Fetch_def Let_def
    by (auto simp: fetchDeploymentState_def fetchEndpointState_def wlp_bind Let_def
        add_slices_count empty_TargetContext_def split: sum.splits option.splits prod.splits)
  from wlpD [OF this assms(1)] assms(2) show ?thesis by blast
qed

text \<open>An API server that answers every read with a timeout, and one with a slice of two
  endpoints, one of them not ready.\<close>

definition timeout_env :: "unit env" where
  "timeout_env = \<lparr>env_get = (\<lambda>_ _ _ w. (Inl (Api (ApiOther ''Timeout'')), w)),
     env_list = (\<lambda>_ _ _ w. (Inl (Api (ApiOther ''Timeout'')), w)),
     env_create = (\<lambda>_ w. (Inl (Api (ApiOther ''Timeout'')), w)),
     env_patch = (\<lambda>_ _ _ _ w. (Inl (Api (ApiOther ''Timeout'')), w)),
     env_update = (\<lambda>_ _ w. (Inl (Api (ApiOther ''Timeout'')), w)),
     env_delete = (\<lambda>_ _ w. (Inl (Api (ApiOther ''Timeout'')), w)), env_now = (\<lambda>w. (0, w))\<rparr>"

definition two_endpoints :: EndpointSlice where
  "two_endpoints = \<lparr>SliceMeta = sample_meta ''s'', Endpoints =
     [\<lparr>Ready = None, Addresses = [''10.0.0.1'', ''10.0.0.2'']\<rparr>,
      \<lparr>Ready = Some False, Addresses = [''10.0.0.3'']\<rparr>]\<rparr>"

definition slices_env :: "unit env" where
  "slices_env = timeout_env\<lparr>env_list := (\<lambda>_ _ _ w. (Inr ([OEndpointSlice two_endpoints], ''''), w))\<rparr>"

definition url_libs :: libs where
  "url_libs = ref_libs\<lparr>UrlParse := (\<lambda>s. Inr \<lparr>url_scheme = ''k8s'', url_host = ''prod'',
     url_path = ''/default/deployment/api''\<rparr>)\<rparr>"

definition fetch_run :: "unit env \<Rightarrow> event list \<times> (TargetContext option \<times> error option) \<times> unit" where
  "fetch_run E = run E (Fetch url_libs (URI (TargetOf sample_spec)) ''ns'') ()"

lemma fetch_run_exec:
  "exec (Fetch url_libs (URI (TargetOf sample_spec)) ''ns'') (fst (fetch_run E)) (fst (snd (fetch_run E)))"
  unfolding fetch_run_def by (metis prod.collapse run_exec)

theorem Fetch_masks_failures_witness:
  "length (fst (fetch_run timeout_env)) = 2 \<and>
   snd (fst (snd (fetch_run timeout_env))) = None \<and>
   fst (fst (snd (fetch_run timeout_env))) = Some empty_TargetContext"
proof -
  have "list_all failed_read (fst (fetch_run timeout_env))" by code_simp
  moreover have "length (fst (fetch_run timeout_env)) = 2" by code_simp
  ultimately show ?thesis
    using Fetch_masks_failures [OF fetch_run_exec [of timeout_env]] by blast
qed

theorem Fetch_counts_ready_witness:
  "\<exists>t. fst (snd (fetch_run slices_env)) = (Some t, None) \<and> CtxActiveEndpointCount t = 2 \<and>
     CtxHasActiveEndpoints t"
proof -
  let ?opts = "list_all_objects\<lparr>InNamespace := ''default'',
    MatchingLabels := [(''kubernetes.io/service-name'', ''api'')]\<rparr>"
  have mem: "EList Cached KEndpointSlice ?opts (Inr ([OEndpointSlice two_endpoints], ''''))
      \<in> set (fst (fetch_run slices_env))"
    by code_simp
  have n: "ready_addresses (pick_EndpointSlices [OEndpointSlice two_endpoints]) = 2" by code_simp
  from Fetch_counts_ready [OF fetch_run_exec mem] n show ?thesis by simp
qed

end
