(* ===== verification/OpsLock.thy ===== *)
theory OpsLock
  imports Context_Fetchers
begin

text \<open>
  The parts of \<open>src/internal/controller/agentrequest_controller.go\<close> that the phase handlers
  share: the reconciler's configuration, the audit trail (\<open>emitAuditRecord\<close>,
  \<open>createAuditWithRetry\<close>, \<open>backfillCompletedAuditResult\<close>) and the OpsLock, a Lease named after the
  target URI (\<open>handleLockAcquisition\<close>, \<open>releaseLock\<close>).
\<close>


section \<open>The reconciler\<close>

record AgentRequestReconciler =
  HasAPIReader :: bool
  OpsLockDuration :: duration
  LockWaitDuration :: duration
  ApprovedTimeout :: duration
  EvaluatorOf :: "AgentRequest \<Rightarrow> SafetyPolicy list \<Rightarrow> TargetContext option \<Rightarrow>
    (string \<times> TargetContext) list \<Rightarrow> EvalResult result"
  TargetContextFetcher :: "(string \<Rightarrow> string \<Rightarrow> (TargetContext option \<times> error option) prog) option"
  FetchK8sDeployment :: "string \<Rightarrow> raw_json result prog"
  FetchKarpenter :: "string \<Rightarrow> raw_json result prog"
  GitHubMCPFetcher :: "(string \<Rightarrow> raw_json result prog) option"

datatype ctrl_result = Done | Requeue | RequeueAfter duration

definition defaultLockWaitTimeout :: duration where
  "defaultLockWaitTimeout = 60 * second"

definition awaitingVerdictTTL :: duration where
  "awaitingVerdictTTL = 168 * hour"

definition defaultOpsLockDuration :: duration where
  "defaultOpsLockDuration = 5 * minute"

definition defaultApprovedTimeout :: duration where
  "defaultApprovedTimeout = 5 * minute"

definition lockWaitTimeout :: "AgentRequestReconciler \<Rightarrow> duration" where
  "lockWaitTimeout r = (if LockWaitDuration r > 0 then LockWaitDuration r else defaultLockWaitTimeout)"

definition opsLockDurationOrDefault :: "AgentRequestReconciler \<Rightarrow> duration" where
  "opsLockDurationOrDefault r =
     (if OpsLockDuration r \<le> 0 then defaultOpsLockDuration else OpsLockDuration r)"

definition approvedTimeoutOrDefault :: "AgentRequestReconciler \<Rightarrow> duration" where
  "approvedTimeoutOrDefault r =
     (if ApprovedTimeout r \<le> 0 then defaultApprovedTimeout else ApprovedTimeout r)"

lemma durations_pos:
  "0 < lockWaitTimeout r" "0 < opsLockDurationOrDefault r" "0 < approvedTimeoutOrDefault r"
  by (simp_all add: lockWaitTimeout_def opsLockDurationOrDefault_def approvedTimeoutOrDefault_def
      defaultLockWaitTimeout_def defaultOpsLockDuration_def defaultApprovedTimeout_def time_units)

definition the_reader :: "AgentRequestReconciler \<Rightarrow> reader" where
  "the_reader r = (if HasAPIReader r then Direct else Cached)"


section \<open>Status helpers\<close>

abbreviation phase_of :: "AgentRequest \<Rightarrow> phase" where
  "phase_of req \<equiv> Phase (Status req)"

definition set_phase :: "phase \<Rightarrow> AgentRequest \<Rightarrow> AgentRequest" where
  "set_phase p req = req\<lparr>Status := (Status req)\<lparr>Phase := p\<rparr>\<rparr>"

definition set_denial :: "DenialResponse \<Rightarrow> AgentRequest \<Rightarrow> AgentRequest" where
  "set_denial d req = req\<lparr>Status := (Status req)\<lparr>Denial := Some d\<rparr>\<rparr>"

definition set_conditions :: "Condition list \<Rightarrow> AgentRequest \<Rightarrow> AgentRequest" where
  "set_conditions cs req = req\<lparr>Status := (Status req)\<lparr>Conditions := cs\<rparr>\<rparr>"

definition mk_denial :: "string \<Rightarrow> message \<Rightarrow> DenialResponse" where
  "mk_denial code msg = \<lparr>Code = code, DenialMessage = msg, PolicyResults = [],
     RetryAfterSeconds = None\<rparr>"

lemma status_helpers [simp]:
  "Meta (set_phase p req) = Meta req" "Spec (set_phase p req) = Spec req"
  "Status (set_phase p req) = (Status req)\<lparr>Phase := p\<rparr>"
  "Meta (set_denial d req) = Meta req" "Spec (set_denial d req) = Spec req"
  "Status (set_denial d req) = (Status req)\<lparr>Denial := Some d\<rparr>"
  "Meta (set_conditions cs req) = Meta req" "Spec (set_conditions cs req) = Spec req"
  "Status (set_conditions cs req) = (Status req)\<lparr>Conditions := cs\<rparr>"
  by (simp_all add: set_phase_def set_denial_def set_conditions_def)

text \<open>\<open>meta.SetStatusCondition(&agentReq.Status.Conditions, c)\<close>, which reads the clock.\<close>

definition setCond ::
  "libs \<Rightarrow> Condition \<Rightarrow> AgentRequest \<Rightarrow> (AgentRequest \<Rightarrow> 'a prog) \<Rightarrow> 'a prog" where
  "setCond L c req k =
     Now (\<lambda>t. k (set_conditions (SetStatusCondition L t (Conditions (Status req)) c) req))"

text \<open>\<open>r.Status().Patch(ctx, agentReq, client.MergeFrom(base))\<close>.\<close>

definition patchStatus ::
  "AgentRequest \<Rightarrow> AgentRequest \<Rightarrow> (AgentRequest result \<Rightarrow> 'a prog) \<Rightarrow> 'a prog" where
  "patchStatus base req k =
     Patch StatusSubresource MergeFrom (OAgentRequest base) (OAgentRequest req)
       (\<lambda>r. k (as_AgentRequest r))"


section \<open>The audit trail\<close>

definition deterministicAuditName ::
  "libs \<Rightarrow> string \<Rightarrow> string \<Rightarrow> string \<Rightarrow> string \<Rightarrow> string" where
  "deterministicAuditName L resourceName eventType stateA stateB =
     take 53 (Sha256Hex L (resourceName @ ''|'' @ eventType @ ''|'' @ stateA @ ''|'' @ stateB))"

definition copy_label :: "strmap \<Rightarrow> string \<Rightarrow> strmap \<Rightarrow> strmap" where
  "copy_label src key dst = (case map_of src key of
     Some v \<Rightarrow> if v \<noteq> '''' then map_put key v dst else dst | None \<Rightarrow> dst)"

definition auditLabels :: "AgentRequest \<Rightarrow> strmap" where
  "auditLabels req =
     copy_label (Labels (Meta req)) ''aip.io/correlationID''
       (copy_label (Labels (Meta req)) ''aip.io/agentIdentity''
          [(''aip.io/agentRequestRef'', Name (Meta req))])"

definition own_audit :: "libs \<Rightarrow> AgentRequest \<Rightarrow> AuditRecord \<Rightarrow> AuditRecord" where
  "own_audit L req audit = (case SetControllerReference L req audit of
     Inl _ \<Rightarrow> audit | Inr owner \<Rightarrow> audit\<lparr>OwnerRequest := owner\<rparr>)"

definition mk_audit ::
  "libs \<Rightarrow> AgentRequest \<Rightarrow> audit_event \<Rightarrow> phase \<Rightarrow> phase \<Rightarrow> strmap \<Rightarrow> time \<Rightarrow> AuditRecord" where
  "mk_audit L req eventType fromPhase toPhase extra now =
     own_audit L req
       \<lparr>AuditMeta = empty_meta\<lparr>
          Name := deterministicAuditName L (Name (Meta req)) (audit_event_str eventType)
            (phase_str fromPhase) (phase_str toPhase),
          Namespace := Namespace (Meta req),
          Labels := auditLabels req\<rparr>,
        AuditSpec = \<lparr>Timestamp = now, AuditAgentIdentity = AgentIdentity (Spec req),
          AgentRequestRef = Name (Meta req), Event = eventType,
          AuditAction = Action (Spec req), TargetURI = URI (TargetOf (Spec req)),
          AuditReason = Reason (Spec req),
          TransitionOf = (if phase_str fromPhase \<noteq> '''' \<and> phase_str toPhase \<noteq> ''''
            then Some \<lparr>From = phase_str fromPhase, To = phase_str toPhase\<rparr> else None),
          PolicyEvaluations = [],
          AuditAnnotations = extra,
          Details = (case ResultOf (Status req) of
              None \<Rightarrow> None
            | Some res \<Rightarrow> if eventType = AuditEventRequestCompleted
                then (case MarshalResult L res of Inl _ \<Rightarrow> None | Inr j \<Rightarrow> Some j) else None)\<rparr>,
        OwnerRequest = ''''\<rparr>"

definition emitAuditRecord ::
  "libs \<Rightarrow> AgentRequest \<Rightarrow> audit_event \<Rightarrow> phase \<Rightarrow> phase \<Rightarrow> strmap \<Rightarrow> unit result prog" where
  "emitAuditRecord L req eventType fromPhase toPhase extra =
     Now (\<lambda>now. Create (OAuditRecord (mk_audit L req eventType fromPhase toPhase extra now))
       (\<lambda>r. case r of
            Inr _ \<Rightarrow> Ret (Inr ())
          | Inl e \<Rightarrow> if IsAlreadyExists e then Ret (Inr ()) else Ret (Inl e)))"

fun create_retry :: "nat \<Rightarrow> AuditRecord \<Rightarrow> error option \<Rightarrow> error option prog" where
  "create_retry 0 audit lastErr = Ret lastErr"
| "create_retry (Suc n) audit lastErr = Create (OAuditRecord audit) (\<lambda>r. case r of
       Inr _ \<Rightarrow> Ret None
     | Inl e \<Rightarrow> if IsAlreadyExists e then Ret None else create_retry n audit (Some e))"

definition createAuditWithRetry :: "AuditRecord \<Rightarrow> error option prog" where
  "createAuditWithRetry audit = create_retry 3 audit None"

fun backfill_items :: "raw_json \<Rightarrow> AuditRecord list \<Rightarrow> unit result prog" where
  "backfill_items resultJSON [] = Ret (Inr ())"
| "backfill_items resultJSON (ar # items) =
     (if Event (AuditSpec ar) \<noteq> AuditEventRequestCompleted \<or> Details (AuditSpec ar) \<noteq> None
      then backfill_items resultJSON items
      else Patch MainResource MergeFrom (OAuditRecord ar)
             (OAuditRecord (ar\<lparr>AuditSpec := (AuditSpec ar)\<lparr>Details := Some resultJSON\<rparr>\<rparr>))
             (\<lambda>r. case r of Inl e \<Rightarrow> Ret (Inl e) | Inr _ \<Rightarrow> backfill_items resultJSON items))"

definition backfillCompletedAuditResult ::
  "libs \<Rightarrow> AgentRequest \<Rightarrow> AgentRequestResult \<Rightarrow> unit result prog" where
  "backfillCompletedAuditResult L req res =
     ListObjects Cached KAuditRecord
       (list_all_objects\<lparr>InNamespace := Namespace (Meta req),
          MatchingLabels := [(''aip.io/agentRequestRef'', Name (Meta req))]\<rparr>) (\<lambda>r. case r of
         Inl e \<Rightarrow> Ret (Inl e)
       | Inr (items, _) \<Rightarrow> (case MarshalResult L res of
             Inl e \<Rightarrow> Ret (Inl (Wrapped ''marshalling result for audit backfill: %w'' e))
           | Inr resultJSON \<Rightarrow> backfill_items resultJSON (pick_AuditRecords items)))"


section \<open>The OpsLock\<close>

definition generateLeaseName :: "libs \<Rightarrow> string \<Rightarrow> string" where
  "generateLeaseName L targetURI =
     (let name = ''aip-lock-'' @ Sha256Hex L targetURI
      in if length name > 253 then take 253 name else name)"

definition holderIdentity :: "AgentRequest \<Rightarrow> string" where
  "holderIdentity req = AgentIdentity (Spec req) @ ''/'' @ Name (Meta req)"

definition lease_key :: "libs \<Rightarrow> AgentRequest \<Rightarrow> objkey" where
  "lease_key L req = (Namespace (Meta req), generateLeaseName L (URI (TargetOf (Spec req))))"

definition lease_expiry :: "Lease \<Rightarrow> time option" where
  "lease_expiry lease = (case (RenewTime lease, LeaseDurationSeconds lease) of
     (Some t, Some d) \<Rightarrow> Some (t + d * second) | _ \<Rightarrow> None)"

definition releaseLock :: "libs \<Rightarrow> AgentRequest \<Rightarrow> unit result prog" where
  "releaseLock L req = Get Cached KLease (lease_key L req) (\<lambda>r. case as_Lease r of
     Inl e \<Rightarrow> Ret (if IsNotFound e then Inr () else Inl e)
   | Inr lease \<Rightarrow>
       if HolderIdentity lease \<noteq> None \<and> HolderIdentity lease \<noteq> Some (holderIdentity req)
       then Ret (Inr ())
       else Delete (OLease lease) None (\<lambda>d. case d of
           Inl e \<Rightarrow> if IsNotFound e then Metric (OpsLockActive (-1)) (Ret (Inr ())) else Ret (Inl e)
         | Inr _ \<Rightarrow> Metric (OpsLockActive (-1)) (Ret (Inr ()))))"

definition new_lease :: "libs \<Rightarrow> AgentRequestReconciler \<Rightarrow> AgentRequest \<Rightarrow> time \<Rightarrow> time \<Rightarrow> Lease" where
  "new_lease L r req acquired renewed =
     \<lparr>LeaseMeta = empty_meta\<lparr>
        Name := generateLeaseName L (URI (TargetOf (Spec req))),
        Namespace := Namespace (Meta req),
        Labels := [(''governance.aip.io/managed-by'', ''aip-controller'')]\<rparr>,
      HolderIdentity = Some (holderIdentity req),
      LeaseDurationSeconds = Some (int32 (quot (opsLockDurationOrDefault r) second)),
      AcquireTime = Some acquired,
      RenewTime = Some renewed\<rparr>"

text \<open>The end of \<open>handleLockAcquisition\<close>, once the lease is held.\<close>

definition approvalAnnotations :: "AgentRequest \<Rightarrow> strmap" where
  "approvalAnnotations req = (case Approval (Spec req) of
     None \<Rightarrow> []
   | Some h \<Rightarrow> if ApprovedBy h \<noteq> '''' then [(''approvedBy'', ApprovedBy h)] else [])"

definition lockAcquired :: "libs \<Rightarrow> AgentRequest \<Rightarrow> phase \<Rightarrow> ctrl_result result prog" where
  "lockAcquired L req fromPhase =
     Metric (OpsLockActive 1) (Metric (AgentRequestTotal PhaseApproved)
       (let base = req in
        setCond L (mk_cond ConditionApproved CondTrue ''Approved''
            (Text ''Request approved and OpsLock acquired'')) req (\<lambda>req.
        patchStatus base (set_phase PhaseApproved req) (\<lambda>r. case r of
            Inl e \<Rightarrow> Ret (Inl e)
          | Inr req \<Rightarrow>
              bind (emitAuditRecord L req AuditEventRequestApproved fromPhase PhaseApproved
                      (approvalAnnotations req))
                (\<lambda>a. case a of Inl e \<Rightarrow> Ret (Inl e) | Inr _ \<Rightarrow> Ret (Inr Done))))))"

text \<open>The branch where another request holds an unexpired lease.\<close>

definition lockContended ::
  "libs \<Rightarrow> AgentRequestReconciler \<Rightarrow> AgentRequest \<Rightarrow> phase \<Rightarrow> Lease \<Rightarrow> ctrl_result result prog" where
  "lockContended L r req fromPhase existing =
     Now (\<lambda>t. let lockTimeout = lockWaitTimeout r; waitLimit = t - lockTimeout in
       if CreationTimestamp (Meta req) < waitLimit then
         Metric OpsLockContentionTotal
           (let base = req;
                req = set_denial (mk_denial DenialCodeLockTimeout
                  (Sprintf ''Failed to acquire lock for %s within %v timeout. Lock held by: %s''
                     [ArgS (URI (TargetOf (Spec req))), ArgDur lockTimeout,
                      ArgS (case HolderIdentity existing of None \<Rightarrow> ''unknown'' | Some h \<Rightarrow> h)]))
                  (set_phase PhaseDenied req) in
            Metric (AgentRequestDeniedTotal DenialCodeLockTimeout)
              (Metric (AgentRequestActive (-1)) (Metric (AgentRequestTotal PhaseDenied)
                (setCond L (mk_cond ConditionApproved CondFalse ''LockTimeout''
                    (Text ''Lock acquisition timed out'')) req (\<lambda>req.
                 patchStatus base req (\<lambda>p. case p of
                     Inl e \<Rightarrow> Ret (Inl e)
                   | Inr req \<Rightarrow>
                       bind (emitAuditRecord L req AuditEventRequestDenied fromPhase PhaseDenied [])
                         (\<lambda>a. case a of Inl e \<Rightarrow> Ret (Inl e) | Inr _ \<Rightarrow> Ret (Inr Done))))))))
       else Metric OpsLockContentionTotal (Ret (Inr (RequeueAfter (5 * second)))))"

definition takeOverLease ::
  "libs \<Rightarrow> AgentRequestReconciler \<Rightarrow> AgentRequest \<Rightarrow> phase \<Rightarrow> Lease \<Rightarrow> ctrl_result result prog" where
  "takeOverLease L r req fromPhase existing =
     Now (\<lambda>t1. Now (\<lambda>t2.
       Patch MainResource MergeFrom (OLease existing)
         (OLease (existing\<lparr>HolderIdentity := Some (holderIdentity req), AcquireTime := Some t1,
            RenewTime := Some t2,
            LeaseDurationSeconds := Some (int32 (quot (opsLockDurationOrDefault r) second))\<rparr>))
         (\<lambda>p. case p of Inl e \<Rightarrow> Ret (Inl e) | Inr _ \<Rightarrow> lockAcquired L req fromPhase)))"

text \<open>The clock is read to compare with the expiry only when the lease has a renew time and a
  duration.\<close>

definition lease_expired :: "Lease \<Rightarrow> (bool \<Rightarrow> 'a prog) \<Rightarrow> 'a prog" where
  "lease_expired lease k = (case lease_expiry lease of
     None \<Rightarrow> k False | Some expiry \<Rightarrow> Now (\<lambda>t. k (t > expiry)))"

definition handleLockAcquisition ::
  "libs \<Rightarrow> AgentRequestReconciler \<Rightarrow> AgentRequest \<Rightarrow> phase \<Rightarrow> ctrl_result result prog" where
  "handleLockAcquisition L r req fromPhase =
     (if phase_of req = PhaseApproved then Ret (Inr Done)
      else Now (\<lambda>t1. Now (\<lambda>t2.
        Create (OLease (new_lease L r req t1 t2)) (\<lambda>c. case c of
            Inr _ \<Rightarrow> lockAcquired L req fromPhase
          | Inl e \<Rightarrow>
              if IsAlreadyExists e then
                Get Cached KLease (lease_key L req) (\<lambda>g. case as_Lease g of
                    Inl e \<Rightarrow> Ret (Inl e)
                  | Inr existing \<Rightarrow>
                      lease_expired existing (\<lambda>expired.
                        if HolderIdentity existing = Some (holderIdentity req)
                        then lockAcquired L req fromPhase
                        else if expired then takeOverLease L r req fromPhase existing
                        else lockContended L r req fromPhase existing))
              else Ret (Inl e)))))"

end
