(* ===== verification/AgentRequest_Controller.thy ===== *)
theory AgentRequest_Controller
  imports OpsLock
begin

text \<open>
  The AgentRequest reconciler of \<open>src/internal/controller/agentrequest_controller.go\<close>: one
  definition per method, from \<open>Reconcile\<close> down.  A method that mutates \<open>agentReq\<close> through its
  pointer returns the updated request; after an error the request is not used any more, so an
  error result carries none.
\<close>


section \<open>GovernedResource integrity\<close>

definition governedResourceRef :: "AgentRequest \<Rightarrow> GovernedResourceRef option" where
  "governedResourceRef req = (case StatusGovernedResourceRef (Status req) of
     Some ref \<Rightarrow> Some ref | None \<Rightarrow> SpecGovernedResourceRef (Spec req))"

text \<open>The two denial branches of \<open>checkGovernedResourceIntegrity\<close> differ in code and message
  only.\<close>

definition denyForResource ::
  "libs \<Rightarrow> AgentRequest \<Rightarrow> string \<Rightarrow> message \<Rightarrow> AgentRequest result prog" where
  "denyForResource L req code msg =
     (let fromPhase = phase_of req; base = req;
          req = set_denial (mk_denial code msg) (set_phase PhaseDenied req) in
      Metric (AgentRequestDeniedTotal code) (Metric (AgentRequestActive (-1))
        (Metric (AgentRequestTotal PhaseDenied)
          (patchStatus base req (\<lambda>p. case p of
              Inl e \<Rightarrow> Ret (Inl e)
            | Inr req \<Rightarrow> bind (releaseLock L req) (\<lambda>l. case l of
                  Inl e \<Rightarrow> Ret (Inl e)
                | Inr _ \<Rightarrow>
                    bind (emitAuditRecord L req AuditEventRequestDenied fromPhase PhaseDenied [])
                      (\<lambda>a. case a of Inl e \<Rightarrow> Ret (Inl e) | Inr _ \<Rightarrow> Ret (Inr req))))))))"

definition checkGovernedResourceIntegrity ::
  "libs \<Rightarrow> GovernedResourceRef \<Rightarrow> AgentRequest \<Rightarrow> AgentRequest result prog" where
  "checkGovernedResourceIntegrity L ref req =
     Get Cached KGovernedResource ('''', RefName ref) (\<lambda>g. case as_GovernedResource g of
         Inl e \<Rightarrow>
           if IsNotFound e
           then denyForResource L req DenialCodeGovernedResourceDeleted
                  (Sprintf ''The GovernedResource %q that admitted this request was deleted.''
                     [ArgS (RefName ref)])
           else Ret (Inl e)
       | Inr gr \<Rightarrow>
           if Generation (GRMeta gr) \<noteq> RefGeneration ref
           then denyForResource L req DenialCodeGenerationMismatch
                  (Sprintf ''GovernedResource %q generation has changed (expected %d, current %d); the policy binding is no longer valid.''
                     [ArgS (RefName ref), ArgD (RefGeneration ref), ArgD (Generation (GRMeta gr))])
           else Ret (Inr req))"


section \<open>Agent-triggered transitions\<close>

text \<open>The tail shared by the Completed and Failed branches: patch, release the lock, emit the
  phase audit and the lock audit.\<close>

definition finishRequest ::
  "libs \<Rightarrow> AgentRequest \<Rightarrow> phase \<Rightarrow> audit_event \<Rightarrow> (bool \<times> AgentRequest) result prog" where
  "finishRequest L req toPhase event =
     (let fromPhase = phase_of req; base = req; req = set_phase toPhase req in
      Metric (AgentRequestActive (-1)) (Metric (AgentRequestTotal toPhase)
        (patchStatus base req (\<lambda>p. case p of
            Inl e \<Rightarrow> Ret (Inl e)
          | Inr req \<Rightarrow> bind (releaseLock L req) (\<lambda>l. case l of
                Inl e \<Rightarrow> Ret (Inl e)
              | Inr _ \<Rightarrow> bind (emitAuditRecord L req event fromPhase toPhase []) (\<lambda>a. case a of
                    Inl e \<Rightarrow> Ret (Inl e)
                  | Inr _ \<Rightarrow>
                      bind (emitAuditRecord L req AuditEventLockReleased PhaseUnset PhaseUnset [])
                        (\<lambda>b. case b of Inl e \<Rightarrow> Ret (Inl e) | Inr _ \<Rightarrow> Ret (Inr (True, req)))))))))"

definition checkAgentTransitions ::
  "libs \<Rightarrow> AgentRequestReconciler \<Rightarrow> AgentRequest \<Rightarrow> (bool \<times> AgentRequest) result prog" where
  "checkAgentTransitions L r req =
     (if IsStatusConditionTrue L (Conditions (Status req)) ConditionCompleted \<and>
         phase_of req \<noteq> PhaseCompleted then
        if \<not> HasAPIReader r then Ret (Inl Panic)
        else Get Direct KAgentRequest (key_of (Meta req)) (\<lambda>f. case as_AgentRequest f of
            Inl e \<Rightarrow> Ret (Inl (Wrapped ''re-reading AgentRequest for Result: %w'' e))
          | Inr fresh \<Rightarrow>
              finishRequest L (req\<lparr>Status := (Status req)\<lparr>ResultOf := ResultOf (Status fresh)\<rparr>\<rparr>)
                PhaseCompleted AuditEventRequestCompleted)
      else if IsStatusConditionTrue L (Conditions (Status req)) ConditionFailed \<and>
         phase_of req \<noteq> PhaseFailed then
        finishRequest L req PhaseFailed AuditEventRequestFailed
      else if IsStatusConditionTrue L (Conditions (Status req)) ConditionExecuting \<and>
         phase_of req = PhaseApproved then
        (let fromPhase = phase_of req; base = req; req = set_phase PhaseExecuting req in
         Metric (AgentRequestTotal PhaseExecuting)
           (patchStatus base req (\<lambda>p. case p of
               Inl e \<Rightarrow> Ret (Inl e)
             | Inr req \<Rightarrow>
                 bind (emitAuditRecord L req AuditEventLockAcquired PhaseUnset PhaseUnset [])
                   (\<lambda>a. case a of
                       Inl e \<Rightarrow> Ret (Inl e)
                     | Inr _ \<Rightarrow>
                         bind (emitAuditRecord L req AuditEventRequestExecuting fromPhase
                                 PhaseExecuting [])
                           (\<lambda>b. case b of
                               Inl e \<Rightarrow> Ret (Inl e) | Inr _ \<Rightarrow> Ret (Inr (True, req)))))))
      else Ret (Inr (False, req)))"


section \<open>Initial phase\<close>

abbreviation ConditionRequestSubmitted :: cond_type where
  "ConditionRequestSubmitted \<equiv> ConditionOther ''RequestSubmitted''"

text \<open>The three branches of \<open>initializePhase\<close> end alike: set the condition, patch, audit.\<close>

definition submitWith ::
  "libs \<Rightarrow> AgentRequest \<Rightarrow> AgentRequest \<Rightarrow> string \<Rightarrow> message \<Rightarrow> audit_event \<Rightarrow> phase \<Rightarrow>
     (bool \<times> AgentRequest) result prog" where
  "submitWith L base req reason msg event toPhase =
     setCond L (mk_cond ConditionRequestSubmitted CondTrue reason msg) req (\<lambda>req.
     patchStatus base req (\<lambda>p. case p of
         Inl e \<Rightarrow> Ret (Inl e)
       | Inr req \<Rightarrow> bind (emitAuditRecord L req event PhaseUnset toPhase []) (\<lambda>a. case a of
             Inl e \<Rightarrow> Ret (Inl e) | Inr _ \<Rightarrow> Ret (Inr (True, req)))))"

definition startIn ::
  "libs \<Rightarrow> AgentRequest \<Rightarrow> phase \<Rightarrow> string \<Rightarrow> string \<Rightarrow> (bool \<times> AgentRequest) result prog" where
  "startIn L req ph reason msg =
     Metric (AgentRequestActive 1) (Metric (AgentRequestTotal ph)
       (submitWith L req (set_phase ph req) reason (Text msg) AuditEventRequestSubmitted ph))"

definition initializePhase ::
  "libs \<Rightarrow> AgentRequestReconciler \<Rightarrow> AgentRequest \<Rightarrow> (bool \<times> AgentRequest) result prog" where
  "initializePhase L r req =
     (if phase_of req \<noteq> PhaseUnset \<or>
         IsStatusConditionTrue L (Conditions (Status req)) ConditionRequestSubmitted
      then Ret (Inr (False, req))
      else
       (let denialCode = lookup_str (Annotations (Meta req)) AnnotationGatewayDenied in
        if denialCode \<noteq> '''' then
          (let msg = Sprintf ''Blocked at gateway admission: %s'' [ArgS denialCode] in
           Metric (AgentRequestDeniedTotal denialCode) (Metric (AgentRequestTotal PhaseDenied)
             (submitWith L req
                (set_denial (mk_denial denialCode msg) (set_phase PhaseDenied req))
                ''GatewayDenied'' msg AuditEventRequestDenied PhaseDenied)))
        else if Mode (Spec req) = ModeObserve then
          Metric (AgentRequestTotal PhaseObserved)
            (submitWith L req (set_phase PhaseObserved req) ''ObserveMode''
               (Text ''Request recorded as observation; governance lifecycle skipped'')
               AuditEventRequestObserved PhaseObserved)
        else if lookup_str (Annotations (Meta req)) AnnotationCanExecute = ''false'' then
          startIn L req PhaseAwaitingVerdict ''TrustGateBlock''
            ''Agent trust level does not permit execution; routing to AwaitingVerdict''
        else (case governedResourceRef req of
            None \<Rightarrow> startIn L req PhasePending ''Initialization'' ''Initial phase set to Pending''
          | Some ref \<Rightarrow>
              Get (the_reader r) KGovernedResource ('''', RefName ref)
                (\<lambda>g. case as_GovernedResource g of
                    Inr gr \<Rightarrow>
                      if SoakMode gr
                      then startIn L req PhaseAwaitingVerdict ''SoakModeAdmission''
                        ''Initial phase set to AwaitingVerdict due to GovernedResource SoakMode''
                      else startIn L req PhasePending ''Initialization''
                        ''Initial phase set to Pending''
                  | Inl e \<Rightarrow>
                      if IsNotFound e
                      then startIn L req PhasePending ''Initialization''
                        ''Initial phase set to Pending''
                      else Ret (Inl (Wrapped ''fetching GovernedResource %s: %w'' e))))))"


section \<open>Context\<close>

definition matchesSelector :: "libs \<Rightarrow> strmap \<Rightarrow> SafetyPolicy \<Rightarrow> bool" where
  "matchesSelector L grLabels policy = (case SelectorMatches L (GovernedResourceSelector policy) grLabels of
     Inl _ \<Rightarrow> False | Inr b \<Rightarrow> b)"

text \<open>The loop over the declared cascade targets; appending to a nil context panics.\<close>

fun fetchCascade ::
  "libs \<Rightarrow> (string \<Rightarrow> string \<Rightarrow> (TargetContext option \<times> error option) prog) \<Rightarrow> string \<Rightarrow>
     AffectedTarget list \<Rightarrow> TargetContext option \<Rightarrow> (string \<times> TargetContext) list \<Rightarrow>
     (TargetContext option \<times> (string \<times> TargetContext) list) result prog" where
  "fetchCascade L fetch ns [] targetCtx ctxs = Ret (Inr (targetCtx, ctxs))"
| "fetchCascade L fetch ns (affected # rest) targetCtx ctxs =
     bind (fetch (AffectedURI affected) ns) (\<lambda>res. case res of
         (Some c, None) \<Rightarrow>
           if \<not> Exists c then fetchCascade L fetch ns rest targetCtx ctxs
           else (case targetCtx of
               None \<Rightarrow> Ret (Inl Panic)
             | Some t \<Rightarrow>
                 (let parsed = ParseTargetURI L (AffectedURI affected);
                      name = (if ParsedName parsed = '''' then AffectedURI affected
                              else ParsedName parsed)
                  in fetchCascade L fetch ns rest
                       (Some (t\<lparr>CtxDownstreamServices := CtxDownstreamServices t @ [name]\<rparr>))
                       (map_put (AffectedURI affected) c ctxs)))
       | _ \<Rightarrow> fetchCascade L fetch ns rest targetCtx ctxs)"

text \<open>The outer error is a panic; the inner one is logged by the caller.\<close>

definition fetchTargetContext ::
  "libs \<Rightarrow> AgentRequestReconciler \<Rightarrow> AgentRequest \<Rightarrow>
     (TargetContext option \<times> (string \<times> TargetContext) list \<times> error option) result prog" where
  "fetchTargetContext L r req = (case TargetContextFetcher r of
     None \<Rightarrow> Ret (Inr (Some empty_TargetContext, [], None))
   | Some fetch \<Rightarrow>
       bind (fetch (URI (TargetOf (Spec req))) (Namespace (Meta req))) (\<lambda>(targetCtx, err).
         case err of
           Some e \<Rightarrow> Ret (Inr (targetCtx, [], Some e))
         | None \<Rightarrow>
             bind (fetchCascade L fetch (Namespace (Meta req))
                     (case Cascade (Spec req) of None \<Rightarrow> [] | Some m \<Rightarrow> AffectedTargets m)
                     targetCtx [])
               (\<lambda>c. case c of Inl e \<Rightarrow> Ret (Inl e)
                 | Inr (targetCtx, ctxs) \<Rightarrow> Ret (Inr (targetCtx, ctxs, None)))))"

definition fetchContextFromProvider ::
  "libs \<Rightarrow> AgentRequestReconciler \<Rightarrow> AgentRequest \<Rightarrow> GovernedResource \<Rightarrow>
     (raw_json option \<times> AgentRequest) result prog" where
  "fetchContextFromProvider L r req gr =
     (let fetcherName = ContextFetcher gr; uri = URI (TargetOf (Spec req)) in
      if fetcherName = '''' \<or> fetcherName = ''none'' then Ret (Inr (None, req))
      else
        bind (if fetcherName = ''k8s-deployment'' then FetchK8sDeployment r uri
              else if fetcherName = ''karpenter'' then FetchKarpenter r uri
              else if fetcherName = ''github'' then (case GitHubMCPFetcher r of
                  None \<Rightarrow> Ret (Inl (Plain ''GitHubMCPFetcher not configured''))
                | Some fetch \<Rightarrow> fetch uri)
              else Ret (Inl (Plain (''unknown fetcher: '' @ fetcherName))))
          (\<lambda>f. case f of
              Inl e \<Rightarrow> Ret (Inl e)
            | Inr fetchedJSON \<Rightarrow> (case ContextSchema gr of
                  None \<Rightarrow> Ret (Inr (Some fetchedJSON, req))
                | Some schema \<Rightarrow> (case ValidateSchema L schema fetchedJSON of
                      SchemaError e \<Rightarrow> Ret (Inl e)
                    | SchemaValid \<Rightarrow> Ret (Inr (Some fetchedJSON, req))
                    | SchemaInvalid m \<Rightarrow>
                        setCond L (mk_cond (ConditionOther ''FetcherSchemaViolation'') CondTrue
                            ''SchemaMismatch''
                            (Sprintf ''fetcher '%s' returned invalid JSON: %v''
                               [ArgS fetcherName, ArgS m])) req
                          (\<lambda>req. Ret (Inr (None, req)))))))"


section \<open>Pending\<close>

definition handleApprovalWait ::
  "libs \<Rightarrow> AgentRequestReconciler \<Rightarrow> AgentRequest \<Rightarrow> ctrl_result result prog" where
  "handleApprovalWait L r req = (case Approval (Spec req) of
     None \<Rightarrow> Ret (Inr Done)
   | Some h \<Rightarrow>
       (let fromPhase = phase_of req in
        if Decision h = ''approved'' then
          handleLockAcquisition L r
            (set_conditions (RemoveStatusCondition L (Conditions (Status req))
               ConditionRequiresApproval) req) fromPhase
        else if Decision h = ''denied'' then
          (let base = req;
               req = set_denial (mk_denial DenialCodePolicyViolation
                       (Text ''Denied by human reviewer'')) (set_phase PhaseDenied req) in
           Metric (AgentRequestDeniedTotal DenialCodePolicyViolation)
             (Metric (AgentRequestActive (-1)) (Metric (AgentRequestTotal PhaseDenied)
               (setCond L (mk_cond ConditionApproved CondFalse ''ManualDenial''
                   (Text ''Denied by human reviewer'')) req (\<lambda>req.
                patchStatus base req (\<lambda>p. case p of
                    Inl e \<Rightarrow> Ret (Inl e)
                  | Inr req \<Rightarrow>
                      bind (emitAuditRecord L req AuditEventRequestDenied fromPhase PhaseDenied
                              (approvalAnnotations req))
                        (\<lambda>a. case a of Inl e \<Rightarrow> Ret (Inl e) | Inr _ \<Rightarrow> Ret (Inr Done))))))))
        else Ret (Inr Done)))"

definition handleEvaluationResult ::
  "libs \<Rightarrow> AgentRequestReconciler \<Rightarrow> AgentRequest \<Rightarrow> EvalResult \<Rightarrow> AuditRecord \<Rightarrow>
     ctrl_result result prog" where
  "handleEvaluationResult L r req res policyEvalAudit =
     (let fromPhase = phase_of req; base = req;
          commit = (\<lambda>req. patchStatus base req (\<lambda>p. case p of
              Inl e \<Rightarrow> Ret (Inl e)
            | Inr req \<Rightarrow>
                bind (createAuditWithRetry (policyEvalAudit\<lparr>AuditSpec :=
                        (AuditSpec policyEvalAudit)\<lparr>TransitionOf :=
                          Some \<lparr>From = phase_str fromPhase, To = phase_str (phase_of req)\<rparr>\<rparr>\<rparr>))
                  (\<lambda>_. if EvAction res = ResultDeny then
                         bind (emitAuditRecord L req AuditEventRequestDenied fromPhase
                                 PhaseDenied [])
                           (\<lambda>a. case a of Inl e \<Rightarrow> Ret (Inl e) | Inr _ \<Rightarrow> Ret (Inr Done))
                       else if EvAction res = ResultRequireApproval then Ret (Inr Done)
                       else handleLockAcquisition L r req fromPhase))) in
      setCond L (mk_cond ConditionPolicyEvaluated CondTrue ''EvaluationComplete'' (EvMessage res))
        req (\<lambda>req.
        if EvAction res = ResultDeny then
          (let req = set_denial \<lparr>Code = EvCode res, DenialMessage = EvMessage res,
                         PolicyResults = EvPolicyResults res, RetryAfterSeconds = None\<rparr>
                       (set_phase PhaseDenied req) in
           Metric (AgentRequestDeniedTotal (EvCode res)) (Metric (AgentRequestActive (-1))
             (Metric (AgentRequestTotal PhaseDenied)
               (setCond L (mk_cond ConditionApproved CondFalse ''Denied'' (EvMessage res)) req
                  commit))))
        else if EvAction res = ResultRequireApproval then
          if lookup_str (Annotations (Meta req)) AnnotationRequiresHumanApproval = ''false'' then
            setCond L (mk_cond ConditionApproved CondTrue ''AutoApprovedByTrustGate''
                (Text ''Agent trust level satisfies GovernedResource requirements; human approval not required'')) req
              (\<lambda>req. patchStatus base req (\<lambda>p. case p of
                  Inl e \<Rightarrow> Ret (Inl e)
                | Inr _ \<Rightarrow> bind (createAuditWithRetry policyEvalAudit) (\<lambda>_. Ret (Inr Done))))
          else
            setCond L (mk_cond ConditionRequiresApproval CondTrue ''ApprovalRequired''
                (EvMessage res)) req commit
        else commit req))"

definition mk_policy_audit :: "libs \<Rightarrow> AgentRequest \<Rightarrow> EvalResult \<Rightarrow> time \<Rightarrow> AuditRecord" where
  "mk_policy_audit L req res now =
     own_audit L req
       \<lparr>AuditMeta = empty_meta\<lparr>
          Name := deterministicAuditName L (Name (Meta req))
            (audit_event_str AuditEventPolicyEvaluated) (phase_str (phase_of req)) '''',
          Namespace := Namespace (Meta req),
          Labels := auditLabels req\<rparr>,
        AuditSpec = \<lparr>Timestamp = now, AuditAgentIdentity = AgentIdentity (Spec req),
          AgentRequestRef = Name (Meta req), Event = AuditEventPolicyEvaluated,
          AuditAction = Action (Spec req), TargetURI = URI (TargetOf (Spec req)),
          AuditReason = Reason (Spec req), TransitionOf = None,
          PolicyEvaluations = map (\<lambda>pr. \<lparr>EvalPolicyName = PolicyName pr,
            EvalRuleName = RuleName pr, EvalResult = Result pr, EvalReason = ''''\<rparr>)
            (EvPolicyResults res),
          AuditAnnotations = [], Details = None\<rparr>,
        OwnerRequest = ''''\<rparr>"

definition set_cpv :: "TargetContext option \<Rightarrow> AgentRequest \<Rightarrow> (AgentRequest \<Rightarrow> 'a prog) \<Rightarrow> 'a prog" where
  "set_cpv targetCtx req k = (case targetCtx of
     None \<Rightarrow> k req
   | Some t \<Rightarrow> Now (\<lambda>now. k (req\<lparr>Status := (Status req)\<lparr>CPV := Some
       \<lparr>EvaluatedStateFingerprint = '''', TargetExists = Exists t,
        HasActiveEndpoints = CtxHasActiveEndpoints t,
        ActiveEndpointCount = CtxActiveEndpointCount t,
        ReadyReplicas = CtxReadyReplicas t, SpecReplicas = CtxSpecReplicas t,
        DownstreamServices = CtxDownstreamServices t, FetchedAt = now\<rparr>\<rparr>\<rparr>)))"

text \<open>The part of \<open>reconcilePending\<close> after the provider context: evaluate and act.\<close>

definition evaluateAndHandle ::
  "libs \<Rightarrow> AgentRequestReconciler \<Rightarrow> AgentRequest \<Rightarrow> SafetyPolicy list \<Rightarrow> TargetContext option \<Rightarrow>
     (string \<times> TargetContext) list \<Rightarrow> ctrl_result result prog" where
  "evaluateAndHandle L r req evalOpts targetCtx cascadeCtxs =
     set_cpv targetCtx req (\<lambda>req. Metric AgentRequestEvalDuration
       (case EvaluatorOf r req evalOpts targetCtx cascadeCtxs of
          Inl e \<Rightarrow> Ret (Inl e)
        | Inr res \<Rightarrow> Now (\<lambda>now.
            handleEvaluationResult L r req res (mk_policy_audit L req res now))))"

definition providerStep ::
  "libs \<Rightarrow> AgentRequestReconciler \<Rightarrow> AgentRequest \<Rightarrow>
     (AgentRequest \<Rightarrow> ctrl_result result prog) \<Rightarrow> ctrl_result result prog" where
  "providerStep L r req k = (case governedResourceRef req of
     None \<Rightarrow> k req
   | Some ref \<Rightarrow>
       if ProviderContext (Status req) \<noteq> None then k req
       else Get (the_reader r) KGovernedResource ('''', RefName ref)
         (\<lambda>g. case as_GovernedResource g of
             Inl e \<Rightarrow> Ret (Inl e)
           | Inr gr \<Rightarrow> bind (fetchContextFromProvider L r req gr) (\<lambda>f. case f of
                 Inl _ \<Rightarrow> k req
               | Inr (None, req) \<Rightarrow> k req
               | Inr (Some ctx, req) \<Rightarrow>
                   patchStatus req (req\<lparr>Status := (Status req)\<lparr>ProviderContext := Some ctx\<rparr>\<rparr>)
                     (\<lambda>p. case p of Inl e \<Rightarrow> Ret (Inl e) | Inr _ \<Rightarrow> Ret (Inr Requeue)))))"

definition resourceLabels ::
  "AgentRequestReconciler \<Rightarrow> AgentRequest \<Rightarrow> (strmap option \<Rightarrow> ctrl_result result prog) \<Rightarrow>
     ctrl_result result prog" where
  "resourceLabels r req k = (case governedResourceRef req of
     None \<Rightarrow> k None
   | Some ref \<Rightarrow> Get (the_reader r) KGovernedResource ('''', RefName ref)
       (\<lambda>g. case as_GovernedResource g of
           Inl e \<Rightarrow> Ret (Inl e) | Inr gr \<Rightarrow> k (Some (Labels (GRMeta gr)))))"

definition reconcilePending ::
  "libs \<Rightarrow> AgentRequestReconciler \<Rightarrow> AgentRequest \<Rightarrow> ctrl_result result prog" where
  "reconcilePending L r req =
     (if IsStatusConditionTrue L (Conditions (Status req)) ConditionPolicyEvaluated then
        if IsStatusConditionTrue L (Conditions (Status req)) ConditionRequiresApproval
        then handleApprovalWait L r req
        else handleLockAcquisition L r req (phase_of req)
      else
        ListObjects (the_reader r) KSafetyPolicy
          (list_all_objects\<lparr>InNamespace := Namespace (Meta req)\<rparr>) (\<lambda>l. case l of
            Inl e \<Rightarrow> Ret (Inl e)
          | Inr (items, _) \<Rightarrow>
              resourceLabels r req (\<lambda>grLabels.
                let evalOpts = filter (\<lambda>p. case grLabels of
                      None \<Rightarrow> True | Some ls \<Rightarrow> matchesSelector L ls p)
                      (pick_SafetyPolicies items) in
                bind (fetchTargetContext L r req) (\<lambda>c. case c of
                    Inl e \<Rightarrow> Ret (Inl e)
                  | Inr (targetCtx, cascadeCtxs, _) \<Rightarrow>
                      providerStep L r req (\<lambda>req.
                        evaluateAndHandle L r req evalOpts targetCtx cascadeCtxs)))))"


section \<open>Approved\<close>

definition failApproved ::
  "libs \<Rightarrow> AgentRequestReconciler \<Rightarrow> AgentRequest \<Rightarrow> ctrl_result result prog" where
  "failApproved L r req =
     bind (releaseLock L req) (\<lambda>l. case l of
         Inl e \<Rightarrow> Ret (Inl (Wrapped ''releasing lock after Approved timeout for %s: %w'' e))
       | Inr _ \<Rightarrow>
           (let fromPhase = phase_of req; base = req;
                msg = Sprintf ''Timed out after %v in Approved phase without starting execution''
                        [ArgDur (approvedTimeoutOrDefault r)] in
            setCond L (mk_cond ConditionFailed CondTrue DenialCodeLockTimeout msg) req (\<lambda>req.
              let req = set_denial (mk_denial DenialCodeLockTimeout msg) (set_phase PhaseFailed req) in
              Metric (AgentRequestActive (-1)) (Metric (AgentRequestTotal PhaseFailed)
                (patchStatus base req (\<lambda>p. case p of
                    Inl e \<Rightarrow> Ret (Inl e)
                  | Inr req \<Rightarrow>
                      bind (emitAuditRecord L req AuditEventRequestFailed fromPhase PhaseFailed [])
                        (\<lambda>a. case a of Inl e \<Rightarrow> Ret (Inl e) | Inr _ \<Rightarrow> Ret (Inr Done))))))))"

definition heartbeatApproved ::
  "libs \<Rightarrow> AgentRequestReconciler \<Rightarrow> AgentRequest \<Rightarrow> ctrl_result result prog" where
  "heartbeatApproved L r req =
     (let again = Ret (Inr (RequeueAfter (quot (opsLockDurationOrDefault r) 2))) in
      Get Cached KLease (lease_key L req) (\<lambda>g. case as_Lease g of
          Inl e \<Rightarrow> if IsNotFound e then again else Ret (Inl e)
        | Inr lease \<Rightarrow>
            if HolderIdentity lease = Some (holderIdentity req)
            then Now (\<lambda>t. Patch MainResource MergeFrom (OLease lease)
                   (OLease (lease\<lparr>RenewTime := Some t\<rparr>)) (\<lambda>p. case p of
                     Inl e \<Rightarrow> Ret (Inl (Wrapped ''heartbeating approved-phase lease %s: %w'' e))
                   | Inr _ \<Rightarrow> again))
            else again))"

definition reconcileApproved ::
  "libs \<Rightarrow> AgentRequestReconciler \<Rightarrow> AgentRequest \<Rightarrow> ctrl_result result prog" where
  "reconcileApproved L r req =
     (case FindStatusCondition L (Conditions (Status req)) ConditionApproved of
        None \<Rightarrow> Ret (Inr Done)
      | Some c \<Rightarrow>
          if CondStatus c \<noteq> CondTrue then Ret (Inr Done)
          else
            (let deadline = LastTransitionTime c + approvedTimeoutOrDefault r in
             Now (\<lambda>now. if now > deadline then failApproved L r req
                        else heartbeatApproved L r req)))"


section \<open>Executing\<close>

definition lostLock :: "libs \<Rightarrow> AgentRequest \<Rightarrow> Lease \<Rightarrow> ctrl_result result prog" where
  "lostLock L req lease =
     (let actualHolder = (case HolderIdentity lease of None \<Rightarrow> ''unknown'' | Some h \<Rightarrow> h);
          fromPhase = phase_of req; base = req in
      Metric OpsLockExpiredTotal (Metric (AgentRequestActive (-1))
        (Metric (AgentRequestTotal PhaseFailed)
          (setCond L (mk_cond ConditionFailed CondTrue DenialCodeLockTimeout
              (Sprintf ''OpsLock lost: lease held by %q, not this request'' [ArgS actualHolder]))
            req (\<lambda>req.
            patchStatus base (set_phase PhaseFailed req) (\<lambda>p. case p of
                Inl e \<Rightarrow> Ret (Inl e)
              | Inr req \<Rightarrow>
                  bind (emitAuditRecord L req AuditEventLockExpired fromPhase PhaseFailed [])
                    (\<lambda>a. case a of
                        Inl e \<Rightarrow> Ret (Inl e)
                      | Inr _ \<Rightarrow>
                          bind (emitAuditRecord L req AuditEventRequestFailed fromPhase
                                  PhaseFailed [])
                            (\<lambda>b. case b of Inl e \<Rightarrow> Ret (Inl e) | Inr _ \<Rightarrow> Ret (Inr Done)))))))))"

definition executionTimedOut :: "libs \<Rightarrow> AgentRequest \<Rightarrow> Lease \<Rightarrow> ctrl_result result prog" where
  "executionTimedOut L req lease =
     (let fromPhase = phase_of req; base = req in
      Metric OpsLockExpiredTotal (Metric (AgentRequestActive (-1))
        (Metric (AgentRequestTotal PhaseFailed)
          (setCond L (mk_cond ConditionFailed CondTrue DenialCodeLockTimeout
              (Text ''Heartbeat timeout: Agent failed to renew OpsLock lease before expiration''))
            req (\<lambda>req.
            patchStatus base (set_phase PhaseFailed req) (\<lambda>p. case p of
                Inl e \<Rightarrow> Ret (Inl e)
              | Inr req \<Rightarrow> Delete (OLease lease) None (\<lambda>_.
                  bind (emitAuditRecord L req AuditEventHeartbeatTimeout fromPhase PhaseFailed [])
                    (\<lambda>a. case a of
                        Inl e \<Rightarrow> Ret (Inl e)
                      | Inr _ \<Rightarrow>
                          bind (emitAuditRecord L req AuditEventRequestFailed fromPhase
                                  PhaseFailed [])
                            (\<lambda>b. case b of
                                Inl e \<Rightarrow> Ret (Inl e) | Inr _ \<Rightarrow> Ret (Inr Done))))))))))"

definition reconcileExecuting ::
  "libs \<Rightarrow> AgentRequestReconciler \<Rightarrow> AgentRequest \<Rightarrow> ctrl_result result prog" where
  "reconcileExecuting L r req =
     Get (the_reader r) KLease (lease_key L req) (\<lambda>g. case as_Lease g of
         Inl e \<Rightarrow> if IsNotFound e then Ret (Inr (RequeueAfter (15 * second))) else Ret (Inl e)
       | Inr lease \<Rightarrow>
           if HolderIdentity lease \<noteq> Some (holderIdentity req) then lostLock L req lease
           else (case (RenewTime lease, LeaseDurationSeconds lease) of
               (Some renewed, Some d) \<Rightarrow> Now (\<lambda>now.
                 if now > renewed + d * second then executionTimedOut L req lease
                 else Ret (Inr (RequeueAfter (quot (d * second) 2))))
             | _ \<Rightarrow> Ret (Inr (RequeueAfter (30 * second)))))"


section \<open>AwaitingVerdict\<close>

definition verdictAnnotations :: "AgentRequestStatus \<Rightarrow> strmap" where
  "verdictAnnotations st =
     [(''verdict'', Verdict st), (''verdictBy'', VerdictBy st)] @
     (if VerdictReasonCode st \<noteq> '''' then [(''verdictReasonCode'', VerdictReasonCode st)] else [])"

definition reconcileAwaitingVerdict ::
  "libs \<Rightarrow> AgentRequest \<Rightarrow> ctrl_result result prog" where
  "reconcileAwaitingVerdict L req =
     (if Verdict (Status req) \<noteq> '''' then
        (let fromPhase = phase_of req; base = req in
         Metric (AgentRequestActive (-1)) (Metric (AgentRequestTotal PhaseCompleted)
           (patchStatus base (set_phase PhaseCompleted req) (\<lambda>p. case p of
               Inl e \<Rightarrow> Ret (Inl e)
             | Inr req \<Rightarrow>
                 bind (emitAuditRecord L req AuditEventVerdictSubmitted fromPhase PhaseCompleted
                         (verdictAnnotations (Status req)))
                   (\<lambda>a. case a of Inl e \<Rightarrow> Ret (Inl e) | Inr _ \<Rightarrow> Ret (Inr Done))))))
      else Now (\<lambda>now.
        let deadline = CreationTimestamp (Meta req) + awaitingVerdictTTL in
        if now > deadline then
          (let fromPhase = phase_of req; base = req in
           Metric (AgentRequestActive (-1)) (Metric (AgentRequestTotal PhaseExpired)
             (patchStatus base (set_phase PhaseExpired req) (\<lambda>p. case p of
                 Inl e \<Rightarrow> Ret (Inl e)
               | Inr req \<Rightarrow>
                   bind (emitAuditRecord L req AuditEventRequestExpired fromPhase PhaseExpired [])
                     (\<lambda>a. case a of Inl e \<Rightarrow> Ret (Inl e) | Inr _ \<Rightarrow> Ret (Inr Done))))))
        else Ret (Inr (RequeueAfter (deadline - now)))))"


section \<open>Reconcile\<close>

definition dispatch ::
  "libs \<Rightarrow> AgentRequestReconciler \<Rightarrow> AgentRequest \<Rightarrow> ctrl_result result prog" where
  "dispatch L r req = (case phase_of req of
     PhasePending \<Rightarrow> reconcilePending L r req
   | PhaseApproved \<Rightarrow> reconcileApproved L r req
   | PhaseExecuting \<Rightarrow> reconcileExecuting L r req
   | PhaseAwaitingVerdict \<Rightarrow> reconcileAwaitingVerdict L req
   | _ \<Rightarrow> Ret (Inr Done))"

definition afterIntegrity ::
  "libs \<Rightarrow> AgentRequestReconciler \<Rightarrow> AgentRequest \<Rightarrow> ctrl_result result prog" where
  "afterIntegrity L r req =
     bind (checkAgentTransitions L r req) (\<lambda>h. case h of
         Inl e \<Rightarrow> Ret (Inl e)
       | Inr (handled, req) \<Rightarrow>
           if handled then Ret (Inr Done)
           else bind (initializePhase L r req) (\<lambda>i. case i of
               Inl e \<Rightarrow> Ret (Inl e)
             | Inr (handled, req) \<Rightarrow> if handled then Ret (Inr Done) else dispatch L r req))"

definition reconcileRequest ::
  "libs \<Rightarrow> AgentRequestReconciler \<Rightarrow> AgentRequest \<Rightarrow> ctrl_result result prog" where
  "reconcileRequest L r req =
     (if phase_of req = PhaseCompleted then
        (case ResultOf (Status req) of
           None \<Rightarrow> Ret (Inr Done)
         | Some res \<Rightarrow> bind (backfillCompletedAuditResult L req res) (\<lambda>b. case b of
               Inl e \<Rightarrow> Ret (Inl e) | Inr _ \<Rightarrow> Ret (Inr Done)))
      else if phase_of req \<in> {PhaseFailed, PhaseDenied, PhaseExpired, PhaseObserved} then
        Ret (Inr Done)
      else (case governedResourceRef req of
          None \<Rightarrow> afterIntegrity L r req
        | Some ref \<Rightarrow> bind (checkGovernedResourceIntegrity L ref req) (\<lambda>c. case c of
              Inl e \<Rightarrow> Ret (Inl e)
            | Inr req \<Rightarrow> if phase_of req = PhaseDenied then Ret (Inr Done)
                         else afterIntegrity L r req)))"

definition Reconcile ::
  "libs \<Rightarrow> AgentRequestReconciler \<Rightarrow> objkey \<Rightarrow> ctrl_result result prog" where
  "Reconcile L r key =
     Get (the_reader r) KAgentRequest key (\<lambda>g. case as_AgentRequest g of
         Inl e \<Rightarrow> if IsNotFound e then Ret (Inr Done) else Ret (Inl e)
       | Inr req \<Rightarrow> reconcileRequest L r req)"

section \<open>A sample configuration\<close>

text \<open>A reconciler with default timeouts whose policies all pass, for the witnesses.\<close>

definition sample_reconciler :: AgentRequestReconciler where
  "sample_reconciler = \<lparr>HasAPIReader = True, OpsLockDuration = 0, LockWaitDuration = 0,
     ApprovedTimeout = 0,
     EvaluatorOf = (\<lambda>_ _ _ _. Inr \<lparr>EvAction = ResultAllow, EvCode = '''',
       EvMessage = Text ''All policies passed'', EvPolicyResults = []\<rparr>),
     TargetContextFetcher = None, FetchK8sDeployment = (\<lambda>_. Ret (Inl (Plain ''none''))),
     FetchKarpenter = (\<lambda>_. Ret (Inl (Plain ''none''))), GitHubMCPFetcher = None\<rparr>"

definition sample_in :: "phase \<Rightarrow> Condition list \<Rightarrow> AgentRequest" where
  "sample_in p cs = set_conditions cs (set_phase p sample_request)"

definition sample_key :: objkey where
  "sample_key = (''ns'', ''req-1'')"

definition cond_now :: "cond_type \<Rightarrow> Condition" where
  "cond_now c = (mk_cond c CondTrue '''' (Text ''''))\<lparr>LastTransitionTime := 0\<rparr>"

end
