(* ===== verification/Monitors.thy ===== *)
theory Monitors
  imports K8s_Client
begin

text \<open>
  Safety of programs as monitors.  A monitor has a ghost state, updated by every event; it
  rejects an event that is not allowed in the current ghost state.  \<open>monitored A W U Q p s\<close> says that
  on every execution of \<open>p\<close> whose answers satisfy \<open>A\<close> no event is rejected from ghost state \<open>s\<close>,
  and that the result and final ghost state satisfy \<open>Q\<close>.  It is defined by recursion on
  the program, so the handlers' lemmas follow by rewriting.
\<close>

primrec monitored ::
  "(event \<Rightarrow> bool) \<Rightarrow> ('s \<Rightarrow> event \<Rightarrow> bool) \<Rightarrow> ('s \<Rightarrow> event \<Rightarrow> 's) \<Rightarrow> ('a \<Rightarrow> 's \<Rightarrow> bool) \<Rightarrow>
     'a prog \<Rightarrow> 's \<Rightarrow> bool" where
  "monitored A W U Q (Ret x) = (\<lambda>s. Q x s)"
| "monitored A W U Q (Get rd k key f) = (\<lambda>s. \<forall>r. let e = EGet rd k key r in
     A e \<longrightarrow> W s e \<and> monitored A W U Q (f r) (U s e))"
| "monitored A W U Q (ListObjects rd k opts f) = (\<lambda>s. \<forall>r. let e = EList rd k opts r in
     A e \<longrightarrow> W s e \<and> monitored A W U Q (f r) (U s e))"
| "monitored A W U Q (Create obj f) = (\<lambda>s. \<forall>r. let e = ECreate obj r in
     A e \<longrightarrow> W s e \<and> monitored A W U Q (f r) (U s e))"
| "monitored A W U Q (Patch sub pk base obj f) = (\<lambda>s. \<forall>r. let e = EPatch sub pk base obj r in
     A e \<longrightarrow> W s e \<and> monitored A W U Q (f r) (U s e))"
| "monitored A W U Q (Update sub obj f) = (\<lambda>s. \<forall>r. let e = EUpdate sub obj r in
     A e \<longrightarrow> W s e \<and> monitored A W U Q (f r) (U s e))"
| "monitored A W U Q (Delete obj pre f) = (\<lambda>s. \<forall>r. let e = EDelete obj pre r in
     A e \<longrightarrow> W s e \<and> monitored A W U Q (f r) (U s e))"
| "monitored A W U Q (Now f) = (\<lambda>s. \<forall>t. let e = ENow t in
     A e \<longrightarrow> W s e \<and> monitored A W U Q (f t) (U s e))"
| "monitored A W U Q (Metric m p) = (\<lambda>s. let e = EMetric m in
     A e \<longrightarrow> W s e \<and> monitored A W U Q p (U s e))"

fun accepted :: "('s \<Rightarrow> event \<Rightarrow> bool) \<Rightarrow> ('s \<Rightarrow> event \<Rightarrow> 's) \<Rightarrow> 's \<Rightarrow> event list \<Rightarrow> bool" where
  "accepted W U s [] \<longleftrightarrow> True"
| "accepted W U s (e # es) \<longleftrightarrow> W s e \<and> accepted W U (U s e) es"

definition ghost :: "('s \<Rightarrow> event \<Rightarrow> 's) \<Rightarrow> 's \<Rightarrow> event list \<Rightarrow> 's" where
  "ghost U s es = foldl U s es"

lemma ghost_simps [simp]:
  "ghost U s [] = s" "ghost U s (e # es) = ghost U (U s e) es"
  "ghost U s (es @ es') = ghost U (ghost U s es) es'"
  by (simp_all add: ghost_def)

lemma accepted_append [simp]:
  "accepted W U s (es @ es') \<longleftrightarrow> accepted W U s es \<and> accepted W U (ghost U s es) es'"
  by (induction es arbitrary: s) auto

lemma monitored_sound:
  assumes "exec p es x" and "monitored A W U Q p s" and "list_all A es"
  shows "accepted W U s es \<and> Q x (ghost U s es)"
  using assms by (induction arbitrary: s rule: exec.induct) (auto simp: Let_def)

lemma monitored_bind:
  "monitored A W U Q (bind p g) s \<longleftrightarrow>
     monitored A W U (\<lambda>x s'. monitored A W U Q (g x) s') p s"
  by (induction p arbitrary: s) (auto simp: Let_def)

lemma monitored_mono:
  "monitored A W U Q p s \<Longrightarrow> (\<And>x s'. Q x s' \<Longrightarrow> Q' x s') \<Longrightarrow> monitored A W U Q' p s"
  by (induction p arbitrary: s) (auto simp: Let_def)

lemma monitored_bindI:
  assumes "monitored A W U R p s" and "\<And>x s'. R x s' \<Longrightarrow> monitored A W U Q (g x) s'"
  shows "monitored A W U Q (bind p g) s"
  using assms by (auto simp: monitored_bind elim: monitored_mono)

lemmas monitored_simps = monitored.simps monitored_bind Let_def


section \<open>Reads\<close>

definition is_read :: "event \<Rightarrow> bool" where
  "is_read e = (case e of EGet _ _ _ _ \<Rightarrow> True | EList _ _ _ _ \<Rightarrow> True | ENow _ \<Rightarrow> True
     | EMetric _ \<Rightarrow> True | _ \<Rightarrow> False)"

lemma is_read_simps [simp]:
  "is_read (EGet rd k key r)" "is_read (EList rd k opts r')" "is_read (ENow t)"
  "is_read (EMetric m)" "\<not> is_read (ECreate obj c)" "\<not> is_read (EPatch sub pk base obj p)"
  "\<not> is_read (EUpdate sub obj p)" "\<not> is_read (EDelete obj pre d)"
  by (simp_all add: is_read_def)

definition read_only :: "'a prog \<Rightarrow> bool" where
  "read_only p \<longleftrightarrow> all_events is_read p"

lemma read_only_simps [simp]:
  "read_only (Ret x)"
  "read_only (Get rd k key f) \<longleftrightarrow> (\<forall>r. read_only (f r))"
  "read_only (ListObjects rd k opts f') \<longleftrightarrow> (\<forall>r. read_only (f' r))"
  "read_only (Now g) \<longleftrightarrow> (\<forall>t. read_only (g t))"
  "read_only (Metric m p) \<longleftrightarrow> read_only p"
  by (simp_all add: read_only_def)

lemma read_only_bind: "read_only p \<Longrightarrow> (\<And>x. read_only (g x)) \<Longrightarrow> read_only (bind p g)"
  unfolding read_only_def by (rule all_events_bind)

lemma wlp_False [simp]: "\<not> wlp p (\<lambda>_ _. False)"
  using exec_total [of p] by (auto simp: wlp_iff)

text \<open>A read-only program passes a monitor that allows reads and keeps its invariant.\<close>

lemma monitored_read_only:
  assumes "read_only p" and "I s"
    and "\<And>s e. I s \<Longrightarrow> is_read e \<Longrightarrow> W s e \<and> I (U s e)"
  shows "monitored A W U (\<lambda>_. I) p s"
  using assms(1,2) unfolding read_only_def
  by (induction p arbitrary: s) (use assms(3) in \<open>auto simp: Let_def\<close>)

section \<open>Monitors without a ghost state\<close>

definition guarded :: "(event \<Rightarrow> bool) \<Rightarrow> (event \<Rightarrow> bool) \<Rightarrow> ('a \<Rightarrow> bool) \<Rightarrow> 'a prog \<Rightarrow> bool" where
  "guarded A W Q p \<longleftrightarrow> monitored A (\<lambda>_. W) (\<lambda>s _. s) (\<lambda>x _. Q x) p (0 :: nat)"

lemma guarded_simps [simp]:
  "guarded A W Q (Ret x) \<longleftrightarrow> Q x"
  "guarded A W Q (Get rd k key fg) \<longleftrightarrow>
     (\<forall>g. A (EGet rd k key g) \<longrightarrow> W (EGet rd k key g) \<and> guarded A W Q (fg g))"
  "guarded A W Q (ListObjects rd k opts fl) \<longleftrightarrow>
     (\<forall>l. A (EList rd k opts l) \<longrightarrow> W (EList rd k opts l) \<and> guarded A W Q (fl l))"
  "guarded A W Q (Create obj fc) \<longleftrightarrow>
     (\<forall>c. A (ECreate obj c) \<longrightarrow> W (ECreate obj c) \<and> guarded A W Q (fc c))"
  "guarded A W Q (Patch sub pk base obj fc) \<longleftrightarrow>
     (\<forall>c. A (EPatch sub pk base obj c) \<longrightarrow>
        W (EPatch sub pk base obj c) \<and> guarded A W Q (fc c))"
  "guarded A W Q (Update sub obj fc) \<longleftrightarrow>
     (\<forall>c. A (EUpdate sub obj c) \<longrightarrow> W (EUpdate sub obj c) \<and> guarded A W Q (fc c))"
  "guarded A W Q (Delete obj pre fd) \<longleftrightarrow>
     (\<forall>d. A (EDelete obj pre d) \<longrightarrow> W (EDelete obj pre d) \<and> guarded A W Q (fd d))"
  "guarded A W Q (Now ft) \<longleftrightarrow> (\<forall>t. A (ENow t) \<longrightarrow> W (ENow t) \<and> guarded A W Q (ft t))"
  "guarded A W Q (Metric m p) \<longleftrightarrow> (A (EMetric m) \<longrightarrow> W (EMetric m) \<and> guarded A W Q p)"
  by (simp_all add: guarded_def Let_def)

lemma guarded_bind: "guarded A W Q (bind p g) \<longleftrightarrow> guarded A W (\<lambda>x. guarded A W Q (g x)) p"
  by (induction p) auto

lemma guarded_mono: "guarded A W Q p \<Longrightarrow> (\<And>x. Q x \<Longrightarrow> Q' x) \<Longrightarrow> guarded A W Q' p"
  by (induction p) auto

lemma guarded_bindI:
  "guarded A W R p \<Longrightarrow> (\<And>x. R x \<Longrightarrow> guarded A W Q (g x)) \<Longrightarrow> guarded A W Q (bind p g)"
  by (auto simp: guarded_bind elim: guarded_mono)

lemma accepted_stateless: "accepted (\<lambda>_. W) (\<lambda>s _. s) s es \<longleftrightarrow> list_all W es"
  by (induction es) auto

lemma guarded_sound:
  "guarded A W Q p \<Longrightarrow> exec p es x \<Longrightarrow> list_all A es \<Longrightarrow> list_all W es \<and> Q x"
  unfolding guarded_def by (drule (2) monitored_sound) (simp add: accepted_stateless)

lemma guarded_read_only:
  "read_only p \<Longrightarrow> (\<And>e. is_read e \<Longrightarrow> W e) \<Longrightarrow> guarded A W (\<lambda>_. True) p"
  unfolding guarded_def by (rule monitored_read_only) auto

lemma guarded_conj:
  "guarded A W Q p \<Longrightarrow> guarded A W' Q' p \<Longrightarrow>
   guarded A (\<lambda>e. W e \<and> W' e) (\<lambda>x. Q x \<and> Q' x) p"
  by (induction p) auto

lemma guarded_trivial: "(\<And>e. W e) \<Longrightarrow> (\<And>x. Q x) \<Longrightarrow> guarded A W Q p"
  by (induction p) auto

lemma guarded_weaken:
  "guarded A W Q p \<Longrightarrow> (\<And>e. A' e \<Longrightarrow> A e) \<Longrightarrow> (\<And>e. W e \<Longrightarrow> W' e) \<Longrightarrow>
   (\<And>x. Q x \<Longrightarrow> Q' x) \<Longrightarrow> guarded A' W' Q' p"
  by (induction p) auto


section \<open>Monitors that see the history\<close>

text \<open>The ghost state is the trace so far; the check of an event may depend on it.\<close>

abbreviation with_history ::
  "(event \<Rightarrow> bool) \<Rightarrow> (event list \<Rightarrow> event \<Rightarrow> bool) \<Rightarrow> ('a \<Rightarrow> bool) \<Rightarrow> 'a prog \<Rightarrow> event list \<Rightarrow> bool" where
  "with_history A W Q p h \<equiv> monitored A W (\<lambda>h e. h @ [e]) (\<lambda>x _. Q x) p h"

lemma ghost_history [simp]: "ghost (\<lambda>h e. h @ [e]) h es = h @ es"
  by (induction es arbitrary: h) auto

lemma accepted_history:
  "accepted W (\<lambda>h e. h @ [e]) h es \<Longrightarrow> es = es1 @ e # es2 \<Longrightarrow> W (h @ es1) e"
  by (induction es1 arbitrary: h es) auto

lemma with_history_sound:
  "with_history A W Q p h \<Longrightarrow> exec p (es1 @ e # es2) x \<Longrightarrow> list_all A (es1 @ e # es2) \<Longrightarrow>
   W (h @ es1) e"
  by (drule (2) monitored_sound) (auto dest: accepted_history)

lemma with_history_of_guarded:
  assumes "guarded A W' Q p" and "\<And>h e. W' e \<Longrightarrow> W h e"
  shows "with_history A W Q p h"
  using assms(1)
  by (induction p arbitrary: h) (auto simp: Let_def assms(2))

lemma with_history_bindI:
  assumes "guarded A W' R p" and "\<And>h e. W' e \<Longrightarrow> W h e"
    and "\<And>x h'. R x \<Longrightarrow> set h \<subseteq> set h' \<Longrightarrow> with_history A W Q (g x) h'"
  shows "with_history A W Q (bind p g) h"
proof -
  have "monitored A W (\<lambda>h e. h @ [e]) (\<lambda>x h'. R x \<and> set h \<subseteq> set h') p h'" if "set h \<subseteq> set h'" for h'
    using assms(1) that
    by (induction p arbitrary: h') (auto simp: Let_def assms(2) subset_insertI2)
  from this [OF subset_refl] show ?thesis
    by (auto simp: monitored_bind elim!: monitored_mono intro: assms(3))
qed

text \<open>Once the history justifies everything, nothing that follows is rejected.\<close>

lemma with_history_allowed:
  assumes "\<And>h' e. set h \<subseteq> set h' \<Longrightarrow> W h' e"
  shows "with_history A W (\<lambda>_. True) p h"
proof -
  have "with_history A W (\<lambda>_. True) p h'" if "set h \<subseteq> set h'" for h'
    using that
    by (induction p arbitrary: h') (simp_all add: Let_def assms subset_insertI2)
  from this [OF subset_refl] show ?thesis .
qed

section \<open>Monitors of the history\<close>

text \<open>Programs checked against the history, with a postcondition on the result and the history.\<close>

abbreviation hist ::
  "(event list \<Rightarrow> event \<Rightarrow> bool) \<Rightarrow> ('a \<Rightarrow> event list \<Rightarrow> bool) \<Rightarrow> 'a prog \<Rightarrow> event list \<Rightarrow> bool" where
  "hist W Q p h \<equiv> monitored (\<lambda>_. True) W (\<lambda>h e. h @ [e]) Q p h"

lemma hist_of_wlp:
  assumes "wlp p (\<lambda>es x. list_all is_read es \<and> R es x)" and "\<And>h e. is_read e \<Longrightarrow> W h e"
  shows "hist W (\<lambda>x h'. \<exists>es. h' = h @ es \<and> R es x) p h"
  using assms(1)
proof (induction p arbitrary: R h)
  case (Get rd k key f)
  then show ?case
    by (auto simp: Let_def assms(2) intro!: monitored_mono [OF Get.IH])
next
  case (ListObjects rd k opts f)
  then show ?case
    by (auto simp: Let_def assms(2) intro!: monitored_mono [OF ListObjects.IH])
next
  case (Now f)
  then show ?case
    by (auto simp: Let_def assms(2) intro!: monitored_mono [OF Now.IH])
next
  case (Metric m p)
  then show ?case
    by (auto simp: Let_def assms(2) intro!: monitored_mono [OF Metric.IH])
qed auto

end
