(* ===== verification/API_Server.thy ===== *)
theory API_Server
  imports Samples Monitors
begin

text \<open>
  The documented behaviour of the Kubernetes API server as the program relies on it, and a
  reference server that has it.

  The locale \<open>api_server\<close> is the contract: a step relation between server states, labelled with
  the events of client programs.  A direct read returns what is stored; a cached read promises
  nothing, since informer caches lag; a failed call changes nothing; a create fails when the
  object exists; a merge patch sends exactly the fields in which the modified object differs
  from its base, and every other field keeps the server's value; a delete removes the object.
  The reference server keeps objects in an association list and is used to run programs in
  the witnesses.
\<close>

fun kind_of :: "object \<Rightarrow> kind" where
  "kind_of (OAgentRequest _) = KAgentRequest"
| "kind_of (OSafetyPolicy _) = KSafetyPolicy"
| "kind_of (OGovernedResource _) = KGovernedResource"
| "kind_of (OAuditRecord _) = KAuditRecord"
| "kind_of (OLease _) = KLease"
| "kind_of (OAgentTrustProfile _) = KAgentTrustProfile"
| "kind_of (OAgentGraduationPolicy _) = KAgentGraduationPolicy"
| "kind_of (ODiagnosticAccuracySummary _) = KDiagnosticAccuracySummary"
| "kind_of (OAgentRegistration _) = KAgentRegistration"
| "kind_of (OMCPServer _) = KMCPServer"
| "kind_of (OSecret _) = KSecret"
| "kind_of (ODeployment _) = KDeployment"
| "kind_of (OEndpointSlice _) = KEndpointSlice"

fun meta_of :: "object \<Rightarrow> ObjectMeta" where
  "meta_of (OAgentRequest a) = Meta a"
| "meta_of (OSafetyPolicy a) = PolicyMeta a"
| "meta_of (OGovernedResource a) = GRMeta a"
| "meta_of (OAuditRecord a) = AuditMeta a"
| "meta_of (OLease a) = LeaseMeta a"
| "meta_of (OAgentTrustProfile a) = ProfileMeta a"
| "meta_of (OAgentGraduationPolicy a) = GradMeta a"
| "meta_of (ODiagnosticAccuracySummary a) = SummaryMeta a"
| "meta_of (OAgentRegistration a) = RegMeta a"
| "meta_of (OMCPServer a) = MCPMeta a"
| "meta_of (OSecret a) = SecretMeta a"
| "meta_of (ODeployment a) = DeploymentMeta a"
| "meta_of (OEndpointSlice a) = SliceMeta a"

type_synonym slot = "kind \<times> objkey"

definition slot_of :: "object \<Rightarrow> slot" where
  "slot_of obj = (kind_of obj, key_of (meta_of obj))"


section \<open>Merge patches\<close>

text \<open>A field \<open>b\<close> in the base, \<open>m\<close> in the modified object and \<open>c\<close> on the server becomes \<open>n\<close>.
  Numbers, strings and lists are replaced whole.  Nested objects are merged recursively,
  so only the two cases that do not depend on their structure are promised.\<close>

definition merged_atomic :: "'a \<Rightarrow> 'a \<Rightarrow> 'a \<Rightarrow> 'a \<Rightarrow> bool" where
  "merged_atomic b m c n \<longleftrightarrow> n = (if m = b then c else m)"

definition merged_nested :: "'a \<Rightarrow> 'a \<Rightarrow> 'a \<Rightarrow> 'a \<Rightarrow> bool" where
  "merged_nested b m c n \<longleftrightarrow> (m = b \<longrightarrow> n = c) \<and> (c = b \<longrightarrow> n = m)"

lemma merged_atomic_nested: "merged_atomic b m c n \<Longrightarrow> merged_nested b m c n"
  by (auto simp: merged_atomic_def merged_nested_def)

definition status_merged ::
  "AgentRequestStatus \<Rightarrow> AgentRequestStatus \<Rightarrow> AgentRequestStatus \<Rightarrow> AgentRequestStatus \<Rightarrow> bool" where
  "status_merged b m c n \<longleftrightarrow>
     merged_atomic (Phase b) (Phase m) (Phase c) (Phase n) \<and>
     merged_atomic (Conditions b) (Conditions m) (Conditions c) (Conditions n) \<and>
     merged_nested (Denial b) (Denial m) (Denial c) (Denial n) \<and>
     merged_nested (CPV b) (CPV m) (CPV c) (CPV n) \<and>
     merged_nested (ProviderContext b) (ProviderContext m) (ProviderContext c) (ProviderContext n) \<and>
     merged_atomic (Verdict b) (Verdict m) (Verdict c) (Verdict n) \<and>
     merged_atomic (VerdictReasonCode b) (VerdictReasonCode m) (VerdictReasonCode c)
       (VerdictReasonCode n) \<and>
     merged_atomic (VerdictNote b) (VerdictNote m) (VerdictNote c) (VerdictNote n) \<and>
     merged_atomic (VerdictBy b) (VerdictBy m) (VerdictBy c) (VerdictBy n) \<and>
     merged_nested (StatusGovernedResourceRef b) (StatusGovernedResourceRef m)
       (StatusGovernedResourceRef c) (StatusGovernedResourceRef n) \<and>
     merged_nested (ResultOf b) (ResultOf m) (ResultOf c) (ResultOf n)"

definition same_object_meta :: "ObjectMeta \<Rightarrow> ObjectMeta \<Rightarrow> bool" where
  "same_object_meta m n \<longleftrightarrow> n = m\<lparr>ResourceVersion := ResourceVersion n\<rparr>"

definition lease_merged :: "Lease \<Rightarrow> Lease \<Rightarrow> Lease \<Rightarrow> Lease \<Rightarrow> bool" where
  "lease_merged b m c n \<longleftrightarrow> key_of (LeaseMeta n) = key_of (LeaseMeta c) \<and>
     merged_atomic (HolderIdentity b) (HolderIdentity m) (HolderIdentity c) (HolderIdentity n) \<and>
     merged_atomic (LeaseDurationSeconds b) (LeaseDurationSeconds m) (LeaseDurationSeconds c)
       (LeaseDurationSeconds n) \<and>
     merged_atomic (AcquireTime b) (AcquireTime m) (AcquireTime c) (AcquireTime n) \<and>
     merged_atomic (RenewTime b) (RenewTime m) (RenewTime c) (RenewTime n)"


section \<open>The contract\<close>

text \<open>A failed call.\<close>

definition failed :: "event \<Rightarrow> bool" where
  "failed e = (case e of
     EGet _ _ _ (Inl _) \<Rightarrow> True | EList _ _ _ (Inl _) \<Rightarrow> True | ECreate _ (Inl _) \<Rightarrow> True
   | EPatch _ _ _ _ (Inl _) \<Rightarrow> True | EUpdate _ _ (Inl _) \<Rightarrow> True | EDelete _ _ (Inl _) \<Rightarrow> True
   | _ \<Rightarrow> False)"

locale api_server =
  fixes step :: "'s \<Rightarrow> event \<Rightarrow> 's \<Rightarrow> bool"
    and stored :: "'s \<Rightarrow> slot \<Rightarrow> object option"
  assumes read_frame: "step s e s' \<Longrightarrow> is_read e \<Longrightarrow> stored s' = stored s"
    and failed_frame: "step s e s' \<Longrightarrow> failed e \<Longrightarrow> stored s' = stored s"
    and get_direct: "step s (EGet Direct k key (Inr obj)) s' \<Longrightarrow> stored s (k, key) = Some obj"
    and well_keyed: "step s e s' \<Longrightarrow> stored s (k, key) = Some obj \<Longrightarrow> slot_of obj = (k, key)"
    and create: "step s (ECreate obj (Inr obj')) s' \<Longrightarrow>
      stored s (slot_of obj) = None \<and> stored s' = (stored s)(slot_of obj \<mapsto> obj')"
    and patch_request_status:
      "step s (EPatch StatusSubresource MergeFrom (OAgentRequest b) (OAgentRequest m)
         (Inr (OAgentRequest a))) s' \<Longrightarrow>
       \<exists>c n. stored s (slot_of (OAgentRequest m)) = Some (OAgentRequest c) \<and>
         stored s' = (stored s)(slot_of (OAgentRequest m) \<mapsto> OAgentRequest n) \<and>
         same_object_meta (Meta c) (Meta n) \<and> Spec n = Spec c \<and>
         status_merged (Status b) (Status m) (Status c) (Status n) \<and>
         Meta a = Meta n \<and> Spec a = Spec n \<and> Phase (Status a) = Phase (Status n) \<and>
         Conditions (Status a) = Conditions (Status n)"
    and patch_lease:
      "step s (EPatch MainResource MergeFrom (OLease lb) (OLease lm) (Inr obj')) s' \<Longrightarrow>
       \<exists>c n. stored s (slot_of (OLease lm)) = Some (OLease c) \<and>
         stored s' = (stored s)(slot_of (OLease lm) \<mapsto> OLease n) \<and> lease_merged lb lm c n"
    and patch_audit:
      "step s (EPatch MainResource MergeFrom (OAuditRecord ab) (OAuditRecord am) (Inr obj')) s' \<Longrightarrow>
       \<exists>c n. stored s (slot_of (OAuditRecord am)) = Some (OAuditRecord c) \<and>
         stored s' = (stored s)(slot_of (OAuditRecord am) \<mapsto> OAuditRecord n)"
    and delete: "step s (EDelete obj pre (Inr u)) s' \<Longrightarrow> stored s' = (stored s)(slot_of obj := None)"
begin

text \<open>Server states along a trace.\<close>

primrec steps :: "'s \<Rightarrow> event list \<Rightarrow> 's \<Rightarrow> bool" where
  "steps s [] s' \<longleftrightarrow> s' = s"
| "steps s (e # es) s' \<longleftrightarrow> (\<exists>s1. step s e s1 \<and> steps s1 es s')"

lemma steps_append: "steps s (es @ es') s' \<longleftrightarrow> (\<exists>s1. steps s es s1 \<and> steps s1 es' s')"
  by (induction es arbitrary: s) auto

text \<open>An event that writes at most one slot leaves the others alone.\<close>

definition request_at :: "'s \<Rightarrow> objkey \<Rightarrow> AgentRequest option" where
  "request_at s key = (case stored s (KAgentRequest, key) of
     Some (OAgentRequest a) \<Rightarrow> Some a | _ \<Rightarrow> None)"

definition lease_at :: "'s \<Rightarrow> objkey \<Rightarrow> Lease option" where
  "lease_at s key = (case stored s (KLease, key) of Some (OLease l) \<Rightarrow> Some l | _ \<Rightarrow> None)"

end

section \<open>The reference server\<close>

text \<open>\<open>Cache\<close> is the state an informer cache shows, which need not be the stored one.\<close>

record server =
  Objects :: "(slot \<times> object) list"
  Cache :: "(slot \<times> object) list"
  Clock :: time

definition srv_remove :: "slot \<Rightarrow> (slot \<times> object) list \<Rightarrow> (slot \<times> object) list" where
  "srv_remove k os = filter (\<lambda>(k', _). k' \<noteq> k) os"

lemma map_of_srv_remove [simp]: "map_of (srv_remove k os) = (map_of os)(k := None)"
  by (induction os) (auto simp: srv_remove_def fun_eq_iff)

definition mrg :: "'a \<Rightarrow> 'a \<Rightarrow> 'a \<Rightarrow> 'a" where
  "mrg b m c = (if m = b then c else m)"

definition merge_status ::
  "AgentRequestStatus \<Rightarrow> AgentRequestStatus \<Rightarrow> AgentRequestStatus \<Rightarrow> AgentRequestStatus" where
  "merge_status b m c =
     \<lparr>Phase = mrg (Phase b) (Phase m) (Phase c),
      Conditions = mrg (Conditions b) (Conditions m) (Conditions c),
      Denial = mrg (Denial b) (Denial m) (Denial c),
      LeaseName = mrg (LeaseName b) (LeaseName m) (LeaseName c),
      EvaluationGeneration =
        mrg (EvaluationGeneration b) (EvaluationGeneration m) (EvaluationGeneration c),
      CPV = mrg (CPV b) (CPV m) (CPV c),
      ProviderContext = mrg (ProviderContext b) (ProviderContext m) (ProviderContext c),
      Verdict = mrg (Verdict b) (Verdict m) (Verdict c),
      VerdictReasonCode = mrg (VerdictReasonCode b) (VerdictReasonCode m) (VerdictReasonCode c),
      VerdictNote = mrg (VerdictNote b) (VerdictNote m) (VerdictNote c),
      VerdictBy = mrg (VerdictBy b) (VerdictBy m) (VerdictBy c),
      VerdictAt = mrg (VerdictAt b) (VerdictAt m) (VerdictAt c),
      StatusGovernedResourceRef = mrg (StatusGovernedResourceRef b) (StatusGovernedResourceRef m)
        (StatusGovernedResourceRef c),
      ResultOf = mrg (ResultOf b) (ResultOf m) (ResultOf c)\<rparr>"

lemma merge_status_merged: "status_merged b m c (merge_status b m c)"
  by (simp add: status_merged_def merged_atomic_def merged_nested_def merge_status_def mrg_def)

definition merge_lease :: "Lease \<Rightarrow> Lease \<Rightarrow> Lease \<Rightarrow> Lease" where
  "merge_lease b m c = c\<lparr>
      HolderIdentity := mrg (HolderIdentity b) (HolderIdentity m) (HolderIdentity c),
      LeaseDurationSeconds :=
        mrg (LeaseDurationSeconds b) (LeaseDurationSeconds m) (LeaseDurationSeconds c),
      AcquireTime := mrg (AcquireTime b) (AcquireTime m) (AcquireTime c),
      RenewTime := mrg (RenewTime b) (RenewTime m) (RenewTime c)\<rparr>"

lemma merge_lease_merged: "lease_merged b m c (merge_lease b m c)"
  by (simp add: lease_merged_def merged_atomic_def merge_lease_def mrg_def)

definition merge_profile_status ::
  "AgentTrustProfileStatus \<Rightarrow> AgentTrustProfileStatus \<Rightarrow> AgentTrustProfileStatus \<Rightarrow>
     AgentTrustProfileStatus" where
  "merge_profile_status b m c =
     \<lparr>TrustLevel = mrg (TrustLevel b) (TrustLevel m) (TrustLevel c),
      ProfileDiagnosticAccuracy = mrg (ProfileDiagnosticAccuracy b) (ProfileDiagnosticAccuracy m)
        (ProfileDiagnosticAccuracy c),
      RecentAccuracy = mrg (RecentAccuracy b) (RecentAccuracy m) (RecentAccuracy c),
      ProfileTotalReviewed = mrg (ProfileTotalReviewed b) (ProfileTotalReviewed m)
        (ProfileTotalReviewed c),
      TotalExecutions = mrg (TotalExecutions b) (TotalExecutions m) (TotalExecutions c),
      SuccessRate = mrg (SuccessRate b) (SuccessRate m) (SuccessRate c),
      LastPromotedAt = mrg (LastPromotedAt b) (LastPromotedAt m) (LastPromotedAt c),
      LastDemotedAt = mrg (LastDemotedAt b) (LastDemotedAt m) (LastDemotedAt c),
      LastEvaluatedAt = mrg (LastEvaluatedAt b) (LastEvaluatedAt m) (LastEvaluatedAt c)\<rparr>"

definition merge_summary_status ::
  "DiagnosticAccuracySummaryStatus \<Rightarrow> DiagnosticAccuracySummaryStatus \<Rightarrow>
     DiagnosticAccuracySummaryStatus \<Rightarrow> DiagnosticAccuracySummaryStatus" where
  "merge_summary_status b m c =
     \<lparr>TotalReviewed = mrg (TotalReviewed b) (TotalReviewed m) (TotalReviewed c),
      CorrectCount = mrg (CorrectCount b) (CorrectCount m) (CorrectCount c),
      PartialCount = mrg (PartialCount b) (PartialCount m) (PartialCount c),
      IncorrectCount = mrg (IncorrectCount b) (IncorrectCount m) (IncorrectCount c),
      DiagnosticAccuracy = mrg (DiagnosticAccuracy b) (DiagnosticAccuracy m) (DiagnosticAccuracy c),
      LastUpdatedAt = mrg (LastUpdatedAt b) (LastUpdatedAt m) (LastUpdatedAt c),
      RecentVerdicts = mrg (RecentVerdicts b) (RecentVerdicts m) (RecentVerdicts c)\<rparr>"

text \<open>The new stored object of a patch; \<open>None\<close> when the objects are not of one kind.\<close>

definition merge_objects :: "subresource \<Rightarrow> object \<Rightarrow> object \<Rightarrow> object \<Rightarrow> object option" where
  "merge_objects sub b m c = (case b of
     OAgentRequest b' \<Rightarrow> (case m of OAgentRequest m' \<Rightarrow> (case c of OAgentRequest c' \<Rightarrow>
       (case sub of
          StatusSubresource \<Rightarrow>
            Some (OAgentRequest (c'\<lparr>Status := merge_status (Status b') (Status m') (Status c')\<rparr>))
        | MainResource \<Rightarrow> Some (OAgentRequest (c'\<lparr>Spec := mrg (Spec b') (Spec m') (Spec c')\<rparr>)))
       | _ \<Rightarrow> None) | _ \<Rightarrow> None)
   | OLease b' \<Rightarrow> (case m of OLease m' \<Rightarrow> (case c of OLease c' \<Rightarrow>
       Some (OLease (merge_lease b' m' c')) | _ \<Rightarrow> None) | _ \<Rightarrow> None)
   | OAuditRecord b' \<Rightarrow> (case m of OAuditRecord m' \<Rightarrow> (case c of OAuditRecord c' \<Rightarrow>
       Some (OAuditRecord (c'\<lparr>AuditSpec := mrg (AuditSpec b') (AuditSpec m') (AuditSpec c')\<rparr>))
       | _ \<Rightarrow> None) | _ \<Rightarrow> None)
   | OAgentTrustProfile b' \<Rightarrow> (case m of OAgentTrustProfile m' \<Rightarrow> (case c of OAgentTrustProfile c' \<Rightarrow>
       Some (OAgentTrustProfile (c'\<lparr>ProfileStatus :=
         merge_profile_status (ProfileStatus b') (ProfileStatus m') (ProfileStatus c')\<rparr>))
       | _ \<Rightarrow> None) | _ \<Rightarrow> None)
   | ODiagnosticAccuracySummary b' \<Rightarrow> (case m of ODiagnosticAccuracySummary m' \<Rightarrow>
       (case c of ODiagnosticAccuracySummary c' \<Rightarrow>
       Some (ODiagnosticAccuracySummary (c'\<lparr>SummaryStatus :=
         merge_summary_status (SummaryStatus b') (SummaryStatus m') (SummaryStatus c')\<rparr>))
       | _ \<Rightarrow> None) | _ \<Rightarrow> None)
   | _ \<Rightarrow> None)"

definition srv_get :: "reader \<Rightarrow> kind \<Rightarrow> objkey \<Rightarrow> server \<Rightarrow> object result \<times> server" where
  "srv_get rd k key w =
     (case map_of (case rd of Direct \<Rightarrow> Objects w | Cached \<Rightarrow> Cache w) (k, key) of
        None \<Rightarrow> (Inl (Api NotFound), w) | Some obj \<Rightarrow> (Inr obj, w))"

definition selected :: "kind \<Rightarrow> list_options \<Rightarrow> object \<Rightarrow> bool" where
  "selected k opts obj \<longleftrightarrow> kind_of obj = k \<and>
     (InNamespace opts = '''' \<or> Namespace (meta_of obj) = InNamespace opts) \<and>
     list_all (\<lambda>(l, v). map_of (Labels (meta_of obj)) l = Some v) (MatchingLabels opts)"

text \<open>Lists are paged when a limit is given; a continue token has the length of what remains.
  The server has no field indexes.\<close>

definition page_of :: "list_options \<Rightarrow> 'a list \<Rightarrow> 'a list \<times> string" where
  "page_of opts all =
     (let rest = (if Continue opts = '''' then all
                  else drop (length all - length (Continue opts)) all)
      in if Limit opts \<le> 0 then (rest, '''')
         else (take (nat (Limit opts)) rest,
               replicate (length rest - nat (Limit opts)) CHR ''x''))"

definition srv_list ::
  "reader \<Rightarrow> kind \<Rightarrow> list_options \<Rightarrow> server \<Rightarrow> (object list \<times> string) result \<times> server" where
  "srv_list rd k opts w =
     (if MatchingFields opts \<noteq> [] then Inl (Plain ''no index'')
      else Inr (page_of opts (filter (selected k opts)
        (map snd (case rd of Direct \<Rightarrow> Objects w | Cached \<Rightarrow> Cache w)))), w)"

definition srv_create :: "object \<Rightarrow> server \<Rightarrow> object result \<times> server" where
  "srv_create obj w = (case map_of (Objects w) (slot_of obj) of
     Some _ \<Rightarrow> (Inl (Api AlreadyExists), w)
   | None \<Rightarrow> (Inr obj, w\<lparr>Objects := (slot_of obj, obj) # Objects w\<rparr>))"

definition srv_patch ::
  "subresource \<Rightarrow> patch_kind \<Rightarrow> object \<Rightarrow> object \<Rightarrow> server \<Rightarrow> object result \<times> server" where
  "srv_patch sub pk b m w = (case map_of (Objects w) (slot_of m) of
     None \<Rightarrow> (Inl (Api NotFound), w)
   | Some c \<Rightarrow> (case merge_objects sub b m c of
         None \<Rightarrow> (Inl (Api BadRequest), w)
       | Some n \<Rightarrow> (Inr n, w\<lparr>Objects := map_put (slot_of m) n (Objects w)\<rparr>)))"

text \<open>An update replaces the stored object, on the status subresource its status only.\<close>

definition updated_object :: "subresource \<Rightarrow> object \<Rightarrow> object \<Rightarrow> object" where
  "updated_object sub obj c = (case (sub, obj, c) of
     (StatusSubresource, ODiagnosticAccuracySummary m, ODiagnosticAccuracySummary c') \<Rightarrow>
       ODiagnosticAccuracySummary (c'\<lparr>SummaryStatus := SummaryStatus m\<rparr>)
   | _ \<Rightarrow> obj)"

definition srv_update :: "subresource \<Rightarrow> object \<Rightarrow> server \<Rightarrow> object result \<times> server" where
  "srv_update sub obj w = (case map_of (Objects w) (slot_of obj) of
     None \<Rightarrow> (Inl (Api NotFound), w)
   | Some c \<Rightarrow> (let n = updated_object sub obj c
               in (Inr n, w\<lparr>Objects := map_put (slot_of obj) n (Objects w)\<rparr>)))"

definition srv_delete :: "object \<Rightarrow> string option \<Rightarrow> server \<Rightarrow> unit result \<times> server" where
  "srv_delete obj pre w = (case map_of (Objects w) (slot_of obj) of
     None \<Rightarrow> (Inl (Api NotFound), w)
   | Some _ \<Rightarrow> (Inr (), w\<lparr>Objects := srv_remove (slot_of obj) (Objects w)\<rparr>))"

definition srv_env :: "server env" where
  "srv_env = \<lparr>env_get = srv_get, env_list = srv_list, env_create = srv_create,
     env_patch = srv_patch, env_update = srv_update,
     env_delete = srv_delete, env_now = (\<lambda>w. (Clock w, w))\<rparr>"

text \<open>Every object sits in its own slot.\<close>

definition srv_ok :: "server \<Rightarrow> bool" where
  "srv_ok w \<longleftrightarrow> list_all (\<lambda>(k, obj). slot_of obj = k) (Objects w)"

text \<open>The steps of the reference server from such states: the calls above, the passing of time,
  and failures of any call without effect.\<close>

definition srv_step :: "server \<Rightarrow> event \<Rightarrow> server \<Rightarrow> bool" where
  "srv_step w e w' \<longleftrightarrow> srv_ok w \<and> (failed e \<and> w' = w \<or> (case e of
     EGet rd k key r \<Rightarrow> srv_get rd k key w = (r, w')
   | EList rd k opts r \<Rightarrow> srv_list rd k opts w = (r, w')
   | ECreate obj r \<Rightarrow> srv_create obj w = (r, w')
   | EPatch sub pk b m r \<Rightarrow> srv_patch sub pk b m w = (r, w')
   | EUpdate sub obj r \<Rightarrow> srv_update sub obj w = (r, w')
   | EDelete obj pre r \<Rightarrow> srv_delete obj pre w = (r, w')
   | ENow t \<Rightarrow> w' = w\<lparr>Clock := t\<rparr> \<and> Clock w \<le> t
   | EMetric m \<Rightarrow> w' = w))"

definition srv_stored :: "server \<Rightarrow> slot \<Rightarrow> object option" where
  "srv_stored w = map_of (Objects w)"

lemma srv_ok_stored: "srv_ok w \<Longrightarrow> map_of (Objects w) k = Some obj \<Longrightarrow> slot_of obj = k"
  by (auto simp: srv_ok_def list_all_iff dest!: map_of_SomeD)

lemma list_all_map_put:
  "list_all P m \<Longrightarrow> P (k, v) \<Longrightarrow> list_all P (map_put k v m)"
  by (induction k v m rule: map_put.induct) auto

lemma list_all_srv_remove: "list_all P os \<Longrightarrow> list_all P (srv_remove k os)"
  by (auto simp: srv_remove_def list_all_iff)

lemma merge_objects_slot:
  assumes "merge_objects sub b m c = Some n"
  shows "slot_of n = slot_of c"
  using assms
  by (auto simp: merge_objects_def slot_of_def merge_lease_def
      split: object.splits subresource.splits)

lemma updated_object_slot: "slot_of c = slot_of obj \<Longrightarrow> slot_of (updated_object sub obj c) = slot_of obj"
  by (auto simp: updated_object_def slot_of_def split: object.splits subresource.splits)

lemma srv_step_ok:
  assumes "srv_step w e w'"
  shows "srv_ok w'"
proof -
  have ok: "srv_ok w" using assms by (simp add: srv_step_def)
  have "srv_ok w'" if "srv_patch sub pk b m w = (r, w')" for sub pk b m r
    using that ok srv_ok_stored [OF ok, of "slot_of m"]
    by (auto simp: srv_patch_def srv_ok_def list_all_map_put dest!: merge_objects_slot
        split: option.splits)
  moreover have "srv_ok w'" if "srv_update sub obj w = (r, w')" for sub obj r
    using that ok srv_ok_stored [OF ok, of "slot_of obj"] updated_object_slot
    by (auto simp: srv_update_def srv_ok_def list_all_map_put Let_def split: option.splits)
  ultimately show ?thesis
    using assms ok
    by (auto simp: srv_step_def srv_get_def srv_list_def srv_create_def srv_delete_def
        srv_ok_def list_all_srv_remove split: event.splits option.splits)
qed

interpretation reference: api_server srv_step srv_stored
proof unfold_locales
  show "srv_stored s' = srv_stored s" if "srv_step s e s'" "is_read e" for s e s'
    using that by (cases e)
      (auto simp: srv_stored_def srv_step_def srv_get_def srv_list_def split: option.splits)
  show "srv_stored s' = srv_stored s" if "srv_step s e s'" "failed e" for s e s'
    using that by (cases e)
      (auto simp: srv_stored_def srv_step_def failed_def srv_get_def srv_list_def srv_create_def
        srv_patch_def srv_update_def Let_def srv_delete_def split: option.splits sum.splits)
  show "srv_stored s (k, key) = Some obj" if "srv_step s (EGet Direct k key (Inr obj)) s'"
    for s k key obj s'
    using that by (auto simp: srv_stored_def srv_step_def failed_def srv_get_def split: option.splits)
  show "slot_of obj = (k, key)" if "srv_step s e s'" "srv_stored s (k, key) = Some obj"
    for s e s' k key obj
    using that unfolding srv_stored_def srv_step_def by (blast intro: srv_ok_stored)
  show "srv_stored s (slot_of obj) = None \<and> srv_stored s' = (srv_stored s)(slot_of obj \<mapsto> obj')"
    if "srv_step s (ECreate obj (Inr obj')) s'" for s obj obj' s'
    using that
    by (auto simp: srv_stored_def srv_step_def failed_def srv_create_def split: option.splits)
  show "\<exists>c n. srv_stored s (slot_of (OAgentRequest m)) = Some (OAgentRequest c) \<and>
         srv_stored s' = (srv_stored s)(slot_of (OAgentRequest m) \<mapsto> OAgentRequest n) \<and>
         same_object_meta (Meta c) (Meta n) \<and> Spec n = Spec c \<and>
         status_merged (Status b) (Status m) (Status c) (Status n) \<and>
         Meta a = Meta n \<and> Spec a = Spec n \<and> Phase (Status a) = Phase (Status n) \<and>
         Conditions (Status a) = Conditions (Status n)"
    if "srv_step s (EPatch StatusSubresource MergeFrom (OAgentRequest b) (OAgentRequest m)
         (Inr (OAgentRequest a))) s'" for s b m a s'
    using that
    by (auto simp: srv_stored_def srv_step_def failed_def srv_patch_def merge_objects_def
        same_object_meta_def merge_status_merged split: option.splits object.splits)
  show "\<exists>c n. srv_stored s (slot_of (OLease lm)) = Some (OLease c) \<and>
         srv_stored s' = (srv_stored s)(slot_of (OLease lm) \<mapsto> OLease n) \<and> lease_merged lb lm c n"
    if "srv_step s (EPatch MainResource MergeFrom (OLease lb) (OLease lm) (Inr obj')) s'"
    for s lb lm obj' s'
    using that
    by (auto simp: srv_stored_def srv_step_def failed_def srv_patch_def merge_objects_def
        merge_lease_merged split: option.splits object.splits)
  show "\<exists>c n. srv_stored s (slot_of (OAuditRecord am)) = Some (OAuditRecord c) \<and>
         srv_stored s' = (srv_stored s)(slot_of (OAuditRecord am) \<mapsto> OAuditRecord n)"
    if "srv_step s (EPatch MainResource MergeFrom (OAuditRecord ab) (OAuditRecord am) (Inr obj')) s'"
    for s ab am obj' s'
    using that
    by (auto simp: srv_stored_def srv_step_def failed_def srv_patch_def merge_objects_def
        split: option.splits object.splits)
  show "srv_stored s' = (srv_stored s)(slot_of obj := None)"
    if "srv_step s (EDelete obj pre (Inr u)) s'" for s obj pre u s'
    using that
    by (auto simp: srv_stored_def srv_step_def failed_def srv_delete_def split: option.splits)
qed

text \<open>Running a program against the reference server gives an execution the server's steps
  explain.\<close>

lemma srv_env_sel [simp]:
  "env_get srv_env = srv_get" "env_list srv_env = srv_list" "env_create srv_env = srv_create"
  "env_patch srv_env = srv_patch" "env_delete srv_env = srv_delete"
  "env_update srv_env = srv_update" "env_now srv_env = (\<lambda>w. (Clock w, w))"
  by (simp_all add: srv_env_def)

lemma srv_step_calls:
  assumes "srv_ok w"
  shows "srv_get rd k key w = (r, w') \<Longrightarrow> srv_step w (EGet rd k key r) w'"
    and "srv_list rd k opts w = (rl, w') \<Longrightarrow> srv_step w (EList rd k opts rl) w'"
    and "srv_create obj w = (r, w') \<Longrightarrow> srv_step w (ECreate obj r) w'"
    and "srv_patch sub pk b m w = (r, w') \<Longrightarrow> srv_step w (EPatch sub pk b m r) w'"
    and "srv_delete obj pre w = (rd', w') \<Longrightarrow> srv_step w (EDelete obj pre rd') w'"
    and "srv_update sub obj w = (r, w') \<Longrightarrow> srv_step w (EUpdate sub obj r) w'"
    and "srv_step w (ENow (Clock w)) w" and "srv_step w (EMetric mt) w"
  using assms by (simp_all add: srv_step_def)

lemma run_steps: "run srv_env p w = (es, x, w') \<Longrightarrow> srv_ok w \<Longrightarrow> reference.steps w es w'"
  by (induction p arbitrary: w es)
    (auto simp: Let_def split: prod.splits, (blast intro: srv_step_calls srv_step_ok)+)

text \<open>A server that stores the given objects, with an up-to-date cache.\<close>

definition world :: "time \<Rightarrow> object list \<Rightarrow> server" where
  "world t os = \<lparr>Objects = map (\<lambda>obj. (slot_of obj, obj)) os,
     Cache = map (\<lambda>obj. (slot_of obj, obj)) os, Clock = t\<rparr>"

lemma srv_ok_world [simp]: "srv_ok (world t os)"
  by (simp add: srv_ok_def world_def list_all_iff)

abbreviation trace_of :: "'w env \<Rightarrow> 'a prog \<Rightarrow> 'w \<Rightarrow> event list" where
  "trace_of E p w \<equiv> fst (run E p w)"

abbreviation result_of :: "'w env \<Rightarrow> 'a prog \<Rightarrow> 'w \<Rightarrow> 'a" where
  "result_of E p w \<equiv> fst (snd (run E p w))"

lemma exec_run: "exec p (trace_of E p w) (result_of E p w)"
  by (metis prod.collapse run_exec)

end
