(* ===== verification/Controller_Safety.thy ===== *)
theory Controller_Safety
  imports AgentRequest_Controller API_Server
begin

text \<open>
  Safety of the AgentRequest reconciler, for every behaviour of the API server and of its other
  clients: what \<open>Reconcile\<close> writes, along which edges it moves a request, and what it never does.
\<close>


section \<open>The abstract state machine\<close>

definition terminal :: "phase \<Rightarrow> bool" where
  "terminal p \<longleftrightarrow> p \<in> {PhaseCompleted, PhaseFailed, PhaseDenied, PhaseExpired, PhaseObserved}"

definition phase_edge :: "phase \<Rightarrow> phase \<Rightarrow> bool" where
  "phase_edge p q \<longleftrightarrow> \<not> terminal p \<and>
     (q \<in> {PhaseDenied, PhaseCompleted, PhaseFailed} \<or>
      p = PhaseUnset \<and> q \<in> {PhasePending, PhaseAwaitingVerdict, PhaseObserved} \<or>
      p = PhasePending \<and> q \<in> {PhasePending, PhaseApproved} \<or>
      p = PhaseApproved \<and> q = PhaseExecuting \<or>
      p = PhaseAwaitingVerdict \<and> q = PhaseExpired)"


section \<open>The writes of a reconciliation\<close>

text \<open>The identity of a request: its key, its agent and its target.\<close>

type_synonym ident = "objkey \<times> string \<times> string"

definition ident :: "AgentRequest \<Rightarrow> ident" where
  "ident req = (key_of (Meta req), AgentIdentity (Spec req), URI (TargetOf (Spec req)))"

definition ident_holder :: "ident \<Rightarrow> string" where
  "ident_holder i = (case i of (key, agent, uri) \<Rightarrow> agent @ ''/'' @ snd key)"

definition ident_lease :: "libs \<Rightarrow> ident \<Rightarrow> objkey" where
  "ident_lease L i = (case i of (key, agent, uri) \<Rightarrow> (fst key, generateLeaseName L uri))"

lemma ident_eqs:
  "holderIdentity req = ident_holder (ident req)"
  "lease_key L req = ident_lease L (ident req)"
  "key_of (LeaseMeta (new_lease L r req t1 t2)) = ident_lease L (ident req)"
  "HolderIdentity (new_lease L r req t1 t2) = Some (ident_holder (ident req))"
  by (simp_all add: ident_def ident_holder_def ident_lease_def holderIdentity_def lease_key_def
      key_of_def new_lease_def empty_meta_def)

lemma ident_updates [simp]:
  "ident (set_phase p req) = ident req"
  "ident (set_denial d req) = ident req"
  "ident (set_conditions cs req) = ident req"
  "ident (req\<lparr>Status := st\<rparr>) = ident req"
  by (simp_all add: ident_def)

text \<open>What a successful status patch must answer: the same request, in the phase that was
  written.  The API server does so as long as nobody else writes the phase and nobody rewrites
  the agent or the target of a live request.\<close>

definition answer_ok :: "event \<Rightarrow> bool" where
  "answer_ok e = (case e of
     EPatch StatusSubresource _ _ (OAgentRequest req) (Inr (OAgentRequest req')) \<Rightarrow>
       ident req' = ident req \<and> phase_of req' = phase_of req
   | _ \<Rightarrow> True)"

lemma answer_ok_simps [simp]:
  "answer_ok (EGet rd k key g)" "answer_ok (EList rd k opts l)" "answer_ok (ECreate obj c)"
  "answer_ok (EUpdate sub obj c)" "answer_ok (EDelete obj pre d)" "answer_ok (ENow t)"
  "answer_ok (EMetric m)" "answer_ok (EPatch MainResource pk b obj p)"
  "answer_ok (EPatch StatusSubresource pk b obj' (Inl err))"
  "answer_ok (EPatch StatusSubresource pk b (OAgentRequest req) (Inr (OAgentRequest req'))) \<longleftrightarrow>
     ident req' = ident req \<and> phase_of req' = phase_of req"
  by (simp_all add: answer_ok_def split: object.splits)

text \<open>The fields of a request that the reconciler never writes.\<close>

definition untouched :: "AgentRequest \<Rightarrow> AgentRequest \<Rightarrow> bool" where
  "untouched b req \<longleftrightarrow> Meta req = Meta b \<and> Spec req = Spec b \<and> CPV (Status req) = CPV (Status b) \<and>
     ResultOf (Status req) = ResultOf (Status b) \<and> Verdict (Status req) = Verdict (Status b) \<and>
     VerdictBy (Status req) = VerdictBy (Status b) \<and>
     VerdictReasonCode (Status req) = VerdictReasonCode (Status b) \<and>
     StatusGovernedResourceRef (Status req) = StatusGovernedResourceRef (Status b) \<and>
     EvaluationGeneration (Status req) = EvaluationGeneration (Status b)"

lemma untouched_simps [simp]:
  "untouched b b"
  "untouched b (set_phase p req) = untouched b req"
  "untouched b (set_denial d req) = untouched b req"
  "untouched b (set_conditions cs req) = untouched b req"
  by (simp_all add: untouched_def)

definition write_ok :: "libs \<Rightarrow> ident \<Rightarrow> event \<Rightarrow> bool" where
  "write_ok L i e = (is_read e \<or> (case e of
     ECreate (OAuditRecord a) _ \<Rightarrow>
       (Namespace (AuditMeta a), AgentRequestRef (AuditSpec a)) = fst i
   | ECreate (OLease l) _ \<Rightarrow>
       key_of (LeaseMeta l) = ident_lease L i \<and> HolderIdentity l = Some (ident_holder i)
   | EPatch StatusSubresource pk (OAgentRequest b) (OAgentRequest req) _ \<Rightarrow>
       pk = MergeFrom \<and> ident b = i \<and> untouched b req \<and> phase_edge (phase_of b) (phase_of req) \<and>
       (phase_of req = PhaseDenied \<longrightarrow> Denial (Status req) \<noteq> None)
   | EPatch MainResource pk (OLease b) (OLease l) _ \<Rightarrow>
       LeaseMeta l = LeaseMeta b \<and> HolderIdentity l = Some (ident_holder i)
   | EPatch MainResource pk (OAuditRecord b) (OAuditRecord a) _ \<Rightarrow>
       Event (AuditSpec b) = AuditEventRequestCompleted \<and> Details (AuditSpec b) = None \<and>
       a = b\<lparr>AuditSpec := (AuditSpec b)\<lparr>Details := Details (AuditSpec a)\<rparr>\<rparr>
   | EDelete (OLease l) _ _ \<Rightarrow>
       HolderIdentity l \<in> {None, Some (ident_holder i)}
   | _ \<Rightarrow> False))"

lemma write_ok_simps [simp]:
  "write_ok L i (EGet rd k key g)" "write_ok L i (EList rd k opts l')"
  "write_ok L i (ENow t)" "write_ok L i (EMetric m)"
  "write_ok L i (ECreate (OAuditRecord a) c) \<longleftrightarrow>
     (Namespace (AuditMeta a), AgentRequestRef (AuditSpec a)) = fst i"
  "write_ok L i (ECreate (OLease l) c) \<longleftrightarrow>
     key_of (LeaseMeta l) = ident_lease L i \<and> HolderIdentity l = Some (ident_holder i)"
  "write_ok L i (EPatch StatusSubresource pk (OAgentRequest b) (OAgentRequest req) p) \<longleftrightarrow>
     pk = MergeFrom \<and> ident b = i \<and> untouched b req \<and> phase_edge (phase_of b) (phase_of req) \<and>
     (phase_of req = PhaseDenied \<longrightarrow> Denial (Status req) \<noteq> None)"
  "write_ok L i (EPatch MainResource pk (OLease bl) (OLease l) p) \<longleftrightarrow>
     LeaseMeta l = LeaseMeta bl \<and> HolderIdentity l = Some (ident_holder i)"
  "write_ok L i (EPatch MainResource pk (OAuditRecord ba) (OAuditRecord a) p) \<longleftrightarrow>
     Event (AuditSpec ba) = AuditEventRequestCompleted \<and> Details (AuditSpec ba) = None \<and>
     a = ba\<lparr>AuditSpec := (AuditSpec ba)\<lparr>Details := Details (AuditSpec a)\<rparr>\<rparr>"
  "write_ok L i (EDelete (OLease l) pre d) \<longleftrightarrow>
     HolderIdentity l \<in> {None, Some (ident_holder i)}"
  by (simp_all add: write_ok_def)

abbreviation safe :: "libs \<Rightarrow> ident \<Rightarrow> 'a prog \<Rightarrow> bool" where
  "safe L i p \<equiv> guarded answer_ok (write_ok L i) (\<lambda>_. True) p"

lemma guarded_patchStatus:
  assumes "ident b = i" and "untouched b req" and "phase_edge (phase_of b) (phase_of req)"
    and "phase_of req = PhaseDenied \<Longrightarrow> Denial (Status req) \<noteq> None"
    and "\<And>e. guarded answer_ok (write_ok L i) Q (k (Inl e))"
    and "\<And>req'. ident req' = i \<Longrightarrow> phase_of req' = phase_of req \<Longrightarrow> guarded answer_ok (write_ok L i) Q (k (Inr req'))"
  shows "guarded answer_ok (write_ok L i) Q (patchStatus b req k)"
proof -
  have "ident req = i" using assms(1,2) by (auto simp: untouched_def ident_def)
  have "guarded answer_ok (write_ok L i) Q (k (as_AgentRequest p))"
    if "answer_ok (EPatch StatusSubresource MergeFrom (OAgentRequest b) (OAgentRequest req) p)" for p
    using that assms(5,6) \<open>ident req = i\<close>
    by (cases "as_AgentRequest p") (auto simp: as_AgentRequest_Inr)
  with assms(1-4) show ?thesis
    by (simp add: patchStatus_def Let_def)
qed

lemma guarded_setCond [simp]:
  "guarded answer_ok (write_ok L i) Q (setCond L' c req k) \<longleftrightarrow>
     (\<forall>t. guarded answer_ok (write_ok L i) Q (k (set_conditions (SetStatusCondition L' t (Conditions (Status req)) c) req)))"
  by (simp add: setCond_def Let_def)

lemma mk_audit_sel [simp]:
  "Namespace (AuditMeta (mk_audit L req ev f t x now)) = Namespace (Meta req)"
  "AgentRequestRef (AuditSpec (mk_audit L req ev f t x now)) = Name (Meta req)"
  by (simp_all add: mk_audit_def own_audit_def empty_meta_def split: sum.splits)

lemma ident_fst: "fst (ident req) = (Namespace (Meta req), Name (Meta req))"
  by (simp add: ident_def key_of_def)

lemma safe_emit:
  "ident req = i \<Longrightarrow> safe L i (emitAuditRecord L' req ev f t x)"
  by (auto simp: emitAuditRecord_def Let_def ident_fst [symmetric] split: sum.splits)

lemma guarded_emit_bind:
  "ident req = i \<Longrightarrow> (\<And>a. guarded answer_ok (write_ok L i) Q (g a)) \<Longrightarrow>
   guarded answer_ok (write_ok L i) Q (bind (emitAuditRecord L' req ev f t x) g)"
  by (rule guarded_bindI [OF safe_emit]) auto

lemma safe_create_retry:
  "(Namespace (AuditMeta a), AgentRequestRef (AuditSpec a)) = fst i \<Longrightarrow>
   safe L i (create_retry n a err)"
  by (induction n arbitrary: err) (auto simp: Let_def split: sum.splits)

lemma guarded_retry_bind:
  "(Namespace (AuditMeta a), AgentRequestRef (AuditSpec a)) = fst i \<Longrightarrow>
   (\<And>x. guarded answer_ok (write_ok L i) Q (g x)) \<Longrightarrow> guarded answer_ok (write_ok L i) Q (bind (createAuditWithRetry a) g)"
  unfolding createAuditWithRetry_def by (rule guarded_bindI [OF safe_create_retry]) auto

lemma safe_releaseLock:
  "ident req = i \<Longrightarrow> safe L i (releaseLock L' req)"
  by (auto simp: releaseLock_def Let_def ident_eqs split: sum.splits)

lemma guarded_release_bind:
  "ident req = i \<Longrightarrow> (\<And>x. guarded answer_ok (write_ok L i) Q (g x)) \<Longrightarrow> guarded answer_ok (write_ok L i) Q (bind (releaseLock L' req) g)"
  by (rule guarded_bindI [OF safe_releaseLock]) auto

text \<open>The rules that walk through a handler.\<close>

lemmas guarded_rules = guarded_patchStatus guarded_emit_bind guarded_retry_bind guarded_release_bind

lemma safe_lockAcquired:
  assumes "ident req = i" and "phase_of req = PhasePending"
  shows "safe L i (lockAcquired L req fp)"
  using assms
  by (auto simp: lockAcquired_def Let_def phase_edge_def terminal_def
      intro!: guarded_rules split: sum.splits)

lemma safe_lockContended:
  assumes "ident req = i" and "phase_of req = PhasePending"
  shows "safe L i (lockContended L r req fp l)"
  using assms
  by (auto simp: lockContended_def Let_def phase_edge_def terminal_def
      intro!: guarded_rules split: sum.splits)

lemma safe_handleLockAcquisition:
  assumes "ident req = i" and "phase_of req = PhasePending"
  shows "safe L i (handleLockAcquisition L r req fp)"
  using assms safe_lockAcquired [OF assms] safe_lockContended [OF assms]
  by (auto simp: handleLockAcquisition_def takeOverLease_def lease_expired_def Let_def ident_eqs
      split: sum.splits option.splits)

lemma safe_handleApprovalWait:
  assumes "ident req = i" and "phase_of req = PhasePending"
  shows "safe L i (handleApprovalWait L r req)"
  using assms
  by (auto simp: handleApprovalWait_def Let_def phase_edge_def terminal_def
      intro!: guarded_rules safe_handleLockAcquisition split: sum.splits option.splits)

lemma mk_policy_audit_sel [simp]:
  "Namespace (AuditMeta (mk_policy_audit L req res now)) = Namespace (Meta req)"
  "AgentRequestRef (AuditSpec (mk_policy_audit L req res now)) = Name (Meta req)"
  by (simp_all add: mk_policy_audit_def own_audit_def empty_meta_def split: sum.splits)

lemma safe_handleEvaluationResult:
  assumes "ident req = i" and "phase_of req = PhasePending"
    and "(Namespace (AuditMeta a), AgentRequestRef (AuditSpec a)) = fst i"
  shows "safe L i (handleEvaluationResult L r req res a)"
  using assms
  by (auto simp: handleEvaluationResult_def Let_def phase_edge_def terminal_def
      intro!: guarded_rules safe_handleLockAcquisition split: sum.splits)

lemma safe_evaluateAndHandle:
  assumes "ident req = i" and "phase_of req = PhasePending"
  shows "safe L i (evaluateAndHandle L r req ps t cs)"
  using assms
  by (auto simp: evaluateAndHandle_def set_cpv_def ident_fst [symmetric]
      intro!: safe_handleEvaluationResult split: sum.splits option.splits)


section \<open>Context fetchers\<close>

text \<open>The fetchers the reconciler is configured with only read.\<close>

definition fetchers_read_only :: "AgentRequestReconciler \<Rightarrow> bool" where
  "fetchers_read_only r \<longleftrightarrow>
     (\<forall>f. TargetContextFetcher r = Some f \<longrightarrow> (\<forall>uri ns. read_only (f uri ns))) \<and>
     (\<forall>uri. read_only (FetchK8sDeployment r uri)) \<and> (\<forall>uri. read_only (FetchKarpenter r uri)) \<and>
     (\<forall>f. GitHubMCPFetcher r = Some f \<longrightarrow> (\<forall>uri. read_only (f uri)))"

lemma read_only_Fetch: "read_only (Fetch L uri ns)"
  by (auto simp: Fetch_def Let_def fetchDeploymentState_def fetchEndpointState_def
      intro!: read_only_bind split: sum.splits)

lemma read_only_fetchCascade:
  "(\<And>u n. read_only (f u n)) \<Longrightarrow> read_only (fetchCascade L f ns as t cs)"
  by (induction L f ns as t cs rule: fetchCascade.induct)
    (auto simp: Let_def intro!: read_only_bind split: prod.splits option.splits)

lemma read_only_fetchTargetContext:
  "fetchers_read_only r \<Longrightarrow> read_only (fetchTargetContext L r req)"
  by (auto simp: fetchTargetContext_def fetchers_read_only_def
      intro!: read_only_bind read_only_fetchCascade split: option.splits sum.splits prod.splits)

text \<open>The provider context changes the request's conditions at most.\<close>

definition only_conditions :: "AgentRequest \<Rightarrow> AgentRequest \<Rightarrow> bool" where
  "only_conditions req req' \<longleftrightarrow> (\<exists>cs. req' = set_conditions cs req)"

lemma set_conditions_self [simp]: "set_conditions (Conditions (Status req)) req = req"
  by (simp add: set_conditions_def)

lemma only_conditions_refl [simp]: "only_conditions req req"
  unfolding only_conditions_def by (metis set_conditions_self)

lemma only_conditions_set [simp]: "only_conditions req (set_conditions cs req)"
  by (auto simp: only_conditions_def)

lemma guarded_fetchContextFromProvider:
  assumes "fetchers_read_only r" and W: "\<And>e. is_read e \<Longrightarrow> W e"
  shows "guarded A W (\<lambda>x. case x of Inl _ \<Rightarrow> True | Inr (_, req') \<Rightarrow> only_conditions req req')
    (fetchContextFromProvider L r req gr)"
proof -
  have step: "guarded A W Q (bind p g)"
    if "read_only p" "\<And>x. guarded A W Q (g x)" for p :: "raw_json result prog"
      and Q :: "(raw_json option \<times> AgentRequest) result \<Rightarrow> bool" and g
    using that by (auto intro: guarded_bindI [OF guarded_read_only] W)
  show ?thesis
    using assms
    by (auto simp: fetchContextFromProvider_def Let_def fetchers_read_only_def setCond_def
        intro!: step split: sum.splits option.splits schema_outcome.splits)
qed

lemma is_read_write_ok: "is_read e \<Longrightarrow> write_ok L i e"
  by (simp add: write_ok_def)

lemma safe_providerStep:
  assumes "fetchers_read_only r" and "ident req = i" and "phase_of req = PhasePending"
    and k: "\<And>req'. only_conditions req req' \<Longrightarrow> safe L i (k req')"
  shows "safe L i (providerStep L r req k)"
proof -
  have "safe L i (bind (fetchContextFromProvider L r req gr) (\<lambda>f. case f of
                 Inl _ \<Rightarrow> k req
               | Inr (None, req) \<Rightarrow> k req
               | Inr (Some ctx, req) \<Rightarrow>
                   patchStatus req (req\<lparr>Status := (Status req)\<lparr>ProviderContext := Some ctx\<rparr>\<rparr>)
                     (\<lambda>p. case p of Inl e \<Rightarrow> Ret (Inl e) | Inr _ \<Rightarrow> Ret (Inr Requeue))))" for gr
    by (rule guarded_bindI [OF guarded_fetchContextFromProvider [OF assms(1) is_read_write_ok]])
      (use assms k [OF only_conditions_refl] in \<open>auto simp: only_conditions_def untouched_def
        phase_edge_def terminal_def intro!: guarded_patchStatus k
        split: sum.splits option.splits\<close>)
  then show ?thesis
    using k [OF only_conditions_refl]
    by (auto simp: providerStep_def split: option.splits sum.splits)
qed

lemma safe_reconcilePending:
  assumes "fetchers_read_only r" and "ident req = i" and "phase_of req = PhasePending"
  shows "safe L i (reconcilePending L r req)"
proof -
  have "safe L i (bind (fetchTargetContext L r req) (\<lambda>c. case c of
        Inl e \<Rightarrow> Ret (Inl e)
      | Inr (targetCtx, cascadeCtxs, _) \<Rightarrow>
          providerStep L r req (\<lambda>req. evaluateAndHandle L r req ps targetCtx cascadeCtxs)))" for ps
    by (rule guarded_bindI [OF guarded_read_only [OF read_only_fetchTargetContext [OF assms(1)]
            is_read_write_ok]])
      (use assms in \<open>auto simp: only_conditions_def
        intro!: safe_providerStep safe_evaluateAndHandle split: sum.splits\<close>)
  then show ?thesis
    using assms
    by (auto simp: reconcilePending_def resourceLabels_def Let_def
        intro!: safe_handleApprovalWait safe_handleLockAcquisition
        split: sum.splits option.splits)
qed


section \<open>The other phases\<close>

lemma safe_reconcileApproved:
  assumes "ident req = i" and "phase_of req = PhaseApproved"
  shows "safe L i (reconcileApproved L r req)"
  using assms
  by (auto simp: reconcileApproved_def failApproved_def heartbeatApproved_def Let_def ident_eqs
      phase_edge_def terminal_def intro!: guarded_rules split: sum.splits option.splits)

lemma safe_reconcileExecuting:
  assumes "ident req = i" and "phase_of req = PhaseExecuting"
  shows "safe L i (reconcileExecuting L r req)"
  using assms
  by (auto simp: reconcileExecuting_def lostLock_def executionTimedOut_def Let_def ident_eqs
      phase_edge_def terminal_def intro!: guarded_rules split: sum.splits option.splits)

lemma safe_reconcileAwaitingVerdict:
  assumes "ident req = i" and "phase_of req = PhaseAwaitingVerdict"
  shows "safe L i (reconcileAwaitingVerdict L req)"
  using assms
  by (auto simp: reconcileAwaitingVerdict_def Let_def phase_edge_def terminal_def
      intro!: guarded_rules split: sum.splits)

lemma guarded_finishRequest:
  assumes "ident req = i" and "\<not> terminal (phase_of req)" and "to \<in> {PhaseCompleted, PhaseFailed}"
    and "\<And>e. Q (Inl e)" and "\<And>req'. Q (Inr (True, req'))"
  shows "guarded answer_ok (write_ok L i) Q (finishRequest L req to ev)"
  using assms
  by (auto simp: finishRequest_def Let_def phase_edge_def intro!: guarded_rules split: sum.splits)

lemma guarded_checkAgentTransitions:
  assumes "ident req = i" and "\<not> terminal (phase_of req)"
  shows "guarded answer_ok (write_ok L i)
    (\<lambda>x. case x of Inr (False, req') \<Rightarrow> req' = req | _ \<Rightarrow> True) (checkAgentTransitions L r req)"
  using assms
  by (auto simp: checkAgentTransitions_def Let_def phase_edge_def
      intro!: guarded_rules guarded_finishRequest split: sum.splits)

lemma guarded_initializePhase:
  assumes "ident req = i" and "\<not> terminal (phase_of req)"
  shows "guarded answer_ok (write_ok L i)
    (\<lambda>x. case x of Inr (False, req') \<Rightarrow> req' = req | _ \<Rightarrow> True) (initializePhase L r req)"
  using assms
  by (auto simp: initializePhase_def submitWith_def startIn_def Let_def phase_edge_def terminal_def
      intro!: guarded_rules split: sum.splits option.splits)

lemma safe_dispatch:
  assumes "fetchers_read_only r" and "ident req = i"
  shows "safe L i (dispatch L r req)"
  using assms
  by (auto simp: dispatch_def intro!: safe_reconcilePending safe_reconcileApproved
      safe_reconcileExecuting safe_reconcileAwaitingVerdict split: phase.splits)

lemma safe_afterIntegrity:
  assumes "fetchers_read_only r" and "ident req = i" and "\<not> terminal (phase_of req)"
  shows "safe L i (afterIntegrity L r req)"
proof -
  have "safe L i (bind (initializePhase L r req) (\<lambda>x. case x of
               Inl e \<Rightarrow> Ret (Inl e)
             | Inr (handled, req) \<Rightarrow> if handled then Ret (Inr Done) else dispatch L r req))"
    by (rule guarded_bindI [OF guarded_initializePhase [OF assms(2,3)]])
      (use assms in \<open>auto intro!: safe_dispatch split: sum.splits bool.splits\<close>)
  then show ?thesis
    unfolding afterIntegrity_def
    by (intro guarded_bindI [OF guarded_checkAgentTransitions [OF assms(2,3)]])
      (auto split: sum.splits bool.splits)
qed

lemma guarded_checkGovernedResourceIntegrity:
  assumes "ident req = i" and "\<not> terminal (phase_of req)"
  shows "guarded answer_ok (write_ok L i)
    (\<lambda>x. case x of Inl _ \<Rightarrow> True | Inr req' \<Rightarrow> phase_of req' = PhaseDenied \<or> req' = req)
    (checkGovernedResourceIntegrity L ref req)"
  using assms
  by (auto simp: checkGovernedResourceIntegrity_def denyForResource_def Let_def phase_edge_def
      intro!: guarded_rules split: sum.splits)

lemma safe_backfill_items: "safe L i (backfill_items j as)"
  by (induction j as rule: backfill_items.induct) (auto split: sum.splits)

lemma safe_reconcileRequest:
  assumes "fetchers_read_only r" and "ident req = i"
  shows "safe L i (reconcileRequest L r req)"
proof (cases "terminal (phase_of req)")
  case True
  have "safe L i (bind (backfillCompletedAuditResult L req res) (\<lambda>b. case b of
               Inl e \<Rightarrow> Ret (Inl e) | Inr _ \<Rightarrow> Ret (Inr Done)))" for res
    by (auto simp: backfillCompletedAuditResult_def guarded_bind
        intro!: guarded_mono [OF safe_backfill_items] split: sum.splits)
  with True show ?thesis
    by (auto simp: reconcileRequest_def terminal_def split: option.splits)
next
  case False
  have "safe L i (bind (checkGovernedResourceIntegrity L ref req) (\<lambda>c. case c of
              Inl e \<Rightarrow> Ret (Inl e)
            | Inr req \<Rightarrow> if phase_of req = PhaseDenied then Ret (Inr Done)
                         else afterIntegrity L r req))" for ref
    by (rule guarded_bindI [OF guarded_checkGovernedResourceIntegrity [OF assms(2) False]])
      (use assms False in \<open>auto intro!: safe_afterIntegrity split: sum.splits\<close>)
  with False assms show ?thesis
    by (auto simp: reconcileRequest_def terminal_def intro!: safe_afterIntegrity
        split: option.splits)
qed

section \<open>Properties of a reconciliation\<close>

lemma exec_Reconcile:
  "exec (Reconcile L r key) (EGet rd KAgentRequest key (Inr (OAgentRequest req)) # es) res \<longleftrightarrow>
     rd = the_reader r \<and> exec (reconcileRequest L r req) es res"
  by (auto simp: Reconcile_def exec_simps)

lemma Reconcile_writes:
  assumes "exec (Reconcile L r key) (EGet rd KAgentRequest key (Inr (OAgentRequest req)) # es) res"
    and "fetchers_read_only r" and "list_all answer_ok es"
  shows "list_all (write_ok L (ident req)) es"
  using assms guarded_sound [OF safe_reconcileRequest [OF assms(2) refl]]
  by (auto simp: exec_Reconcile)

text \<open>The base and the modified request of a status patch.\<close>

definition status_write :: "event \<Rightarrow> (AgentRequest \<times> AgentRequest) option" where
  "status_write e = (case e of
     EPatch StatusSubresource _ (OAgentRequest b) (OAgentRequest m) _ \<Rightarrow> Some (b, m) | _ \<Rightarrow> None)"

lemma status_write_simps [simp]:
  "status_write (EGet rd k key r) = None" "status_write (EList rd k opts l) = None"
  "status_write (ECreate obj r) = None" "status_write (EUpdate sub obj r) = None"
  "status_write (EDelete obj pre d) = None" "status_write (ENow t) = None"
  "status_write (EMetric mt) = None" "status_write (EPatch MainResource pk ob om r) = None"
  "status_write (EPatch StatusSubresource pk (OAgentRequest b) (OAgentRequest m) r) = Some (b, m)"
  by (simp_all add: status_write_def)

lemma status_write_ok:
  assumes "write_ok L i e" and "status_write e = Some (b, m)"
  shows "ident b = i \<and> untouched b m \<and> phase_edge (phase_of b) (phase_of m) \<and>
    (phase_of m = PhaseDenied \<longrightarrow> Denial (Status m) \<noteq> None)"
  using assms
  by (auto simp: status_write_def split: event.splits object.splits subresource.splits)

lemma Reconcile_status_write:
  assumes "exec (Reconcile L r key) (EGet rd KAgentRequest key (Inr (OAgentRequest req)) # es) res"
    and "fetchers_read_only r" and "list_all answer_ok es"
    and "e \<in> set es" and "status_write e = Some (b, m)"
  shows "ident b = ident req \<and> untouched b m \<and> phase_edge (phase_of b) (phase_of m) \<and>
    (phase_of m = PhaseDenied \<longrightarrow> Denial (Status m) \<noteq> None)"
proof -
  have "write_ok L (ident req) e"
    using Reconcile_writes [OF assms(1-3)] assms(4) by (simp add: list_all_iff)
  then show ?thesis using assms(5) by (rule status_write_ok)
qed

text \<open>C3. Every status write of a reconciliation moves the request along an edge of the phase
  machine: never out of a terminal phase, to Approved only from Pending, to Executing only from
  Approved, to Expired only from AwaitingVerdict; and a write of Denied carries a denial.\<close>

theorem Reconcile_phase_edges:
  assumes "exec (Reconcile L r key) (EGet rd KAgentRequest key (Inr (OAgentRequest req)) # es) res"
    and "fetchers_read_only r" and "list_all answer_ok es"
    and "e \<in> set es" and "status_write e = Some (b, m)"
  shows "ident b = ident req \<and> phase_edge (phase_of b) (phase_of m) \<and>
    (phase_of m = PhaseDenied \<longrightarrow> Denial (Status m) \<noteq> None)"
  using Reconcile_status_write [OF assms] by blast

definition audit_backfill :: "event \<Rightarrow> bool" where
  "audit_backfill e = (case e of
     EPatch MainResource _ (OAuditRecord b) (OAuditRecord a) _ \<Rightarrow>
       Event (AuditSpec b) = AuditEventRequestCompleted \<and> Details (AuditSpec b) = None \<and>
       a = b\<lparr>AuditSpec := (AuditSpec b)\<lparr>Details := Details (AuditSpec a)\<rparr>\<rparr>
   | _ \<Rightarrow> False)"

lemma guarded_backfill_items:
  "guarded A (\<lambda>e. is_read e \<or> audit_backfill e) (\<lambda>_. True) (backfill_items j as)"
  by (induction j as rule: backfill_items.induct) (auto simp: audit_backfill_def split: sum.splits)

lemma guarded_backfill:
  "guarded A (\<lambda>e. is_read e \<or> audit_backfill e) (\<lambda>_. True)
     (bind (backfillCompletedAuditResult L req res) (\<lambda>b. case b of
        Inl e \<Rightarrow> Ret (Inl e) | Inr _ \<Rightarrow> Ret (Inr Done)))"
  by (auto simp: backfillCompletedAuditResult_def guarded_bind
      intro!: guarded_mono [OF guarded_backfill_items] split: sum.splits)

text \<open>C16. A request that has reached a terminal phase is left alone: a reconciliation of it
  reads, and at most fills in the missing details of its completion audit record.\<close>

theorem Reconcile_terminal_absorbing:
  assumes "exec (Reconcile L r key) (EGet rd KAgentRequest key (Inr (OAgentRequest req)) # es) res"
    and "terminal (phase_of req)"
  shows "list_all (\<lambda>e. is_read e \<or> audit_backfill e) es"
proof -
  have "guarded (\<lambda>_. True) (\<lambda>e. is_read e \<or> audit_backfill e) (\<lambda>_. True) (reconcileRequest L r req)"
    using assms(2)
    by (auto simp: reconcileRequest_def terminal_def guarded_backfill split: option.splits)
  from guarded_sound [OF this] assms(1) show ?thesis
    by (auto simp: exec_Reconcile list_all_iff)
qed

definition own_lease_event :: "libs \<Rightarrow> AgentRequest \<Rightarrow> event \<Rightarrow> bool" where
  "own_lease_event L req e = (case e of
     ECreate (OLease l) _ \<Rightarrow>
       key_of (LeaseMeta l) = lease_key L req \<and> HolderIdentity l = Some (holderIdentity req)
   | EPatch _ _ (OLease b) (OLease l) _ \<Rightarrow>
       LeaseMeta l = LeaseMeta b \<and> HolderIdentity l = Some (holderIdentity req)
   | EDelete (OLease l) _ _ \<Rightarrow> HolderIdentity l \<in> {None, Some (holderIdentity req)}
   | _ \<Rightarrow> True)"



section \<open>Witnesses\<close>

text \<open>A pending request whose policies have passed, alone on its server: the reconciliation
  acquires the lock and approves it.\<close>

definition pending_world :: server where
  "pending_world = world 0 [OAgentRequest (sample_in PhasePending [cond_now ConditionPolicyEvaluated])]"

definition pending_trace :: "event list" where
  "pending_trace = tl (trace_of srv_env (Reconcile ref_libs sample_reconciler sample_key) pending_world)"

lemma sample_fetchers [simp]: "fetchers_read_only sample_reconciler"
  by (simp add: fetchers_read_only_def sample_reconciler_def)

lemma pending_exec:
  "exec (Reconcile ref_libs sample_reconciler sample_key)
     (EGet Direct KAgentRequest sample_key
        (Inr (OAgentRequest (sample_in PhasePending [cond_now ConditionPolicyEvaluated]))) # pending_trace)
     (Inr Done)"
proof -
  have "trace_of srv_env (Reconcile ref_libs sample_reconciler sample_key) pending_world =
      EGet Direct KAgentRequest sample_key
        (Inr (OAgentRequest (sample_in PhasePending [cond_now ConditionPolicyEvaluated]))) # pending_trace"
    by code_simp
  moreover have "result_of srv_env (Reconcile ref_libs sample_reconciler sample_key) pending_world =
      Inr Done"
    by code_simp
  ultimately show ?thesis
    by (metis exec_run)
qed

lemma pending_answers: "list_all answer_ok pending_trace"
  by code_simp

lemma pending_approves:
  "\<exists>e b m. e \<in> set pending_trace \<and> status_write e = Some (b, m) \<and> phase_of m = PhaseApproved"
proof -
  have "list_ex (\<lambda>e. case status_write e of Some (b, m) \<Rightarrow> phase_of m = PhaseApproved | None \<Rightarrow> False)
      pending_trace"
    by code_simp
  then show ?thesis
    by (auto simp: list_ex_iff split: option.splits)
qed

theorem Reconcile_phase_edges_witness:
  "\<exists>e b m. e \<in> set pending_trace \<and> status_write e = Some (b, m) \<and>
     phase_edge (phase_of b) (phase_of m)"
  using Reconcile_phase_edges [OF pending_exec sample_fetchers pending_answers] pending_approves
  by blast



theorem Reconcile_terminal_absorbing_witness:
  "\<exists>es. exec (Reconcile ref_libs sample_reconciler sample_key)
      (EGet Direct KAgentRequest sample_key (Inr (OAgentRequest (sample_in PhaseDenied []))) # es)
      (Inr Done) \<and> list_all (\<lambda>e. is_read e \<or> audit_backfill e) es"
proof -
  have "exec (Reconcile ref_libs sample_reconciler sample_key)
      (EGet Direct KAgentRequest sample_key (Inr (OAgentRequest (sample_in PhaseDenied []))) # [])
      (Inr Done)"
    by (simp add: exec_Reconcile reconcileRequest_def sample_in_def exec_simps the_reader_def
        sample_reconciler_def)
  from this Reconcile_terminal_absorbing [OF this] show ?thesis
    by (auto simp: terminal_def sample_in_def)
qed

end
