(* ===== verification/Controller_Gates.thy ===== *)
theory Controller_Gates
  imports Controller_Safety
begin

text \<open>
  The two gates in front of Approved, for every behaviour of the API server: policy evaluation
  (and a human decision where one is required) comes before any attempt to take the lock, and
  the lock comes before the phase.
\<close>


section \<open>Taking the lock or approving\<close>

definition acquires :: "event \<Rightarrow> bool" where
  "acquires e = (case e of
     ECreate (OLease _) _ \<Rightarrow> True
   | EPatch MainResource _ (OLease b) (OLease l) _ \<Rightarrow> HolderIdentity l \<noteq> HolderIdentity b
   | EPatch StatusSubresource _ (OAgentRequest b) (OAgentRequest m) _ \<Rightarrow>
       phase_of m = PhaseApproved \<and> phase_of b \<noteq> PhaseApproved
   | _ \<Rightarrow> False)"

lemma acquires_simps [simp]:
  "\<not> acquires (EGet rd k key r)" "\<not> acquires (EList rd k opts ls)" "\<not> acquires (EUpdate sub obj r)"
  "\<not> acquires (EDelete obj pre d)" "\<not> acquires (ENow t)" "\<not> acquires (EMetric mt)"
  "\<not> acquires (ECreate (OAuditRecord a) r)" "acquires (ECreate (OLease l) r)"
  "acquires (EPatch MainResource pk (OLease bl) (OLease l) r) \<longleftrightarrow>
     HolderIdentity l \<noteq> HolderIdentity bl"
  "acquires (EPatch StatusSubresource pk (OAgentRequest b) (OAgentRequest m) r) \<longleftrightarrow>
     phase_of m = PhaseApproved \<and> phase_of b \<noteq> PhaseApproved"
  "\<not> acquires (EPatch sub pk (OAuditRecord ba) oa r)"
  by (simp_all add: acquires_def split: subresource.splits)

lemma acquires_not_read: "is_read e \<Longrightarrow> \<not> acquires e"
  by (auto simp: is_read_def split: event.splits)

abbreviation quiet :: "('a \<Rightarrow> bool) \<Rightarrow> 'a prog \<Rightarrow> bool" where
  "quiet Q p \<equiv> guarded answer_ok (\<lambda>e. \<not> acquires e) Q p"

lemma quiet_patchStatus:
  assumes "phase_of m = PhaseApproved \<Longrightarrow> phase_of b = PhaseApproved"
    and "\<And>e. quiet Q (k (Inl e))"
    and "\<And>m'. ident m' = ident m \<Longrightarrow> phase_of m' = phase_of m \<Longrightarrow> quiet Q (k (Inr m'))"
  shows "quiet Q (patchStatus b m k)"
proof -
  have "quiet Q (k (as_AgentRequest p))"
    if "answer_ok (EPatch StatusSubresource MergeFrom (OAgentRequest b) (OAgentRequest m) p)" for p
    using that assms(2,3) by (cases "as_AgentRequest p") (auto simp: as_AgentRequest_Inr)
  with assms(1) show ?thesis by (auto simp: patchStatus_def)
qed

lemma quiet_setCond [simp]:
  "quiet Q (setCond L c req k) \<longleftrightarrow>
     (\<forall>t. quiet Q (k (set_conditions (SetStatusCondition L t (Conditions (Status req)) c) req)))"
  by (simp add: setCond_def)

lemma quiet_emit: "quiet (\<lambda>_. True) (emitAuditRecord L req ev f t x)"
  by (auto simp: emitAuditRecord_def split: sum.splits)

lemma quiet_emit_bind:
  "(\<And>x. quiet Q (g x)) \<Longrightarrow> quiet Q (bind (emitAuditRecord L req ev f t xs) g)"
  by (rule guarded_bindI [OF quiet_emit])

lemma quiet_retry: "quiet (\<lambda>_. True) (create_retry n a err)"
  by (induction n arbitrary: err) (auto split: sum.splits)

lemma quiet_retry_bind: "(\<And>x. quiet Q (g x)) \<Longrightarrow> quiet Q (bind (createAuditWithRetry a) g)"
  unfolding createAuditWithRetry_def by (rule guarded_bindI [OF quiet_retry])

lemma quiet_releaseLock: "quiet (\<lambda>_. True) (releaseLock L req)"
  by (auto simp: releaseLock_def split: sum.splits)

lemma quiet_release_bind: "(\<And>x. quiet Q (g x)) \<Longrightarrow> quiet Q (bind (releaseLock L req) g)"
  by (rule guarded_bindI [OF quiet_releaseLock])

lemmas quiet_rules = quiet_patchStatus quiet_emit_bind quiet_retry_bind quiet_release_bind


section \<open>Handlers that neither take the lock nor approve\<close>

definition unchanged :: "AgentRequest \<Rightarrow> (bool \<times> AgentRequest) result \<Rightarrow> bool" where
  "unchanged req x = (case x of Inr (handled, req') \<Rightarrow> \<not> handled \<longrightarrow> req' = req | _ \<Rightarrow> True)"

lemma unchanged_simps [simp]:
  "unchanged req (Inl e)" "unchanged req (Inr (True, req'))"
  "unchanged req (Inr (False, req')) \<longleftrightarrow> req' = req"
  by (simp_all add: unchanged_def)

lemma quiet_finishRequest:
  assumes "to \<noteq> PhaseApproved"
  shows "quiet (unchanged req) (finishRequest L req0 to ev)"
  using assms by (auto simp: finishRequest_def Let_def intro!: quiet_rules split: sum.splits)

lemma quiet_checkAgentTransitions: "quiet (unchanged req) (checkAgentTransitions L r req)"
  by (auto simp: checkAgentTransitions_def Let_def intro!: quiet_rules quiet_finishRequest
      split: sum.splits)

lemma quiet_initializePhase: "quiet (unchanged req) (initializePhase L r req)"
  by (auto simp: initializePhase_def submitWith_def startIn_def Let_def intro!: quiet_rules
      split: sum.splits option.splits)

lemma quiet_checkIntegrity:
  "quiet (\<lambda>x. case x of Inl _ \<Rightarrow> True | Inr req' \<Rightarrow> phase_of req' = PhaseDenied \<or> req' = req)
     (checkGovernedResourceIntegrity L ref req)"
  by (auto simp: checkGovernedResourceIntegrity_def denyForResource_def Let_def
      intro!: quiet_rules split: sum.splits)

lemma quiet_reconcileApproved: "quiet (\<lambda>_. True) (reconcileApproved L r req)"
  by (auto simp: reconcileApproved_def failApproved_def heartbeatApproved_def Let_def
      intro!: quiet_rules split: sum.splits option.splits)

lemma quiet_reconcileExecuting: "quiet (\<lambda>_. True) (reconcileExecuting L r req)"
  by (auto simp: reconcileExecuting_def lostLock_def executionTimedOut_def Let_def
      intro!: quiet_rules split: sum.splits option.splits)

lemma quiet_reconcileAwaitingVerdict: "quiet (\<lambda>_. True) (reconcileAwaitingVerdict L req)"
  by (auto simp: reconcileAwaitingVerdict_def Let_def intro!: quiet_rules split: sum.splits)

text \<open>A denied or undecided evaluation stops before the lock.\<close>

lemma quiet_handleEvaluationResult:
  assumes "EvAction res \<in> {ResultDeny, ResultRequireApproval}"
  shows "quiet (\<lambda>_. True) (handleEvaluationResult L r req res a)"
  using assms
  by (auto simp: handleEvaluationResult_def Let_def intro!: quiet_rules split: sum.splits)

section \<open>The policy gate\<close>

definition applies :: "libs \<Rightarrow> strmap option \<Rightarrow> SafetyPolicy \<Rightarrow> bool" where
  "applies L ls p = (case ls of None \<Rightarrow> True | Some l \<Rightarrow> matchesSelector L l p)"

text \<open>What must have happened before: either an earlier evaluation is recorded in the
  conditions, and a required approval has been given; or, in this very execution, the policies
  of the namespace were listed and the evaluation of those that apply to the request's resource
  neither denied it nor asked for an approval.\<close>

definition evaluated_here ::
  "libs \<Rightarrow> AgentRequestReconciler \<Rightarrow> AgentRequest \<Rightarrow> event list \<Rightarrow> bool" where
  "evaluated_here L r req h \<longleftrightarrow> (\<exists>opts items tok ls req' t cs res.
     EList (the_reader r) KSafetyPolicy opts (Inr (items, tok)) \<in> set h \<and>
     InNamespace opts = Namespace (Meta req) \<and>
     (ls = None \<longleftrightarrow> governedResourceRef req = None) \<and>
     Meta req' = Meta req \<and> Spec req' = Spec req \<and>
     EvaluatorOf r req' (filter (applies L ls) (pick_SafetyPolicies items)) t cs = Inr res \<and>
     EvAction res \<notin> {ResultDeny, ResultRequireApproval})"

definition policy_gate ::
  "libs \<Rightarrow> AgentRequestReconciler \<Rightarrow> AgentRequest \<Rightarrow> event list \<Rightarrow> bool" where
  "policy_gate L r req h \<longleftrightarrow> phase_of req = PhasePending \<and>
     (if IsStatusConditionTrue L (Conditions (Status req)) ConditionPolicyEvaluated
      then IsStatusConditionTrue L (Conditions (Status req)) ConditionRequiresApproval \<longrightarrow>
        (\<exists>a. Approval (Spec req) = Some a \<and> Decision a = ''approved'')
      else evaluated_here L r req h)"

lemma evaluated_here_mono:
  "evaluated_here L r req h \<Longrightarrow> set h \<subseteq> set h' \<Longrightarrow> evaluated_here L r req h'"
  unfolding evaluated_here_def
  by (elim exE conjE, intro exI conjI, erule (1) rev_subsetD, assumption+)

lemma policy_gate_mono: "policy_gate L r req h \<Longrightarrow> set h \<subseteq> set h' \<Longrightarrow> policy_gate L r req h'"
  unfolding policy_gate_def using evaluated_here_mono by metis

abbreviation gated ::
  "libs \<Rightarrow> AgentRequestReconciler \<Rightarrow> AgentRequest \<Rightarrow> 'a prog \<Rightarrow> event list \<Rightarrow> bool" where
  "gated L r req p h \<equiv>
     with_history answer_ok (\<lambda>h e. acquires e \<longrightarrow> policy_gate L r req h) (\<lambda>_. True) p h"

lemma gated_quiet: "quiet Q p \<Longrightarrow> gated L r req p h"
  by (rule with_history_of_guarded [where W' = "\<lambda>e. \<not> acquires e"], erule guarded_mono) simp_all

lemma gated_allowed: "policy_gate L r req h \<Longrightarrow> gated L r req p h"
  by (rule with_history_allowed) (auto intro: policy_gate_mono)

lemma gated_bind:
  assumes "quiet R p"
    and "\<And>x h'. R x \<Longrightarrow> set h \<subseteq> set h' \<Longrightarrow> gated L r req (g x) h'"
  shows "gated L r req (bind p g) h"
  by (rule with_history_bindI [OF assms(1) _ assms(2)]) simp_all

lemma gated_evaluateAndHandle:
  assumes "phase_of req = PhasePending"
    and "\<not> IsStatusConditionTrue L (Conditions (Status req)) ConditionPolicyEvaluated"
    and "EList (the_reader r) KSafetyPolicy opts (Inr (items, tok)) \<in> set h"
    and "InNamespace opts = Namespace (Meta req)"
    and "ls = None \<longleftrightarrow> governedResourceRef req = None"
    and "Meta req' = Meta req" and "Spec req' = Spec req"
  shows "gated L r req
    (evaluateAndHandle L r req' (filter (applies L ls) (pick_SafetyPolicies items)) t cs) h"
proof -
  have main: "gated L r req (handleEvaluationResult L r req'' res a) h'"
    if "EvaluatorOf r req'' (filter (applies L ls) (pick_SafetyPolicies items)) t cs = Inr res"
      "Meta req'' = Meta req" "Spec req'' = Spec req" "set h \<subseteq> set h'" for req'' res a h'
  proof (cases "EvAction res \<in> {ResultDeny, ResultRequireApproval}")
    case True
    then show ?thesis by (rule gated_quiet [OF quiet_handleEvaluationResult])
  next
    case False
    have "evaluated_here L r req h"
      unfolding evaluated_here_def using assms(3-5) that(1-3) False
      by (intro exI [of _ opts] exI [of _ items] exI [of _ tok] exI [of _ ls] exI [of _ req'']
          exI [of _ t] exI [of _ cs] exI [of _ res]) simp
    then have "evaluated_here L r req h'" using that(4) by (rule evaluated_here_mono)
    with assms(1,2) have "policy_gate L r req h'" by (simp add: policy_gate_def)
    then show ?thesis by (rule gated_allowed)
  qed
  show ?thesis
    using assms(6,7)
    by (auto simp: evaluateAndHandle_def set_cpv_def Let_def intro!: main
        split: option.splits sum.splits)
qed

lemma quiet_fetchContextFromProvider:
  "fetchers_read_only r \<Longrightarrow>
   quiet (\<lambda>x. case x of Inl _ \<Rightarrow> True | Inr (_, req') \<Rightarrow> only_conditions req req')
     (fetchContextFromProvider L r req gr)"
  by (rule guarded_fetchContextFromProvider) (auto dest: acquires_not_read)

lemma gated_providerStep:
  assumes "fetchers_read_only r"
    and k: "\<And>req' h'. only_conditions req req' \<Longrightarrow> set h \<subseteq> set h' \<Longrightarrow> gated L r req0 (k req') h'"
  shows "gated L r req0 (providerStep L r req k) h"
proof -
  have main: "gated L r req0 (bind (fetchContextFromProvider L r req gr) (\<lambda>f. case f of
                 Inl _ \<Rightarrow> k req
               | Inr (None, req) \<Rightarrow> k req
               | Inr (Some ctx, req) \<Rightarrow>
                   patchStatus req (req\<lparr>Status := (Status req)\<lparr>ProviderContext := Some ctx\<rparr>\<rparr>)
                     (\<lambda>p. case p of Inl e \<Rightarrow> Ret (Inl e) | Inr _ \<Rightarrow> Ret (Inr Requeue)))) h'"
    if "set h \<subseteq> set h'" for gr h'
  proof (rule gated_bind [OF quiet_fetchContextFromProvider [OF assms(1)]])
    fix x :: "(raw_json option \<times> AgentRequest) result" and h'' assume x: "case x of Inl _ \<Rightarrow> True | Inr (_, req') \<Rightarrow> only_conditions req req'"
      and "set h' \<subseteq> set h''"
    then have sub: "set h \<subseteq> set h''" using that by blast
    have patch: "gated L r req0 (patchStatus b (b\<lparr>Status := (Status b)\<lparr>ProviderContext := Some ctx\<rparr>\<rparr>)
        (\<lambda>p. case p of Inl e \<Rightarrow> Ret (Inl e) | Inr _ \<Rightarrow> Ret (Inr Requeue))) h''" for b ctx
      by (rule gated_quiet [where Q = "\<lambda>_. True"]) (auto intro!: quiet_patchStatus)
    show "gated L r req0 (case x of
                 Inl _ \<Rightarrow> k req
               | Inr (None, req) \<Rightarrow> k req
               | Inr (Some ctx, req) \<Rightarrow>
                   patchStatus req (req\<lparr>Status := (Status req)\<lparr>ProviderContext := Some ctx\<rparr>\<rparr>)
                     (\<lambda>p. case p of Inl e \<Rightarrow> Ret (Inl e) | Inr _ \<Rightarrow> Ret (Inr Requeue))) h''"
      using x sub by (auto intro!: k patch split: sum.splits option.splits)
  qed
  show ?thesis
    by (auto simp: providerStep_def Let_def intro!: k main split: option.splits sum.splits)
qed

lemma gated_handleApprovalWait:
  assumes "phase_of req = PhasePending"
    and "IsStatusConditionTrue L (Conditions (Status req)) ConditionPolicyEvaluated"
  shows "gated L r req (handleApprovalWait L r req) h"
proof (cases "\<exists>a. Approval (Spec req) = Some a \<and> Decision a = ''approved''")
  case True
  with assms show ?thesis by (intro gated_allowed) (simp add: policy_gate_def)
next
  case False
  then have "quiet (\<lambda>_. True) (handleApprovalWait L r req)"
    by (auto simp: handleApprovalWait_def Let_def intro!: quiet_rules split: option.splits sum.splits)
  then show ?thesis by (rule gated_quiet)
qed

lemma quiet_fetchTargetContext:
  "fetchers_read_only r \<Longrightarrow> quiet (\<lambda>_. True) (fetchTargetContext L r req)"
  by (rule guarded_read_only [OF read_only_fetchTargetContext]) (auto dest: acquires_not_read)

lemma gated_reconcilePending:
  assumes "fetchers_read_only r" and "phase_of req = PhasePending"
  shows "gated L r req (reconcilePending L r req) h"
proof (cases "IsStatusConditionTrue L (Conditions (Status req)) ConditionPolicyEvaluated")
  case True
  show ?thesis
  proof (cases "IsStatusConditionTrue L (Conditions (Status req)) ConditionRequiresApproval")
    case True': True
    with True show ?thesis
      by (simp add: reconcilePending_def gated_handleApprovalWait assms)
  next
    case False
    with True assms(2) show ?thesis by (intro gated_allowed) (simp add: policy_gate_def)
  qed
next
  case False
  let ?opts = "list_all_objects\<lparr>InNamespace := Namespace (Meta req)\<rparr>"
  have step: "gated L r req (bind (fetchTargetContext L r req) (\<lambda>c. case c of
        Inl e \<Rightarrow> Ret (Inl e)
      | Inr (targetCtx, cascadeCtxs, _) \<Rightarrow>
          providerStep L r req (\<lambda>req. evaluateAndHandle L r req
            (filter (applies L ls) (pick_SafetyPolicies items)) targetCtx cascadeCtxs))) h'"
    if "EList (the_reader r) KSafetyPolicy ?opts (Inr (items, tok)) \<in> set h'"
      "ls = None \<longleftrightarrow> governedResourceRef req = None" for items tok ls h'
    by (rule gated_bind [OF quiet_fetchTargetContext [OF assms(1)]])
      (use that assms False in \<open>auto simp: only_conditions_def
        intro!: gated_providerStep gated_evaluateAndHandle [where opts = ?opts and tok = tok]
        split: sum.splits\<close>)
  have flt: "(\<lambda>p. case ls of None \<Rightarrow> True | Some l \<Rightarrow> matchesSelector L l p) = applies L ls" for ls
    by (auto simp: applies_def)
  show ?thesis
    using False
    by (auto simp: reconcilePending_def resourceLabels_def Let_def flt intro!: step
        split: sum.splits option.splits)
qed

lemma quiet_backfill:
  "quiet (\<lambda>_. True) (bind (backfillCompletedAuditResult L req res) (\<lambda>b. case b of
     Inl e \<Rightarrow> Ret (Inl e) | Inr _ \<Rightarrow> Ret (Inr Done)))"
  by (rule guarded_weaken [OF guarded_backfill [where A = "\<lambda>_. True"]])
    (auto simp: audit_backfill_def dest: acquires_not_read
      split: event.splits subresource.splits object.splits)

lemma gated_reconcileRequest:
  assumes "fetchers_read_only r"
  shows "gated L r req (reconcileRequest L r req) h"
proof -
  have disp: "gated L r req (dispatch L r req) h" for h
    by (auto simp: dispatch_def intro!: gated_reconcilePending [OF assms]
        gated_quiet [OF quiet_reconcileApproved] gated_quiet [OF quiet_reconcileExecuting]
        gated_quiet [OF quiet_reconcileAwaitingVerdict] split: phase.splits)
  have init: "gated L r req (bind (initializePhase L r req) (\<lambda>i. case i of
               Inl e \<Rightarrow> Ret (Inl e)
             | Inr (handled, req) \<Rightarrow> if handled then Ret (Inr Done) else dispatch L r req)) h" for h
    by (rule gated_bind [OF quiet_initializePhase])
      (auto simp: unchanged_def intro!: disp split: sum.splits)
  have after: "gated L r req (afterIntegrity L r req) h" for h
    unfolding afterIntegrity_def
    by (rule gated_bind [OF quiet_checkAgentTransitions])
      (auto simp: unchanged_def intro!: init split: sum.splits)
  have integ: "gated L r req (bind (checkGovernedResourceIntegrity L ref req) (\<lambda>c. case c of
              Inl e \<Rightarrow> Ret (Inl e)
            | Inr req \<Rightarrow> if phase_of req = PhaseDenied then Ret (Inr Done)
                         else afterIntegrity L r req)) h" for ref h
    by (rule gated_bind [OF quiet_checkIntegrity]) (auto intro!: after split: sum.splits)
  have fill: "gated L r req (bind (backfillCompletedAuditResult L req res) (\<lambda>b. case b of
               Inl e \<Rightarrow> Ret (Inl e) | Inr _ \<Rightarrow> Ret (Inr Done))) h" for res h
    by (rule gated_quiet [OF quiet_backfill])
  show ?thesis
    by (auto simp: reconcileRequest_def intro!: after integ fill split: option.splits)
qed

text \<open>C1. No request is approved, and no lock is taken for it, without passing policy: whenever a
  reconciliation creates or takes over a lease or writes phase Approved, the request was Pending
  and either an earlier evaluation is recorded and a required human approval was given, or the
  evaluation of the applicable policies earlier in the same execution neither denied the
  request nor required an approval.\<close>

theorem Reconcile_policy_gate:
  assumes "exec (Reconcile L r key)
      (EGet rd KAgentRequest key (Inr (OAgentRequest req)) # es1 @ e # es2) res"
    and "fetchers_read_only r" and "list_all answer_ok (es1 @ e # es2)" and "acquires e"
  shows "policy_gate L r req es1"
  using assms with_history_sound [OF gated_reconcileRequest [OF assms(2), of L req "[]"]]
  by (auto simp: exec_Reconcile)

section \<open>The lock gate\<close>

definition approves :: "event \<Rightarrow> bool" where
  "approves e = (case status_write e of
     Some (b, m) \<Rightarrow> phase_of m = PhaseApproved \<and> phase_of b \<noteq> PhaseApproved | None \<Rightarrow> False)"

lemma approves_acquires: "approves e \<Longrightarrow> acquires e"
  by (auto simp: approves_def status_write_def acquires_def
      split: event.splits object.splits subresource.splits)

text \<open>How a request knows that it holds the lock: it created the lease, it read the lease and
  found itself to be the holder, or it read a lease that had expired and put its own name on
  it.\<close>

definition created_lease :: "libs \<Rightarrow> ident \<Rightarrow> event list \<Rightarrow> bool" where
  "created_lease L i h \<longleftrightarrow> (\<exists>l a. ECreate (OLease l) (Inr a) \<in> set h \<and>
     key_of (LeaseMeta l) = ident_lease L i \<and> HolderIdentity l = Some (ident_holder i))"

definition found_own_lease :: "libs \<Rightarrow> ident \<Rightarrow> event list \<Rightarrow> bool" where
  "found_own_lease L i h \<longleftrightarrow> (\<exists>rd l. EGet rd KLease (ident_lease L i) (Inr (OLease l)) \<in> set h \<and>
     HolderIdentity l = Some (ident_holder i))"

definition took_over_lease :: "libs \<Rightarrow> ident \<Rightarrow> event list \<Rightarrow> bool" where
  "took_over_lease L i h \<longleftrightarrow> (\<exists>rd b l a x t.
     EGet rd KLease (ident_lease L i) (Inr (OLease b)) \<in> set h \<and>
     lease_expiry b = Some x \<and> ENow t \<in> set h \<and> x < t \<and>
     EPatch MainResource MergeFrom (OLease b) (OLease l) (Inr a) \<in> set h \<and>
     HolderIdentity l = Some (ident_holder i))"

definition lock_evidence :: "libs \<Rightarrow> ident \<Rightarrow> event list \<Rightarrow> bool" where
  "lock_evidence L i h \<longleftrightarrow> created_lease L i h \<or> found_own_lease L i h \<or> took_over_lease L i h"

lemma lock_evidence_mono:
  assumes "lock_evidence L i h" and "set h \<subseteq> set h'"
  shows "lock_evidence L i h'"
proof -
  have "created_lease L i h \<Longrightarrow> created_lease L i h'"
    using assms(2) unfolding created_lease_def by blast
  moreover have "found_own_lease L i h \<Longrightarrow> found_own_lease L i h'"
    using assms(2) unfolding found_own_lease_def by blast
  moreover have "took_over_lease L i h \<Longrightarrow> took_over_lease L i h'"
    using assms(2) unfolding took_over_lease_def
    by (elim exE conjE, intro exI conjI) (erule (1) rev_subsetD | assumption)+
  ultimately show ?thesis using assms(1) by (auto simp: lock_evidence_def)
qed

abbreviation locked :: "libs \<Rightarrow> ident \<Rightarrow> 'a prog \<Rightarrow> event list \<Rightarrow> bool" where
  "locked L i p h \<equiv>
     with_history answer_ok (\<lambda>h e. approves e \<longrightarrow> lock_evidence L i h) (\<lambda>_. True) p h"

lemma locked_quiet: "quiet Q p \<Longrightarrow> locked L i p h"
  by (rule with_history_of_guarded [where W' = "\<lambda>e. \<not> acquires e"], erule guarded_mono)
    (auto dest: approves_acquires)

lemma locked_allowed: "lock_evidence L i h \<Longrightarrow> locked L i p h"
  by (rule with_history_allowed) (auto intro: lock_evidence_mono)

lemma locked_bind:
  assumes "quiet R p" and "\<And>x h'. R x \<Longrightarrow> locked L i (g x) h'"
  shows "locked L i (bind p g) h"
  by (rule with_history_bindI [OF assms(1) _ assms(2)]) (auto dest: approves_acquires)

lemma approves_simps [simp]:
  "\<not> approves (EGet rd k key r)" "\<not> approves (EList rd k opts ls)" "\<not> approves (ENow t)"
  "\<not> approves (EMetric mt)" "\<not> approves (ECreate obj r)" "\<not> approves (EDelete obj pre d)"
  "\<not> approves (EPatch MainResource pk ob om r)"
  by (simp_all add: approves_def)

lemma quiet_lockContended: "quiet (\<lambda>_. True) (lockContended L r req fp l)"
  by (auto simp: lockContended_def Let_def intro!: quiet_rules split: sum.splits)

lemma locked_handleLockAcquisition:
  assumes "ident req = i"
  shows "locked L i (handleLockAcquisition L r req fp) h"
proof -
  have created: "lock_evidence L i (h @ [ENow t1, ENow t2, ECreate (OLease (new_lease L r req t1 t2)) (Inr a)])"
    for t1 t2 a
    using assms by (auto simp: lock_evidence_def created_lease_def ident_eqs)
  have found: "lock_evidence L i h'"
    if "EGet Cached KLease (lease_key L req) (Inr (OLease l)) \<in> set h'"
      "HolderIdentity l = Some (holderIdentity req)" for l h'
    using that assms unfolding lock_evidence_def found_own_lease_def ident_eqs by blast
  have taken: "lock_evidence L i h'"
    if "EGet Cached KLease (lease_key L req) (Inr (OLease b)) \<in> set h'" "lease_expiry b = Some x"
      "ENow t \<in> set h'" "x < t" "EPatch MainResource MergeFrom (OLease b) (OLease l) (Inr a) \<in> set h'"
      "HolderIdentity l = Some (holderIdentity req)" for b x t l a h'
    unfolding lock_evidence_def took_over_lease_def
    using that assms unfolding ident_eqs by blast
  have own: "locked L i (lockAcquired L req fp) h'"
    if "EGet Cached KLease (lease_key L req) (Inr (OLease l)) \<in> set h'"
      "HolderIdentity l = Some (holderIdentity req)" for l h'
    using that by (intro locked_allowed found)
  have over: "locked L i (takeOverLease L r req fp b) h'"
    if "EGet Cached KLease (lease_key L req) (Inr (OLease b)) \<in> set h'" "lease_expiry b = Some x"
      "ENow t \<in> set h'" "x < t" for b x t h'
    using that
    by (auto simp: takeOverLease_def Let_def intro!: locked_allowed taken [of b _ x t]
        split: sum.splits)
  have get: "locked L i (lease_expired existing (\<lambda>expired.
                        if HolderIdentity existing = Some (holderIdentity req)
                        then lockAcquired L req fp
                        else if expired then takeOverLease L r req fp existing
                        else lockContended L r req fp existing)) h'"
    if "EGet Cached KLease (lease_key L req) (Inr (OLease existing)) \<in> set h'" for existing h'
    using that
    by (auto simp: lease_expired_def Let_def
        intro!: locked_quiet [OF quiet_lockContended] own over split: option.splits)
  show ?thesis
    by (auto simp: handleLockAcquisition_def Let_def as_Lease_Inr
        intro!: locked_allowed [OF created] get split: sum.splits)
qed

lemma locked_patchStatus:
  assumes "phase_of m = PhaseApproved \<Longrightarrow> phase_of b = PhaseApproved"
    and "\<And>e h'. locked L i (k (Inl e)) h'"
    and "\<And>m' h'. ident m' = ident m \<Longrightarrow> phase_of m' = phase_of m \<Longrightarrow> locked L i (k (Inr m')) h'"
  shows "locked L i (patchStatus b m k) h"
proof -
  have "locked L i (k (as_AgentRequest p)) h'"
    if "answer_ok (EPatch StatusSubresource MergeFrom (OAgentRequest b) (OAgentRequest m) p)" for p h'
    using that assms(2,3) by (cases "as_AgentRequest p") (auto simp: as_AgentRequest_Inr)
  with assms(1) show ?thesis by (auto simp: patchStatus_def Let_def approves_def)
qed

lemma locked_handleApprovalWait:
  assumes "ident req = i"
  shows "locked L i (handleApprovalWait L r req) h"
proof (cases "\<exists>a. Approval (Spec req) = Some a \<and> Decision a = ''approved''")
  case True
  with assms show ?thesis
    by (auto simp: handleApprovalWait_def Let_def intro!: locked_handleLockAcquisition)
next
  case False
  then have "quiet (\<lambda>_. True) (handleApprovalWait L r req)"
    by (auto simp: handleApprovalWait_def Let_def intro!: quiet_rules split: option.splits sum.splits)
  then show ?thesis by (rule locked_quiet)
qed

lemma quiet_createAuditWithRetry: "quiet (\<lambda>_. True) (createAuditWithRetry a)"
  by (simp add: createAuditWithRetry_def quiet_retry)

lemma locked_handleEvaluationResult:
  assumes "ident req = i" and "phase_of req = PhasePending"
  shows "locked L i (handleEvaluationResult L r req res a) h"
proof (cases "EvAction res \<in> {ResultDeny, ResultRequireApproval}")
  case True
  then show ?thesis by (rule locked_quiet [OF quiet_handleEvaluationResult])
next
  case False
  with assms show ?thesis
    by (auto simp: handleEvaluationResult_def Let_def setCond_def
        intro!: locked_patchStatus locked_bind [OF quiet_createAuditWithRetry]
          locked_handleLockAcquisition split: sum.splits)
qed

lemma locked_evaluateAndHandle:
  assumes "ident req = i" and "phase_of req = PhasePending"
  shows "locked L i (evaluateAndHandle L r req ps t cs) h"
  using assms
  by (auto simp: evaluateAndHandle_def set_cpv_def Let_def intro!: locked_handleEvaluationResult
      split: option.splits sum.splits)

lemma locked_providerStep:
  assumes "fetchers_read_only r"
    and k: "\<And>req' h'. only_conditions req req' \<Longrightarrow> locked L i (k req') h'"
  shows "locked L i (providerStep L r req k) h"
proof -
  have main: "locked L i (bind (fetchContextFromProvider L r req gr) (\<lambda>f. case f of
                 Inl _ \<Rightarrow> k req
               | Inr (None, req) \<Rightarrow> k req
               | Inr (Some ctx, req) \<Rightarrow>
                   patchStatus req (req\<lparr>Status := (Status req)\<lparr>ProviderContext := Some ctx\<rparr>\<rparr>)
                     (\<lambda>p. case p of Inl e \<Rightarrow> Ret (Inl e) | Inr _ \<Rightarrow> Ret (Inr Requeue)))) h" for gr h
    by (rule locked_bind [OF quiet_fetchContextFromProvider [OF assms(1)]])
      (auto intro!: k locked_patchStatus split: sum.splits option.splits)
  show ?thesis
    by (auto simp: providerStep_def Let_def intro!: k main split: option.splits sum.splits)
qed

lemma locked_reconcilePending:
  assumes "fetchers_read_only r" and "phase_of req = PhasePending" and "ident req = i"
  shows "locked L i (reconcilePending L r req) h"
proof -
  have step: "locked L i (bind (fetchTargetContext L r req) (\<lambda>c. case c of
        Inl e \<Rightarrow> Ret (Inl e)
      | Inr (targetCtx, cascadeCtxs, _) \<Rightarrow>
          providerStep L r req (\<lambda>req. evaluateAndHandle L r req ps targetCtx cascadeCtxs))) h" for ps h
    by (rule locked_bind [OF quiet_fetchTargetContext [OF assms(1)]])
      (use assms in \<open>auto simp: only_conditions_def
        intro!: locked_providerStep locked_evaluateAndHandle split: sum.splits\<close>)
  show ?thesis
    by (auto simp: reconcilePending_def resourceLabels_def Let_def
        intro!: step locked_handleApprovalWait [OF assms(3)]
          locked_handleLockAcquisition [OF assms(3)]
        split: sum.splits option.splits)
qed

lemma locked_reconcileRequest:
  assumes "fetchers_read_only r" and "ident req = i"
  shows "locked L i (reconcileRequest L r req) h"
proof -
  have disp: "locked L i (dispatch L r req) h" for h
    using assms(2)
    by (auto simp: dispatch_def intro!: locked_reconcilePending [OF assms(1)]
        locked_quiet [OF quiet_reconcileApproved] locked_quiet [OF quiet_reconcileExecuting]
        locked_quiet [OF quiet_reconcileAwaitingVerdict] split: phase.splits)
  have init: "locked L i (bind (initializePhase L r req) (\<lambda>x. case x of
               Inl e \<Rightarrow> Ret (Inl e)
             | Inr (handled, req) \<Rightarrow> if handled then Ret (Inr Done) else dispatch L r req)) h" for h
    by (rule locked_bind [OF quiet_initializePhase])
      (auto simp: unchanged_def intro!: disp split: sum.splits)
  have after: "locked L i (afterIntegrity L r req) h" for h
    unfolding afterIntegrity_def
    by (rule locked_bind [OF quiet_checkAgentTransitions])
      (auto simp: unchanged_def intro!: init split: sum.splits)
  have integ: "locked L i (bind (checkGovernedResourceIntegrity L ref req) (\<lambda>c. case c of
              Inl e \<Rightarrow> Ret (Inl e)
            | Inr req \<Rightarrow> if phase_of req = PhaseDenied then Ret (Inr Done)
                         else afterIntegrity L r req)) h" for ref h
    by (rule locked_bind [OF quiet_checkIntegrity]) (auto intro!: after split: sum.splits)
  have fill: "locked L i (bind (backfillCompletedAuditResult L req res) (\<lambda>b. case b of
               Inl e \<Rightarrow> Ret (Inl e) | Inr _ \<Rightarrow> Ret (Inr Done))) h" for res h
    by (rule locked_quiet [OF quiet_backfill])
  show ?thesis
    by (auto simp: reconcileRequest_def intro!: after integ fill split: option.splits)
qed

text \<open>C2. A reconciliation writes phase Approved only while it can show that it holds the
  lock of the request's target: it created the lease, it read the lease and is its holder, or it
  read a lease whose expiry lies before a clock reading of this execution and put the request's
  name on it.\<close>

theorem Reconcile_lock_gate:
  assumes "exec (Reconcile L r key)
      (EGet rd KAgentRequest key (Inr (OAgentRequest req)) # es1 @ e # es2) res"
    and "fetchers_read_only r" and "list_all answer_ok (es1 @ e # es2)" and "approves e"
  shows "lock_evidence L (ident req) es1"
  using assms with_history_sound [OF locked_reconcileRequest [OF assms(2) refl, of L req "[]"]]
  by (auto simp: exec_Reconcile)

section \<open>Witnesses\<close>

lemma pending_split:
  "\<exists>es1 e es2. pending_trace = es1 @ e # es2 \<and> approves e"
proof -
  have "list_ex approves pending_trace" by code_simp
  then obtain e where "e \<in> set pending_trace" "approves e" by (auto simp: list_ex_iff)
  then show ?thesis by (metis split_list)
qed

theorem Reconcile_policy_gate_witness:
  "\<exists>es1 e es2. pending_trace = es1 @ e # es2 \<and> acquires e \<and>
     policy_gate ref_libs sample_reconciler
       (sample_in PhasePending [cond_now ConditionPolicyEvaluated]) es1"
proof -
  obtain es1 e es2 where tr: "pending_trace = es1 @ e # es2" and "approves e"
    using pending_split by blast
  then have "acquires e" by (simp add: approves_acquires)
  with Reconcile_policy_gate [OF pending_exec [unfolded tr] sample_fetchers
      pending_answers [unfolded tr]] tr
  show ?thesis by blast
qed

theorem Reconcile_lock_gate_witness:
  "\<exists>es1 e es2. pending_trace = es1 @ e # es2 \<and> approves e \<and>
     lock_evidence ref_libs (ident (sample_in PhasePending [cond_now ConditionPolicyEvaluated])) es1"
proof -
  obtain es1 e es2 where tr: "pending_trace = es1 @ e # es2" and "approves e"
    using pending_split by blast
  with Reconcile_lock_gate [OF pending_exec [unfolded tr] sample_fetchers
      pending_answers [unfolded tr]]
  show ?thesis by blast
qed

end
