(* ===== verification/Controller_Audit.thy ===== *)
theory Controller_Audit
  imports Controller_Safety
begin

text \<open>
  The audit trail of the AgentRequest reconciler: a reconciliation that returns without an
  error has recorded every phase change it made, and an audit record is written under a name
  that depends only on the request, the event and the transition.
\<close>


section \<open>Transitions without a record\<close>

text \<open>The audit record \<open>a\<close> of the request named \<open>n\<close> documents the transition from \<open>p\<close> to \<open>q\<close>.\<close>

definition documents :: "libs \<Rightarrow> string \<Rightarrow> AuditRecord \<Rightarrow> phase \<times> phase \<Rightarrow> bool" where
  "documents L n a pq = (case pq of (p, q) \<Rightarrow>
     AgentRequestRef (AuditSpec a) = n \<and>
     Name (AuditMeta a) = deterministicAuditName L n (audit_event_str (Event (AuditSpec a)))
       (phase_str p) (phase_str q))"

definition acknowledged :: "object result \<Rightarrow> bool" where
  "acknowledged r = (case r of Inr _ \<Rightarrow> True | Inl e \<Rightarrow> IsAlreadyExists e)"

lemma acknowledged_simps [simp]:
  "acknowledged (Inr obj)" "acknowledged (Inl e) \<longleftrightarrow> IsAlreadyExists e"
  by (simp_all add: acknowledged_def)

text \<open>The ghost state: phase changes the server has accepted and no record documents yet.\<close>

definition undocumented ::
  "libs \<Rightarrow> string \<Rightarrow> (phase \<times> phase) set \<Rightarrow> event \<Rightarrow> (phase \<times> phase) set" where
  "undocumented L n s e = (case e of
     EPatch StatusSubresource _ (OAgentRequest b) (OAgentRequest m) (Inr (OAgentRequest _)) \<Rightarrow>
       if phase_of b = phase_of m then s else insert (phase_of b, phase_of m) s
   | ECreate (OAuditRecord a) r \<Rightarrow> if acknowledged r then {x \<in> s. \<not> documents L n a x} else s
   | _ \<Rightarrow> s)"

lemma undocumented_simps [simp]:
  "undocumented L n s (EGet rd k key g) = s" "undocumented L n s (EList rd k opts ls) = s"
  "undocumented L n s (EUpdate sub obj r) = s" "undocumented L n s (EDelete obj pre d) = s"
  "undocumented L n s (ENow t) = s" "undocumented L n s (EMetric mt) = s"
  "undocumented L n s (ECreate (OLease l) r) = s"
  "undocumented L n s (EPatch MainResource pk ob om r) = s"
  "undocumented L n s (ECreate (OAuditRecord a) r) =
     (if acknowledged r then {x \<in> s. \<not> documents L n a x} else s)"
  "undocumented L n s (EPatch StatusSubresource pk (OAgentRequest b) (OAgentRequest m)
      (Inr (OAgentRequest m'))) =
     (if phase_of b = phase_of m then s else insert (phase_of b, phase_of m) s)"
  by (simp_all add: undocumented_def)

lemma undocumented_read: "is_read e \<Longrightarrow> undocumented L n s e = s"
  by (auto simp: is_read_def split: event.splits)

lemma documents_mk_audit:
  "documents L (Name (Meta req)) (mk_audit L req ev p q x now) (p, q)"
  by (simp add: documents_def mk_audit_def own_audit_def empty_meta_def split: sum.splits)

abbreviation recorded :: "libs \<Rightarrow> string \<Rightarrow> ('b result) prog \<Rightarrow> (phase \<times> phase) set \<Rightarrow> bool" where
  "recorded L n p s \<equiv> monitored answer_ok (\<lambda>_ _. True) (undocumented L n)
     (\<lambda>x s. isl x \<or> s = {}) p s"

lemma recorded_emit_bind:
  assumes "Name (Meta req) = n"
    and "\<And>e s'. recorded L n (g (Inl e)) s'"
    and "\<And>s'. s' \<subseteq> s - {(p, q)} \<Longrightarrow> recorded L n (g (Inr ())) s'"
  shows "recorded L n (bind (emitAuditRecord L req ev p q x) g) s"
proof -
  have "{y \<in> s. \<not> documents L n (mk_audit L req ev p q x now) y} \<subseteq> s - {(p, q)}" for now
    using assms(1) documents_mk_audit [of L req ev p q x now] by auto
  then have "recorded L n (g (Inr ())) {y \<in> s. \<not> documents L n (mk_audit L req ev p q x now) y}"
    for now by (rule assms(3))
  with assms(2) show ?thesis
    by (auto simp: emitAuditRecord_def Let_def split: sum.splits)
qed

lemma recorded_release_bind:
  assumes "\<And>x. recorded L n (g x) s"
  shows "recorded L n (bind (releaseLock L req) g) s"
  using assms by (auto simp: releaseLock_def Let_def split: sum.splits)

lemma recorded_retry_bind:
  assumes "\<And>x s'. s' \<subseteq> s \<Longrightarrow> recorded L n (g x) s'"
  shows "recorded L n (bind (createAuditWithRetry a) g) s"
proof -
  have "recorded L n (bind (create_retry k a err) g) s'" if "s' \<subseteq> s" for k err s'
    using that
    by (induction k arbitrary: err) (auto simp: Let_def intro!: assms split: sum.splits)
  then show ?thesis by (simp add: createAuditWithRetry_def)
qed

lemma recorded_patchStatus:
  assumes "\<And>e. recorded L n (k (Inl e)) s"
    and "\<And>m'. ident m' = ident m \<Longrightarrow> phase_of m' = phase_of m \<Longrightarrow>
      recorded L n (k (Inr m'))
        (if phase_of b = phase_of m then s else insert (phase_of b, phase_of m) s)"
  shows "recorded L n (patchStatus b m k) s"
proof -
  have "recorded L n (k (as_AgentRequest p)) (undocumented L n s
      (EPatch StatusSubresource MergeFrom (OAgentRequest b) (OAgentRequest m) p))"
    if "answer_ok (EPatch StatusSubresource MergeFrom (OAgentRequest b) (OAgentRequest m) p)" for p
  proof (cases "as_AgentRequest p")
    case (Inl e)
    then have "undocumented L n s
        (EPatch StatusSubresource MergeFrom (OAgentRequest b) (OAgentRequest m) p) = s"
      by (cases p rule: as_AgentRequest.cases) (auto simp: undocumented_def)
    with Inl assms(1) show ?thesis by simp
  next
    case (Inr m')
    with that assms(2) show ?thesis by (auto simp: as_AgentRequest_Inr)
  qed
  then show ?thesis by (simp add: patchStatus_def Let_def)
qed

lemma recorded_setCond [simp]:
  "recorded L n (setCond L' c req k) s \<longleftrightarrow>
     (\<forall>t. recorded L n (k (set_conditions (SetStatusCondition L' t (Conditions (Status req)) c) req)) s)"
  by (simp add: setCond_def Let_def)

lemma ident_name: "ident m' = ident m \<Longrightarrow> Name (Meta m') = Name (Meta m)"
  by (simp add: ident_def key_of_def)

lemma drained: "s' \<subseteq> s - {x} \<Longrightarrow> s \<subseteq> {x} \<Longrightarrow> s' = {}"
  by auto

lemmas recorded_rules = recorded_patchStatus recorded_emit_bind recorded_release_bind
  recorded_retry_bind

lemma recorded_lockAcquired:
  assumes "Name (Meta req) = n" and "phase_of req = fp" and "s = {}"
  shows "recorded L n (lockAcquired L req fp) s"
  using assms
  by (auto simp: lockAcquired_def Let_def dest!: ident_name drained intro!: recorded_rules split: sum.splits)

lemma recorded_handleLockAcquisition:
  assumes "Name (Meta req) = n" and "phase_of req = fp"
  shows "recorded L n (handleLockAcquisition L r req fp) {}"
  using assms
  by (auto simp: handleLockAcquisition_def lease_expired_def takeOverLease_def lockContended_def
      Let_def dest!: ident_name drained intro!: recorded_rules recorded_lockAcquired
      split: sum.splits option.splits)

lemma recorded_handleApprovalWait:
  assumes "Name (Meta req) = n"
  shows "recorded L n (handleApprovalWait L r req) {}"
  using assms
  by (auto simp: handleApprovalWait_def Let_def dest!: ident_name drained
      intro!: recorded_rules recorded_handleLockAcquisition split: sum.splits option.splits)

lemma recorded_handleEvaluationResult:
  assumes "Name (Meta req) = n"
  shows "recorded L n (handleEvaluationResult L r req res a) {}"
  using assms
  by (auto simp: handleEvaluationResult_def Let_def dest!: ident_name drained
      intro!: recorded_rules recorded_handleLockAcquisition split: sum.splits option.splits)

lemma recorded_evaluateAndHandle:
  assumes "Name (Meta req) = n"
  shows "recorded L n (evaluateAndHandle L r req ps t cs) {}"
  using assms
  by (auto simp: evaluateAndHandle_def set_cpv_def Let_def
      intro!: recorded_handleEvaluationResult split: sum.splits option.splits)

lemma monitored_conj_guarded:
  "monitored A W U Q p s \<Longrightarrow> guarded A W' R p \<Longrightarrow> monitored A W U (\<lambda>x s. Q x s \<and> R x) p s"
  by (induction p arbitrary: s) (auto simp: Let_def)

lemma recorded_bindI:
  assumes "recorded L n p s" and "guarded answer_ok W R p"
    and "\<And>e s'. recorded L n (g (Inl e)) s'"
    and "\<And>y. R (Inr y) \<Longrightarrow> recorded L n (g (Inr y)) {}"
  shows "recorded L n (bind p g) s"
proof (rule monitored_bindI [OF monitored_conj_guarded [OF assms(1,2)]])
  fix x and s' :: "(phase \<times> phase) set"
  assume "(isl x \<or> s' = {}) \<and> R x"
  with assms(3,4) show "recorded L n (g x) s'" by (cases x) auto
qed

lemma recorded_reads:
  assumes "guarded answer_ok is_read R p"
  shows "monitored answer_ok (\<lambda>_ _. True) (undocumented L n) (\<lambda>x s'. R x \<and> s' = s) p s"
  using assms by (induction p) (auto simp: Let_def)

lemma recorded_providerStep:
  assumes "fetchers_read_only r" and "Name (Meta req) = n"
    and k: "\<And>req'. only_conditions req req' \<Longrightarrow> recorded L n (k req') {}"
  shows "recorded L n (providerStep L r req k) {}"
proof -
  have "recorded L n (bind (fetchContextFromProvider L r req gr) (\<lambda>f. case f of
                 Inl _ \<Rightarrow> k req
               | Inr (None, req) \<Rightarrow> k req
               | Inr (Some ctx, req) \<Rightarrow>
                   patchStatus req (req\<lparr>Status := (Status req)\<lparr>ProviderContext := Some ctx\<rparr>\<rparr>)
                     (\<lambda>p. case p of Inl e \<Rightarrow> Ret (Inl e) | Inr _ \<Rightarrow> Ret (Inr Requeue)))) {}" for gr
    by (rule monitored_bindI [OF recorded_reads [OF guarded_fetchContextFromProvider [OF assms(1)]]])
      (use assms k [OF only_conditions_refl] in \<open>auto
        intro!: recorded_patchStatus k split: sum.splits option.splits\<close>)
  then show ?thesis
    using k [OF only_conditions_refl]
    by (auto simp: providerStep_def Let_def split: option.splits sum.splits)
qed

lemma recorded_reconcilePending:
  assumes "fetchers_read_only r" and "Name (Meta req) = n"
  shows "recorded L n (reconcilePending L r req) {}"
proof -
  have "recorded L n (bind (fetchTargetContext L r req) (\<lambda>c. case c of
        Inl e \<Rightarrow> Ret (Inl e)
      | Inr (targetCtx, cascadeCtxs, _) \<Rightarrow>
          providerStep L r req (\<lambda>req. evaluateAndHandle L r req ps targetCtx cascadeCtxs))) {}" for ps
    by (rule monitored_bindI [OF recorded_reads [OF guarded_read_only
            [OF read_only_fetchTargetContext [OF assms(1)]]]])
      (use assms in \<open>auto simp: only_conditions_def
        intro!: recorded_providerStep recorded_evaluateAndHandle split: sum.splits\<close>)
  then show ?thesis
    using assms
    by (auto simp: reconcilePending_def resourceLabels_def Let_def
        intro!: recorded_handleApprovalWait recorded_handleLockAcquisition
        split: sum.splits option.splits)
qed

lemma recorded_dispatch:
  assumes "fetchers_read_only r" and "Name (Meta req) = n"
  shows "recorded L n (dispatch L r req) {}"
proof -
  have "recorded L n (reconcileApproved L r req) {}"
    using assms
    by (auto simp: reconcileApproved_def failApproved_def heartbeatApproved_def Let_def
      dest!: ident_name drained intro!: recorded_rules split: sum.splits option.splits)
  moreover have "recorded L n (reconcileExecuting L r req) {}"
    using assms
    by (auto simp: reconcileExecuting_def lostLock_def executionTimedOut_def Let_def
      dest!: ident_name drained intro!: recorded_rules split: sum.splits option.splits)
  moreover have "recorded L n (reconcileAwaitingVerdict L req) {}"
    using assms
    by (auto simp: reconcileAwaitingVerdict_def Let_def
      dest!: ident_name drained intro!: recorded_rules split: sum.splits option.splits)
  ultimately show ?thesis
    using assms recorded_reconcilePending by (auto simp: dispatch_def split: phase.splits)
qed

lemma recorded_checkAgentTransitions:
  assumes "Name (Meta req) = n"
  shows "recorded L n (checkAgentTransitions L r req) {}"
  using assms
  by (auto simp: checkAgentTransitions_def finishRequest_def Let_def
      dest!: ident_name intro!: recorded_rules split: sum.splits) blast+

lemma recorded_initializePhase:
  assumes "Name (Meta req) = n"
  shows "recorded L n (initializePhase L r req) {}"
  using assms
  by (auto simp: initializePhase_def submitWith_def startIn_def Let_def
      dest!: ident_name drained intro!: recorded_rules split: sum.splits option.splits)

lemma recorded_checkGovernedResourceIntegrity:
  assumes "Name (Meta req) = n"
  shows "recorded L n (checkGovernedResourceIntegrity L ref req) {}"
  using assms
  by (auto simp: checkGovernedResourceIntegrity_def denyForResource_def Let_def
      dest!: ident_name drained intro!: recorded_rules split: sum.splits)

lemma recorded_afterIntegrity:
  assumes "fetchers_read_only r" and "Name (Meta req) = n" and "\<not> terminal (phase_of req)"
  shows "recorded L n (afterIntegrity L r req) {}"
proof -
  have "recorded L n (bind (initializePhase L r req) (\<lambda>x. case x of
               Inl e \<Rightarrow> Ret (Inl e)
             | Inr (handled, req) \<Rightarrow> if handled then Ret (Inr Done) else dispatch L r req)) {}"
    by (rule recorded_bindI [OF recorded_initializePhase guarded_initializePhase [OF refl assms(3)]])
      (use assms in \<open>auto intro!: recorded_dispatch split: sum.splits bool.splits\<close>)
  then show ?thesis
    unfolding afterIntegrity_def
    by (intro recorded_bindI [OF recorded_checkAgentTransitions
          guarded_checkAgentTransitions [OF refl assms(3)]])
      (use assms in \<open>auto split: sum.splits bool.splits\<close>)
qed

lemma recorded_backfill_items: "recorded L n (backfill_items j as) {}"
  by (induction j as rule: backfill_items.induct) (auto simp: Let_def split: sum.splits)

lemma recorded_reconcileRequest:
  assumes "fetchers_read_only r" and "Name (Meta req) = n"
  shows "recorded L n (reconcileRequest L r req) {}"
proof (cases "terminal (phase_of req)")
  case True
  have "recorded L n (bind (backfillCompletedAuditResult L req res) (\<lambda>b. case b of
               Inl e \<Rightarrow> Ret (Inl e) | Inr _ \<Rightarrow> Ret (Inr Done))) {}" for res
    by (auto simp: backfillCompletedAuditResult_def monitored_bind Let_def
        intro!: monitored_mono [OF recorded_backfill_items] split: sum.splits)
  with True show ?thesis
    by (auto simp: reconcileRequest_def terminal_def split: option.splits)
next
  case False
  have "recorded L n (bind (checkGovernedResourceIntegrity L ref req) (\<lambda>c. case c of
              Inl e \<Rightarrow> Ret (Inl e)
            | Inr req \<Rightarrow> if phase_of req = PhaseDenied then Ret (Inr Done)
                         else afterIntegrity L r req)) {}" for ref
    by (rule recorded_bindI [OF recorded_checkGovernedResourceIntegrity
          guarded_checkGovernedResourceIntegrity [OF refl False]])
      (use assms False in \<open>auto intro!: recorded_afterIntegrity split: sum.splits\<close>)
  with False assms show ?thesis
    by (auto simp: reconcileRequest_def terminal_def intro!: recorded_afterIntegrity
        split: option.splits)
qed


section \<open>The audit trail of a reconciliation\<close>

lemma documented_later:
  assumes "pq \<in> s" and "pq \<notin> ghost (undocumented L n) s es"
  shows "\<exists>a r. ECreate (OAuditRecord a) r \<in> set es \<and> acknowledged r \<and> documents L n a pq"
  using assms
proof (induction es arbitrary: s)
  case (Cons e es)
  show ?case
  proof (cases "pq \<in> undocumented L n s e")
    case True
    with Cons.IH [OF True] Cons.prems show ?thesis by auto
  next
    case False
    with Cons.prems have "\<exists>a r. e = ECreate (OAuditRecord a) r \<and> acknowledged r \<and> documents L n a pq"
      by (auto simp: undocumented_def split: event.splits object.splits subresource.splits
          sum.splits if_splits)
    then show ?thesis by auto
  qed
qed simp

text \<open>C4. A reconciliation that returns without an error has documented every phase change
  it made: for every status patch the server accepted that changed the phase, an AuditRecord whose
  deterministic name encodes the request, the event and that transition is created after the
  patch and acknowledged (created now, or found to exist already).\<close>

theorem Reconcile_audits_transitions:
  assumes "exec (Reconcile L r key)
      (EGet rd KAgentRequest key (Inr (OAgentRequest req)) # es1 @
       EPatch StatusSubresource pk (OAgentRequest b) (OAgentRequest m) (Inr (OAgentRequest m')) # es2)
      (Inr y)"
    and "fetchers_read_only r" and "list_all answer_ok (es1 @
       EPatch StatusSubresource pk (OAgentRequest b) (OAgentRequest m) (Inr (OAgentRequest m')) # es2)"
    and "phase_of b \<noteq> phase_of m"
  shows "\<exists>a c. ECreate (OAuditRecord a) c \<in> set es2 \<and> acknowledged c \<and>
    documents L (Name (Meta req)) a (phase_of b, phase_of m)"
proof (rule documented_later)
  let ?U = "undocumented L (Name (Meta req))"
  let ?s = "ghost ?U {} es1"
  show "(phase_of b, phase_of m) \<in> insert (phase_of b, phase_of m) ?s" by simp
  have "exec (reconcileRequest L r req) (es1 @
       EPatch StatusSubresource pk (OAgentRequest b) (OAgentRequest m) (Inr (OAgentRequest m')) # es2)
      (Inr y)"
    using assms(1) by (simp add: exec_Reconcile)
  from monitored_sound [OF this recorded_reconcileRequest [OF assms(2) refl] assms(3)] assms(4)
  show "(phase_of b, phase_of m) \<notin> ghost ?U (insert (phase_of b, phase_of m) ?s) es2"
    by simp
qed

theorem Reconcile_audits_transitions_witness:
  "\<exists>es1 pk b m m' es2. pending_trace = es1 @
       EPatch StatusSubresource pk (OAgentRequest b) (OAgentRequest m) (Inr (OAgentRequest m')) # es2 \<and>
     phase_of m = PhaseApproved \<and>
     (\<exists>a c. ECreate (OAuditRecord a) c \<in> set es2 \<and> acknowledged c \<and>
        documents ref_libs ''req-1'' a (phase_of b, phase_of m))"
proof -
  define hit where "hit e \<longleftrightarrow> (case e of
      EPatch StatusSubresource _ (OAgentRequest b) (OAgentRequest m) c \<Rightarrow>
        \<not> isl (as_AgentRequest c) \<and> phase_of b = PhasePending \<and> phase_of m = PhaseApproved
    | _ \<Rightarrow> False)" for e
  have decoded: "\<exists>m'. c = Inr (OAgentRequest m')" if "\<not> isl (as_AgentRequest c)" for c
    using that by (cases c rule: as_AgentRequest.cases) auto
  have "list_ex hit pending_trace" unfolding hit_def by code_simp
  then obtain e where "e \<in> set pending_trace" "hit e" by (auto simp: list_ex_iff)
  then obtain es1 es2 where tr: "pending_trace = es1 @ e # es2" by (metis split_list)
  with \<open>hit e\<close> obtain pk b m m' where e: "e = EPatch StatusSubresource pk (OAgentRequest b)
      (OAgentRequest m) (Inr (OAgentRequest m'))" and ph: "phase_of b = PhasePending"
      "phase_of m = PhaseApproved"
    by (auto simp: hit_def dest!: decoded split: event.splits object.splits subresource.splits)
  have "Name (Meta (sample_in PhasePending [cond_now ConditionPolicyEvaluated])) = ''req-1''"
    by code_simp
  with Reconcile_audits_transitions [OF pending_exec [unfolded tr e] sample_fetchers
      pending_answers [unfolded tr e]] tr e ph
  show ?thesis by (intro exI [of _ es1] exI [of _ pk] exI [of _ b] exI [of _ m] exI [of _ m'] exI [of _ es2]) auto
qed

end
