(* ===== verification/Controller_Hazards.thy ===== *)
theory Controller_Hazards
  imports Controller_Safety
begin

text \<open>
  Executions of the reconciler that break a promise of the documentation.  Each is a concrete
  run against the reference server, or an execution whose answers the server may give.
\<close>


section \<open>Expired leases are taken over from a cache\<close>

text \<open>Two requests for one target, both past policy evaluation, and a lease whose holder stopped
  renewing it at time 0.  The informer cache keeps showing that lease.\<close>

definition rival :: "string \<Rightarrow> AgentRequest" where
  "rival n = (sample_in PhasePending [cond_now ConditionPolicyEvaluated])\<lparr>Meta := sample_meta n\<rparr>"

definition rival_lease :: Lease where
  "rival_lease = sample_lease (generateLeaseName ref_libs (URI (TargetOf (Spec (rival ''req-1'')))))
     ''old/req-0'' 0"

definition rivals_world :: server where
  "rivals_world = world (301 * second)
     [OAgentRequest (rival ''req-1''), OAgentRequest (rival ''req-2''), OLease rival_lease]"

definition reconcile_one :: "string \<Rightarrow> server \<Rightarrow> server" where
  "reconcile_one n w = snd (snd (run srv_env (Reconcile ref_libs sample_reconciler (''ns'', n)) w))"

definition stored_phase :: "server \<Rightarrow> string \<Rightarrow> phase option" where
  "stored_phase w n = (case srv_stored w (KAgentRequest, (''ns'', n)) of
     Some (OAgentRequest r) \<Rightarrow> Some (phase_of r) | _ \<Rightarrow> None)"



section \<open>A transition whose audit record is never written\<close>

text \<open>A server that refuses to create audit records.\<close>

definition no_audit_env :: "server env" where
  "no_audit_env = srv_env\<lparr>env_create := (\<lambda>obj w. case obj of
     OAuditRecord _ \<Rightarrow> (Inl (Api (ApiOther ''Timeout'')), w) | _ \<Rightarrow> srv_create obj w)\<rparr>"

definition failing_world :: server where
  "failing_world = world 0 [OAgentRequest (sample_in PhaseApproved [cond_now ConditionFailed])]"


end
