(* ===== verification/Naming.thy ===== *)
theory Naming
  imports Libraries
begin

text \<open>
  Names and labels derived from free-form input: \<open>src/api/v1alpha1/naming.go\<close> and the string helpers of
  \<open>src/cmd/gateway/server.go\<close> and \<open>agent_request_handlers.go\<close>.

  Go strings are bytes; \<open>strings.ToLower\<close>, \<open>range\<close> and regular expressions read them as UTF-8,
  every invalid byte counting as one replacement character.  The helpers only ask whether a
  character is one of a few ASCII characters, so lower-casing is modelled on the
  runes whose lower case is ASCII: the capital letters, the dotted capital I (U+0130) and the
  Kelvin sign (U+212A).
\<close>

section \<open>Runes\<close>

type_synonym rune = int

abbreviation RuneError :: rune where
  "RuneError \<equiv> 0xFFFD"

definition cont_byte :: "int \<Rightarrow> bool" where
  "cont_byte b \<longleftrightarrow> 0x80 \<le> b \<and> b \<le> 0xBF"

text \<open>The second byte of a three- or four-byte sequence: overlong forms, surrogates and runes above
  U+10FFFF are invalid.\<close>

definition second_ok :: "int \<Rightarrow> int \<Rightarrow> bool" where
  "second_ok b0 b1 \<longleftrightarrow>
     (if b0 = 0xE0 then 0xA0 else if b0 = 0xF0 then 0x90 else 0x80) \<le> b1 \<and>
     b1 \<le> (if b0 = 0xED then 0x9F else if b0 = 0xF4 then 0x8F else 0xBF)"

fun runes :: "int list \<Rightarrow> rune list" where
  "runes [] = []"
| "runes (b0 # bs) =
     (if b0 < 0x80 then b0 # runes bs
      else (case bs of
          b1 # b2 # b3 # r \<Rightarrow>
            if 0xF0 \<le> b0 \<and> b0 \<le> 0xF4 \<and> second_ok b0 b1 \<and> cont_byte b2 \<and> cont_byte b3
            then ((b0 mod 8) * 0x40000 + (b1 mod 64) * 0x1000 + (b2 mod 64) * 64 + b3 mod 64) # runes r
            else if 0xE0 \<le> b0 \<and> b0 \<le> 0xEF \<and> second_ok b0 b1 \<and> cont_byte b2
            then ((b0 mod 16) * 0x1000 + (b1 mod 64) * 64 + b2 mod 64) # runes (b3 # r)
            else if 0xC2 \<le> b0 \<and> b0 \<le> 0xDF \<and> cont_byte b1
            then ((b0 mod 32) * 64 + b1 mod 64) # runes (b2 # b3 # r)
            else RuneError # runes bs
        | [b1, b2] \<Rightarrow>
            if 0xE0 \<le> b0 \<and> b0 \<le> 0xEF \<and> second_ok b0 b1 \<and> cont_byte b2
            then [(b0 mod 16) * 0x1000 + (b1 mod 64) * 64 + b2 mod 64]
            else if 0xC2 \<le> b0 \<and> b0 \<le> 0xDF \<and> cont_byte b1
            then ((b0 mod 32) * 64 + b1 mod 64) # runes [b2]
            else RuneError # runes bs
        | [b1] \<Rightarrow>
            if 0xC2 \<le> b0 \<and> b0 \<le> 0xDF \<and> cont_byte b1
            then [(b0 mod 32) * 64 + b1 mod 64]
            else RuneError # runes bs
        | [] \<Rightarrow> [RuneError]))"

definition runes_of :: "string \<Rightarrow> rune list" where
  "runes_of s = runes (map of_char s)"

lemma runes_ascii: "list_all (\<lambda>b. b < 0x80) bs \<Longrightarrow> runes bs = bs"
  by (induction bs) auto

lemma runes_Nil_iff [simp]: "runes bs = [] \<longleftrightarrow> bs = []"
  by (cases bs) (auto split: list.splits)

definition lower_rune :: "rune \<Rightarrow> rune" where
  "lower_rune r = (if 65 \<le> r \<and> r \<le> 90 then r + 32 else if r = 0x130 then 105
     else if r = 0x212A then 107 else r)"

definition is_lower :: "int \<Rightarrow> bool" where "is_lower r \<longleftrightarrow> 97 \<le> r \<and> r \<le> 122"
definition is_upper :: "int \<Rightarrow> bool" where "is_upper r \<longleftrightarrow> 65 \<le> r \<and> r \<le> 90"
definition is_digit :: "int \<Rightarrow> bool" where "is_digit r \<longleftrightarrow> 48 \<le> r \<and> r \<le> 57"

lemmas rune_classes = is_lower_def is_upper_def is_digit_def

definition hyphen :: int where "hyphen = 45"

text \<open>\<open>strings.Trim\<close> with a set of single-byte characters.\<close>

definition Trim :: "(char \<Rightarrow> bool) \<Rightarrow> string \<Rightarrow> string" where
  "Trim P s = rev (dropWhile P (rev (dropWhile P s)))"

lemma Trim_subset: "set (Trim P s) \<subseteq> set s"
  unfolding Trim_def set_rev by (metis set_dropWhileD set_rev subsetI)

lemma Trim_length: "length (Trim P s) \<le> length s"
  using length_dropWhile_le [of P "rev (dropWhile P s)"] length_dropWhile_le [of P s]
  by (simp add: Trim_def)

lemma Trim_last: "Trim P s \<noteq> [] \<Longrightarrow> \<not> P (last (Trim P s))"
  by (simp add: Trim_def last_rev hd_dropWhile)

lemma Trim_hd: "Trim P s \<noteq> [] \<Longrightarrow> \<not> P (hd (Trim P s))"
proof -
  assume ne: "Trim P s \<noteq> []"
  let ?t = "dropWhile P s"
  have "rev (dropWhile P (rev ?t)) = take (length (dropWhile P (rev ?t))) ?t"
    by (metis dropWhile_eq_drop rev_drop rev_rev_ident length_rev length_drop)
  with ne have "hd (Trim P s) = hd ?t" "?t \<noteq> []"
    by (auto simp: Trim_def hd_conv_nth)
  then show ?thesis by (simp add: hd_dropWhile)
qed

lemma Trim_id: "s = [] \<or> (\<not> P (hd s) \<and> \<not> P (last s)) \<Longrightarrow> Trim P s = s"
proof -
  assume "s = [] \<or> (\<not> P (hd s) \<and> \<not> P (last s))"
  then have "dropWhile P s = s" "dropWhile P (rev s) = rev s"
    by (auto simp: dropWhile_eq_self_iff hd_rev)
  then show ?thesis by (simp add: Trim_def)
qed


section \<open>DNS segments and label values\<close>

definition dns_char :: "rune \<Rightarrow> char" where
  "dns_char r = (if is_lower r \<or> is_digit r \<or> r = hyphen then char_of r else CHR ''-'')"

definition sanitizeDNSSegment :: "string \<Rightarrow> nat \<Rightarrow> string" where
  "sanitizeDNSSegment s maxLen =
     Trim (\<lambda>c. c = CHR ''-'') (take maxLen (map (\<lambda>r. dns_char (lower_rune r)) (runes_of s)))"

definition label_char :: "rune \<Rightarrow> char" where
  "label_char r = (if is_upper r \<or> is_lower r \<or> is_digit r \<or> r \<in> {45, 46, 95}
     then char_of r else CHR ''-'')"

definition sanitizeLabelValue :: "string \<Rightarrow> string" where
  "sanitizeLabelValue s =
     Trim (\<lambda>c. c \<in> {CHR ''-'', CHR ''_'', CHR ''.''}) (take 63 (map label_char (runes_of s)))"

definition ProfileNameForAgent :: "libs \<Rightarrow> string \<Rightarrow> string" where
  "ProfileNameForAgent L agentIdentity =
     (let suffix = take 8 (Sha256Hex L agentIdentity);
          pre = sanitizeDNSSegment agentIdentity 54;
          pre = (if pre = [] then ''agent'' else pre)
      in pre @ ''-'' @ suffix)"

definition RegistrationObjectName :: "libs \<Rightarrow> string \<Rightarrow> string" where
  "RegistrationObjectName L agentIdentity =
     (let suffix = take 8 (Sha256Hex L agentIdentity);
          slug = sanitizeDNSSegment agentIdentity 54;
          slug = (if slug = [] then ''reg'' else slug)
      in slug @ ''-'' @ suffix)"

fun digits :: "nat \<Rightarrow> string" where
  "digits n = (if n < 10 then [char_of (48 + n)] else digits (n div 10) @ [char_of (48 + n mod 10)])"

declare digits.simps [simp del]

definition FormatInt :: "int \<Rightarrow> string" where
  "FormatInt i = (if i < 0 then ''-'' @ digits (nat (- i)) else digits (nat i))"

definition computeDedupKey :: "libs \<Rightarrow> string \<Rightarrow> string \<Rightarrow> string \<Rightarrow> string \<Rightarrow> string \<Rightarrow> string" where
  "computeDedupKey L agentIdentity action targetURI classification explicit =
     (if explicit \<noteq> [] then explicit
      else Sha256Hex L (concat (map (\<lambda>s. s @ [CHR 0x00]) [agentIdentity, action, targetURI, classification])))"

definition deterministicRequestName :: "libs \<Rightarrow> string \<Rightarrow> string \<Rightarrow> duration \<Rightarrow> time \<Rightarrow> string" where
  "deterministicRequestName L agentIdentity dedupKey dedupWindow now =
     (let windowIndex = quot now dedupWindow;
          hashSuffix = take 8 (Sha256Hex L (dedupKey @ [CHR 0x00] @ FormatInt windowIndex));
          slug = sanitizeDNSSegment agentIdentity 54
      in slug @ ''-'' @ hashSuffix)"


section \<open>Shapes\<close>

definition dns_set :: "string \<Rightarrow> bool" where
  "dns_set s \<longleftrightarrow> list_all (\<lambda>c. is_lower (of_char c) \<or> is_digit (of_char c) \<or> c = CHR ''-'') s"

text \<open>An RFC 1123 label: what Kubernetes accepts as a name.\<close>

definition dns_label :: "string \<Rightarrow> bool" where
  "dns_label s \<longleftrightarrow> s \<noteq> [] \<and> length s \<le> 63 \<and> dns_set s \<and> hd s \<noteq> CHR ''-'' \<and> last s \<noteq> CHR ''-''"

text \<open>What Kubernetes accepts as a label value.\<close>

definition label_value :: "string \<Rightarrow> bool" where
  "label_value s \<longleftrightarrow> length s \<le> 63 \<and>
     list_all (\<lambda>c. is_upper (of_char c) \<or> is_lower (of_char c) \<or> is_digit (of_char c) \<or>
       c \<in> {CHR ''-'', CHR ''_'', CHR ''.''}) s \<and>
     (s \<noteq> [] \<longrightarrow> hd s \<notin> {CHR ''-'', CHR ''_'', CHR ''.''} \<and> last s \<notin> {CHR ''-'', CHR ''_'', CHR ''.''})"

text \<open>The documented shape of a hexadecimal SHA-256 digest.\<close>

definition hex_digest :: "libs \<Rightarrow> bool" where
  "hex_digest L \<longleftrightarrow> (\<forall>s. length (Sha256Hex L s) = 64 \<and>
     list_all (\<lambda>c. is_lower (of_char c) \<or> is_digit (of_char c)) (Sha256Hex L s))"

lemma of_char_char_of [simp]: "0 \<le> n \<Longrightarrow> n < 256 \<Longrightarrow> (of_char (char_of n :: char) :: int) = n"
  by simp

lemma char_of_punct [simp]:
  "char_of (45 :: int) = CHR ''-''" "char_of (46 :: int) = CHR ''.''" "char_of (95 :: int) = CHR ''_''"
  by code_simp+

lemma dns_char_set:
  "is_lower (of_char (dns_char r)) \<or> is_digit (of_char (dns_char r)) \<or> dns_char r = CHR ''-''"
  by (auto simp: dns_char_def rune_classes hyphen_def)

lemma sanitizeDNSSegment_shape:
  "dns_set (sanitizeDNSSegment s n) \<and> length (sanitizeDNSSegment s n) \<le> n \<and>
   (sanitizeDNSSegment s n \<noteq> [] \<longrightarrow>
      hd (sanitizeDNSSegment s n) \<noteq> CHR ''-'' \<and> last (sanitizeDNSSegment s n) \<noteq> CHR ''-'')"
proof -
  let ?m = "take n (map (\<lambda>r. dns_char (lower_rune r)) (runes_of s))"
  let ?P = "\<lambda>c. c = CHR ''-''"
  have "set ?m \<subseteq> range dns_char" by (auto dest!: in_set_takeD)
  with Trim_subset [of ?P ?m] have "set (Trim ?P ?m) \<subseteq> range dns_char" by (rule subset_trans)
  with dns_char_set have "dns_set (Trim ?P ?m)" unfolding dns_set_def list_all_iff by blast
  moreover have "length (Trim ?P ?m) \<le> n"
    using Trim_length [of ?P ?m] by simp
  ultimately show ?thesis
    using Trim_hd [of ?P ?m] Trim_last [of ?P ?m] by (simp add: sanitizeDNSSegment_def)
qed

lemma label_char_set:
  "is_upper (of_char (label_char r)) \<or> is_lower (of_char (label_char r)) \<or>
   is_digit (of_char (label_char r)) \<or> label_char r \<in> {CHR ''-'', CHR ''_'', CHR ''.''}"
  by (auto simp: label_char_def rune_classes)

lemma sanitizeLabelValue_shape: "label_value (sanitizeLabelValue s)"
proof -
  let ?m = "take 63 (map label_char (runes_of s))"
  let ?P = "\<lambda>c. c \<in> {CHR ''-'', CHR ''_'', CHR ''.''}"
  have "set ?m \<subseteq> range label_char" by (auto dest!: in_set_takeD)
  with Trim_subset [of ?P ?m] have sub: "set (Trim ?P ?m) \<subseteq> range label_char" by (rule subset_trans)
  have "\<forall>c\<in>set (Trim ?P ?m). is_upper (of_char c) \<or> is_lower (of_char c) \<or> is_digit (of_char c) \<or> ?P c"
  proof
    fix c assume "c \<in> set (Trim ?P ?m)"
    with sub obtain r where "c = label_char r" by blast
    with label_char_set [of r] show "is_upper (of_char c) \<or> is_lower (of_char c) \<or> is_digit (of_char c) \<or> ?P c"
      by simp
  qed
  moreover have "length (Trim ?P ?m) \<le> 63"
    using Trim_length [of ?P ?m] by simp
  moreover have "Trim ?P ?m \<noteq> [] \<Longrightarrow> \<not> ?P (hd (Trim ?P ?m)) \<and> \<not> ?P (last (Trim ?P ?m))"
    using Trim_hd [of ?P ?m] Trim_last [of ?P ?m] by blast
  ultimately show ?thesis
    unfolding label_value_def sanitizeLabelValue_def list_all_iff by blast
qed

lemma dns_set_append [simp]: "dns_set (s @ t) \<longleftrightarrow> dns_set s \<and> dns_set t"
  by (simp add: dns_set_def)

lemma dns_set_simps [simp]:
  "dns_set []"
  "dns_set (c # s) \<longleftrightarrow> (is_lower (of_char c) \<or> is_digit (of_char c) \<or> c = CHR ''-'') \<and> dns_set s"
  by (simp_all add: dns_set_def)

lemma of_char_hyphen [simp]: "(of_char (CHR ''-'') :: int) = 45"
  by code_simp

lemma dns_set_ascii: "dns_set s \<Longrightarrow> list_all (\<lambda>b. b < 0x80) (map of_char s :: int list)"
  by (induction s) (auto simp: rune_classes)

lemma dns_set_runes: "dns_set s \<Longrightarrow> runes_of s = map of_char s"
  unfolding runes_of_def by (rule runes_ascii [OF dns_set_ascii])

lemma dns_char_lower_id:
  "is_lower (of_char c) \<or> is_digit (of_char c) \<or> c = CHR ''-'' \<Longrightarrow> dns_char (lower_rune (of_char c)) = c"
  by (auto simp: dns_char_def lower_rune_def rune_classes hyphen_def)

lemma dns_set_map_id:
  "dns_set s \<Longrightarrow> map (\<lambda>r. dns_char (lower_rune r)) (runes_of s) = s"
proof -
  assume "dns_set s"
  then have "map (\<lambda>c. dns_char (lower_rune (of_char c))) s = s"
    by (intro map_idI dns_char_lower_id) (auto simp: dns_set_def list_all_iff)
  with dns_set_runes [OF \<open>dns_set s\<close>] show ?thesis by (simp add: comp_def)
qed

lemma sanitizeDNSSegment_id:
  assumes "dns_set s" "length s \<le> n" "s \<noteq> [] \<longrightarrow> hd s \<noteq> CHR ''-'' \<and> last s \<noteq> CHR ''-''"
  shows "sanitizeDNSSegment s n = s"
proof -
  have "Trim (\<lambda>c. c = CHR ''-'') s = s" by (rule Trim_id) (use assms(3) in blast)
  with assms(1,2) show ?thesis by (simp add: sanitizeDNSSegment_def dns_set_map_id)
qed

lemma hashed_name_label:
  assumes "hex_digest L" and "dns_set pre" "length pre \<le> 54" "pre \<noteq> []" "hd pre \<noteq> CHR ''-''"
  shows "dns_label (pre @ ''-'' @ take 8 (Sha256Hex L s))"
proof -
  let ?x = "take 8 (Sha256Hex L s)"
  have len: "length ?x = 8" using assms(1) by (simp add: hex_digest_def)
  have hex: "\<forall>c\<in>set ?x. is_lower (of_char c) \<or> is_digit (of_char c)"
    using assms(1) by (auto simp: hex_digest_def list_all_iff dest!: in_set_takeD)
  then have "dns_set ?x" by (auto simp: dns_set_def list_all_iff)
  moreover have ne: "?x \<noteq> []" using len by auto
  moreover have "last ?x \<noteq> CHR ''-''"
  proof
    assume "last ?x = CHR ''-''"
    with hex last_in_set [OF ne] have "is_lower (of_char CHR ''-'') \<or> is_digit (of_char CHR ''-'')"
      by metis
    then show False by (simp add: rune_classes)
  qed
  ultimately show ?thesis
    using assms len by (simp add: dns_label_def)
qed

text \<open>C34. The name of an agent's trust profile and accuracy summary, and the name of its
  registration, are valid Kubernetes names whatever bytes the agent identity holds, provided the
  hash is a hexadecimal digest.\<close>

theorem derived_names_valid:
  assumes "hex_digest L"
  shows "dns_label (ProfileNameForAgent L agentIdentity) \<and>
    dns_label (RegistrationObjectName L agentIdentity)"
  using sanitizeDNSSegment_shape [of agentIdentity 54]
    hashed_name_label [OF assms, of "sanitizeDNSSegment agentIdentity 54" agentIdentity]
    hashed_name_label [OF assms, of "''agent''" agentIdentity]
    hashed_name_label [OF assms, of "''reg''" agentIdentity]
  by (auto simp: ProfileNameForAgent_def RegistrationObjectName_def Let_def rune_classes)

text \<open>C35. Label values are valid and sanitizing is idempotent: a sanitized segment is a fixed point of
  the DNS sanitizer, and a label value is one the API server accepts.\<close>

theorem sanitizers_sound:
  "sanitizeDNSSegment (sanitizeDNSSegment s n) n = sanitizeDNSSegment s n \<and>
   label_value (sanitizeLabelValue s)"
  using sanitizeDNSSegment_shape [of s n] sanitizeLabelValue_shape [of s]
  by (auto intro: sanitizeDNSSegment_id)

text \<open>C37. The name of a deduplicated request is valid exactly when the agent identity has a character
  that survives sanitizing; an identity written entirely in other characters gives a name
  that starts with a hyphen, which the API server rejects.\<close>

theorem request_name_valid_iff:
  assumes "hex_digest L"
  shows "dns_label (deterministicRequestName L agentIdentity key w now) \<longleftrightarrow>
    sanitizeDNSSegment agentIdentity 54 \<noteq> []"
proof
  assume "dns_label (deterministicRequestName L agentIdentity key w now)"
  then show "sanitizeDNSSegment agentIdentity 54 \<noteq> []"
    by (auto simp: deterministicRequestName_def Let_def dns_label_def)
next
  assume "sanitizeDNSSegment agentIdentity 54 \<noteq> []"
  with sanitizeDNSSegment_shape [of agentIdentity 54]
  show "dns_label (deterministicRequestName L agentIdentity key w now)"
    unfolding deterministicRequestName_def Let_def
    by (intro hashed_name_label [OF assms]) auto
qed

text \<open>A digest for the witnesses: always the same one.\<close>

definition zero_libs :: libs where
  "zero_libs = ref_libs\<lparr>Sha256Hex := (\<lambda>_. replicate 64 CHR ''0'')\<rparr>"

lemma hex_zero_libs: "hex_digest zero_libs"
proof -
  have "list_all (\<lambda>c. is_lower (of_char c) \<or> is_digit (of_char c)) (replicate 64 CHR ''0'')"
    by code_simp
  then show ?thesis by (simp add: hex_digest_def zero_libs_def)
qed

theorem derived_names_valid_witness:
  "dns_label (ProfileNameForAgent zero_libs ''My Agent!'') \<and>
   dns_label (RegistrationObjectName zero_libs ''My Agent!'')"
  by (rule derived_names_valid [OF hex_zero_libs])

theorem request_name_valid_iff_witness:
  "\<not> dns_label (deterministicRequestName zero_libs ''___'' ''k'' second 0)"
proof -
  have "sanitizeDNSSegment ''___'' 54 = []" by code_simp
  with request_name_valid_iff [OF hex_zero_libs] show ?thesis by simp
qed

section \<open>Classification\<close>

fun slug_loop :: "rune list \<Rightarrow> string \<Rightarrow> bool \<Rightarrow> string" where
  "slug_loop [] b lastHyphen = b"
| "slug_loop (r # rs) b lastHyphen =
     (if is_lower r \<or> is_digit r then slug_loop rs (b @ [char_of r]) False
      else if \<not> lastHyphen \<and> b \<noteq> [] then slug_loop rs (b @ ''-'') True
      else slug_loop rs b lastHyphen)"

definition slugifyClassificationSegment :: "string \<Rightarrow> string" where
  "slugifyClassificationSegment s =
     (let out = Trim (\<lambda>c. c = CHR ''-'') (slug_loop (map lower_rune (runes_of s)) [] False)
      in if out = [] then []
         else if \<not> is_lower (of_char (hd out)) then ''x-'' @ out else out)"

definition Cut :: "char \<Rightarrow> string \<Rightarrow> (string \<times> string) option" where
  "Cut c s = (if c \<in> set s then Some (takeWhile (\<lambda>x. x \<noteq> c) s, tl (dropWhile (\<lambda>x. x \<noteq> c) s)) else None)"

definition normalizeClassification :: "string \<Rightarrow> string" where
  "normalizeClassification s =
     (if s = [] then []
      else case Cut CHR ''/'' s of
          None \<Rightarrow> slugifyClassificationSegment s
        | Some (category, sub) \<Rightarrow>
            (let cat = slugifyClassificationSegment category;
                 subSlug = slugifyClassificationSegment sub
             in if cat = [] then subSlug else if subSlug = [] then cat else cat @ ''/'' @ subSlug))"

fun no_double :: "string \<Rightarrow> bool" where
  "no_double (a # b # s) \<longleftrightarrow> \<not> (a = CHR ''-'' \<and> b = CHR ''-'') \<and> no_double (b # s)"
| "no_double _ \<longleftrightarrow> True"

text \<open>A canonical segment; the schema's pattern \<open>[a-z][a-z0-9-]*\<close> also allows repeated and trailing
  hyphens.\<close>

definition slug_ok :: "string \<Rightarrow> bool" where
  "slug_ok s \<longleftrightarrow> s \<noteq> [] \<and> is_lower (of_char (hd s)) \<and> dns_set s \<and> last s \<noteq> CHR ''-'' \<and> no_double s"

definition segment_pattern :: "string \<Rightarrow> bool" where
  "segment_pattern s \<longleftrightarrow> s \<noteq> [] \<and> is_lower (of_char (hd s)) \<and> dns_set s"

definition classification_pattern :: "string \<Rightarrow> bool" where
  "classification_pattern s \<longleftrightarrow> (case Cut CHR ''/'' s of
     None \<Rightarrow> False | Some (a, b) \<Rightarrow> segment_pattern a \<and> segment_pattern b)"

lemma no_double_append: "no_double (s @ t) \<Longrightarrow> no_double s \<and> no_double t"
  by (induction s rule: no_double.induct) (auto, (cases t; auto)+)

lemma no_double_snoc:
  "no_double (s @ [c]) \<longleftrightarrow> no_double s \<and> (s \<noteq> [] \<longrightarrow> \<not> (last s = CHR ''-'' \<and> c = CHR ''-''))"
  by (induction s rule: no_double.induct) auto

lemma Trim_decomp: "\<exists>u v. s = u @ Trim P s @ v"
proof -
  let ?t = "dropWhile P s"
  have "s = takeWhile P s @ ?t" by simp
  moreover have "rev ?t = takeWhile P (rev ?t) @ dropWhile P (rev ?t)" by simp
  then have "?t = Trim P s @ rev (takeWhile P (rev ?t))"
    unfolding Trim_def by (metis rev_append rev_rev_ident)
  ultimately show ?thesis by metis
qed

lemma is_alnum_char [simp]:
  "is_lower r \<or> is_digit r \<Longrightarrow> of_char (char_of r :: char) = r"
  "is_lower r \<or> is_digit r \<Longrightarrow> (char_of r :: char) \<noteq> CHR ''-''"
proof -
  assume r: "is_lower r \<or> is_digit r"
  then show 1: "of_char (char_of r :: char) = r" by (auto simp: rune_classes)
  show "(char_of r :: char) \<noteq> CHR ''-''"
  proof
    assume "(char_of r :: char) = CHR ''-''"
    with 1 have "r = 45" by (metis of_char_hyphen)
    with r show False by (simp add: rune_classes)
  qed
qed

lemma slug_loop_shape:
  assumes "dns_set b" "no_double b" "b \<noteq> [] \<longrightarrow> hd b \<noteq> CHR ''-''" "lh \<longleftrightarrow> b \<noteq> [] \<and> last b = CHR ''-''"
  shows "dns_set (slug_loop rs b lh) \<and> no_double (slug_loop rs b lh)"
  using assms
proof (induction rs arbitrary: b lh)
  case (Cons r rs)
  show ?case
  proof (cases "is_lower r \<or> is_digit r")
    case True
    then have "r mod 256 = r" by (auto simp: rune_classes)
    with True Cons.prems show ?thesis
      using Cons.IH [of "b @ [char_of r]" False] by (auto simp: no_double_snoc hd_append)
  next
    case False
    with Cons.prems show ?thesis
      using Cons.IH [of "b @ ''-''" True] Cons.IH [of b lh] by (auto simp: no_double_snoc)
  qed
qed simp

lemma slugify_shape:
  "slugifyClassificationSegment s = [] \<or> slug_ok (slugifyClassificationSegment s)"
proof -
  let ?P = "\<lambda>c. c = CHR ''-''"
  let ?b = "slug_loop (map lower_rune (runes_of s)) [] False"
  let ?t = "Trim ?P ?b"
  have b: "dns_set ?b" "no_double ?b" using slug_loop_shape [of "[]" False] by auto
  obtain u v where "?b = u @ ?t @ v" using Trim_decomp by blast
  with b have t: "dns_set ?t" "no_double ?t"
    by (metis dns_set_append, metis no_double_append)
  show ?thesis
  proof (cases "?t = []")
    case False
    have ends: "hd ?t \<noteq> CHR ''-''" "last ?t \<noteq> CHR ''-''"
      using Trim_hd [OF False] Trim_last [OF False] by auto
    have "no_double (''x-'' @ ?t)" using t ends(1) False by (cases ?t) auto
    with t ends False show ?thesis
      by (auto simp: slugifyClassificationSegment_def Let_def slug_ok_def rune_classes)
  qed (simp add: slugifyClassificationSegment_def)
qed

lemma lower_rune_dns:
  "is_lower (of_char c) \<or> is_digit (of_char c) \<or> c = CHR ''-'' \<Longrightarrow> lower_rune (of_char c) = of_char c"
  by (auto simp: lower_rune_def rune_classes)

lemma slug_loop_id:
  assumes "dns_set t" "no_double (b @ t)" "b = [] \<longrightarrow> t = [] \<or> hd t \<noteq> CHR ''-''"
    "lh \<longleftrightarrow> b \<noteq> [] \<and> last b = CHR ''-''"
  shows "slug_loop (map of_char t) b lh = b @ t"
  using assms
proof (induction t arbitrary: b lh)
  case (Cons c t)
  have nd: "no_double ((b @ [c]) @ t)" using Cons.prems(2) by simp
  then have "no_double (b @ [c])" using no_double_append by blast
  then have last: "b \<noteq> [] \<longrightarrow> \<not> (last b = CHR ''-'' \<and> c = CHR ''-'')" by (simp add: no_double_snoc)
  show ?case
  proof (cases "c = CHR ''-''")
    case True
    with Cons.prems last Cons.IH [of "b @ [c]" True] nd show ?thesis
      by (simp add: rune_classes)
  next
    case False
    with Cons.prems last Cons.IH [of "b @ [c]" False] nd show ?thesis
      by auto
  qed
qed simp

lemma slugify_id:
  assumes "slug_ok t"
  shows "slugifyClassificationSegment t = t"
proof -
  have "dns_set t" using assms by (simp add: slug_ok_def)
  then have "map lower_rune (runes_of t) = map of_char t"
    by (auto simp: dns_set_runes dns_set_def list_all_iff intro!: lower_rune_dns)
  moreover have "hd t \<noteq> CHR ''-''" using assms by (auto simp: slug_ok_def rune_classes)
  moreover have "slug_loop (map of_char t) [] False = t"
    using slug_loop_id [of t "[]" False] assms \<open>hd t \<noteq> _\<close> by (simp add: slug_ok_def)
  moreover have "Trim (\<lambda>c. c = CHR ''-'') t = t"
    by (rule Trim_id) (use assms \<open>hd t \<noteq> _\<close> in \<open>auto simp: slug_ok_def\<close>)
  ultimately show ?thesis
    using assms by (simp add: slugifyClassificationSegment_def slug_ok_def)
qed

lemma dns_set_no_slash: "dns_set s \<Longrightarrow> CHR ''/'' \<notin> set s"
proof
  assume "dns_set s" "CHR ''/'' \<in> set s"
  then have "is_lower (of_char CHR ''/'') \<or> is_digit (of_char CHR ''/'') \<or> CHR ''/'' = CHR ''-''"
    unfolding dns_set_def list_all_iff by blast
  moreover have "\<not> is_lower (of_char CHR ''/'')" "\<not> is_digit (of_char CHR ''/'')" by code_simp+
  ultimately show False by simp
qed

lemma Cut_join [simp]: "c \<notin> set a \<Longrightarrow> Cut c (a @ c # b) = Some (a, b)"
  by (induction a) (auto simp: Cut_def)

text \<open>The three possible shapes of a normalized classification.\<close>

lemma normalize_cases:
  obtains (none) "normalizeClassification s = []"
  | (one) t where "normalizeClassification s = t" "slug_ok t"
  | (two) a b where "normalizeClassification s = a @ ''/'' @ b" "slug_ok a" "slug_ok b"
proof (cases "Cut CHR ''/'' s")
  case None
  with slugify_shape [of s] none one show thesis
    by (cases "s = []") (auto simp: normalizeClassification_def)
next
  case (Some cs)
  then obtain c d where cs: "Cut CHR ''/'' s = Some (c, d)" by (cases cs) auto
  then have "s \<noteq> []" by (auto simp: Cut_def split: if_splits)
  let ?a = "slugifyClassificationSegment c" and ?b = "slugifyClassificationSegment d"
  have n: "normalizeClassification s = (if ?a = [] then ?b else if ?b = [] then ?a else ?a @ ''/'' @ ?b)"
    using cs \<open>s \<noteq> []\<close> by (simp add: normalizeClassification_def Let_def)
  consider "?a = []" "?b = []" | "?a = []" "slug_ok ?b" | "slug_ok ?a" "?b = []" | "slug_ok ?a" "slug_ok ?b"
    using slugify_shape [of c] slugify_shape [of d] by blast
  then show thesis
  proof cases
    case 4
    then have "?a \<noteq> []" "?b \<noteq> []" by (auto simp: slug_ok_def)
    with n 4 two show thesis by simp
  qed (use n none one in \<open>auto simp: slug_ok_def\<close>)
qed

lemma slug_ok_simps: "slug_ok t \<Longrightarrow> t \<noteq> [] \<and> CHR ''/'' \<notin> set t \<and> segment_pattern t"
  by (auto simp: slug_ok_def segment_pattern_def dest: dns_set_no_slash)

text \<open>C36. A normalized classification that contains a slash satisfies the pattern of the
  AgentRequest schema, and normalizing is idempotent.\<close>

theorem normalizeClassification_canonical:
  "(CHR ''/'' \<in> set (normalizeClassification s) \<longleftrightarrow> classification_pattern (normalizeClassification s)) \<and>
   normalizeClassification (normalizeClassification s) = normalizeClassification s"
proof (cases rule: normalize_cases [of s])
  case none
  then show ?thesis by (simp add: normalizeClassification_def classification_pattern_def Cut_def)
next
  case (one t)
  then show ?thesis
    using slug_ok_simps [OF one(2)] slugify_id [OF one(2)]
    by (simp add: normalizeClassification_def classification_pattern_def Cut_def)
next
  case (two a b)
  have "Cut CHR ''/'' (a @ ''/'' @ b) = Some (a, b)"
    using slug_ok_simps [OF two(2)] by simp
  then show ?thesis
    using two slug_ok_simps [OF two(2)] slug_ok_simps [OF two(3)] slugify_id
    by (simp add: normalizeClassification_def classification_pattern_def)
qed

text \<open>Not every value the schema accepts passes through unchanged: repeated hyphens are
  collapsed.\<close>

theorem normalize_changes_valid:
  "classification_pattern ''a--b/c'' \<and> normalizeClassification ''a--b/c'' = ''a-b/c''"
  by code_simp

end
