(* ===== verification/Float64.thy ===== *)
theory Float64
  imports Complex_Main "HOL-Library.Log_Nat"
begin

text \<open>
  Go's \<open>float64\<close> arithmetic on the magnitudes the program uses.  A value is the rational number it
  denotes; the result of an operation is the exact result rounded to the nearest number with a 53-bit
  significand, ties to even.  Subnormals, infinities and NaN do not arise: the operands are
  ratios of counters and thresholds between 0 and 1.
\<close>

definition rne :: "rat \<Rightarrow> int" where
  "rne x = (let f = \<lfloor>x\<rfloor>; d = x - of_int f
            in if d < 1/2 then f else if d > 1/2 then f + 1 else if even f then f else f + 1)"

text \<open>The exponent of a positive number: \<open>2 powi e \<le> x < 2 powi (e + 1)\<close>.\<close>

definition exponent_of :: "rat \<Rightarrow> int" where
  "exponent_of x = (let (p, q) = quotient_of x; k = bitlen p - bitlen q
                    in if 2 powi k \<le> x then k else k - 1)"

definition round_pos :: "rat \<Rightarrow> rat" where
  "round_pos x = (let e = exponent_of x - 52 in of_int (rne (x / 2 powi e)) * 2 powi e)"

definition round64 :: "rat \<Rightarrow> rat" where
  "round64 x = (if x = 0 then 0 else if x < 0 then - round_pos (- x) else round_pos x)"

lemma rne_of_int [simp]: "rne (of_int n) = n"
  by (simp add: rne_def)

lemma rne_bounds: "\<lfloor>x\<rfloor> \<le> rne x \<and> rne x \<le> \<lfloor>x\<rfloor> + 1"
  by (simp add: rne_def Let_def)

lemma rne_mono: "x \<le> y \<Longrightarrow> rne x \<le> rne y"
proof (cases "\<lfloor>x\<rfloor> = \<lfloor>y\<rfloor>")
  case True
  assume "x \<le> y"
  with True show ?thesis by (auto simp: rne_def Let_def)
next
  case False
  assume "x \<le> y"
  with False have "\<lfloor>x\<rfloor> + 1 \<le> \<lfloor>y\<rfloor>" using floor_mono by fastforce
  with rne_bounds [of x] rne_bounds [of y] show ?thesis by linarith
qed

lemma powi_less_iff: "(2 :: rat) powi a < 2 powi b \<longleftrightarrow> a < b"
  by (metis linorder_less_linear one_less_numeral_iff order_less_irrefl order_less_trans
      power_int_strict_increasing semiring_norm(76))

lemma powi_le_iff: "(2 :: rat) powi a \<le> 2 powi b \<longleftrightarrow> a \<le> b"
  using powi_less_iff [of b a] by (simp add: not_less [symmetric])

lemma powi_add: "(2 :: rat) powi (a + b) = 2 powi a * 2 powi b"
  by (simp add: power_int_add)

lemma bitlen_powi:
  assumes "0 < p"
  shows "2 powi (bitlen p - 1) \<le> (of_int p :: rat)" "(of_int p :: rat) < 2 powi bitlen p"
proof -
  have b: "0 < bitlen p"
    using assms bitlen_nonneg [of p] bitlen_eq_zero_iff [of p] by linarith
  from bitlen_bounds [OF assms]
  have "2 ^ nat (bitlen p - 1) \<le> p" "p < 2 ^ nat (bitlen p)" by auto
  then have "(of_int (2 ^ nat (bitlen p - 1)) :: rat) \<le> of_int p" "(of_int p :: rat) < of_int (2 ^ nat (bitlen p))"
    by (simp_all only: of_int_le_iff of_int_less_iff)
  with b show "2 powi (bitlen p - 1) \<le> (of_int p :: rat)" "(of_int p :: rat) < 2 powi bitlen p"
    by (simp_all add: power_int_def)
qed

lemma exponent_of_bounds:
  assumes "0 < x"
  shows "2 powi exponent_of x \<le> x" "x < 2 powi (exponent_of x + 1)"
proof -
  obtain p q where pq: "quotient_of x = (p, q)" by fastforce
  have q: "0 < q" using quotient_of_denom_pos [OF pq] .
  have x: "x = of_int p / of_int q" using quotient_of_div [OF pq] .
  have p: "0 < p" using assms x q by (simp add: zero_less_divide_iff)
  let ?k = "bitlen p - bitlen q"
  have "x < 2 powi bitlen p / 2 powi (bitlen q - 1)"
    unfolding x using bitlen_powi [OF p] bitlen_powi [OF q] p q
    by (intro frac_less) auto
  also have "\<dots> = 2 powi (?k + 1)"
    by (simp add: power_int_diff power_int_add algebra_simps)
  finally have up: "x < 2 powi (?k + 1)" .
  have "2 powi (bitlen p - 1) / 2 powi bitlen q \<le> x"
    unfolding x using bitlen_powi [OF p] bitlen_powi [OF q] p q
    by (intro frac_le) auto
  moreover have "(2 :: rat) powi (bitlen p - 1) / 2 powi bitlen q = 2 powi (?k - 1)"
    by (simp add: power_int_diff)
  ultimately have low: "2 powi (?k - 1) \<le> x" by simp
  show "2 powi exponent_of x \<le> x" "x < 2 powi (exponent_of x + 1)"
    using up low by (auto simp: exponent_of_def pq Let_def)
qed

lemma exponent_of_mono:
  assumes "0 < x" "x \<le> y"
  shows "exponent_of x \<le> exponent_of y"
proof -
  have "2 powi exponent_of x < (2 :: rat) powi (exponent_of y + 1)"
    using exponent_of_bounds(1) [of x] exponent_of_bounds(2) [of y] assms by linarith
  then show ?thesis by (simp add: powi_less_iff)
qed

lemma round_pos_mono:
  assumes "0 < x" "x \<le> y"
  shows "round_pos x \<le> round_pos y"
proof (cases "exponent_of x = exponent_of y")
  case True
  have "rne (x / 2 powi (exponent_of y - 52)) \<le> rne (y / 2 powi (exponent_of y - 52))"
    by (rule rne_mono) (use assms(2) in \<open>simp add: divide_right_mono\<close>)
  with True show ?thesis by (simp add: round_pos_def Let_def mult_right_mono)
next
  case False
  let ?a = "exponent_of x" and ?b = "exponent_of y"
  have lt: "?a + 1 \<le> ?b" using exponent_of_mono [OF assms] False by simp
  have 53: "(2 :: rat) powi 53 = of_int (2 ^ 53)" "(2 :: rat) powi 52 = of_int (2 ^ 52)"
    by (simp_all add: power_int_def)
  have "x / 2 powi (?a - 52) \<le> 2 powi (?a + 1) / 2 powi (?a - 52)"
    using exponent_of_bounds(2) [OF assms(1)] by (simp add: divide_right_mono)
  also have "\<dots> = of_int (2 ^ 53)"
    unfolding 53 [symmetric] by (simp add: power_int_diff [symmetric])
  finally have "rne (x / 2 powi (?a - 52)) \<le> 2 ^ 53"
    using rne_mono rne_of_int by metis
  then have "round_pos x \<le> of_int (2 ^ 53) * 2 powi (?a - 52)"
    unfolding round_pos_def Let_def by (intro mult_right_mono) (simp_all only: of_int_le_iff, simp)
  also have "\<dots> = 2 powi (?a + 1)"
    unfolding 53 [symmetric] powi_add [symmetric] by (simp add: add.commute)
  also have "\<dots> \<le> 2 powi ?b" using lt by (simp add: powi_le_iff)
  also have "\<dots> = of_int (2 ^ 52) * 2 powi (?b - 52)"
    unfolding 53 [symmetric] powi_add [symmetric] by simp
  also have "\<dots> \<le> round_pos y"
  proof -
    have "of_int (2 ^ 52) = (2 :: rat) powi ?b / 2 powi (?b - 52)"
      unfolding 53 [symmetric] by (simp add: power_int_diff [symmetric])
    also have "\<dots> \<le> y / 2 powi (?b - 52)"
      using exponent_of_bounds(1) [of y] assms by (simp add: divide_right_mono)
    finally have "2 ^ 52 \<le> rne (y / 2 powi (?b - 52))"
      using rne_mono rne_of_int by metis
    then show ?thesis
      unfolding round_pos_def Let_def by (intro mult_right_mono) (simp_all only: of_int_le_iff, simp)
  qed
  finally show ?thesis .
qed

text \<open>Numbers with at most 53 significant bits are not changed.\<close>

lemma round_pos_grid:
  assumes "x = of_int n * 2 powi (exponent_of x - 52)"
  shows "round_pos x = x"
proof -
  have "x / 2 powi (exponent_of x - 52) = of_int n"
    by (subst assms(1)) simp
  then show ?thesis
    unfolding round_pos_def Let_def using assms(1) by (simp only: rne_of_int)
qed

lemma round_pos_exact:
  assumes "0 < m" "m < 2 ^ 53" and x: "x = of_int m * 2 powi e"
  shows "round_pos x = x"
proof -
  have pos: "0 < x" using assms(1) x by simp
  have "(of_int m :: rat) < of_int (2 ^ 53)" using assms(2) by (simp only: of_int_less_iff)
  then have "x < of_int (2 ^ 53) * 2 powi e" unfolding x by (intro mult_strict_right_mono) auto
  also have "(of_int (2 ^ 53) :: rat) = 2 powi 53" by (simp add: power_int_def)
  also have "(2 :: rat) powi 53 * 2 powi e = 2 powi (53 + e)" by (simp only: powi_add)
  finally have "2 powi exponent_of x < (2 :: rat) powi (53 + e)"
    using exponent_of_bounds(1) [OF pos] by linarith
  then have le: "exponent_of x - 52 \<le> e" by (simp add: powi_less_iff)
  define d where "d = nat (e - (exponent_of x - 52))"
  have e: "e = int d + (exponent_of x - 52)" using le by (simp add: d_def)
  have "(2 :: rat) powi e = 2 ^ d * 2 powi (exponent_of x - 52)"
    by (subst e) (simp add: powi_add)
  then have "x = of_int (m * 2 ^ d) * 2 powi (exponent_of x - 52)"
    using x by simp
  then show ?thesis by (rule round_pos_grid)
qed

lemma round64_0 [simp]: "round64 0 = 0"
  by (simp add: round64_def)

lemma round64_exact:
  assumes "0 \<le> m" "m < 2 ^ 53"
  shows "round64 (of_int m * 2 powi e) = of_int m * 2 powi e"
proof (cases "m = 0")
  case False
  define x where "x = (of_int m * 2 powi e :: rat)"
  have "0 < x" using False assms(1) by (simp add: x_def)
  moreover have "round_pos x = x"
    using round_pos_exact [OF _ assms(2) x_def] False assms(1) by simp
  ultimately show ?thesis unfolding x_def [symmetric] by (simp add: round64_def)
qed simp

lemma round64_int: "0 \<le> m \<Longrightarrow> m < 2 ^ 53 \<Longrightarrow> round64 (of_int m) = of_int m"
  using round64_exact [of m 0] by simp

lemma round64_half: "0 \<le> m \<Longrightarrow> m < 2 ^ 53 \<Longrightarrow> round64 (of_int m / 2) = of_int m / 2"
  using round64_exact [of m "-1"] by (simp add: power_int_minus)

lemma round64_1 [simp]: "round64 1 = 1"
  using round64_int [of 1] by simp

lemma round64_nonneg: "0 \<le> x \<Longrightarrow> 0 \<le> round64 x"
proof -
  assume x: "0 \<le> x"
  have "0 \<le> rne (x / 2 powi (exponent_of x - 52))"
    using rne_mono [of 0 "x / 2 powi (exponent_of x - 52)"] x rne_of_int [of 0] by simp
  with x show ?thesis by (simp add: round64_def round_pos_def Let_def)
qed

lemma round64_mono: "0 \<le> x \<Longrightarrow> x \<le> y \<Longrightarrow> round64 x \<le> round64 y"
  using round_pos_mono [of x y] round64_nonneg [of y]
  by (cases "x = 0") (auto simp: round64_def)

lemma round64_unit: "0 \<le> x \<Longrightarrow> x \<le> 1 \<Longrightarrow> 0 \<le> round64 x \<and> round64 x \<le> 1"
  using round64_nonneg [of x] round64_mono [of x 1] by simp

section \<open>Executing the rounding on integers\<close>

definition rne_quot :: "int \<Rightarrow> int \<Rightarrow> int" where
  "rne_quot a b = (let f = a div b; r = 2 * (a mod b)
     in if r < b then f else if b < r then f + 1 else if even f then f else f + 1)"

lemma rne_quot: "0 < b \<Longrightarrow> rne (of_int a / of_int b) = rne_quot a b"
proof -
  assume b: "0 < b"
  have floor: "\<lfloor>of_int a / of_int b :: rat\<rfloor> = a div b"
    by (rule floor_divide_of_int_eq)
  have "(of_int a :: rat) = of_int (a div b) * of_int b + of_int (a mod b)"
    by (metis div_mult_mod_eq of_int_add of_int_mult)
  then have d: "of_int a / of_int b - of_int (a div b) = (of_int (a mod b) / of_int b :: rat)"
    using b by (simp add: field_simps)
  have lt: "of_int (a mod b) / of_int b < (1/2 :: rat) \<longleftrightarrow> 2 * (a mod b) < b"
  proof -
    have "of_int (a mod b) / of_int b < (1/2 :: rat) \<longleftrightarrow> of_int (2 * (a mod b)) < (of_int b :: rat)"
      using b by (simp add: divide_less_eq mult.commute)
    then show ?thesis by (simp only: of_int_less_iff)
  qed
  have gt: "(1/2 :: rat) < of_int (a mod b) / of_int b \<longleftrightarrow> b < 2 * (a mod b)"
  proof -
    have "(1/2 :: rat) < of_int (a mod b) / of_int b \<longleftrightarrow> of_int b < (of_int (2 * (a mod b)) :: rat)"
      using b by (simp add: less_divide_eq mult.commute)
    then show ?thesis by (simp only: of_int_less_iff)
  qed
  show ?thesis by (simp only: rne_def rne_quot_def floor Let_def d lt gt)
qed

lemma two_powi_nonneg: "0 \<le> e \<Longrightarrow> (2 :: rat) powi e = of_int (2 ^ nat e)"
  by (simp add: power_int_def)

lemma two_powi_neg: "\<not> 0 \<le> e \<Longrightarrow> (2 :: rat) powi e = 1 / of_int (2 ^ nat (- e))"
  by (simp only: power_int_def if_False power_inverse inverse_eq_divide power_one_over
      of_int_power of_int_numeral)

lemma exponent_of_code [code]:
  "exponent_of x = (let (p, q) = quotient_of x; k = bitlen p - bitlen q
     in if (if 0 \<le> k then 2 ^ nat k * q \<le> p else q \<le> p * 2 ^ nat (- k)) then k else k - 1)"
proof -
  obtain p q where pq: "quotient_of x = (p, q)" by fastforce
  then have q: "0 < q" and x: "x = of_int p / of_int q"
    by (auto simp: quotient_of_denom_pos quotient_of_div)
  have "2 powi k \<le> x \<longleftrightarrow> (if 0 \<le> k then 2 ^ nat k * q \<le> p else q \<le> p * 2 ^ nat (- k))" for k
  proof (cases "0 \<le> k")
    case True
    have "2 powi k \<le> x \<longleftrightarrow> of_int (2 ^ nat k * q) \<le> (of_int p :: rat)"
      unfolding two_powi_nonneg [OF True] x using q by (simp add: pos_le_divide_eq)
    then show ?thesis using True by (simp only: of_int_le_iff if_True)
  next
    case False
    have "2 powi k \<le> x \<longleftrightarrow> of_int q \<le> (of_int (p * 2 ^ nat (- k)) :: rat)"
      unfolding two_powi_neg [OF False] x using q by (simp add: pos_le_divide_eq pos_divide_le_eq)
    then show ?thesis using False by (simp only: of_int_le_iff if_False)
  qed
  then show ?thesis by (simp add: exponent_of_def pq Let_def)
qed

lemma round_pos_code [code]:
  "round_pos x = (let (p, q) = quotient_of x; e = exponent_of x - 52
     in if 0 \<le> e then of_int (rne_quot p (q * 2 ^ nat e) * 2 ^ nat e)
        else Fract (rne_quot (p * 2 ^ nat (- e)) q) (2 ^ nat (- e)))"
proof -
  obtain p q where pq: "quotient_of x = (p, q)" by fastforce
  then have q: "0 < q" and x: "x = of_int p / of_int q"
    by (auto simp: quotient_of_denom_pos quotient_of_div)
  define e where "e = exponent_of x - 52"
  show ?thesis
  proof (cases "0 \<le> e")
    case True
    have "x / 2 powi e = of_int p / of_int (q * 2 ^ nat e)"
      unfolding two_powi_nonneg [OF True] by (simp only: x of_int_mult divide_divide_eq_left)
    then have "rne (x / 2 powi e) = rne_quot p (q * 2 ^ nat e)"
      using rne_quot [of "q * 2 ^ nat e" p] q by (simp only: mult_pos_pos zero_less_power zero_less_numeral)
    then show ?thesis
      unfolding round_pos_def pq e_def [symmetric] Let_def two_powi_nonneg [OF True]
      using True by simp
  next
    case False
    have "x / 2 powi e = of_int (p * 2 ^ nat (- e)) / of_int q"
      unfolding two_powi_neg [OF False] by (simp only: x of_int_mult) simp
    then have "rne (x / 2 powi e) = rne_quot (p * 2 ^ nat (- e)) q"
      by (simp only: rne_quot [OF q])
    then show ?thesis
      unfolding round_pos_def pq e_def [symmetric] Let_def two_powi_neg [OF False]
      using False by (simp add: Fract_of_int_quotient)
  qed
qed

end
