(* ===== verification/Client_Retry.thy ===== *)
theory Client_Retry
  imports Monitors
begin

text \<open>
  \<open>retry.RetryOnConflict\<close> of client-go runs a closure again while it fails with a conflict, up to a
  number of attempts.  The program passes closures to it; the function itself is an argument
  of the definitions that use it.  Its documented behaviour is the predicate
  \<open>retries_on_conflict\<close>: an execution is a sequence of executions of the closure in which every
  one but the last ends in a conflict, and the result is that of the last one.
\<close>

inductive retried :: "'a result prog \<Rightarrow> event list \<Rightarrow> 'a result \<Rightarrow> bool" for p where
  last_try: "exec p es x \<Longrightarrow> retried p es x"
| next_try: "exec p es (Inl e) \<Longrightarrow> IsConflict e \<Longrightarrow> retried p es' x \<Longrightarrow> retried p (es @ es') x"

definition retries_on_conflict :: "('a result prog \<Rightarrow> 'a result prog) \<Rightarrow> bool" where
  "retries_on_conflict R \<longleftrightarrow> (\<forall>p es x. exec (R p) es x \<longrightarrow> retried p es x)"

locale conflict_retry =
  fixes R :: "'a result prog \<Rightarrow> 'a result prog"
  assumes retries: "retries_on_conflict R"
begin

lemma retry_retried: "exec (R p) es x \<Longrightarrow> retried p es x"
  using retries by (simp add: retries_on_conflict_def)

text \<open>What holds of every call of the closure holds of every call of the retried closure, and
  what holds of its results holds of the result.\<close>

lemma retry_events:
  assumes "wlp p (\<lambda>es x. list_all W es \<and> Q x)"
  shows "wlp (R p) (\<lambda>es x. list_all W es \<and> Q x)"
proof (rule wlpI)
  fix es x
  assume "exec (R p) es x"
  then have "retried p es x" by (rule retry_retried)
  then show "list_all W es \<and> Q x"
    by induction (auto dest: wlpD [OF assms])
qed

text \<open>The result is that of a last attempt.\<close>

lemma retry_last:
  assumes "exec (R p) es x"
  shows "\<exists>es1 es2. es = es1 @ es2 \<and> exec p es2 x"
  using retry_retried [OF assms]
proof induction
  case (last_try es x)
  then show ?case by (metis append_Nil)
next
  case (next_try es e es' x)
  then show ?case by (metis append_assoc)
qed

lemma retry_read_only: "read_only p \<Longrightarrow> read_only (R p)"
  unfolding read_only_def using retry_events [of p is_read "\<lambda>_. True"] by simp

end

text \<open>A function with this behaviour: \<open>n\<close> further attempts.\<close>

primrec retry_conflict :: "nat \<Rightarrow> 'a result prog \<Rightarrow> 'a result prog" where
  "retry_conflict 0 p = p"
| "retry_conflict (Suc n) p = bind p (\<lambda>x. case x of
     Inl e \<Rightarrow> if IsConflict e then retry_conflict n p else Ret x | Inr _ \<Rightarrow> Ret x)"

lemma retry_conflict_retries: "retries_on_conflict (retry_conflict n)"
proof -
  have "retried p es x" if "exec (retry_conflict n p) es x" for p :: "'a result prog" and es x
    using that
  proof (induction n arbitrary: es)
    case (Suc n)
    then obtain es1 es2 y where es: "es = es1 @ es2" and p: "exec p es1 y"
      and k: "exec (case y of Inl e \<Rightarrow> if IsConflict e then retry_conflict n p else Ret y | Inr _ \<Rightarrow> Ret y) es2 x"
      by (auto simp: exec_bind)
    show ?case
    proof (cases "\<exists>e. y = Inl e \<and> IsConflict e")
      case True
      with es p k Suc.IH show ?thesis by (auto intro: next_try)
    next
      case False
      with k have "exec (Ret y) es2 x" by (auto split: sum.splits if_splits)
      with es p show ?thesis by (auto simp: exec_simps intro: last_try)
    qed
  qed (auto intro: last_try)
  then show ?thesis by (simp add: retries_on_conflict_def)
qed

text \<open>A retried closure that does not end in a conflict is run once.\<close>

lemma run_bind:
  "run E (bind p g) w =
     (let (es, x, w1) = run E p w; (es', y, w2) = run E (g x) w1 in (es @ es', y, w2))"
  by (induction p arbitrary: w) (auto simp: Let_def split: prod.splits)

lemma run_retry:
  assumes "run E p w = (es, x, w')" and "\<And>e. x = Inl e \<Longrightarrow> \<not> IsConflict e"
  shows "run E (retry_conflict n p) w = (es, x, w')"
  using assms by (cases n) (auto simp: run_bind split: sum.splits)

interpretation five_attempts: conflict_retry "retry_conflict 4"
  by unfold_locales (rule retry_conflict_retries)


section \<open>Histories of retried closures\<close>

lemma wlp_const [simp]: "wlp p (\<lambda>_ _. P) \<longleftrightarrow> P"
  using exec_total [of p] by (auto simp: wlp_iff)

lemma hist_of_accepted:
  "wlp p (\<lambda>es x. accepted W (\<lambda>h e. h @ [e]) h es \<and> Q x (h @ es)) \<Longrightarrow> hist W Q p h"
  by (induction p arbitrary: h) (simp_all add: Let_def wlp_conj)

lemma hist_exec:
  "hist W Q p h \<Longrightarrow> exec p es x \<Longrightarrow> accepted W (\<lambda>h e. h @ [e]) h es \<and> Q x (h @ es)"
  using monitored_sound [of p es x "\<lambda>_. True" W "\<lambda>h e. h @ [e]" Q h] by (simp add: list_all_iff)

text \<open>A closure that keeps to what is allowed from every longer history does so when it is retried,
  and its result was allowed after the last attempt.\<close>

lemma retry_hist:
  assumes "retries_on_conflict R" and "\<And>h'. set h \<subseteq> set h' \<Longrightarrow> hist W Q p h'"
  shows "hist W Q (R p) h"
proof (rule hist_of_accepted, rule wlpI)
  fix es x
  assume "exec (R p) es x"
  then have "retried p es x" using assms(1) by (simp add: retries_on_conflict_def)
  then have "accepted W (\<lambda>h e. h @ [e]) h' es \<and> Q x (h' @ es)" if "set h \<subseteq> set h'" for h'
    using that
  proof (induction arbitrary: h')
    case (last_try es x)
    then show ?case using hist_exec [OF assms(2)] by blast
  next
    case (next_try es e es' x)
    have "accepted W (\<lambda>h e. h @ [e]) h' es" using hist_exec [OF assms(2) [OF next_try.prems] next_try.hyps(1)] by simp
    moreover have "set h \<subseteq> set (h' @ es)" using next_try.prems by auto
    note next_try.IH [OF this]
    ultimately show ?case by simp
  qed
  from this [OF subset_refl] show "accepted W (\<lambda>h e. h @ [e]) h es \<and> Q x (h @ es)" .
qed


lemma retry_then_hist:
  assumes "retries_on_conflict R" and "\<And>h'. set h \<subseteq> set h' \<Longrightarrow> hist W (\<lambda>_ _. True) p h'" and "\<And>x h'. hist W Q (k x) h'"
  shows "hist W Q (bind (R p) k) h"
  by (rule monitored_bindI [where R = "\<lambda>_ _. True"]) (use retry_hist [OF assms(1,2)] assms(3) in auto)

end
