(* ===== verification/Accuracy.thy ===== *)
theory Accuracy
  imports OpsLock Naming Float64 Client_Retry API_Server
begin

text \<open>
  Diagnostic accuracy: the controller that counts verdicts
  (\<open>src/internal/controller/accuracy_controller.go\<close>) and the gateway's rebuild of the
  summaries (\<open>recomputeAccuracyForAgent\<close> of \<open>src/cmd/gateway/accuracy_handlers.go\<close>).

  Counters are integers; accuracies are \<open>float64\<close> values, computed with the rounding of theory
  \<open>Float64\<close>.  \<open>retry.RetryOnConflict\<close> is the argument \<open>retry\<close>.
\<close>

section \<open>Counting a verdict\<close>

definition verdictCorrect :: string where "verdictCorrect = ''correct''"
definition verdictIncorrect :: string where "verdictIncorrect = ''incorrect''"
definition verdictPartial :: string where "verdictPartial = ''partial''"

definition skipReasons :: "string list" where
  "skipReasons = [''bad_timing'', ''scope_too_broad'', ''precautionary'', ''policy_block'']"

text \<open>\<open>float64(n)\<close> and the ratio \<open>(correct + 0.5 * partial) / total\<close>, rounded after every operation.\<close>

definition to_float :: "int \<Rightarrow> float64" where
  "to_float n = round64 (of_int n)"

definition accuracy_ratio :: "int \<Rightarrow> int \<Rightarrow> int \<Rightarrow> float64" where
  "accuracy_ratio correctCount partialCount totalReviewed =
     round64 (round64 (to_float correctCount + round64 (1 / 2 * to_float partialCount)) / to_float totalReviewed)"

definition empty_summary_status :: DiagnosticAccuracySummaryStatus where
  "empty_summary_status = \<lparr>TotalReviewed = 0, CorrectCount = 0, PartialCount = 0, IncorrectCount = 0,
     DiagnosticAccuracy = None, LastUpdatedAt = None, RecentVerdicts = []\<rparr>"

definition count_verdict ::
  "string \<Rightarrow> DiagnosticAccuracySummaryStatus \<Rightarrow> DiagnosticAccuracySummaryStatus" where
  "count_verdict v st =
     (if v = verdictCorrect then st\<lparr>CorrectCount := CorrectCount st + 1\<rparr>
      else if v = verdictPartial then st\<lparr>PartialCount := PartialCount st + 1\<rparr>
      else if v = verdictIncorrect then st\<lparr>IncorrectCount := IncorrectCount st + 1\<rparr>
      else st)"

definition set_accuracy :: "DiagnosticAccuracySummaryStatus \<Rightarrow> DiagnosticAccuracySummaryStatus" where
  "set_accuracy st = (if TotalReviewed st > 0
     then st\<lparr>DiagnosticAccuracy :=
       Some (accuracy_ratio (CorrectCount st) (PartialCount st) (TotalReviewed st))\<rparr>
     else st)"

text \<open>The status update of one counted verdict.\<close>

definition applyVerdict ::
  "AgentRequest \<Rightarrow> DiagnosticAccuracySummaryStatus \<Rightarrow> DiagnosticAccuracySummaryStatus" where
  "applyVerdict agentReq st =
     (let st = st\<lparr>TotalReviewed := TotalReviewed st + 1\<rparr>;
          st = set_accuracy (count_verdict (Verdict (Status agentReq)) st);
          st = (case VerdictAt (Status agentReq) of
              None \<Rightarrow> st
            | Some t \<Rightarrow> (case LastUpdatedAt st of
                  None \<Rightarrow> st\<lparr>LastUpdatedAt := Some t\<rparr>
                | Some u \<Rightarrow> if t > u then st\<lparr>LastUpdatedAt := Some t\<rparr> else st));
          recent = RecentVerdicts st @ [Name (Meta agentReq)]
      in st\<lparr>RecentVerdicts :=
           (if length recent > 100 then drop (length recent - 100) recent else recent)\<rparr>)"

definition summary_key :: "libs \<Rightarrow> AgentRequest \<Rightarrow> objkey" where
  "summary_key L agentReq =
     (Namespace (Meta agentReq), ProfileNameForAgent L (AgentIdentity (Spec agentReq)))"

definition new_summary :: "libs \<Rightarrow> string \<Rightarrow> string \<Rightarrow> DiagnosticAccuracySummary" where
  "new_summary L ns agentIdentity =
     \<lparr>SummaryMeta = empty_meta\<lparr>Name := ProfileNameForAgent L agentIdentity, Namespace := ns\<rparr>,
      SummaryAgentIdentity = agentIdentity,
      SummaryStatus = empty_summary_status\<rparr>"

definition recordVerdict :: "AgentRequest \<Rightarrow> DiagnosticAccuracySummary \<Rightarrow> unit result prog" where
  "recordVerdict agentReq summary =
     (if Name (Meta agentReq) \<in> set (RecentVerdicts (SummaryStatus summary)) then Ret (Inr ())
      else Patch StatusSubresource MergeFrom (ODiagnosticAccuracySummary summary)
             (ODiagnosticAccuracySummary
               (summary\<lparr>SummaryStatus := applyVerdict agentReq (SummaryStatus summary)\<rparr>))
             (\<lambda>p. Ret (as_unit p)))"

text \<open>The closure passed to \<open>RetryOnConflict\<close>.\<close>

definition updateSummary :: "libs \<Rightarrow> AgentRequest \<Rightarrow> unit result prog" where
  "updateSummary L agentReq =
     (let nn = summary_key L agentReq;
          reread = Get Direct KDiagnosticAccuracySummary nn (\<lambda>g.
            case as_DiagnosticAccuracySummary g of
              Inl e \<Rightarrow> Ret (Inl e) | Inr summary \<Rightarrow> recordVerdict agentReq summary)
      in Get Cached KDiagnosticAccuracySummary nn (\<lambda>g. case as_DiagnosticAccuracySummary g of
            Inr summary \<Rightarrow> recordVerdict agentReq summary
          | Inl e \<Rightarrow>
              if IsNotFound e then
                Create (ODiagnosticAccuracySummary
                    (new_summary L (Namespace (Meta agentReq)) (AgentIdentity (Spec agentReq)))) (\<lambda>c. case c of
                    Inl e \<Rightarrow> if IsAlreadyExists e then reread else Ret (Inl e)
                  | Inr _ \<Rightarrow> reread)
              else Ret (Inl e)))"

definition ReconcileAccuracy ::
  "libs \<Rightarrow> (unit result prog \<Rightarrow> unit result prog) \<Rightarrow> objkey \<Rightarrow> ctrl_result result prog" where
  "ReconcileAccuracy L retry key =
     Get Cached KAgentRequest key (\<lambda>g. case as_AgentRequest g of
         Inl e \<Rightarrow> if IsNotFound e then Ret (Inr Done) else Ret (Inl e)
       | Inr agentReq \<Rightarrow>
           if Verdict (Status agentReq) = '''' then Ret (Inr Done)
           else if VerdictReasonCode (Status agentReq) \<in> set skipReasons then Ret (Inr Done)
           else bind (retry (updateSummary L agentReq)) (\<lambda>r. case r of
               Inl e \<Rightarrow> Ret (Inl e) | Inr _ \<Rightarrow> Ret (Inr Done)))"


section \<open>Rebuilding the summaries\<close>

text \<open>The gateway's client is not cached.  \<open>order\<close> is the order in which Go ranges over the map of
  summaries.  The reply to \<open>Create\<close> carries no status, so decoding it into the caller's object
  keeps the computed one.\<close>

definition tally :: "AgentRequest \<Rightarrow> DiagnosticAccuracySummaryStatus \<Rightarrow> DiagnosticAccuracySummaryStatus" where
  "tally item st =
     (let st = count_verdict (Verdict (Status item)) st;
          st = st\<lparr>TotalReviewed := TotalReviewed st + 1\<rparr>;
          verdictAt = VerdictAt (Status item)
      in case LastUpdatedAt st of
           None \<Rightarrow> st\<lparr>LastUpdatedAt := verdictAt\<rparr>
         | Some u \<Rightarrow> (case verdictAt of None \<Rightarrow> st
             | Some t \<Rightarrow> if t > u then st\<lparr>LastUpdatedAt := verdictAt\<rparr> else st))"

definition tally_item ::
  "libs \<Rightarrow> string \<Rightarrow> string \<Rightarrow> AgentRequest \<Rightarrow> (string \<times> DiagnosticAccuracySummary) list \<Rightarrow>
     (string \<times> DiagnosticAccuracySummary) list" where
  "tally_item L ns agentId item stats =
     (if agentId \<noteq> '''' \<and> AgentIdentity (Spec item) \<noteq> agentId then stats
      else if Verdict (Status item) = '''' then stats
      else let summaryName = ProfileNameForAgent L (AgentIdentity (Spec item));
               summary = (case map_of stats summaryName of
                   Some s \<Rightarrow> s | None \<Rightarrow> new_summary L ns (AgentIdentity (Spec item)))
           in map_put summaryName (summary\<lparr>SummaryStatus := tally item (SummaryStatus summary)\<rparr>) stats)"

definition upsertSummary :: "string \<Rightarrow> string \<Rightarrow> DiagnosticAccuracySummary \<Rightarrow> unit result prog" where
  "upsertSummary ns name summary =
     Get Cached KDiagnosticAccuracySummary (ns, name) (\<lambda>g. case as_DiagnosticAccuracySummary g of
         Inl e \<Rightarrow> if IsNotFound e then
             Create (ODiagnosticAccuracySummary summary) (\<lambda>c. case as_DiagnosticAccuracySummary c of
                 Inl e \<Rightarrow> Ret (Inl e)
               | Inr created \<Rightarrow> Update StatusSubresource
                   (ODiagnosticAccuracySummary (created\<lparr>SummaryStatus := SummaryStatus summary\<rparr>))
                   (\<lambda>u. Ret (as_unit u)))
           else Ret (Inl e)
       | Inr existing \<Rightarrow>
           if SummaryAgentIdentity existing \<noteq> SummaryAgentIdentity summary
           then Ret (Inl (Plain ''summary identity mismatch''))
           else Update StatusSubresource
             (ODiagnosticAccuracySummary (existing\<lparr>SummaryStatus := SummaryStatus summary\<rparr>))
             (\<lambda>u. Ret (as_unit u)))"

definition zeroSummary :: "string \<Rightarrow> string \<Rightarrow> unit result prog" where
  "zeroSummary ns name =
     Get Cached KDiagnosticAccuracySummary (ns, name) (\<lambda>g. case as_DiagnosticAccuracySummary g of
         Inl e \<Rightarrow> Ret (Inl e)
       | Inr fresh \<Rightarrow> Update StatusSubresource
           (ODiagnosticAccuracySummary (fresh\<lparr>SummaryStatus := empty_summary_status\<rparr>))
           (\<lambda>u. Ret (as_unit u)))"

definition storeSummaries ::
  "(unit result prog \<Rightarrow> unit result prog) \<Rightarrow> string \<Rightarrow> (string \<times> DiagnosticAccuracySummary) list \<Rightarrow>
     unit prog" where
  "storeSummaries retry ns stats =
     for_each (\<lambda>(name, summary).
       bind (retry (upsertSummary ns name
         (summary\<lparr>SummaryStatus := set_accuracy (SummaryStatus summary)\<rparr>))) (\<lambda>_. Ret ())) stats"

definition zeroStaleSummaries ::
  "(unit result prog \<Rightarrow> unit result prog) \<Rightarrow> string \<Rightarrow> string \<Rightarrow>
     (string \<times> DiagnosticAccuracySummary) list \<Rightarrow> unit prog" where
  "zeroStaleSummaries retry ns agentId stats =
     ListObjects Cached KDiagnosticAccuracySummary (list_all_objects\<lparr>InNamespace := ns\<rparr>)
       (\<lambda>l. case l of
           Inl _ \<Rightarrow> Ret ()
         | Inr (existingSummaries, _) \<Rightarrow>
             for_each (\<lambda>existing.
               if agentId \<noteq> '''' \<and> SummaryAgentIdentity existing \<noteq> agentId then Ret ()
               else if map_of stats (Name (SummaryMeta existing)) \<noteq> None then Ret ()
               else bind (retry (zeroSummary ns (Name (SummaryMeta existing)))) (\<lambda>_. Ret ()))
             (pick_DiagnosticAccuracySummaries existingSummaries))"

definition recomputeAccuracyForAgent ::
  "libs \<Rightarrow> (unit result prog \<Rightarrow> unit result prog) \<Rightarrow>
     ((string \<times> DiagnosticAccuracySummary) list \<Rightarrow> (string \<times> DiagnosticAccuracySummary) list) \<Rightarrow>
     string \<Rightarrow> string \<Rightarrow> unit result prog" where
  "recomputeAccuracyForAgent L retry order ns agentId =
     ListObjects Cached KAgentRequest (list_all_objects\<lparr>InNamespace := ns\<rparr>) (\<lambda>l. case l of
         Inl e \<Rightarrow> Ret (Inl (Wrapped ''list agent requests'' e))
       | Inr (items, _) \<Rightarrow>
           (let stats = fold (tally_item L ns agentId) (pick_AgentRequests items) []
            in bind (storeSummaries retry ns (order stats)) (\<lambda>_.
               bind (zeroStaleSummaries retry ns agentId stats) (\<lambda>_. Ret (Inr ())))))"

section \<open>The summary invariant\<close>

definition summary_ok :: "DiagnosticAccuracySummaryStatus \<Rightarrow> bool" where
  "summary_ok st \<longleftrightarrow>
     0 \<le> CorrectCount st \<and> 0 \<le> PartialCount st \<and> 0 \<le> IncorrectCount st \<and>
     CorrectCount st + PartialCount st + IncorrectCount st \<le> TotalReviewed st \<and>
     (case DiagnosticAccuracy st of None \<Rightarrow> TotalReviewed st = 0 | Some a \<Rightarrow> 0 \<le> a \<and> a \<le> 1) \<and>
     length (RecentVerdicts st) \<le> 100 \<and> distinct (RecentVerdicts st)"

lemma accuracy_ratio_bounds:
  assumes "0 \<le> c" "0 \<le> p" "c + p \<le> t" "0 < t" "t < 2 ^ 52"
  shows "0 \<le> accuracy_ratio c p t \<and> accuracy_ratio c p t \<le> 1"
proof -
  have c: "to_float c = of_int c" and p: "to_float p = of_int p" and t: "to_float t = of_int t"
    using assms by (simp_all add: to_float_def round64_int)
  have half: "round64 (1 / 2 * of_int p) = of_int p / 2"
    using round64_half [of p] assms by simp
  have sum: "of_int c + of_int p / 2 = (of_int (2 * c + p) :: rat) / 2" by simp
  have num: "round64 (of_int c + of_int p / 2) = of_int c + of_int p / 2"
    unfolding sum by (rule round64_half) (use assms in auto)
  have le: "of_int c + of_int p / 2 \<le> (of_int t :: rat)"
  proof -
    have "of_int (2 * c + p) \<le> (of_int (2 * t) :: rat)"
      by (subst of_int_le_iff) (use assms in linarith)
    then show ?thesis by simp
  qed
  have "0 \<le> (of_int c + of_int p / 2) / (of_int t :: rat)"
    "(of_int c + of_int p / 2) / (of_int t :: rat) \<le> 1"
    using assms le by (simp_all add: divide_le_eq)
  then show ?thesis
    unfolding accuracy_ratio_def c p t half num by (rule round64_unit)
qed

text \<open>C32. Counting a verdict keeps the accuracy summary well-formed: the counters add up to at
  most the number of reviewed requests, the accuracy is a ratio between 0 and 1 (also after
  floating-point rounding), and the list of counted requests stays duplicate-free and within the
  100 entries the schema allows.\<close>

theorem applyVerdict_keeps_summary_ok:
  assumes "summary_ok st" and "Name (Meta req) \<notin> set (RecentVerdicts st)"
    and "TotalReviewed st + 1 < 2 ^ 52"
  shows "summary_ok (applyVerdict req st) \<and>
    Name (Meta req) \<in> set (RecentVerdicts (applyVerdict req st)) \<and>
    TotalReviewed (applyVerdict req st) = TotalReviewed st + 1"
proof -
  let ?st = "count_verdict (Verdict (Status req)) (st\<lparr>TotalReviewed := TotalReviewed st + 1\<rparr>)"
  have st: "0 \<le> CorrectCount ?st" "0 \<le> PartialCount ?st" "0 \<le> IncorrectCount ?st"
    "CorrectCount ?st + PartialCount ?st + IncorrectCount ?st \<le> TotalReviewed ?st"
    "TotalReviewed ?st = TotalReviewed st + 1" "RecentVerdicts ?st = RecentVerdicts st"
    "0 < TotalReviewed ?st"
    using assms(1) by (auto simp: summary_ok_def count_verdict_def)
  have acc: "0 \<le> accuracy_ratio (CorrectCount ?st) (PartialCount ?st) (TotalReviewed ?st) \<and>
      accuracy_ratio (CorrectCount ?st) (PartialCount ?st) (TotalReviewed ?st) \<le> 1"
    by (rule accuracy_ratio_bounds) (use st assms(3) in linarith)+
  have len: "length (RecentVerdicts st) \<le> 100" and dist: "distinct (RecentVerdicts st)"
    using assms(1) by (auto simp: summary_ok_def)
  define r where "r = RecentVerdicts st @ [Name (Meta req)]"
  define r' where "r' = (if length r > 100 then drop (length r - 100) r else r)"
  have "length r' \<le> 100" "distinct r'" "Name (Meta req) \<in> set r'"
    using len dist assms(2) by (auto simp: r_def r'_def in_set_conv_nth nth_append)
  moreover have "RecentVerdicts (applyVerdict req st) = r'"
    using st(6)
    by (simp add: applyVerdict_def Let_def r'_def r_def set_accuracy_def split: option.splits)
  moreover have "CorrectCount (applyVerdict req st) = CorrectCount ?st"
    "PartialCount (applyVerdict req st) = PartialCount ?st"
    "IncorrectCount (applyVerdict req st) = IncorrectCount ?st"
    "TotalReviewed (applyVerdict req st) = TotalReviewed ?st"
    "DiagnosticAccuracy (applyVerdict req st) =
      Some (accuracy_ratio (CorrectCount ?st) (PartialCount ?st) (TotalReviewed ?st))"
    using st(7) by (simp_all add: applyVerdict_def Let_def set_accuracy_def split: option.splits)
  ultimately show ?thesis
    using st acc by (simp add: summary_ok_def)
qed

text \<open>What a rebuild computes for a summary name: the tally of the reviewed requests of that name.\<close>

definition reviewed :: "libs \<Rightarrow> string \<Rightarrow> string \<Rightarrow> AgentRequest list \<Rightarrow> AgentRequest list" where
  "reviewed L agentId name items = filter (\<lambda>item.
     (agentId = '''' \<or> AgentIdentity (Spec item) = agentId) \<and> Verdict (Status item) \<noteq> '''' \<and>
     ProfileNameForAgent L (AgentIdentity (Spec item)) = name) items"

lemma distinct_map_put: "distinct (map fst m) \<Longrightarrow> distinct (map fst (map_put k v m))"
proof (induction k v m rule: map_put.induct)
  case (2 k v k' v' m)
  have "fst ` set (map_put k v m) = insert k (fst ` set m)"
    by (induction k v m rule: map_put.induct) auto
  with 2 show ?case by auto
qed simp

lemma tally_item_lookup:
  "map_option SummaryStatus (map_of (tally_item L ns agentId item stats) name) =
     (if reviewed L agentId name [item] = [] then map_option SummaryStatus (map_of stats name)
      else Some (tally item (case map_of stats name of None \<Rightarrow> empty_summary_status
        | Some s \<Rightarrow> SummaryStatus s)))"
  by (auto simp: tally_item_def reviewed_def new_summary_def Let_def split: option.splits)

lemma stats_reviewed:
  "map_option SummaryStatus (map_of (fold (tally_item L ns agentId) items []) name) =
     (if reviewed L agentId name items = [] then None
      else Some (fold tally (reviewed L agentId name items) empty_summary_status))"
proof (induction items rule: rev_induct)
  case Nil
  then show ?case by (simp add: reviewed_def)
next
  case (snoc item items)
  have app: "reviewed L agentId name (items @ [item]) =
      reviewed L agentId name items @ reviewed L agentId name [item]"
    by (simp add: reviewed_def)
  have one: "reviewed L agentId name [item] = [] \<or> reviewed L agentId name [item] = [item]"
    by (simp add: reviewed_def)
  define stats where "stats = fold (tally_item L ns agentId) items []"
  have "fold (tally_item L ns agentId) (items @ [item]) [] = tally_item L ns agentId item stats"
    by (simp add: stats_def)
  then show ?case
    using snoc one unfolding app stats_def [symmetric]
    by (cases "map_of stats name") (auto simp: tally_item_lookup split: if_splits)
qed

lemma count_verdict_sel [simp]:
  "TotalReviewed (count_verdict v st) = TotalReviewed st"
  "LastUpdatedAt (count_verdict v st) = LastUpdatedAt st"
  "RecentVerdicts (count_verdict v st) = RecentVerdicts st"
  "DiagnosticAccuracy (count_verdict v st) = DiagnosticAccuracy st"
  by (simp_all add: count_verdict_def)

lemma count_verdict_update [simp]:
  "count_verdict v (st\<lparr>TotalReviewed := n\<rparr>) = (count_verdict v st)\<lparr>TotalReviewed := n\<rparr>"
  "count_verdict v (st\<lparr>RecentVerdicts := r\<rparr>) = (count_verdict v st)\<lparr>RecentVerdicts := r\<rparr>"
  "count_verdict v (st\<lparr>DiagnosticAccuracy := a\<rparr>) = (count_verdict v st)\<lparr>DiagnosticAccuracy := a\<rparr>"
  by (simp_all add: count_verdict_def)

lemma tally_applyVerdict:
  assumes "0 \<le> TotalReviewed st"
  shows "set_accuracy (tally r (st\<lparr>RecentVerdicts := [], DiagnosticAccuracy := a\<rparr>)) =
    (applyVerdict r st)\<lparr>RecentVerdicts := []\<rparr>"
  using assms
  by (cases "LastUpdatedAt st"; cases "VerdictAt (Status r)")
    (simp_all add: tally_def applyVerdict_def set_accuracy_def Let_def)

lemma tally_counts:
  "TotalReviewed (fold tally rs st) = TotalReviewed st + int (length rs) \<and>
   DiagnosticAccuracy (fold tally rs st) = DiagnosticAccuracy st"
  by (induction rs arbitrary: st)
    (auto simp: tally_def count_verdict_def Let_def split: option.splits)

text \<open>The tally of the reviewed requests is what the controller's own update gives.\<close>

lemma stats_applyVerdict:
  "map_option (\<lambda>s. set_accuracy (SummaryStatus s))
     (map_of (fold (tally_item L ns agentId) items []) name) =
   (if reviewed L agentId name items = [] then None
    else Some ((fold applyVerdict (reviewed L agentId name items) empty_summary_status)
      \<lparr>RecentVerdicts := []\<rparr>))"
proof -
  have "\<exists>a. fold tally rs empty_summary_status =
      (fold applyVerdict rs empty_summary_status)\<lparr>RecentVerdicts := [], DiagnosticAccuracy := a\<rparr> \<and>
      set_accuracy (fold tally rs empty_summary_status) =
      (fold applyVerdict rs empty_summary_status)\<lparr>RecentVerdicts := []\<rparr>" for rs
  proof (induction rs rule: rev_induct)
    case Nil
    then show ?case by (auto simp: set_accuracy_def empty_summary_status_def)
  next
    case (snoc r rs)
    define st' where "st' = fold applyVerdict rs empty_summary_status"
    obtain a where st: "fold tally rs empty_summary_status =
        st'\<lparr>RecentVerdicts := [], DiagnosticAccuracy := a\<rparr>"
      using snoc unfolding st'_def by blast
    have "0 \<le> TotalReviewed st'"
      using tally_counts [of rs empty_summary_status] unfolding st
      by (simp add: empty_summary_status_def)
    then have acc: "set_accuracy (tally r (st'\<lparr>RecentVerdicts := [], DiagnosticAccuracy := a\<rparr>)) =
        (applyVerdict r st')\<lparr>RecentVerdicts := []\<rparr>"
      by (rule tally_applyVerdict)
    have "x = y\<lparr>DiagnosticAccuracy := DiagnosticAccuracy x\<rparr>" if "set_accuracy x = y" for x y
      using that by (auto simp: set_accuracy_def)
    from this [OF acc] acc show ?case
      by (auto simp: st st'_def [symmetric])
  qed
  then have "set_accuracy (fold tally rs empty_summary_status) =
      (fold applyVerdict rs empty_summary_status)\<lparr>RecentVerdicts := []\<rparr>" for rs
    by blast
  then show ?thesis
    using stats_reviewed [of L ns agentId items name]
    by (cases "map_of (fold (tally_item L ns agentId) items []) name") (auto split: if_splits)
qed

definition rebuild_write :: "(DiagnosticAccuracySummaryStatus \<Rightarrow> bool) \<Rightarrow> event \<Rightarrow> bool" where
  "rebuild_write P e = (case e of
     ECreate obj _ \<Rightarrow> (\<exists>s. obj = ODiagnosticAccuracySummary s \<and> P (SummaryStatus s))
   | EUpdate sub obj _ \<Rightarrow> sub = StatusSubresource \<and>
       (\<exists>s. obj = ODiagnosticAccuracySummary s \<and> P (SummaryStatus s))
   | _ \<Rightarrow> is_read e)"

lemma rebuild_write_simps [simp]:
  "rebuild_write P (EGet rd k key g)" "rebuild_write P (EList rd k opts l)"
  "rebuild_write P (ECreate (ODiagnosticAccuracySummary s) c) \<longleftrightarrow> P (SummaryStatus s)"
  "rebuild_write P (EUpdate StatusSubresource (ODiagnosticAccuracySummary s) u) \<longleftrightarrow> P (SummaryStatus s)"
  by (auto simp: rebuild_write_def)

lemma upsertSummary_writes:
  "P (SummaryStatus s) \<Longrightarrow> all_events (rebuild_write P) (upsertSummary ns name s)"
  by (auto simp: upsertSummary_def split: sum.splits)

lemma zeroSummary_writes:
  "P empty_summary_status \<Longrightarrow> all_events (rebuild_write P) (zeroSummary ns name)"
  by (auto simp: zeroSummary_def split: sum.splits)

lemma retry_all_events:
  assumes "retries_on_conflict retry" and "all_events P p"
  shows "all_events P (bind (retry p) (\<lambda>_. Ret ()))"
  using assms(2) conflict_retry.retry_events [OF conflict_retry.intro [OF assms(1)], of p P "\<lambda>_. True"]
  by (intro all_events_bind) auto

lemma storeSummaries_writes:
  assumes "retries_on_conflict retry"
    and "\<And>name s. (name, s) \<in> set stats \<Longrightarrow> P (set_accuracy (SummaryStatus s))"
  shows "all_events (rebuild_write P) (storeSummaries retry ns stats)"
  unfolding storeSummaries_def
  by (intro all_events_for_each)
    (auto intro!: retry_all_events [OF assms(1)] upsertSummary_writes dest: assms(2))

lemma zeroStaleSummaries_writes:
  assumes "retries_on_conflict retry" and "P empty_summary_status"
  shows "all_events (rebuild_write P) (zeroStaleSummaries retry ns agentId stats)"
  by (auto simp: zeroStaleSummaries_def
      intro!: all_events_for_each retry_all_events [OF assms(1)] zeroSummary_writes assms(2)
      split: sum.splits)

lemma distinct_stats:
  "distinct (map fst st) \<Longrightarrow> distinct (map fst (fold (tally_item L ns agentId) rs st))"
  by (induction rs arbitrary: st) (simp_all add: tally_item_def Let_def distinct_map_put)


section \<open>What a reconciliation writes\<close>

definition counts :: "AgentRequest \<Rightarrow> bool" where
  "counts req \<longleftrightarrow> Verdict (Status req) \<noteq> '''' \<and> VerdictReasonCode (Status req) \<notin> set skipReasons"

definition counting_write :: "libs \<Rightarrow> AgentRequest \<Rightarrow> event \<Rightarrow> bool" where
  "counting_write L req e = (case e of
     ECreate obj _ \<Rightarrow> obj = ODiagnosticAccuracySummary
       (new_summary L (Namespace (Meta req)) (AgentIdentity (Spec req)))
   | EPatch sub pk (ODiagnosticAccuracySummary s) obj _ \<Rightarrow>
       sub = StatusSubresource \<and> Name (Meta req) \<notin> set (RecentVerdicts (SummaryStatus s)) \<and>
       obj = ODiagnosticAccuracySummary (s\<lparr>SummaryStatus := applyVerdict req (SummaryStatus s)\<rparr>)
   | _ \<Rightarrow> False)"

definition accepted_patch :: "event \<Rightarrow> bool" where
  "accepted_patch e = (case e of EPatch _ _ _ _ (Inr _) \<Rightarrow> True | _ \<Rightarrow> False)"

definition counted_once :: "libs \<Rightarrow> AgentRequest \<Rightarrow> event list \<Rightarrow> unit result \<Rightarrow> bool" where
  "counted_once L req es x \<longleftrightarrow> list_all (\<lambda>e. is_read e \<or> counting_write L req e) es \<and>
     length (filter accepted_patch es) \<le> (case x of Inl _ \<Rightarrow> 0 | Inr _ \<Rightarrow> 1)"

lemma recordVerdict_counted_once: "wlp (recordVerdict req s) (counted_once L req)"
proof -
  have "as_unit r = Inl e \<Longrightarrow> \<not> accepted_patch (EPatch sub pk b m r)" for r e sub pk b m
    by (cases r) (auto simp: accepted_patch_def)
  then show ?thesis
    by (auto simp: recordVerdict_def counted_once_def counting_write_def split: sum.splits)
qed

lemma counted_once_Cons:
  "\<not> accepted_patch e \<Longrightarrow> is_read e \<or> counting_write L req e \<Longrightarrow>
   counted_once L req (e # es) x \<longleftrightarrow> counted_once L req es x"
  by (auto simp: counted_once_def)

lemma accepted_patch_simps [simp]:
  "\<not> accepted_patch (EGet rd k key r)" "\<not> accepted_patch (ECreate obj c)"
  by (simp_all add: accepted_patch_def)

lemma updateSummary_counted_once: "wlp (updateSummary L req) (counted_once L req)"
proof -
  have "wlp (recordVerdict req s) (\<lambda>es. counted_once L req (es0 @ es))"
    if "counted_once L req es0 (Inl e)" for s es0 e
    by (rule wlp_mono [OF recordVerdict_counted_once])
      (use that in \<open>auto simp: counted_once_def\<close>)
  note recorded = this [of "[_]", simplified] this [of "[_, _, _]", simplified]
  show ?thesis
    by (auto simp: updateSummary_def Let_def counted_once_Cons counting_write_def
        counted_once_def [of _ _ "[]"] intro!: recorded split: sum.splits)
qed

lemma retried_counted_once:
  assumes "retried (updateSummary L req) es x"
  shows "counted_once L req es x"
  using assms
proof induction
  case (last_try es x)
  then show ?case by (rule wlpD [OF updateSummary_counted_once])
next
  case (next_try es e es' x)
  then show ?case
    using wlpD [OF updateSummary_counted_once next_try(1)] by (auto simp: counted_once_def)
qed


section \<open>Counting once\<close>

abbreviation server_after :: "'a prog \<Rightarrow> server \<Rightarrow> server" where
  "server_after p w \<equiv> snd (snd (run srv_env p w))"

text \<open>The informer catches up.\<close>

definition sync :: "server \<Rightarrow> server" where
  "sync w = w\<lparr>Cache := Objects w\<rparr>"

definition summary_status_at :: "libs \<Rightarrow> AgentRequest \<Rightarrow> server \<Rightarrow> DiagnosticAccuracySummaryStatus option" where
  "summary_status_at L req w =
     (case map_of (Objects w) (KDiagnosticAccuracySummary, summary_key L req) of
        Some (ODiagnosticAccuracySummary s) \<Rightarrow> Some (SummaryStatus s) | _ \<Rightarrow> None)"

lemma merge_summary_status_same: "merge_summary_status b m b = m"
  by (cases m) (simp add: merge_summary_status_def mrg_def)

lemma applyVerdict_lists: "Name (Meta req) \<in> set (RecentVerdicts (applyVerdict req st))"
proof -
  have "RecentVerdicts (applyVerdict req st) =
      (let r = RecentVerdicts st @ [Name (Meta req)]
       in if length r > 100 then drop (length r - 100) r else r)"
    by (simp add: applyVerdict_def set_accuracy_def Let_def split: option.splits)
  then show ?thesis by (simp add: Let_def)
qed

lemma run_recordVerdict:
  assumes "map_of (Objects w) (slot_of (ODiagnosticAccuracySummary s)) = Some (ODiagnosticAccuracySummary s)"
  shows "\<exists>es w'. run srv_env (recordVerdict req s) w = (es, Inr (), w') \<and>
    map_of (Objects w') = (map_of (Objects w))(slot_of (ODiagnosticAccuracySummary s) \<mapsto>
      ODiagnosticAccuracySummary (s\<lparr>SummaryStatus :=
        (if Name (Meta req) \<in> set (RecentVerdicts (SummaryStatus s)) then SummaryStatus s
         else applyVerdict req (SummaryStatus s))\<rparr>)) \<and>
    (Name (Meta req) \<in> set (RecentVerdicts (SummaryStatus s)) \<longrightarrow> w' = w)"
  using assms
  by (auto simp: recordVerdict_def srv_patch_def merge_objects_def merge_summary_status_same
      slot_of_def fun_upd_idem_iff)

lemma stored_summary:
  assumes "srv_ok w" and "map_of (Objects w) (KDiagnosticAccuracySummary, key) = Some obj"
  obtains s where "obj = ODiagnosticAccuracySummary s"
    "slot_of (ODiagnosticAccuracySummary s) = (KDiagnosticAccuracySummary, key)"
  using srv_ok_stored [OF assms] by (cases obj) (auto simp: slot_of_def)

abbreviation prefixed :: "'e list \<Rightarrow> 'e list \<times> 'a \<times> 'w \<Rightarrow> 'e list \<times> 'a \<times> 'w" where
  "prefixed es0 r \<equiv> (case r of (es, x, w) \<Rightarrow> (es0 @ es, x, w))"

lemma run_updateSummary_found:
  assumes "map_of (Cache w) (KDiagnosticAccuracySummary, summary_key L req) =
    Some (ODiagnosticAccuracySummary s)"
  shows "\<exists>es0. run srv_env (updateSummary L req) w = prefixed es0 (run srv_env (recordVerdict req s) w)"
  by (rule exI [of _ "[EGet Cached KDiagnosticAccuracySummary (summary_key L req)
      (Inr (ODiagnosticAccuracySummary s))]"])
    (simp add: updateSummary_def Let_def srv_get_def assms)

lemma run_updateSummary_missing:
  assumes "map_of (Cache w) (KDiagnosticAccuracySummary, summary_key L req) = None"
    and "map_of (Objects w) (KDiagnosticAccuracySummary, summary_key L req) = None"
    and "s = new_summary L (Namespace (Meta req)) (AgentIdentity (Spec req))"
    and "slot_of (ODiagnosticAccuracySummary s) = (KDiagnosticAccuracySummary, summary_key L req)"
  shows "\<exists>es0. run srv_env (updateSummary L req) w = prefixed es0 (run srv_env (recordVerdict req s)
    (w\<lparr>Objects := (slot_of (ODiagnosticAccuracySummary s), ODiagnosticAccuracySummary s) # Objects w\<rparr>))"
  by (rule exI [of _ "[EGet Cached KDiagnosticAccuracySummary (summary_key L req) (Inl (Api NotFound)),
      ECreate (ODiagnosticAccuracySummary s) (Inr (ODiagnosticAccuracySummary s)),
      EGet Direct KDiagnosticAccuracySummary (summary_key L req) (Inr (ODiagnosticAccuracySummary s))]"])
    (simp add: updateSummary_def Let_def srv_get_def srv_create_def assms(1,2,4) assms(3) [symmetric]
      case_prod_beta)

lemma run_updateSummary:
  assumes "srv_ok w" and "Cache w = Objects w"
    and st: "st = (case summary_status_at L req w of None \<Rightarrow> empty_summary_status | Some st \<Rightarrow> st)"
  shows "\<exists>es w' s. run srv_env (updateSummary L req) w = (es, Inr (), w') \<and>
    map_of (Objects w') = (map_of (Objects w))
      ((KDiagnosticAccuracySummary, summary_key L req) \<mapsto> ODiagnosticAccuracySummary s) \<and>
    SummaryStatus s = (if Name (Meta req) \<in> set (RecentVerdicts st) then st else applyVerdict req st)"
proof -
  let ?slot = "(KDiagnosticAccuracySummary, summary_key L req)"
  have "\<exists>es0 s w1. run srv_env (updateSummary L req) w =
        prefixed es0 (run srv_env (recordVerdict req s) w1) \<and>
      slot_of (ODiagnosticAccuracySummary s) = ?slot \<and> SummaryStatus s = st \<and>
      map_of (Objects w1) = (map_of (Objects w))(?slot \<mapsto> ODiagnosticAccuracySummary s)"
  proof (cases "map_of (Objects w) ?slot")
    case None
    define s where "s = new_summary L (Namespace (Meta req)) (AgentIdentity (Spec req))"
    have slot: "slot_of (ODiagnosticAccuracySummary s) = ?slot"
      by (simp add: s_def slot_of_def new_summary_def key_of_def summary_key_def)
    have "SummaryStatus s = st"
      using None by (simp add: s_def new_summary_def st summary_status_at_def)
    moreover have "map_of (Cache w) ?slot = None" using None assms(2) by simp
    note run_updateSummary_missing [OF this None s_def slot, unfolded slot]
    moreover have "map_of (Objects (w\<lparr>Objects := (?slot, ODiagnosticAccuracySummary s) # Objects w\<rparr>)) =
        (map_of (Objects w))(?slot \<mapsto> ODiagnosticAccuracySummary s)"
      by simp
    ultimately show ?thesis using slot by blast
  next
    case (Some obj)
    then obtain s where s: "obj = ODiagnosticAccuracySummary s"
      "slot_of (ODiagnosticAccuracySummary s) = ?slot"
      using assms(1) by (blast elim: stored_summary)
    with Some have "SummaryStatus s = st" by (simp add: st summary_status_at_def)
    moreover have "map_of (Cache w) ?slot = Some (ODiagnosticAccuracySummary s)"
      using Some assms(2) s(1) by simp
    note run_updateSummary_found [OF this]
    moreover have "map_of (Objects w) = (map_of (Objects w))(?slot \<mapsto> ODiagnosticAccuracySummary s)"
      using Some s(1) by (simp add: fun_upd_idem)
    ultimately show ?thesis using s(2) by blast
  qed
  then obtain es0 s w1 where run: "run srv_env (updateSummary L req) w =
      prefixed es0 (run srv_env (recordVerdict req s) w1)"
    and slot: "slot_of (ODiagnosticAccuracySummary s) = ?slot" and s: "SummaryStatus s = st"
    and w1: "map_of (Objects w1) = (map_of (Objects w))(?slot \<mapsto> ODiagnosticAccuracySummary s)"
    by blast
  have "map_of (Objects w1) (slot_of (ODiagnosticAccuracySummary s)) = Some (ODiagnosticAccuracySummary s)"
    by (simp add: slot w1)
  from run_recordVerdict [OF this, of req] obtain es w' where
    rec: "run srv_env (recordVerdict req s) w1 = (es, Inr (), w')"
    and w': "map_of (Objects w') = (map_of (Objects w1))(?slot \<mapsto> ODiagnosticAccuracySummary
      (s\<lparr>SummaryStatus := if Name (Meta req) \<in> set (RecentVerdicts st) then st else applyVerdict req st\<rparr>))"
    unfolding slot s by blast
  show ?thesis
    by (intro exI [of _ "es0 @ es"] exI [of _ w'] exI [of _ "s\<lparr>SummaryStatus :=
      if Name (Meta req) \<in> set (RecentVerdicts st) then st else applyVerdict req st\<rparr>"])
      (simp add: run rec w' w1)
qed


section \<open>Concrete runs\<close>

definition reviewed_request :: "string \<Rightarrow> AgentRequest" where
  "reviewed_request n = sample_request\<lparr>Meta := sample_meta n,
     Status := sample_status\<lparr>Phase := PhaseCompleted, Verdict := ''correct'', VerdictAt := Some 7\<rparr>\<rparr>"

definition review_world :: server where
  "review_world = world 0 [OAgentRequest (reviewed_request ''a''), OAgentRequest (reviewed_request ''b''),
     ODiagnosticAccuracySummary (new_summary ref_libs ''ns'' ''bot'')]"

abbreviation reconcile_review :: "string \<Rightarrow> ctrl_result result prog" where
  "reconcile_review n \<equiv> ReconcileAccuracy ref_libs (retry_conflict 4) (''ns'', n)"

abbreviation reviews_counted :: "server \<Rightarrow> int option" where
  "reviews_counted w \<equiv> map_option TotalReviewed (summary_status_at ref_libs (reviewed_request ''a'') w)"

theorem applyVerdict_keeps_summary_ok_witness:
  "summary_ok (applyVerdict (reviewed_request ''a'') empty_summary_status) \<and>
   Name (Meta (reviewed_request ''a'')) \<in>
     set (RecentVerdicts (applyVerdict (reviewed_request ''a'') empty_summary_status)) \<and>
   TotalReviewed (applyVerdict (reviewed_request ''a'') empty_summary_status) =
     TotalReviewed empty_summary_status + 1"
  by (rule applyVerdict_keeps_summary_ok)
    (simp_all add: summary_ok_def empty_summary_status_def)





text \<open>A rebuild makes the controller count twice.  It clears the list of counted requests, so
  reconciling an already counted request after a rebuild (which a restart of the controller
  does for every request) counts its verdict again.\<close>

theorem recompute_then_double_count:
  "let w1 = sync (server_after (reconcile_review ''a'') review_world);
       w2 = sync (server_after (recomputeAccuracyForAgent ref_libs (retry_conflict 4) (\<lambda>s. s) ''ns'' '''') w1);
       w3 = server_after (reconcile_review ''a'') w2
   in reviews_counted w1 = Some 1 \<and> reviews_counted w2 = Some 2 \<and> reviews_counted w3 = Some 3"
  by code_simp

end
