(* ===== verification/Trust_Profile.thy ===== *)
theory Trust_Profile
  imports Accuracy "HOL-Library.Multiset"
begin

text \<open>
  The trust ladder: \<open>src/internal/controller/agenttrustprofile_controller.go\<close>.  A profile is found
  or bootstrapped, the accuracy over a window of verdict records and the number of executions are
  computed, the level is resolved from the graduation policy, demotions are guarded
  by a grace period and an accuracy band, and the new status is patched and audited.

  \<open>sort.Slice\<close> does not fix the order of entries with equal timestamps, so the sorting function is
  the argument \<open>sortEntries\<close>; \<open>sorts_entries\<close> says what it promises.
\<close>

definition defaultGraduationPolicyName :: string where
  "defaultGraduationPolicyName = ''default''"

definition empty_profile_status :: AgentTrustProfileStatus where
  "empty_profile_status = \<lparr>TrustLevel = '''', ProfileDiagnosticAccuracy = None, RecentAccuracy = None,
     ProfileTotalReviewed = 0, TotalExecutions = 0, SuccessRate = None, LastPromotedAt = None,
     LastDemotedAt = None, LastEvaluatedAt = None\<rparr>"

definition new_profile :: "objkey \<Rightarrow> string \<Rightarrow> AgentTrustProfile" where
  "new_profile nn agentID = \<lparr>ProfileMeta = empty_meta\<lparr>Name := snd nn, Namespace := fst nn\<rparr>,
     ProfileAgentIdentity = agentID, ProfileStatus = empty_profile_status\<rparr>"

definition zero_profile :: AgentTrustProfile where
  "zero_profile = new_profile ('''', '''') ''''"

definition zero_policy :: AgentGraduationPolicy where
  "zero_policy = \<lparr>GradMeta = empty_meta, EvaluationWindowCount = 0, AwaitingVerdictTTL = '''',
     Levels = [], Demotion = \<lparr>AccuracyDropThreshold = 0, WindowSize = 0, GracePeriod = ''''\<rparr>\<rparr>"


section \<open>Finding the profile\<close>

definition first_named :: "libs \<Rightarrow> string \<Rightarrow> string list \<Rightarrow> string" where
  "first_named L name ids =
     (case find (\<lambda>i. ProfileNameForAgent L i = name) ids of None \<Rightarrow> '''' | Some i \<Rightarrow> i)"

text \<open>Priority 1: an AgentRegistration, through the field index or by a scan.\<close>

definition registeredIdentity :: "libs \<Rightarrow> objkey \<Rightarrow> string result prog" where
  "registeredIdentity L nn =
     ListObjects Cached KAgentRegistration (list_all_objects\<lparr>InNamespace := fst nn,
         MatchingFields := [(''spec.agentProfileName'', snd nn)]\<rparr>) (\<lambda>l. case l of
         Inr (items, _) \<Rightarrow> Ret (Inr (case pick_AgentRegistrations items of
             [] \<Rightarrow> '''' | reg # _ \<Rightarrow> RegAgentIdentity (RegSpec reg)))
       | Inl _ \<Rightarrow> ListObjects Cached KAgentRegistration (list_all_objects\<lparr>InNamespace := fst nn\<rparr>)
           (\<lambda>l. case l of
               Inl e \<Rightarrow> Ret (Inl (Wrapped ''listing AgentRegistration fallback scan'' e))
             | Inr (items, _) \<Rightarrow> Ret (Inr (first_named L (snd nn)
                 (map (\<lambda>reg. RegAgentIdentity (RegSpec reg)) (pick_AgentRegistrations items))))))"

text \<open>Priorities 2 and 3: the accuracy summary, then the requests.  \<open>None\<close>: nothing to bootstrap.\<close>

definition observedIdentity :: "libs \<Rightarrow> objkey \<Rightarrow> string option result prog" where
  "observedIdentity L nn =
     Get Cached KDiagnosticAccuracySummary nn (\<lambda>g. case as_DiagnosticAccuracySummary g of
         Inr summary \<Rightarrow> Ret (Inr (Some (SummaryAgentIdentity summary)))
       | Inl e \<Rightarrow>
           if \<not> IsNotFound e then Ret (Inl e)
           else ListObjects Cached KAgentRequest (list_all_objects\<lparr>InNamespace := fst nn,
               MatchingLabels := [(''aip.io/profileName'', snd nn)]\<rparr>) (\<lambda>l. case l of
               Inl e \<Rightarrow> Ret (Inl e)
             | Inr (items, _) \<Rightarrow> (case pick_AgentRequests items of
                 ar # _ \<Rightarrow> Ret (Inr (Some (AgentIdentity (Spec ar))))
               | [] \<Rightarrow> ListObjects Cached KAgentRequest (list_all_objects\<lparr>InNamespace := fst nn\<rparr>)
                   (\<lambda>l. case l of
                       Inl e \<Rightarrow> Ret (Inl e)
                     | Inr (items, _) \<Rightarrow>
                         (let agentID = first_named L (snd nn)
                            (map (\<lambda>ar. AgentIdentity (Spec ar)) (pick_AgentRequests items))
                          in Ret (Inr (if agentID = '''' then None else Some agentID)))))))"

definition bootstrapProfile :: "objkey \<Rightarrow> string \<Rightarrow> AgentTrustProfile result prog" where
  "bootstrapProfile nn agentID =
     (let reread = Get Direct KAgentTrustProfile nn (\<lambda>g. Ret (as_AgentTrustProfile g))
      in Create (OAgentTrustProfile (new_profile nn agentID)) (\<lambda>c. case c of
            Inl e \<Rightarrow> if IsAlreadyExists e then reread else Ret (Inl e)
          | Inr _ \<Rightarrow> reread))"

definition getOrBootstrapProfile :: "libs \<Rightarrow> objkey \<Rightarrow> AgentTrustProfile result prog" where
  "getOrBootstrapProfile L nn =
     Get Cached KAgentTrustProfile nn (\<lambda>g. case as_AgentTrustProfile g of
         Inr profile \<Rightarrow> Ret (Inr profile)
       | Inl e \<Rightarrow>
           if \<not> IsNotFound e then Ret (Inl e)
           else bind (registeredIdentity L nn) (\<lambda>r. case r of
               Inl e \<Rightarrow> Ret (Inl e)
             | Inr agentID \<Rightarrow>
                 if agentID \<noteq> '''' then bootstrapProfile nn agentID
                 else bind (observedIdentity L nn) (\<lambda>r. case r of
                     Inl e \<Rightarrow> Ret (Inl e)
                   | Inr None \<Rightarrow> Ret (Inr zero_profile)
                   | Inr (Some agentID) \<Rightarrow> bootstrapProfile nn agentID)))"


section \<open>Accuracy over a window\<close>

record verdictEntry =
  EntryVerdict :: string
  EntryReasonCode :: string
  EntryTimestamp :: time

definition verdict_entries :: "AuditRecord list \<Rightarrow> verdictEntry list" where
  "verdict_entries items = map (\<lambda>a. \<lparr>EntryVerdict = lookup_str (AuditAnnotations (AuditSpec a)) ''verdict'',
       EntryReasonCode = lookup_str (AuditAnnotations (AuditSpec a)) ''verdictReasonCode'',
       EntryTimestamp = Timestamp (AuditSpec a)\<rparr>)
     (filter (\<lambda>a. Event (AuditSpec a) = AuditEventVerdictSubmitted \<and>
        lookup_str (AuditAnnotations (AuditSpec a)) ''verdictReasonCode'' \<notin> set skipReasons) items)"

definition entries_accuracy :: "verdictEntry list \<Rightarrow> float64 option \<times> int" where
  "entries_accuracy entries =
     (if entries = [] then (None, 0)
      else let correct = int (length (filter (\<lambda>e. EntryVerdict e = verdictCorrect) entries));
               partial = int (length (filter (\<lambda>e. EntryVerdict e = verdictPartial) entries));
               total' = int (length entries)
           in (Some (accuracy_ratio correct partial total'), total'))"

text \<open>A negative count makes the slice expression panic.\<close>

definition window_accuracy ::
  "(verdictEntry list \<Rightarrow> verdictEntry list) \<Rightarrow> AuditRecord list \<Rightarrow> int \<Rightarrow> (float64 option \<times> int) result" where
  "window_accuracy sortEntries items window =
     (let entries = sortEntries (verdict_entries items)
      in if int (length entries) > window
         then (if window < 0 then Inl Panic else Inr (entries_accuracy (take (nat window) entries)))
         else Inr (entries_accuracy entries))"

definition computeRollingAccuracy ::
  "(verdictEntry list \<Rightarrow> verdictEntry list) \<Rightarrow> string \<Rightarrow> string \<Rightarrow> int \<Rightarrow>
     (float64 option \<times> int) result prog" where
  "computeRollingAccuracy sortEntries ns agentID window =
     ListObjects Cached KAuditRecord (list_all_objects\<lparr>InNamespace := ns,
         MatchingLabels := [(''aip.io/agentIdentity'', agentID)]\<rparr>) (\<lambda>l. case l of
         Inl e \<Rightarrow> Ret (Inl e)
       | Inr (items, _) \<Rightarrow> Ret (window_accuracy sortEntries (pick_AuditRecords items) window))"

definition computeDemotionAccuracy ::
  "(verdictEntry list \<Rightarrow> verdictEntry list) \<Rightarrow> string \<Rightarrow> string \<Rightarrow> float64 \<Rightarrow> bool \<Rightarrow>
     AgentGraduationPolicy \<Rightarrow> float64 prog" where
  "computeDemotionAccuracy sortEntries ns agentID recentAccuracy levelFound policy =
     (if \<not> levelFound \<or> WindowSize (Demotion policy) \<le> 0 then Ret recentAccuracy
      else bind (computeRollingAccuracy sortEntries ns agentID (WindowSize (Demotion policy)))
        (\<lambda>r. Ret (case r of Inl _ \<Rightarrow> recentAccuracy
                | Inr (None, _) \<Rightarrow> recentAccuracy | Inr (Some da, _) \<Rightarrow> da)))"

definition executed :: "libs \<Rightarrow> string \<Rightarrow> AgentRequest \<Rightarrow> bool" where
  "executed L agentID ar \<longleftrightarrow> AgentIdentity (Spec ar) = agentID \<and>
     (Phase (Status ar) = PhaseCompleted \<or> Phase (Status ar) = PhaseFailed) \<and>
     IsStatusConditionTrue L (Conditions (Status ar)) ConditionExecuting"

definition countTerminalExecutions ::
  "libs \<Rightarrow> string \<Rightarrow> string \<Rightarrow> (int \<times> float64 option) result prog" where
  "countTerminalExecutions L ns agentID =
     ListObjects Cached KAgentRequest (list_all_objects\<lparr>InNamespace := ns\<rparr>) (\<lambda>l. case l of
         Inl e \<Rightarrow> Ret (Inl e)
       | Inr (items, _) \<Rightarrow>
           (let ars = filter (executed L agentID) (pick_AgentRequests items);
                total' = int (length ars);
                completed = int (length (filter (\<lambda>ar. Phase (Status ar) = PhaseCompleted) ars))
            in if total' = 0 then Ret (Inr (0, None))
               else Ret (Inr (total', Some (round64 (to_float completed / to_float total'))))))"


section \<open>Resolving the level\<close>

definition policyFound :: "AgentGraduationPolicy \<Rightarrow> bool" where
  "policyFound policy \<longleftrightarrow> Name (GradMeta policy) \<noteq> '''' \<and> Levels policy \<noteq> []"

definition levelMeets :: "GraduationLevel \<Rightarrow> float64 \<Rightarrow> int \<Rightarrow> bool" where
  "levelMeets level accuracy executions =
     ((case Accuracy level of None \<Rightarrow> True | Some band \<Rightarrow>
         (case AccuracyMin band of None \<Rightarrow> True | Some m \<Rightarrow> \<not> accuracy < m)) \<and>
      (case Executions level of None \<Rightarrow> True | Some band \<Rightarrow>
         (case ExecutionsMin band of None \<Rightarrow> True | Some m \<Rightarrow> \<not> executions < m)))"

definition resolveTrustLevel :: "float64 \<Rightarrow> int \<Rightarrow> AgentGraduationPolicy \<Rightarrow> string" where
  "resolveTrustLevel recentAccuracy totalExecutions policy =
     (if \<not> policyFound policy then TrustLevelObserver
      else case find (\<lambda>level. levelMeets level recentAccuracy totalExecutions) (rev (Levels policy)) of
        None \<Rightarrow> TrustLevelObserver | Some level \<Rightarrow> LevelName level)"

text \<open>The loop of \<open>checkDemotion\<close> over the levels.\<close>

fun below_band :: "DemotionPolicy \<Rightarrow> string \<Rightarrow> float64 \<Rightarrow> GraduationLevel list \<Rightarrow> bool" where
  "below_band dp oldLevel recentAccuracy [] = False"
| "below_band dp oldLevel recentAccuracy (level # levels) =
     (if LevelName level \<noteq> oldLevel then below_band dp oldLevel recentAccuracy levels
      else case Accuracy level of
        None \<Rightarrow> below_band dp oldLevel recentAccuracy levels
      | Some band \<Rightarrow> (case AccuracyMin band of
          None \<Rightarrow> below_band dp oldLevel recentAccuracy levels
        | Some m \<Rightarrow>
            (let buffer = (case DemotionBuffer band of
                 None \<Rightarrow> AccuracyDropThreshold dp | Some b \<Rightarrow> b)
             in recentAccuracy < round64 (m - buffer))))"

definition checkDemotion ::
  "libs \<Rightarrow> AgentTrustProfile \<Rightarrow> string \<Rightarrow> float64 \<Rightarrow> AgentGraduationPolicy \<Rightarrow> bool prog" where
  "checkDemotion L profile oldLevel recentAccuracy policy =
     (let dp = Demotion policy;
          band = below_band dp oldLevel recentAccuracy (Levels policy);
          lastPromoted = (case LastPromotedAt (ProfileStatus profile) of
              None \<Rightarrow> CreationTimestamp (ProfileMeta profile) | Some t \<Rightarrow> t)
      in if GracePeriod dp = '''' then Ret band
         else case ParseDuration L (GracePeriod dp) of
             Inl _ \<Rightarrow> Ret band
           | Inr grace \<Rightarrow> Now (\<lambda>now. Ret (if now < lastPromoted + grace then False else band)))"


section \<open>Reconciliation\<close>

definition trust_audit :: "libs \<Rightarrow> AgentTrustProfile \<Rightarrow> string \<Rightarrow> string \<Rightarrow> bool \<Rightarrow> time \<Rightarrow> AuditRecord" where
  "trust_audit L profile oldLevel newLevel demoted now =
     (let audit = \<lparr>AuditMeta = empty_meta\<lparr>
            Name := deterministicAuditName L (Name (ProfileMeta profile))
              (audit_event_str AuditEventTrustProfileUpdated) oldLevel newLevel,
            Namespace := Namespace (ProfileMeta profile),
            Labels := [(''aip.io/agentIdentity'', ProfileAgentIdentity profile)],
            Annotations := [(''governance.aip.io/agentTrustProfileRef'', Name (ProfileMeta profile))]\<rparr>,
          AuditSpec = \<lparr>Timestamp = now, AuditAgentIdentity = ProfileAgentIdentity profile,
            AgentRequestRef = ''-'', Event = AuditEventTrustProfileUpdated,
            AuditAction = ''trust-evaluation'', TargetURI = ''agent-trust-profile'',
            AuditReason = ''Trust level changed from '' @ oldLevel @ '' to '' @ newLevel,
            TransitionOf = None, PolicyEvaluations = [],
            AuditAnnotations = [(''oldLevel'', oldLevel), (''newLevel'', newLevel),
              (''demoted'', if demoted then ''true'' else ''false'')],
            Details = None\<rparr>,
          OwnerRequest = ''''\<rparr>
      in case SetProfileReference L profile audit of
           Inl _ \<Rightarrow> audit | Inr owner \<Rightarrow> audit\<lparr>OwnerRequest := owner\<rparr>)"

definition emitTrustProfileAuditWithRetry ::
  "libs \<Rightarrow> AgentTrustProfile \<Rightarrow> string \<Rightarrow> string \<Rightarrow> bool \<Rightarrow> error option prog" where
  "emitTrustProfileAuditWithRetry L profile oldLevel newLevel demoted =
     Now (\<lambda>now. create_retry 3 (trust_audit L profile oldLevel newLevel demoted now) None)"

text \<open>What the reconciliation has computed when it decides on the level.\<close>

record trust_inputs =
  InSummaryAccuracy :: "float64 option"
  InRecentAccuracy :: float64
  InTotalReviewed :: int
  InDemotionAccuracy :: float64
  InTotalExecutions :: int
  InSuccessRate :: "float64 option"
  InPolicy :: AgentGraduationPolicy
  InLevelFound :: bool

definition current_level :: "AgentTrustProfile \<Rightarrow> string" where
  "current_level profile = (let l = TrustLevel (ProfileStatus profile)
     in if l = '''' then TrustLevelObserver else l)"

definition rank :: "string \<Rightarrow> int" where
  "rank level = fst (TrustLevelRank level)"

definition decideLevel :: "libs \<Rightarrow> AgentTrustProfile \<Rightarrow> trust_inputs \<Rightarrow> (string \<times> bool) prog" where
  "decideLevel L profile i =
     (let newLevel = resolveTrustLevel (InRecentAccuracy i) (InTotalExecutions i) (InPolicy i);
          oldLevel = current_level profile
      in if InLevelFound i \<and> rank newLevel < rank oldLevel
         then bind (checkDemotion L profile oldLevel (InDemotionAccuracy i) (InPolicy i))
           (\<lambda>demote. Ret (if demote then (newLevel, True) else (oldLevel, False)))
         else Ret (newLevel, False))"

definition new_status :: "AgentTrustProfile \<Rightarrow> trust_inputs \<Rightarrow> string \<Rightarrow> time \<Rightarrow> AgentTrustProfileStatus" where
  "new_status profile i newLevel now =
     (let oldLevel = current_level profile;
          st = (ProfileStatus profile)\<lparr>TrustLevel := newLevel,
            ProfileDiagnosticAccuracy := InSummaryAccuracy i,
            RecentAccuracy := Some (InRecentAccuracy i),
            ProfileTotalReviewed := InTotalReviewed i,
            TotalExecutions := InTotalExecutions i,
            SuccessRate := InSuccessRate i,
            LastEvaluatedAt := Some now\<rparr>
      in if newLevel \<noteq> oldLevel
         then (if rank newLevel > rank oldLevel then st\<lparr>LastPromotedAt := Some now\<rparr>
               else st\<lparr>LastDemotedAt := Some now\<rparr>)
         else st)"

definition applyLevel :: "libs \<Rightarrow> AgentTrustProfile \<Rightarrow> trust_inputs \<Rightarrow> ctrl_result result prog" where
  "applyLevel L profile i =
     bind (decideLevel L profile i) (\<lambda>(newLevel, demoted).
       Now (\<lambda>now.
         let oldLevel = current_level profile;
             profile' = profile\<lparr>ProfileStatus := new_status profile i newLevel now\<rparr>
         in Patch StatusSubresource MergeFrom (OAgentTrustProfile profile) (OAgentTrustProfile profile')
              (\<lambda>p. case as_AgentTrustProfile p of
                  Inl e \<Rightarrow> Ret (Inl e)
                | Inr patched \<Rightarrow>
                    if newLevel \<noteq> oldLevel
                    then bind (emitTrustProfileAuditWithRetry L patched oldLevel newLevel demoted)
                      (\<lambda>_. Ret (Inr Done))
                    else Ret (Inr Done))))"

text \<open>The accuracy and reviews the level is decided on: the whole history, or the window.\<close>

definition recentReviews ::
  "(verdictEntry list \<Rightarrow> verdictEntry list) \<Rightarrow> string \<Rightarrow> string \<Rightarrow>
     DiagnosticAccuracySummary option \<Rightarrow> bool \<Rightarrow> AgentGraduationPolicy \<Rightarrow> (float64 \<times> int) prog" where
  "recentReviews sortEntries ns agentID summary levelFound policy =
     (let allTime = (case summary of None \<Rightarrow> (0, 0)
          | Some s \<Rightarrow> (case DiagnosticAccuracy (SummaryStatus s) of None \<Rightarrow> (0, 0)
              | Some a \<Rightarrow> (a, TotalReviewed (SummaryStatus s))))
      in if levelFound \<and> Levels policy \<noteq> [] \<and> EvaluationWindowCount policy > 0
         then bind (computeRollingAccuracy sortEntries ns agentID (EvaluationWindowCount policy))
           (\<lambda>r. Ret (case r of Inl _ \<Rightarrow> allTime | Inr (None, _) \<Rightarrow> allTime | Inr (Some ra, tr) \<Rightarrow> (ra, tr)))
         else Ret allTime)"

definition gather ::
  "DiagnosticAccuracySummary option \<Rightarrow> AgentGraduationPolicy \<Rightarrow> bool \<Rightarrow> float64 \<times> int \<Rightarrow> float64 \<Rightarrow>
     (int \<times> float64 option) result \<Rightarrow> trust_inputs" where
  "gather summary policy levelFound reviews demotionAccuracy executions =
     (let (totalExecutions, successRate) = (case executions of Inl _ \<Rightarrow> (0, None) | Inr ts \<Rightarrow> ts)
      in \<lparr>InSummaryAccuracy = (case summary of None \<Rightarrow> None
            | Some s \<Rightarrow> DiagnosticAccuracy (SummaryStatus s)),
          InRecentAccuracy = fst reviews, InTotalReviewed = snd reviews,
          InDemotionAccuracy = demotionAccuracy, InTotalExecutions = totalExecutions,
          InSuccessRate = successRate, InPolicy = policy, InLevelFound = levelFound\<rparr>)"

definition evaluateProfile ::
  "libs \<Rightarrow> (verdictEntry list \<Rightarrow> verdictEntry list) \<Rightarrow> AgentTrustProfile \<Rightarrow>
     DiagnosticAccuracySummary option \<Rightarrow> AgentGraduationPolicy \<Rightarrow> bool \<Rightarrow> ctrl_result result prog" where
  "evaluateProfile L sortEntries profile summary policy levelFound =
     (let agentID = ProfileAgentIdentity profile; ns = Namespace (ProfileMeta profile)
      in bind (recentReviews sortEntries ns agentID summary levelFound policy) (\<lambda>reviews.
         bind (computeDemotionAccuracy sortEntries ns agentID (fst reviews) levelFound policy)
         (\<lambda>demotionAccuracy.
         bind (countTerminalExecutions L ns agentID) (\<lambda>executions.
           applyLevel L profile
             (gather summary policy levelFound reviews demotionAccuracy executions)))))"

definition evaluateUnderPolicy ::
  "libs \<Rightarrow> (verdictEntry list \<Rightarrow> verdictEntry list) \<Rightarrow> AgentTrustProfile \<Rightarrow>
     DiagnosticAccuracySummary option \<Rightarrow> ctrl_result result prog" where
  "evaluateUnderPolicy L sortEntries profile summary =
     Get Cached KAgentGraduationPolicy (Namespace (ProfileMeta profile), defaultGraduationPolicyName)
       (\<lambda>g. case as_AgentGraduationPolicy g of
           Inl e \<Rightarrow> if IsNotFound e
             then evaluateProfile L sortEntries profile summary zero_policy False
             else Ret (Inl e)
         | Inr policy \<Rightarrow> evaluateProfile L sortEntries profile summary policy True)"

definition ReconcileTrustProfile ::
  "libs \<Rightarrow> (verdictEntry list \<Rightarrow> verdictEntry list) \<Rightarrow> objkey \<Rightarrow> ctrl_result result prog" where
  "ReconcileTrustProfile L sortEntries nn =
     bind (getOrBootstrapProfile L nn) (\<lambda>r. case r of
         Inl e \<Rightarrow> Ret (Inl e)
       | Inr profile \<Rightarrow>
           if ProfileAgentIdentity profile = '''' then Ret (Inr Done)
           else Get Direct KDiagnosticAccuracySummary
             (Namespace (ProfileMeta profile), ProfileNameForAgent L (ProfileAgentIdentity profile))
             (\<lambda>g. case as_DiagnosticAccuracySummary g of
                 Inl e \<Rightarrow> if IsNotFound e then evaluateUnderPolicy L sortEntries profile None
                   else Ret (Inl e)
               | Inr summary \<Rightarrow> evaluateUnderPolicy L sortEntries profile (Some summary)))"

section \<open>The resolved level\<close>

lemma rank_simps [simp]: "rank TrustLevelObserver = 0"
  by (simp add: rank_def)

definition known_levels :: "AgentGraduationPolicy \<Rightarrow> bool" where
  "known_levels policy \<longleftrightarrow> list_all (\<lambda>l. snd (TrustLevelRank (LevelName l))) (Levels policy) \<and>
     sorted (map (\<lambda>l. rank (LevelName l)) (Levels policy))"

lemma rank_known: "snd (TrustLevelRank l) \<Longrightarrow> 0 \<le> rank l"
  by (auto simp: rank_def TrustLevelRank_def trustLevelOrder_def split: if_splits)

lemma levelMeets_mono:
  "levelMeets l a x \<Longrightarrow> a \<le> a' \<Longrightarrow> x \<le> x' \<Longrightarrow> levelMeets l a' x'"
  by (auto simp: levelMeets_def split: option.splits)

lemma find_rev_highest:
  assumes "sorted (map f xs)" and "y \<in> set xs" and "P y"
  shows "\<exists>z. find P (rev xs) = Some z \<and> P z \<and> z \<in> set xs \<and> f y \<le> f z"
  using assms
proof (induction xs rule: rev_induct)
  case (snoc x xs)
  then show ?case by (auto simp: sorted_append)
qed simp

lemma resolveTrustLevel_cases:
  obtains "resolveTrustLevel a x policy = TrustLevelObserver"
  | l where "l \<in> set (Levels policy)" "levelMeets l a x" "policyFound policy"
      "resolveTrustLevel a x policy = LevelName l"
proof (cases "policyFound policy")
  case True
  show ?thesis
  proof (cases "find (\<lambda>l. levelMeets l a x) (rev (Levels policy))")
    case None
    with True show ?thesis by (simp add: that(1) resolveTrustLevel_def)
  next
    case (Some l)
    then have "l \<in> set (rev (Levels policy))" "levelMeets l a x"
      unfolding find_Some_iff by (metis nth_mem, metis)
    with Some True show ?thesis by (intro that(2) [of l]) (simp_all add: resolveTrustLevel_def)
  qed
qed (simp add: that(1) resolveTrustLevel_def)

lemma resolveTrustLevel_highest:
  assumes "known_levels policy" and "policyFound policy" and "l \<in> set (Levels policy)" and "levelMeets l a x"
  shows "rank (LevelName l) \<le> rank (resolveTrustLevel a x policy)"
  using find_rev_highest [of "\<lambda>l. rank (LevelName l)" "Levels policy" l "\<lambda>l. levelMeets l a x"] assms
  by (auto simp: known_levels_def resolveTrustLevel_def)



section \<open>The accuracy window\<close>

definition sorts_entries :: "(verdictEntry list \<Rightarrow> verdictEntry list) \<Rightarrow> bool" where
  "sorts_entries s \<longleftrightarrow> (\<forall>xs. mset (s xs) = mset xs \<and>
     sorted_wrt (\<lambda>a b. EntryTimestamp b \<le> EntryTimestamp a) (s xs))"

definition newest_first :: "verdictEntry list \<Rightarrow> verdictEntry list" where
  "newest_first xs = sort_key (\<lambda>e. - EntryTimestamp e) xs"

lemma newest_first_sorts: "sorts_entries newest_first"
proof -
  have "sorted_wrt (\<lambda>a b. EntryTimestamp b \<le> EntryTimestamp a) (newest_first xs)" for xs
    using sorted_sort_key [of "\<lambda>e. - EntryTimestamp e" xs]
    by (simp add: newest_first_def sorted_wrt_map)
  then show ?thesis by (simp add: sorts_entries_def newest_first_def)
qed

lemma entries_accuracy_bounds:
  assumes "int (length es) < 2 ^ 52" and "fst (entries_accuracy es) = Some a"
  shows "0 \<le> a \<and> a \<le> 1"
proof -
  have ne: "es \<noteq> []" using assms(2) by (auto simp: entries_accuracy_def)
  let ?c = "filter (\<lambda>e. EntryVerdict e = verdictCorrect) es"
  let ?p = "filter (\<lambda>e. EntryVerdict e = verdictPartial) es"
  have "length ?c + length ?p \<le> length es"
    by (induction es) (auto simp: verdictCorrect_def verdictPartial_def)
  then have "0 \<le> accuracy_ratio (int (length ?c)) (int (length ?p)) (int (length es)) \<and>
      accuracy_ratio (int (length ?c)) (int (length ?p)) (int (length es)) \<le> 1"
    using assms(1) ne by (intro accuracy_ratio_bounds) auto
  then show ?thesis using assms(2) ne by (auto simp: entries_accuracy_def Let_def)
qed

text \<open>The rolling accuracy is the accuracy of the most recent verdicts: for any sorting function
  with the documented behaviour, it is computed from exactly as many verdict records as the window
  and the records allow, no record left out is more recent than one taken, and
  the ratio lies between 0 and 1.\<close>

theorem window_accuracy_recent:
  assumes "sorts_entries s" and "0 < window" and "window < 2 ^ 52"
  shows "\<exists>recent rest. mset recent + mset rest = mset (verdict_entries items) \<and>
    length recent = min (nat window) (length (verdict_entries items)) \<and>
    (\<forall>a\<in>set rest. \<forall>b\<in>set recent. EntryTimestamp a \<le> EntryTimestamp b) \<and>
    window_accuracy s items window = Inr (entries_accuracy recent) \<and>
    (\<forall>a. fst (entries_accuracy recent) = Some a \<longrightarrow> 0 \<le> a \<and> a \<le> 1)"
proof -
  define es where "es = s (verdict_entries items)"
  define recent where "recent = take (nat window) es"
  define rest where "rest = drop (nat window) es"
  have mset: "mset es = mset (verdict_entries items)"
    and sorted: "sorted_wrt (\<lambda>a b. EntryTimestamp b \<le> EntryTimestamp a) es"
    using assms(1) by (simp_all add: es_def sorts_entries_def)
  have len: "length es = length (verdict_entries items)"
    using mset by (metis size_mset)
  have split: "recent @ rest = es" by (simp add: recent_def rest_def)
  have "mset recent + mset rest = mset (verdict_entries items)"
    using mset split by (metis mset_append)
  moreover have "length recent = min (nat window) (length (verdict_entries items))"
    by (simp add: recent_def len min.commute)
  moreover have "\<forall>a\<in>set rest. \<forall>b\<in>set recent. EntryTimestamp a \<le> EntryTimestamp b"
    using sorted unfolding split [symmetric] by (auto simp: sorted_wrt_append)
  moreover have "window_accuracy s items window = Inr (entries_accuracy recent)"
    using assms(2) by (auto simp: window_accuracy_def Let_def es_def [symmetric] recent_def)
  moreover have "int (length recent) < 2 ^ 52"
    using assms(2,3) by (simp add: recent_def)
  then have "\<forall>a. fst (entries_accuracy recent) = Some a \<longrightarrow> 0 \<le> a \<and> a \<le> 1"
    using entries_accuracy_bounds by blast
  ultimately show ?thesis by blast
qed

section \<open>Demotions are guarded\<close>

definition no_patch :: "event \<Rightarrow> bool" where
  "no_patch e = (case e of EPatch _ _ _ _ _ \<Rightarrow> False | _ \<Rightarrow> True)"

lemma no_patch_simps [simp]:
  "no_patch (EGet rd k key r)" "no_patch (EList rd k opts l)" "no_patch (ECreate obj r)"
  "no_patch (ENow t)" "\<not> no_patch (EPatch sub pk b m r)"
  by (simp_all add: no_patch_def)

definition grace_over :: "libs \<Rightarrow> AgentTrustProfile \<Rightarrow> AgentGraduationPolicy \<Rightarrow> event list \<Rightarrow> bool" where
  "grace_over L profile policy es \<longleftrightarrow>
     (\<forall>grace. GracePeriod (Demotion policy) \<noteq> '''' \<longrightarrow>
        ParseDuration L (GracePeriod (Demotion policy)) = Inr grace \<longrightarrow>
        (\<exists>t. ENow t \<in> set es \<and>
           (case LastPromotedAt (ProfileStatus profile) of
              None \<Rightarrow> CreationTimestamp (ProfileMeta profile) | Some t' \<Rightarrow> t') + grace \<le> t))"

definition demotion_allowed ::
  "libs \<Rightarrow> AgentTrustProfile \<Rightarrow> AgentGraduationPolicy \<Rightarrow> float64 \<Rightarrow> event list \<Rightarrow> bool" where
  "demotion_allowed L profile policy acc es \<longleftrightarrow>
     below_band (Demotion policy) (current_level profile) acc (Levels policy) \<and>
     grace_over L profile policy es"

lemma checkDemotion_wlp:
  "wlp (checkDemotion L profile (current_level profile) acc policy)
     (\<lambda>es d. list_all no_patch es \<and> (d \<longrightarrow> demotion_allowed L profile policy acc es))"
  by (auto simp: checkDemotion_def Let_def demotion_allowed_def grace_over_def split: sum.splits)

lemma decideLevel_wlp:
  "wlp (decideLevel L profile i) (\<lambda>es (newLevel, demoted). list_all no_patch es \<and>
     (rank newLevel < rank (current_level profile) \<longrightarrow> InLevelFound i \<longrightarrow>
        demotion_allowed L profile (InPolicy i) (InDemotionAccuracy i) es))"
  unfolding decideLevel_def Let_def
  by (auto simp: wlp_bind intro!: wlp_mono [OF checkDemotion_wlp])

lemma rank_current_level:
  "rank (TrustLevel (ProfileStatus p)) \<le> rank (current_level p)"
  by (auto simp: current_level_def Let_def)
    (simp add: rank_def TrustLevelRank_def trustLevelOrder_def type_defs)

lemma applyLevel_exec:
  assumes "exec (applyLevel L profile i) es x"
  shows "\<exists>es1 newLevel demoted t r es2.
    es = es1 @ ENow t # EPatch StatusSubresource MergeFrom (OAgentTrustProfile profile)
      (OAgentTrustProfile (profile\<lparr>ProfileStatus := new_status profile i newLevel t\<rparr>)) r # es2 \<and>
    exec (decideLevel L profile i) es1 (newLevel, demoted) \<and> list_all no_patch es2"
proof -
  have create: "wlp (create_retry n a err) (\<lambda>es _. list_all no_patch es)" for n a err
    by (induction n arbitrary: err) (auto split: sum.splits)
  have audit: "list_all no_patch es2"
    if "exec (case as_AgentTrustProfile r of
          Inl e \<Rightarrow> Ret (Inl e)
        | Inr patched \<Rightarrow>
            if newLevel \<noteq> oldLevel
            then bind (emitTrustProfileAuditWithRetry L patched oldLevel newLevel demoted)
              (\<lambda>_. Ret (Inr Done))
            else Ret (Inr Done)) es2 x" for r newLevel oldLevel demoted es2
    using that
    by (auto simp: emitTrustProfileAuditWithRetry_def exec_bind exec_simps
        dest!: wlpD [OF create] split: sum.splits if_splits)
  obtain es1 es' newLevel demoted where es: "es = es1 @ es'"
    and decide: "exec (decideLevel L profile i) es1 (newLevel, demoted)"
    and rest: "exec (Now (\<lambda>now.
         let oldLevel = current_level profile;
             profile' = profile\<lparr>ProfileStatus := new_status profile i newLevel now\<rparr>
         in Patch StatusSubresource MergeFrom (OAgentTrustProfile profile) (OAgentTrustProfile profile')
              (\<lambda>p. case as_AgentTrustProfile p of
                  Inl e \<Rightarrow> Ret (Inl e)
                | Inr patched \<Rightarrow>
                    if newLevel \<noteq> oldLevel
                    then bind (emitTrustProfileAuditWithRetry L patched oldLevel newLevel demoted)
                      (\<lambda>_. Ret (Inr Done))
                    else Ret (Inr Done)))) es' x"
    using assms unfolding applyLevel_def exec_bind by auto
  from rest obtain t r es2 where "es' = ENow t # EPatch StatusSubresource MergeFrom
      (OAgentTrustProfile profile)
      (OAgentTrustProfile (profile\<lparr>ProfileStatus := new_status profile i newLevel t\<rparr>)) r # es2"
    and "list_all no_patch es2"
    by (auto simp: exec_simps Let_def dest: audit)
  with es decide show ?thesis by blast
qed

text \<open>The patched level is the decided one.\<close>

lemma applyLevel_demotion:
  assumes "exec (applyLevel L profile i) es x" and "EPatch sub pk b m r \<in> set es"
  shows "\<exists>m'. b = OAgentTrustProfile profile \<and> m = OAgentTrustProfile m' \<and>
    (rank (current_level m') < rank (current_level profile) \<longrightarrow> InLevelFound i \<longrightarrow>
       demotion_allowed L profile (InPolicy i) (InDemotionAccuracy i) es)"
proof -
  obtain es1 newLevel demoted t r' es2 where
    es: "es = es1 @ ENow t # EPatch StatusSubresource MergeFrom (OAgentTrustProfile profile)
      (OAgentTrustProfile (profile\<lparr>ProfileStatus := new_status profile i newLevel t\<rparr>)) r' # es2"
    and decide: "exec (decideLevel L profile i) es1 (newLevel, demoted)"
    and es2: "list_all no_patch es2"
    using applyLevel_exec [OF assms(1)] by blast
  let ?m = "profile\<lparr>ProfileStatus := new_status profile i newLevel t\<rparr>"
  have es1: "list_all no_patch es1" and
    dec: "rank newLevel < rank (current_level profile) \<Longrightarrow> InLevelFound i \<Longrightarrow>
      demotion_allowed L profile (InPolicy i) (InDemotionAccuracy i) es1"
    using wlpD [OF decideLevel_wlp decide] by auto
  have "TrustLevel (ProfileStatus ?m) = newLevel" by (simp add: new_status_def Let_def)
  then have "rank newLevel \<le> rank (current_level ?m)"
    using rank_current_level [of ?m] by simp
  moreover have "demotion_allowed L profile p a es" if "demotion_allowed L profile p a es1" for p a
    using that unfolding es demotion_allowed_def grace_over_def by auto
  moreover have "b = OAgentTrustProfile profile" "m = OAgentTrustProfile ?m"
    using assms(2) es1 es2 unfolding es by (auto simp: list_all_iff)
  ultimately show ?thesis using dec by (intro exI [of _ ?m]) auto
qed

text \<open>Where the accuracy of a decision comes from.\<close>

definition summary_accuracy :: "DiagnosticAccuracySummary option \<Rightarrow> float64" where
  "summary_accuracy summary = (case summary of None \<Rightarrow> 0
     | Some s \<Rightarrow> (case DiagnosticAccuracy (SummaryStatus s) of None \<Rightarrow> 0 | Some a \<Rightarrow> a))"

definition accuracy_from ::
  "(verdictEntry list \<Rightarrow> verdictEntry list) \<Rightarrow> DiagnosticAccuracySummary option \<Rightarrow> event list \<Rightarrow> float64 \<Rightarrow> bool" where
  "accuracy_from s summary es acc \<longleftrightarrow> acc = summary_accuracy summary \<or>
     (\<exists>opts items c window n. EList Cached KAuditRecord opts (Inr (items, c)) \<in> set es \<and>
        window_accuracy s (pick_AuditRecords items) window = Inr (Some acc, n))"

lemma accuracy_from_mono: "accuracy_from s summary es acc \<Longrightarrow> set es \<subseteq> set es' \<Longrightarrow> accuracy_from s summary es' acc"
  unfolding accuracy_from_def by blast

lemma computeRollingAccuracy_wlp:
  "wlp (computeRollingAccuracy s ns agentID window) (\<lambda>es r. list_all no_patch es \<and>
     (\<forall>acc n. r = Inr (Some acc, n) \<longrightarrow> accuracy_from s summary es acc))"
  by (auto simp: computeRollingAccuracy_def accuracy_from_def split: sum.splits)

lemma recentReviews_wlp:
  "wlp (recentReviews s ns agentID summary lf policy)
     (\<lambda>es reviews. list_all no_patch es \<and> accuracy_from s summary es (fst reviews))"
proof -
  have "accuracy_from s summary es (summary_accuracy summary)" for es
    by (simp add: accuracy_from_def)
  then show ?thesis
    unfolding recentReviews_def Let_def
    by (auto simp: wlp_bind summary_accuracy_def
        intro!: wlp_mono [OF computeRollingAccuracy_wlp [where summary = summary]]
        split: option.splits sum.splits)
qed

lemma computeDemotionAccuracy_wlp:
  "wlp (computeDemotionAccuracy s ns agentID ra lf policy) (\<lambda>es da. list_all no_patch es \<and>
     (da = ra \<or> accuracy_from s summary es da))"
  unfolding computeDemotionAccuracy_def
  by (auto simp: wlp_bind intro!: wlp_mono [OF computeRollingAccuracy_wlp [where summary = summary]]
      split: option.splits sum.splits)

lemma countTerminalExecutions_wlp:
  "wlp (countTerminalExecutions L ns agentID) (\<lambda>es _. list_all no_patch es)"
  by (auto simp: countTerminalExecutions_def Let_def split: sum.splits)

lemma evaluateProfile_demotion:
  assumes "exec (evaluateProfile L s profile summary policy lf) es x" and "EPatch sub pk b m r \<in> set es"
  shows "\<exists>m' acc. b = OAgentTrustProfile profile \<and> m = OAgentTrustProfile m' \<and>
    accuracy_from s summary es acc \<and>
    (rank (current_level m') < rank (current_level profile) \<longrightarrow> lf \<longrightarrow>
       demotion_allowed L profile policy acc es)"
proof -
  let ?ns = "Namespace (ProfileMeta profile)" and ?id = "ProfileAgentIdentity profile"
  obtain es1 ra es2 da es3 c es4 where es: "es = es1 @ es2 @ es3 @ es4"
    and ra: "exec (recentReviews s ?ns ?id summary lf policy) es1 ra"
    and da: "exec (computeDemotionAccuracy s ?ns ?id (fst ra) lf policy) es2 da"
    and cnt: "exec (countTerminalExecutions L ?ns ?id) es3 c"
    and app: "exec (applyLevel L profile (gather summary policy lf ra da c)) es4 x"
    using assms(1) unfolding evaluateProfile_def Let_def exec_bind by auto
  have i: "InDemotionAccuracy (gather summary policy lf ra da c) = da"
    "InPolicy (gather summary policy lf ra da c) = policy"
    "InLevelFound (gather summary policy lf ra da c) = lf"
    by (simp_all add: gather_def case_prod_beta Let_def)
  have np: "list_all no_patch es1" "list_all no_patch es2" "list_all no_patch es3"
    and acc: "accuracy_from s summary es1 (fst ra)" "da = fst ra \<or> accuracy_from s summary es2 da"
    using wlpD [OF recentReviews_wlp ra] wlpD [OF computeDemotionAccuracy_wlp [where summary = summary] da]
      wlpD [OF countTerminalExecutions_wlp cnt] by auto
  have "EPatch sub pk b m r \<in> set es4"
    using assms(2) np by (auto simp: es list_all_iff)
  from applyLevel_demotion [OF app this] obtain m' where
    "b = OAgentTrustProfile profile" "m = OAgentTrustProfile m'"
    and dem: "rank (current_level m') < rank (current_level profile) \<Longrightarrow> lf \<Longrightarrow>
       demotion_allowed L profile policy da es4"
    using i by auto
  moreover have "accuracy_from s summary es da"
    using acc by (auto simp: es elim!: accuracy_from_mono)
  moreover have "demotion_allowed L profile policy da es" if "demotion_allowed L profile policy da es4"
    using that by (auto simp: es demotion_allowed_def grace_over_def)
  ultimately show ?thesis by blast
qed

lemma getOrBootstrapProfile_no_patch:
  "wlp (getOrBootstrapProfile L nn) (\<lambda>es _. list_all no_patch es)"
proof -
  have "wlp (bootstrapProfile nn a) (\<lambda>es _. list_all no_patch es)" for a
    by (auto simp: bootstrapProfile_def Let_def split: sum.splits)
  moreover have "wlp (registeredIdentity L nn) (\<lambda>es _. list_all no_patch es)"
    by (auto simp: registeredIdentity_def split: sum.splits)
  moreover have "wlp (observedIdentity L nn) (\<lambda>es _. list_all no_patch es)"
    by (auto simp: observedIdentity_def Let_def split: sum.splits list.splits)
  ultimately have "all_events no_patch (bind (registeredIdentity L nn) (\<lambda>r. case r of
               Inl e \<Rightarrow> Ret (Inl e)
             | Inr agentID \<Rightarrow>
                 if agentID \<noteq> '''' then bootstrapProfile nn agentID
                 else bind (observedIdentity L nn) (\<lambda>r. case r of
                     Inl e \<Rightarrow> Ret (Inl e)
                   | Inr None \<Rightarrow> Ret (Inr zero_profile)
                   | Inr (Some agentID) \<Rightarrow> bootstrapProfile nn agentID)))"
    by (auto intro!: all_events_bind split: sum.splits option.splits)
  then show ?thesis
    by (auto simp: getOrBootstrapProfile_def split: sum.splits)
qed

lemma as_DiagnosticAccuracySummary_Inr:
  "as_DiagnosticAccuracySummary g = Inr s \<longleftrightarrow> g = Inr (ODiagnosticAccuracySummary s)"
  by (cases g rule: as_DiagnosticAccuracySummary.cases) auto

lemma as_AgentGraduationPolicy_Inr:
  "as_AgentGraduationPolicy g = Inr p \<longleftrightarrow> g = Inr (OAgentGraduationPolicy p)"
  by (cases g rule: as_AgentGraduationPolicy.cases) auto

lemma as_AgentGraduationPolicy_NotFound:
  "as_AgentGraduationPolicy g = Inl e \<Longrightarrow> IsNotFound e \<Longrightarrow> g = Inl e"
  by (cases g rule: as_AgentGraduationPolicy.cases) (auto simp: decode_error_def IsNotFound_def)

text \<open>A patch of the profile is issued under the policy read after the summary.\<close>

lemma under_policy_patch_evaluated:
  assumes "exec (evaluateUnderPolicy L s profile summary) es4 x"
    and "EPatch sub pk (OAgentTrustProfile b) (OAgentTrustProfile m) r \<in> set es4"
  obtains g2 es3 policy lf where
    "es4 = EGet Cached KAgentGraduationPolicy (Namespace (ProfileMeta profile), ''default'') g2 # es3"
    and "lf \<and> g2 = Inr (OAgentGraduationPolicy policy) \<or> \<not> lf \<and> (\<exists>e. g2 = Inl e \<and> IsNotFound e)"
    and "exec (evaluateProfile L s profile summary policy lf) es3 x"
    and "EPatch sub pk (OAgentTrustProfile b) (OAgentTrustProfile m) r \<in> set es3"
proof -
  from assms(1) obtain g2 es3 where
    es4: "es4 = EGet Cached KAgentGraduationPolicy (Namespace (ProfileMeta profile), ''default'') g2 # es3"
    and ex3: "exec (case as_AgentGraduationPolicy g2 of
           Inl e \<Rightarrow> if IsNotFound e then evaluateProfile L s profile summary zero_policy False
             else Ret (Inl e)
         | Inr policy \<Rightarrow> evaluateProfile L s profile summary policy True) es3 x"
    by (auto simp: evaluateUnderPolicy_def exec_simps defaultGraduationPolicyName_def)
  have patch3: "EPatch sub pk (OAgentTrustProfile b) (OAgentTrustProfile m) r \<in> set es3"
    using assms(2) by (simp add: es4)
  then show thesis
    using ex3 that [OF es4, of True] that [OF es4, of False zero_policy]
    by (cases "as_AgentGraduationPolicy g2")
      (auto simp: exec_simps as_AgentGraduationPolicy_Inr dest: as_AgentGraduationPolicy_NotFound
        split: if_splits)
qed

lemma reconcile_patch_under_policy:
  assumes "exec (ReconcileTrustProfile L s nn) es x"
    and "EPatch sub pk (OAgentTrustProfile b) (OAgentTrustProfile m) r \<in> set es"
  obtains es1 key g1 es4 profile summary where
    "es = es1 @ EGet Direct KDiagnosticAccuracySummary key g1 # es4"
    and "\<forall>sm. summary = Some sm \<longrightarrow> g1 = Inr (ODiagnosticAccuracySummary sm)"
    and "exec (evaluateUnderPolicy L s profile summary) es4 x"
    and "EPatch sub pk (OAgentTrustProfile b) (OAgentTrustProfile m) r \<in> set es4"
proof -
  obtain es1 es2 y where es: "es = es1 @ es2" and get: "exec (getOrBootstrapProfile L nn) es1 y"
    and rest: "exec (case y of
         Inl e \<Rightarrow> Ret (Inl e)
       | Inr profile \<Rightarrow>
           if ProfileAgentIdentity profile = '''' then Ret (Inr Done)
           else Get Direct KDiagnosticAccuracySummary
             (Namespace (ProfileMeta profile), ProfileNameForAgent L (ProfileAgentIdentity profile))
             (\<lambda>g. case as_DiagnosticAccuracySummary g of
                 Inl e \<Rightarrow> if IsNotFound e then evaluateUnderPolicy L s profile None
                   else Ret (Inl e)
               | Inr summary \<Rightarrow> evaluateUnderPolicy L s profile (Some summary))) es2 x"
    using assms(1) unfolding ReconcileTrustProfile_def exec_bind by blast
  have patch: "EPatch sub pk (OAgentTrustProfile b) (OAgentTrustProfile m) r \<in> set es2"
    using assms(2) wlpD [OF getOrBootstrapProfile_no_patch get] by (auto simp: es list_all_iff)
  with rest obtain profile where "y = Inr profile" "ProfileAgentIdentity profile \<noteq> ''''"
    by (cases y) (auto simp: exec_simps split: if_splits)
  with rest obtain key g1 es4 where es2: "es2 = EGet Direct KDiagnosticAccuracySummary key g1 # es4"
    and ex4: "exec (case as_DiagnosticAccuracySummary g1 of
                 Inl e \<Rightarrow> if IsNotFound e then evaluateUnderPolicy L s profile None else Ret (Inl e)
               | Inr summary \<Rightarrow> evaluateUnderPolicy L s profile (Some summary)) es4 x"
    by (auto simp: exec_simps)
  from patch have "EPatch sub pk (OAgentTrustProfile b) (OAgentTrustProfile m) r \<in> set es4"
    by (simp add: es2)
  then show thesis
    using ex4 that [OF es [unfolded es2], of None] that [OF es [unfolded es2], of "Some _"]
    by (cases "as_DiagnosticAccuracySummary g1")
      (auto simp: exec_simps as_DiagnosticAccuracySummary_Inr split: if_splits)
qed


section \<open>Concrete runs\<close>

definition grad_level :: "string \<Rightarrow> float64 option \<Rightarrow> GraduationLevel" where
  "grad_level n m = \<lparr>LevelName = n, CanExecute = True, RequiresHumanApproval = False,
     Accuracy = map_option (\<lambda>a. \<lparr>AccuracyMin = Some a, AccuracyMax = None, DemotionBuffer = None\<rparr>) m,
     Executions = None\<rparr>"

definition sample_grad_policy :: AgentGraduationPolicy where
  "sample_grad_policy = \<lparr>GradMeta = sample_meta ''default'', EvaluationWindowCount = 10,
     AwaitingVerdictTTL = '''',
     Levels = [grad_level TrustLevelObserver None, grad_level TrustLevelAdvisor (Some (1/2)),
       grad_level TrustLevelTrusted (Some (9/10))],
     Demotion = \<lparr>AccuracyDropThreshold = 1/8, WindowSize = 20, GracePeriod = ''1h''\<rparr>\<rparr>"

definition sample_profile :: "string \<Rightarrow> time \<Rightarrow> AgentTrustProfile" where
  "sample_profile level promoted = (new_profile (''ns'', ProfileNameForAgent ref_libs ''bot'') ''bot'')
     \<lparr>ProfileStatus := empty_profile_status\<lparr>TrustLevel := level, TotalExecutions := 5,
        LastPromotedAt := Some promoted\<rparr>\<rparr>"

definition sample_summary :: "float64 \<Rightarrow> DiagnosticAccuracySummary" where
  "sample_summary a = (new_summary ref_libs ''ns'' ''bot'')\<lparr>SummaryStatus := empty_summary_status\<lparr>
     TotalReviewed := 4, DiagnosticAccuracy := Some a\<rparr>\<rparr>"

definition verdict_record :: "string \<Rightarrow> string \<Rightarrow> time \<Rightarrow> AuditRecord" where
  "verdict_record n v t = \<lparr>AuditMeta = (sample_meta n)\<lparr>Labels := [(''aip.io/agentIdentity'', ''bot'')]\<rparr>,
     AuditSpec = \<lparr>Timestamp = t, AuditAgentIdentity = ''bot'', AgentRequestRef = n,
       Event = AuditEventVerdictSubmitted, AuditAction = '''', TargetURI = '''', AuditReason = '''',
       TransitionOf = None, PolicyEvaluations = [], AuditAnnotations = [(''verdict'', v)],
       Details = None\<rparr>, OwnerRequest = n\<rparr>"

abbreviation reconcile_bot :: "ctrl_result result prog" where
  "reconcile_bot \<equiv> ReconcileTrustProfile ref_libs newest_first (''ns'', ProfileNameForAgent ref_libs ''bot'')"

definition bot_profile :: "server \<Rightarrow> AgentTrustProfile option" where
  "bot_profile w = (case map_of (Objects w) (KAgentTrustProfile, ''ns'', ProfileNameForAgent ref_libs ''bot'') of
     Some (OAgentTrustProfile p) \<Rightarrow> Some p | _ \<Rightarrow> None)"

definition level_of :: "server \<Rightarrow> string option" where
  "level_of w = map_option (\<lambda>p. TrustLevel (ProfileStatus p)) (bot_profile w)"


theorem window_accuracy_recent_witness:
  "let items = [verdict_record ''a'' ''correct'' 1, verdict_record ''b'' ''incorrect'' 2] in
   (\<exists>recent rest. mset recent + mset rest = mset (verdict_entries items) \<and>
    length recent = min (nat 1) (length (verdict_entries items)) \<and>
    (\<forall>a\<in>set rest. \<forall>b\<in>set recent. EntryTimestamp a \<le> EntryTimestamp b) \<and>
    window_accuracy newest_first items 1 = Inr (entries_accuracy recent)) \<and>
   window_accuracy newest_first items 1 = Inr (Some 0, 1)"
proof -
  let ?items = "[verdict_record ''a'' ''correct'' 1, verdict_record ''b'' ''incorrect'' 2]"
  have "window_accuracy newest_first ?items 1 = Inr (Some 0, 1)" by code_simp
  then show ?thesis
    using window_accuracy_recent [OF newest_first_sorts, of 1 ?items] unfolding Let_def by auto
qed

definition demotion_world :: server where
  "demotion_world = world (2 * hour) [OAgentTrustProfile (sample_profile TrustLevelTrusted 0),
     ODiagnosticAccuracySummary (sample_summary (1/2)), OAgentGraduationPolicy sample_grad_policy]"

fun demoting :: "event \<Rightarrow> bool" where
  "demoting (EPatch _ _ (OAgentTrustProfile b) (OAgentTrustProfile m) _) =
     (rank (current_level m) < rank (current_level b))"
| "demoting _ = False"


text \<open>Without a policy object the ladder has no guard: a profile promoted this very instant, with a
  perfect record, falls to Observer at once, and the audit record says it was not demoted.\<close>

theorem missing_policy_demotes_at_once:
  "let w = world 5 [OAgentTrustProfile (sample_profile TrustLevelTrusted 5),
         ODiagnosticAccuracySummary (sample_summary 1)];
       w' = server_after reconcile_bot w
   in level_of w = Some TrustLevelTrusted \<and> level_of w' = Some TrustLevelObserver \<and>
      list_ex (\<lambda>(_, obj). case obj of OAuditRecord a \<Rightarrow>
        lookup_str (AuditAnnotations (AuditSpec a)) ''demoted'' = ''false'' | _ \<Rightarrow> False) (Objects w')"
  by code_simp

text \<open>The audit name is determined by the profile and the two levels, and an existing record counts
  as success: a promotion that repeats an earlier one leaves no new record.\<close>

theorem repeated_promotion_not_audited:
  "let w = world (2 * hour) [OAgentTrustProfile (sample_profile '''' 0),
         ODiagnosticAccuracySummary (sample_summary 1), OAgentGraduationPolicy sample_grad_policy];
       w1 = server_after reconcile_bot w;
       back = w1\<lparr>Objects := map_put
         (slot_of (OAgentTrustProfile (sample_profile '''' 0))) (OAgentTrustProfile (sample_profile '''' 0))
         (Objects w1)\<rparr>;
       w2 = server_after reconcile_bot (sync back)
   in level_of w1 = Some TrustLevelTrusted \<and> level_of back = Some '''' \<and>
      level_of w2 = Some TrustLevelTrusted \<and>
      result_of srv_env reconcile_bot (sync back) = Inr Done \<and>
      length (filter (\<lambda>(_, obj). kind_of obj = KAuditRecord) (Objects w1)) = 1 \<and>
      length (filter (\<lambda>(_, obj). kind_of obj = KAuditRecord) (Objects w2)) = 1"
  by code_simp

text \<open>A failing list of requests is logged and then treated as an empty one: the recorded number
  of executions is overwritten with 0 and the reconciliation reports success.\<close>

definition no_requests_env :: "server env" where
  "no_requests_env = srv_env\<lparr>env_list := \<lambda>rd k opts w.
     if k = KAgentRequest then (Inl (Api (ApiOther ''timeout'')), w) else srv_list rd k opts w\<rparr>"

theorem list_failure_zeroes_executions:
  "let (es, r, w') = run no_requests_env reconcile_bot demotion_world
   in r = Inr Done \<and>
      map_option (\<lambda>p. TotalExecutions (ProfileStatus p)) (bot_profile demotion_world) = Some 5 \<and>
      map_option (\<lambda>p. TotalExecutions (ProfileStatus p)) (bot_profile w') = Some 0"
  by code_simp

end
