(* ===== verification/GC.thy ===== *)
theory GC
  imports API_Server
begin

text \<open>
  Garbage collection of old requests: \<open>src/internal/gc/{config,ar_worker,manager}.go\<close>.

  The two paging loops follow continue tokens the server hands out, so they take fuel: \<open>None\<close> is
  a loop that has not finished.  \<open>Run_terminates\<close> says how much fuel is enough.  The rate limiter is the
  program \<open>Limiter\<close>, of which only \<open>read_only\<close> is assumed.  The counters of a scan are only
  logged and are left out.
\<close>


section \<open>Configuration\<close>

record GCConfig =
  Enabled :: bool
  Interval :: duration
  DryRun :: bool
  HardTTL :: duration
  PageSize :: int
  DeleteRatePerSec :: float64
  SafetyMinCount :: int

definition AgentRequestGCEnabled :: "GCConfig \<Rightarrow> bool" where
  "AgentRequestGCEnabled c \<longleftrightarrow> Enabled c \<and> HardTTL c > 0"

definition DefaultGCConfig :: GCConfig where
  "DefaultGCConfig = \<lparr>Enabled = False, Interval = hour, DryRun = True, HardTTL = 0, PageSize = 500,
     DeleteRatePerSec = 100, SafetyMinCount = 10\<rparr>"


section \<open>The worker\<close>

datatype processResult = resultNone | resultDeleted | resultSkipped

record ARGCWorker =
  Config :: GCConfig
  Limiter :: "unit result prog"

fun isTerminal :: "phase \<Rightarrow> bool" where
  "isTerminal PhaseCompleted = True"
| "isTerminal PhaseFailed = True"
| "isTerminal PhaseDenied = True"
| "isTerminal PhaseExpired = True"
| "isTerminal _ = False"

text \<open>Go's \<open>if err != nil { return err }\<close> after a call.\<close>

definition proceed ::
  "'a result option prog \<Rightarrow> ('a \<Rightarrow> 'b result option prog) \<Rightarrow> 'b result option prog" where
  "proceed p k = bind p (\<lambda>r. case r of
       None \<Rightarrow> Ret None | Some (Inl e) \<Rightarrow> Ret (Some (Inl e)) | Some (Inr x) \<Rightarrow> k x)"

definition audit_opts :: "ARGCWorker \<Rightarrow> AgentRequest \<Rightarrow> string \<Rightarrow> list_options" where
  "audit_opts w ar token = list_all_objects\<lparr>InNamespace := Namespace (Meta ar),
     MatchingLabels := [(''aip.io/agentRequestRef'', Name (Meta ar))],
     Limit := PageSize (Config w), Continue := token\<rparr>"

fun auditLoop :: "nat \<Rightarrow> ARGCWorker \<Rightarrow> AgentRequest \<Rightarrow> string \<Rightarrow> unit result option prog" where
  "auditLoop 0 w ar auditContinue = Ret None"
| "auditLoop (Suc n) w ar auditContinue =
     ListObjects Direct KAuditRecord (audit_opts w ar auditContinue) (\<lambda>l. case l of
         Inl e \<Rightarrow> Ret (Some (Inl (Wrapped ''ar gc list auditrecords'' e)))
       | Inr (items, next') \<Rightarrow>
           bind (for_each (\<lambda>a. Delete (OAuditRecord a) None (\<lambda>_. Ret ())) (pick_AuditRecords items))
             (\<lambda>_. if next' = '''' then Ret (Some (Inr ())) else auditLoop n w ar next'))"

definition deleteRequest :: "AgentRequest \<Rightarrow> processResult result prog" where
  "deleteRequest ar = Delete (OAgentRequest ar) None (\<lambda>d.
     if (case d of Inl e \<Rightarrow> \<not> IsNotFound e | Inr _ \<Rightarrow> False) then Ret (Inr resultNone)
     else Metric (GcObjectsDeletedTotal ''hard_ttl'') (Ret (Inr resultDeleted)))"

definition collectRequest ::
  "nat \<Rightarrow> ARGCWorker \<Rightarrow> AgentRequest \<Rightarrow> processResult result option prog" where
  "collectRequest fuel w ar =
     proceed (bind (Limiter w) (\<lambda>r. Ret (Some (map_sum (Wrapped ''ar gc rate limiter'') id r)))) (\<lambda>_.
     proceed (auditLoop fuel w ar '''') (\<lambda>_.
     bind (deleteRequest ar) (\<lambda>d. Ret (Some d))))"

definition processRequest ::
  "nat \<Rightarrow> ARGCWorker \<Rightarrow> AgentRequest \<Rightarrow> processResult result option prog" where
  "processRequest fuel w ar =
     (if \<not> isTerminal (Phase (Status ar)) then Ret (Some (Inr resultNone))
      else Now (\<lambda>now.
        if now - CreationTimestamp (Meta ar) < HardTTL (Config w) then Ret (Some (Inr resultNone))
        else if DryRun (Config w)
        then Metric (GcObjectsSkippedTotal ''dry_run'') (Ret (Some (Inr resultSkipped)))
        else collectRequest fuel w ar))"

fun itemsLoop :: "nat \<Rightarrow> ARGCWorker \<Rightarrow> AgentRequest list \<Rightarrow> unit result option prog" where
  "itemsLoop fuel w [] = Ret (Some (Inr ()))"
| "itemsLoop fuel w (ar # items) =
     Metric GcScanObjectsEvaluatedTotal
       (proceed (processRequest fuel w ar) (\<lambda>_. itemsLoop fuel w items))"

definition page_opts :: "ARGCWorker \<Rightarrow> string \<Rightarrow> list_options" where
  "page_opts w token = list_all_objects\<lparr>Limit := PageSize (Config w), Continue := token\<rparr>"

fun pageLoop :: "nat \<Rightarrow> nat \<Rightarrow> ARGCWorker \<Rightarrow> string \<Rightarrow> unit result option prog" where
  "pageLoop 0 fuel w continueToken = Ret None"
| "pageLoop (Suc n) fuel w continueToken =
     ListObjects Direct KAgentRequest (page_opts w continueToken) (\<lambda>l. case l of
         Inl e \<Rightarrow> Ret (Some (Inl (Wrapped ''ar gc list page'' e)))
       | Inr (items, next') \<Rightarrow>
           proceed (itemsLoop fuel w (pick_AgentRequests items)) (\<lambda>_.
             if next' = '''' then Ret (Some (Inr ())) else pageLoop n fuel w next'))"

definition valve_closed :: "GCConfig \<Rightarrow> AgentRequest list \<Rightarrow> string \<Rightarrow> bool" where
  "valve_closed c items token \<longleftrightarrow>
     int (length (filter (\<lambda>ar. isTerminal (Phase (Status ar))) items)) < SafetyMinCount c \<and> token = ''''"

definition Run :: "nat \<Rightarrow> nat \<Rightarrow> ARGCWorker \<Rightarrow> unit result option prog" where
  "Run pages fuel w =
     (if HardTTL (Config w) = 0 then Ret (Some (Inr ()))
      else Now (\<lambda>start.
        ListObjects Direct KAgentRequest
          (list_all_objects\<lparr>Limit := SafetyMinCount (Config w) + 1\<rparr>) (\<lambda>l. case l of
            Inl e \<Rightarrow> Ret (Some (Inl (Wrapped ''ar gc safety-valve list'' e)))
          | Inr (items, token) \<Rightarrow>
              if valve_closed (Config w) (pick_AgentRequests items) token
              then Metric (GcObjectsSkippedTotal ''safety_valve'') (Ret (Some (Inr ())))
              else proceed (pageLoop pages fuel w '''') (\<lambda>_. Now (\<lambda>t.
                Metric (GcScanDurationSeconds (t - start)) (Ret (Some (Inr ()))))))))"


section \<open>The manager\<close>

record GCManager =
  MgrConfig :: GCConfig
  LastCheckIn :: time

text \<open>The health check; the clock is read again for the message.\<close>

definition Check :: "GCManager \<Rightarrow> message option prog" where
  "Check m =
     (if \<not> Enabled (MgrConfig m) then Ret None
      else if LastCheckIn m = zero_time then Ret None
      else Now (\<lambda>now.
        if now - LastCheckIn m > Interval (MgrConfig m) * 2 + minute
        then Now (\<lambda>t. Ret (Some (Sprintf ''GC cycle has not run for %v'' [ArgDur (t - LastCheckIn m)])))
        else Ret None))"

definition limiter_burst :: "float64 \<Rightarrow> int" where
  "limiter_burst rate = max 1 (if rate < 0 then - \<lfloor>- rate\<rfloor> else \<lfloor>rate\<rfloor>)"

text \<open>One tick: a scan whose error is logged, then the check-in.\<close>

definition cycle :: "nat \<Rightarrow> nat \<Rightarrow> ARGCWorker \<Rightarrow> GCManager \<Rightarrow> GCManager option prog" where
  "cycle pages fuel w m = bind (Run pages fuel w) (\<lambda>r. case r of
       None \<Rightarrow> Ret None
     | Some _ \<Rightarrow> Now (\<lambda>t. Ret (Some (m\<lparr>LastCheckIn := t\<rparr>))))"

text \<open>The loop over the ticks received before the context is cancelled.\<close>

primrec ticks_loop :: "nat \<Rightarrow> nat \<Rightarrow> nat \<Rightarrow> ARGCWorker \<Rightarrow> GCManager \<Rightarrow> GCManager option prog" where
  "ticks_loop 0 pages fuel w m = Ret (Some m)"
| "ticks_loop (Suc n) pages fuel w m = bind (cycle pages fuel w m) (\<lambda>r. case r of
       None \<Rightarrow> Ret None | Some m \<Rightarrow> ticks_loop n pages fuel w m)"

text \<open>\<open>newLimiter\<close> is \<open>rate.NewLimiter\<close>.\<close>

definition Start ::
  "(float64 \<Rightarrow> int \<Rightarrow> unit result prog) \<Rightarrow> nat \<Rightarrow> nat \<Rightarrow> nat \<Rightarrow> GCManager \<Rightarrow> GCManager option prog" where
  "Start newLimiter ticks pages fuel m =
     (if \<not> Enabled (MgrConfig m) then Ret (Some m)
      else Now (\<lambda>t.
        let rate = DeleteRatePerSec (MgrConfig m)
        in ticks_loop ticks pages fuel
             \<lparr>Config = MgrConfig m, Limiter = newLimiter rate (limiter_burst rate)\<rparr>
             (m\<lparr>LastCheckIn := t\<rparr>)))"


section \<open>What is deleted\<close>

definition listed_request :: "event list \<Rightarrow> AgentRequest \<Rightarrow> bool" where
  "listed_request h ar \<longleftrightarrow> (\<exists>opts items c. EList Direct KAgentRequest opts (Inr (items, c)) \<in> set h \<and>
     ar \<in> set (pick_AgentRequests items))"

definition old_terminal :: "GCConfig \<Rightarrow> event list \<Rightarrow> AgentRequest \<Rightarrow> bool" where
  "old_terminal cfg h ar \<longleftrightarrow> listed_request h ar \<and> isTerminal (Phase (Status ar)) \<and>
     (\<exists>t. ENow t \<in> set h \<and> HardTTL cfg \<le> t - CreationTimestamp (Meta ar))"

definition audit_of :: "event list \<Rightarrow> AgentRequest \<Rightarrow> AuditRecord \<Rightarrow> bool" where
  "audit_of h ar a \<longleftrightarrow> (\<exists>opts items c. EList Direct KAuditRecord opts (Inr (items, c)) \<in> set h \<and>
     InNamespace opts = Namespace (Meta ar) \<and>
     MatchingLabels opts = [(''aip.io/agentRequestRef'', Name (Meta ar))] \<and>
     a \<in> set (pick_AuditRecords items))"

definition gc_write :: "ARGCWorker \<Rightarrow> event list \<Rightarrow> event \<Rightarrow> bool" where
  "gc_write w h e = (case e of
     EDelete obj pre _ \<Rightarrow> \<not> DryRun (Config w) \<and> (case obj of
         OAgentRequest ar \<Rightarrow> old_terminal (Config w) h ar
       | OAuditRecord a \<Rightarrow> \<exists>ar. old_terminal (Config w) h ar \<and> audit_of h ar a
       | _ \<Rightarrow> False)
   | _ \<Rightarrow> is_read e)"

lemma exec_proceed:
  "exec (proceed p k) es z \<longleftrightarrow>
     (\<exists>es1 es2 y. es = es1 @ es2 \<and> exec p es1 (Some (Inr y)) \<and> exec (k y) es2 z) \<or>
     (\<exists>e. exec p es (Some (Inl e)) \<and> z = Some (Inl e)) \<or> (exec p es None \<and> z = None)"
proof -
  have "exec (case r of None \<Rightarrow> Ret None | Some (Inl e) \<Rightarrow> Ret (Some (Inl e)) | Some (Inr x) \<Rightarrow> k x) es2 z \<longleftrightarrow>
      (\<exists>y. r = Some (Inr y) \<and> exec (k y) es2 z) \<or>
      (\<exists>e. r = Some (Inl e) \<and> es2 = [] \<and> z = Some (Inl e)) \<or> (r = None \<and> es2 = [] \<and> z = None)" for r es2
    by (auto simp: exec_simps split: option.splits sum.splits)
  note step = this
  show ?thesis (is "?l \<longleftrightarrow> ?r")
  proof
    assume ?l
    then show ?r unfolding proceed_def exec_bind step by auto
  next
    assume ?r
    then show ?l
      unfolding proceed_def exec_bind step
      by (elim disjE exE conjE) (blast, (rule exI [of _ es], rule exI [of _ "[]"], auto)+)
  qed
qed

lemma exec_list_sum:
  "exec (ListObjects rd k opts (case_sum f g)) es x \<longleftrightarrow>
     (\<exists>e es'. es = EList rd k opts (Inl e) # es' \<and> exec (f e) es' x) \<or>
     (\<exists>items c es'. es = EList rd k opts (Inr (items, c)) # es' \<and> exec (g (items, c)) es' x)"
proof -
  have "(\<exists>l. Q l (case_sum f g l)) \<longleftrightarrow> (\<exists>e. Q (Inl e) (f e)) \<or> (\<exists>items c. Q (Inr (items, c)) (g (items, c)))"
    for Q
    by (auto simp: split_sum_ex)
  from this [of "\<lambda>l p. \<exists>es'. es = EList rd k opts l # es' \<and> exec p es' x"] show ?thesis
    by (auto simp: exec_simps)
qed

lemma all_events_proceed:
  "all_events P p \<Longrightarrow> (\<And>x. all_events P (k x)) \<Longrightarrow> all_events P (proceed p k)"
  unfolding proceed_def by (auto intro!: all_events_bind split: option.splits sum.splits)

lemmas exec_gc = exec_proceed exec_list_sum exec_bind exec_simps(1,2,4-)

lemma gc_write_simps [simp]:
  "gc_write w h (EGet rd k key g)" "gc_write w h (EList rd k opts l)" "gc_write w h (ENow t)"
  "gc_write w h (EMetric m)"
  by (simp_all add: gc_write_def)

lemma old_terminal_mono: "old_terminal cfg h ar \<Longrightarrow> set h \<subseteq> set h' \<Longrightarrow> old_terminal cfg h' ar"
  unfolding old_terminal_def listed_request_def by blast

lemma audit_of_mono: "audit_of h ar a \<Longrightarrow> set h \<subseteq> set h' \<Longrightarrow> audit_of h' ar a"
  unfolding audit_of_def by blast

lemma listed_request_mono: "listed_request h ar \<Longrightarrow> set h \<subseteq> set h' \<Longrightarrow> listed_request h' ar"
  unfolding listed_request_def by blast

lemma audit_of_listed:
  "EList Direct KAuditRecord (audit_opts w ar token) (Inr (items, c)) \<in> set h \<Longrightarrow>
   a \<in> set (pick_AuditRecords items) \<Longrightarrow> audit_of h ar a"
  unfolding audit_of_def by (force simp: audit_opts_def list_all_objects_def)

text \<open>Programs checked against the history, which only grows.\<close>

definition collects :: "ARGCWorker \<Rightarrow> 'a prog \<Rightarrow> event list \<Rightarrow> bool" where
  "collects w p h \<longleftrightarrow> with_history (\<lambda>_. True) (gc_write w) (\<lambda>_. True) p h"

lemma history_grows:
  assumes "monitored A W (\<lambda>h e. h @ [e]) (\<lambda>x _. Q x) p h" and "set h0 \<subseteq> set h"
  shows "monitored A W (\<lambda>h e. h @ [e]) (\<lambda>x h'. Q x \<and> set h0 \<subseteq> set h') p h"
  using assms
  by (induction p arbitrary: h) (auto simp: Let_def subset_insertI2)

lemma collects_bind:
  assumes "collects w p h" and "\<And>x h'. set h \<subseteq> set h' \<Longrightarrow> collects w (g x) h'"
  shows "collects w (bind p g) h"
  using history_grows [OF assms(1) [unfolded collects_def] subset_refl] assms(2)
  unfolding collects_def monitored_bind by (auto elim: monitored_mono)

lemma collects_read_only: "read_only p \<Longrightarrow> collects w p h"
  unfolding collects_def
  by (rule monitored_mono [OF monitored_read_only [where I = "\<lambda>_. True"]])
    (auto simp: gc_write_def split: event.splits)

lemma collects_simps [simp]:
  "collects w (Ret x) h"
  "collects w (ListObjects rd k opts fl) h \<longleftrightarrow> (\<forall>l. collects w (fl l) (h @ [EList rd k opts l]))"
  "collects w (Now ft) h \<longleftrightarrow> (\<forall>t. collects w (ft t) (h @ [ENow t]))"
  "collects w (Metric m p) h \<longleftrightarrow> collects w p (h @ [EMetric m])"
  "collects w (Delete obj pre fd) h \<longleftrightarrow>
     (\<forall>d. gc_write w h (EDelete obj pre d) \<and> collects w (fd d) (h @ [EDelete obj pre d]))"
  unfolding collects_def by (auto simp: Let_def)

lemma collects_proceed:
  "collects w p h \<Longrightarrow> (\<And>x h'. set h \<subseteq> set h' \<Longrightarrow> collects w (k x) h') \<Longrightarrow> collects w (proceed p k) h"
  unfolding proceed_def by (auto intro!: collects_bind split: option.splits sum.splits)

lemma collects_auditLoop:
  assumes "old_terminal (Config w) h ar" and "\<not> DryRun (Config w)"
  shows "collects w (auditLoop n w ar token) h"
  using assms(1)
proof (induction n arbitrary: h token)
  case (Suc n)
  have del: "collects w (for_each (\<lambda>a. Delete (OAuditRecord a) None (\<lambda>_. Ret ())) as) h"
    if "old_terminal (Config w) h ar" "\<forall>a\<in>set as. audit_of h ar a" for as h
    using that
  proof (induction as arbitrary: h)
    case (Cons a as)
    have "collects w (Delete (OAuditRecord a) None (\<lambda>_. Ret ())) h"
      using Cons.prems assms(2) by (auto simp: gc_write_def)
    then show ?case
      using Cons.prems
      by (auto intro!: collects_bind Cons.IH intro: old_terminal_mono audit_of_mono)
  qed simp
  have "collects w (case l of
         Inl e \<Rightarrow> Ret (Some (Inl (Wrapped ''ar gc list auditrecords'' e)))
       | Inr (items, next') \<Rightarrow>
           bind (for_each (\<lambda>a. Delete (OAuditRecord a) None (\<lambda>_. Ret ())) (pick_AuditRecords items))
             (\<lambda>_. if next' = '''' then Ret (Some (Inr ())) else auditLoop n w ar next'))
      (h @ [EList Direct KAuditRecord (audit_opts w ar token) l])" for l
  proof -
    have old: "old_terminal (Config w) (h @ [EList Direct KAuditRecord (audit_opts w ar token) l]) ar"
      using Suc.prems by (rule old_terminal_mono) auto
    then show ?thesis
      by (auto split: sum.splits intro!: collects_bind del Suc.IH intro: old_terminal_mono
          audit_of_listed)
  qed
  then show ?case by simp
qed simp

lemma collects_collectRequest:
  assumes "read_only (Limiter w)" and "old_terminal (Config w) h ar" and "\<not> DryRun (Config w)"
  shows "collects w (collectRequest n w ar) h"
proof -
  have delete: "collects w (deleteRequest ar) h'" if "old_terminal (Config w) h' ar" for h'
    using that assms(3) by (auto simp: deleteRequest_def gc_write_def)
  have "collects w (proceed (auditLoop n w ar '''') (\<lambda>_. bind (deleteRequest ar) (\<lambda>d. Ret (Some d)))) h'"
    if "set h \<subseteq> set h'" for h'
    using old_terminal_mono [OF assms(2) that] assms(3)
    by (auto intro!: collects_proceed collects_bind delete collects_auditLoop intro: old_terminal_mono)
  moreover have "collects w (bind (Limiter w) (\<lambda>r. Ret (Some (map_sum (Wrapped ''ar gc rate limiter'') id r)))) h"
    by (rule collects_bind [OF collects_read_only [OF assms(1)]]) simp
  ultimately show ?thesis
    unfolding collectRequest_def by (rule collects_proceed [rotated])
qed

lemma collects_processRequest:
  assumes "read_only (Limiter w)" and "listed_request h ar"
  shows "collects w (processRequest n w ar) h"
proof -
  have "listed_request (h @ [e]) ar" for e using assms(2) by (rule listed_request_mono) auto
  then show ?thesis
    unfolding processRequest_def
    by (auto intro!: collects_collectRequest assms(1) simp: old_terminal_def not_less)
qed

lemma collects_itemsLoop:
  assumes "read_only (Limiter w)" and "\<forall>ar\<in>set items. listed_request h ar"
  shows "collects w (itemsLoop n w items) h"
  using assms(2)
proof (induction items arbitrary: h)
  case (Cons ar items)
  have "collects w (processRequest n w ar) (h @ [EMetric GcScanObjectsEvaluatedTotal])"
    using Cons.prems
    by (intro collects_processRequest [OF assms(1)]) (auto elim: listed_request_mono)
  moreover have "collects w (itemsLoop n w items) h'" if "set h \<subseteq> set h'" for h'
    using Cons.prems that by (intro Cons.IH) (auto elim: listed_request_mono)
  ultimately show ?case
    by (auto intro!: collects_proceed)
qed simp

lemma collects_pageLoop:
  assumes "read_only (Limiter w)"
  shows "collects w (pageLoop n m w token) h"
proof (induction n arbitrary: token h)
  case (Suc n)
  have "collects w (itemsLoop m w (pick_AgentRequests items))
      (h @ [EList Direct KAgentRequest opts (Inr (items, next'))])" for items next' opts h
    by (rule collects_itemsLoop [OF assms]) (auto simp: listed_request_def)
  then show ?case
    by (auto intro!: collects_proceed Suc.IH split: sum.splits)
qed simp

lemma collects_Run: "read_only (Limiter w) \<Longrightarrow> collects w (Run n m w) h"
  unfolding Run_def
  by (auto intro!: collects_proceed collects_pageLoop split: sum.splits)

text \<open>C29. Collection never removes a live request.  Whatever the server answers, a scan only reads and
  deletes; it deletes nothing in dry-run mode or when no time to live is set, and at the moment of
  a deletion the object is a request the scan has listed, found in a
  terminal phase and older than the time to live by a clock it has read, or an audit record listed
  under the label and namespace of such a request.\<close>

theorem Run_deletes_only_expired:
  assumes "read_only (Limiter w)" and "exec (Run pages fuel w) (es1 @ e # es2) x"
  shows "gc_write w es1 e \<and> (DryRun (Config w) \<or> HardTTL (Config w) = 0 \<longrightarrow> is_read e)"
proof -
  have "gc_write w es1 e"
    using with_history_sound [OF collects_Run [OF assms(1), of pages fuel "[]", unfolded collects_def] assms(2)]
    by (simp add: list_all_iff)
  moreover have "is_read e" if "DryRun (Config w)"
    using calculation that by (auto simp: gc_write_def split: event.splits)
  moreover have False if "HardTTL (Config w) = 0"
    using assms(2) that by (simp add: Run_def exec_simps)
  ultimately show ?thesis by blast
qed

section \<open>What is collected\<close>

definition only_waits :: "'a prog \<Rightarrow> bool" where
  "only_waits p \<longleftrightarrow> all_events (\<lambda>e. \<exists>t. e = ENow t) p"

definition lists_requests :: "event \<Rightarrow> bool" where
  "lists_requests e = (case e of EList _ k _ _ \<Rightarrow> k = KAgentRequest | _ \<Rightarrow> False)"

lemma lists_requests_simps [simp]:
  "lists_requests (EList rd k opts l) \<longleftrightarrow> k = KAgentRequest" "\<not> lists_requests (ENow t)"
  "\<not> lists_requests (EMetric m)" "\<not> lists_requests (EDelete obj pre d)"
  by (simp_all add: lists_requests_def)

lemma auditLoop_lists: "all_events (\<lambda>e. \<not> lists_requests e) (auditLoop n w ar token)"
  by (induction n arbitrary: token)
    (auto intro!: all_events_bind all_events_for_each split: sum.splits)

lemma collectRequest_lists:
  assumes "only_waits (Limiter w)"
  shows "all_events (\<lambda>e. \<not> lists_requests e) (collectRequest n w ar)"
proof -
  have "all_events (\<lambda>e. \<not> lists_requests e) (Limiter w)"
    using assms unfolding only_waits_def by (rule wlp_mono) (auto simp: list_all_iff)
  moreover have "all_events (\<lambda>e. \<not> lists_requests e) (deleteRequest ar)"
    by (auto simp: deleteRequest_def split: sum.splits)
  ultimately show ?thesis
    unfolding collectRequest_def
    by (auto intro!: all_events_bind all_events_proceed auditLoop_lists)
qed

lemma processRequest_lists:
  "only_waits (Limiter w) \<Longrightarrow> all_events (\<lambda>e. \<not> lists_requests e) (processRequest n w ar)"
  using collectRequest_lists [of w n ar] by (auto simp: processRequest_def)

lemma itemsLoop_lists:
  "only_waits (Limiter w) \<Longrightarrow> all_events (\<lambda>e. \<not> lists_requests e) (itemsLoop n w items)"
proof (induction items)
  case (Cons ar items)
  then have "all_events (\<lambda>e. \<not> lists_requests e) (proceed (processRequest n w ar) (\<lambda>_. itemsLoop n w items))"
    by (auto intro!: all_events_proceed processRequest_lists)
  then show ?case by simp
qed simp

text \<open>A request that is due by every clock reading of the trace.\<close>

definition due :: "GCConfig \<Rightarrow> event list \<Rightarrow> AgentRequest \<Rightarrow> bool" where
  "due cfg es ar \<longleftrightarrow> isTerminal (Phase (Status ar)) \<and>
     (\<forall>t. ENow t \<in> set es \<longrightarrow> HardTTL cfg \<le> t - CreationTimestamp (Meta ar))"

abbreviation deletes :: "AgentRequest \<Rightarrow> event list \<Rightarrow> bool" where
  "deletes ar es \<equiv> (\<exists>d. EDelete (OAgentRequest ar) None d \<in> set es)"

lemma due_append [simp]: "due cfg (es @ es') ar \<longleftrightarrow> due cfg es ar \<and> due cfg es' ar"
  by (auto simp: due_def)

lemma due_Cons [simp]:
  "due cfg (EMetric m # es) ar \<longleftrightarrow> due cfg es ar" "due cfg (EList rd k opts l # es) ar \<longleftrightarrow> due cfg es ar"
  by (auto simp: due_def)

lemma collectRequest_deletes:
  assumes "exec (collectRequest n w ar) es (Some (Inr r))"
  shows "deletes ar es"
proof -
  obtain es1 es2 where "es = es1 @ es2" "exec (deleteRequest ar) es2 (Inr r)"
    using assms unfolding collectRequest_def exec_proceed
    by (elim disjE exE conjE) (simp_all add: exec_bind exec_simps(1), metis append.assoc)
  moreover have "exec (deleteRequest ar) es2 (Inr r) \<Longrightarrow> deletes ar es2"
    by (auto simp: deleteRequest_def exec_simps)
  ultimately show ?thesis by auto
qed

lemma processRequest_deletes:
  assumes "exec (processRequest n w ar) es (Some (Inr r))" and "due (Config w) es ar"
    and "\<not> DryRun (Config w)"
  shows "deletes ar es"
  using assms
  by (auto simp: processRequest_def due_def exec_simps split: if_splits dest!: collectRequest_deletes)

lemma itemsLoop_deletes:
  assumes "exec (itemsLoop n w items) es (Some (Inr u))" and "ar \<in> set items" and "due (Config w) es ar"
    and "\<not> DryRun (Config w)"
  shows "deletes ar es"
  using assms(1-3)
proof (induction items arbitrary: es)
  case (Cons a items)
  then obtain es1 es2 r where es: "es = EMetric GcScanObjectsEvaluatedTotal # es1 @ es2"
    and "exec (processRequest n w a) es1 (Some (Inr r))" "exec (itemsLoop n w items) es2 (Some (Inr u))"
    by (auto simp: exec_gc split: option.splits sum.splits)
  with Cons processRequest_deletes [of n w a es1 r] assms(4) show ?case by auto
qed simp

lemma pageLoop_deletes:
  assumes "exec (pageLoop n m w token) es (Some (Inr u))"
    and "EList Direct KAgentRequest opts (Inr (items, c)) \<in> set es"
    and "ar \<in> set (pick_AgentRequests items)" and "due (Config w) es ar"
    and "\<not> DryRun (Config w)" and "only_waits (Limiter w)"
  shows "deletes ar es"
  using assms(1,2,4)
proof (induction n arbitrary: token es)
  case (Suc n)
  then obtain items' c' es1 es2 where
    es: "es = EList Direct KAgentRequest (page_opts w token) (Inr (items', c')) # es1 @ es2"
    and ex1: "exec (itemsLoop m w (pick_AgentRequests items')) es1 (Some (Inr ()))"
    and ex2: "exec (if c' = '''' then Ret (Some (Inr ())) else pageLoop n m w c') es2 (Some (Inr u))"
    by (auto simp: exec_gc split: option.splits sum.splits)
  have "list_all (\<lambda>e. \<not> lists_requests e) es1"
    using wlpD [OF itemsLoop_lists [OF assms(6)] ex1] .
  then have "EList Direct KAgentRequest opts (Inr (items, c)) \<notin> set es1"
    by (auto simp: list_all_iff)
  then consider "items = items'" | "EList Direct KAgentRequest opts (Inr (items, c)) \<in> set es2"
    using Suc.prems(2) by (auto simp: es)
  then show ?case
  proof cases
    case 1
    then have "deletes ar es1"
      using itemsLoop_deletes [OF ex1, of ar] assms(3,5) Suc.prems(3) by (simp add: es)
    then show ?thesis by (auto simp: es)
  next
    case 2
    then have "exec (pageLoop n m w c') es2 (Some (Inr u))"
      using ex2 by (auto simp: exec_simps split: if_splits)
    then have "deletes ar es2"
      using Suc.IH [OF _ 2] Suc.prems(3) by (simp add: es)
    then show ?thesis by (auto simp: es)
  qed
qed (simp add: exec_simps)



section \<open>Termination\<close>

definition continued :: "kind \<Rightarrow> event \<Rightarrow> bool" where
  "continued k e = (case e of EList _ k' _ (Inr (_, c)) \<Rightarrow> k' = k \<and> c \<noteq> '''' | _ \<Rightarrow> False)"

lemma auditLoop_None:
  "exec (auditLoop n w ar token) es None \<Longrightarrow> n \<le> length (filter (continued KAuditRecord) es)"
proof (induction n arbitrary: token es)
  case (Suc n)
  then obtain items c es1 es2 where
    es: "es = EList Direct KAuditRecord (audit_opts w ar token) (Inr (items, c)) # es1 @ es2"
    and "c \<noteq> ''''" "exec (auditLoop n w ar c) es2 None"
    by (auto simp: exec_gc split: option.splits sum.splits if_splits)
  with Suc.IH [of c es2] show ?case by (simp add: es continued_def)
qed simp

lemma processRequest_None:
  "exec (processRequest n w ar) es None \<Longrightarrow> n \<le> length (filter (continued KAuditRecord) es)"
proof -
  have "exec (collectRequest n w ar) es None \<Longrightarrow> n \<le> length (filter (continued KAuditRecord) es)" for es
    by (auto simp: collectRequest_def exec_gc dest!: auditLoop_None)
  then show "exec (processRequest n w ar) es None \<Longrightarrow> ?thesis"
    by (auto simp: processRequest_def exec_gc continued_def split: if_splits)
qed

lemma itemsLoop_None:
  "exec (itemsLoop n w items) es None \<Longrightarrow> n \<le> length (filter (continued KAuditRecord) es)"
  by (induction items arbitrary: es) (fastforce simp: exec_gc dest: processRequest_None)+

lemma continued_simps [simp]:
  "continued k (EList rd k' opts (Inr (items, c))) \<longleftrightarrow> k' = k \<and> c \<noteq> ''''"
  "\<not> continued k (ENow t)" "\<not> continued k (EMetric m)"
  by (simp_all add: continued_def)

lemma pageLoop_None:
  "exec (pageLoop n m w token) es None \<Longrightarrow>
   n \<le> length (filter (continued KAgentRequest) es) \<or> m \<le> length (filter (continued KAuditRecord) es)"
proof (induction n arbitrary: token es)
  case (Suc n)
  then obtain items c es' where es: "es = EList Direct KAgentRequest (page_opts w token) (Inr (items, c)) # es'"
    and ex: "exec (proceed (itemsLoop m w (pick_AgentRequests items))
      (\<lambda>_. if c = '''' then Ret (Some (Inr ())) else pageLoop n m w c)) es' None"
    unfolding pageLoop.simps exec_list_sum by (auto simp: exec_simps)
  from ex consider "exec (itemsLoop m w (pick_AgentRequests items)) es' None"
    | es1 es2 where "es' = es1 @ es2" "c \<noteq> ''''" "exec (pageLoop n m w c) es2 None"
    unfolding exec_proceed by (auto simp: exec_simps split: if_splits)
  then show ?case
    using Suc.IH [of c] by cases (fastforce simp: es dest: itemsLoop_None)+
qed simp

text \<open>C31. A scan ends.  If the server hands out fewer continue tokens for requests and for audit
  records than the fuel of the two paging loops, the scan returns, with or without an error.\<close>

theorem Run_terminates:
  assumes "exec (Run pages fuel w) es x"
    and "length (filter (continued KAgentRequest) es) < pages"
    and "length (filter (continued KAuditRecord) es) < fuel"
  shows "\<exists>r. x = Some r"
proof (rule ccontr)
  assume "\<not> (\<exists>r. x = Some r)"
  then have "x = None" by simp
  with assms(1) obtain e1 e2 es1 where "es = e1 # e2 # es1" "exec (pageLoop pages fuel w '''') es1 None"
    by (auto simp: Run_def exec_gc split: if_splits)
  with pageLoop_None [of pages fuel w "''''" es1] assms(2,3) show False
    by (auto split: if_splits)
qed

section \<open>A scan of the reference server\<close>

text \<open>Two pages of one object each, with a completed request that is too old and a pending one.\<close>

definition gc_worker :: ARGCWorker where
  "gc_worker = \<lparr>Config = DefaultGCConfig\<lparr>Enabled := True, DryRun := False, HardTTL := hour, PageSize := 1,
       SafetyMinCount := 2\<rparr>, Limiter = Ret (Inr ())\<rparr>"

definition aged_request :: "phase \<Rightarrow> string \<Rightarrow> AgentRequest" where
  "aged_request p n = sample_request\<lparr>Meta := sample_meta n, Status := sample_status\<lparr>Phase := p\<rparr>\<rparr>"

definition gc_world :: server where
  "gc_world = world (hour + hour)
     [OAgentRequest (aged_request PhaseCompleted ''old''), OAgentRequest (aged_request PhaseFailed ''bad''),
      OAgentRequest (aged_request PhasePending ''live'')]"

lemma gc_worker_waits [simp]: "read_only (Limiter gc_worker)" "only_waits (Limiter gc_worker)"
  by (simp_all add: gc_worker_def only_waits_def)

abbreviation gc_trace :: "event list" where
  "gc_trace \<equiv> trace_of srv_env (Run 5 5 gc_worker) gc_world"

theorem Run_deletes_only_expired_witness:
  "\<exists>es1 e es2. gc_trace = es1 @ e # es2 \<and> \<not> is_read e \<and> gc_write gc_worker es1 e"
proof -
  have "list_ex (\<lambda>e. \<not> is_read e) gc_trace" by code_simp
  then obtain e where e: "e \<in> set gc_trace" "\<not> is_read e" by (auto simp: list_ex_iff)
  from split_list [OF e(1)] obtain es1 es2 where split: "gc_trace = es1 @ e # es2" by blast
  with exec_run [of "Run 5 5 gc_worker" srv_env gc_world]
  have "exec (Run 5 5 gc_worker) (es1 @ e # es2) (result_of srv_env (Run 5 5 gc_worker) gc_world)" by simp
  from Run_deletes_only_expired [OF gc_worker_waits(1) this] have "gc_write gc_worker es1 e" by blast
  with split e(2) show ?thesis by blast
qed

definition lists_item :: "AgentRequest \<Rightarrow> event \<Rightarrow> bool" where
  "lists_item ar e = (case e of
     EList rd k opts (Inr (items, c)) \<Rightarrow> rd = Direct \<and> k = KAgentRequest \<and> ar \<in> set (pick_AgentRequests items)
   | _ \<Rightarrow> False)"

definition due_by :: "GCConfig \<Rightarrow> AgentRequest \<Rightarrow> event \<Rightarrow> bool" where
  "due_by cfg ar e = (case e of ENow t \<Rightarrow> HardTTL cfg \<le> t - CreationTimestamp (Meta ar) | _ \<Rightarrow> True)"

fun opens_valve :: "GCConfig \<Rightarrow> event list \<Rightarrow> bool" where
  "opens_valve cfg [ENow s, EList rd k opts (Inr (items, c))] \<longleftrightarrow>
     rd = Direct \<and> k = KAgentRequest \<and> \<not> valve_closed cfg (pick_AgentRequests items) c"
| "opens_valve cfg _ \<longleftrightarrow> False"

lemma lists_itemD:
  "list_ex (lists_item ar) es \<Longrightarrow>
   \<exists>opts items c. EList Direct KAgentRequest opts (Inr (items, c)) \<in> set es \<and> ar \<in> set (pick_AgentRequests items)"
proof -
  have "lists_item ar e \<Longrightarrow> \<exists>opts items c. e = EList Direct KAgentRequest opts (Inr (items, c)) \<and>
      ar \<in> set (pick_AgentRequests items)" for e
    by (cases e) (auto simp: lists_item_def split: sum.split_asm)
  then show "list_ex (lists_item ar) es \<Longrightarrow> ?thesis" unfolding list_ex_iff by blast
qed

lemma due_byI: "isTerminal (Phase (Status ar)) \<Longrightarrow> list_all (due_by cfg ar) es \<Longrightarrow> due cfg es ar"
  unfolding due_def due_by_def list_all_iff by (auto dest: bspec)

lemma opens_valveD:
  "opens_valve cfg es \<Longrightarrow> \<exists>s opts items c. es = [ENow s, EList Direct KAgentRequest opts (Inr (items, c))] \<and>
     \<not> valve_closed cfg (pick_AgentRequests items) c"
  by (cases "(cfg, es)" rule: opens_valve.cases) auto


theorem Run_terminates_witness:
  "length (filter (continued KAgentRequest) gc_trace) = 2 \<and>
   (\<exists>r. result_of srv_env (Run 5 5 gc_worker) gc_world = Some r)"
proof -
  have "length (filter (continued KAgentRequest) gc_trace) = 2"
    "length (filter (continued KAuditRecord) gc_trace) = 0" by code_simp+
  then show ?thesis
    using Run_terminates [OF exec_run [of "Run 5 5 gc_worker" srv_env gc_world]] by simp
qed

text \<open>The safety valve looks at one page of requests of any phase, and is skipped when there is
  a further page: with three requests waiting, a single completed one is deleted although the
  threshold is two.\<close>

theorem safety_valve_bypassed:
  "let w = world (hour + hour) [OAgentRequest (aged_request PhasePending ''a''),
       OAgentRequest (aged_request PhasePending ''b''), OAgentRequest (aged_request PhasePending ''c''),
       OAgentRequest (aged_request PhaseCompleted ''done'')];
     es = trace_of srv_env (Run 5 5 gc_worker) w
   in length (filter (\<lambda>ar. isTerminal (Phase (Status ar))) (pick_AgentRequests (map snd (Objects w)))) = 1 \<and>
      SafetyMinCount (Config gc_worker) = 2 \<and>
      EDelete (OAgentRequest (aged_request PhaseCompleted ''done'')) None (Inr ()) \<in> set es"
  by code_simp

end
