(* ===== verification/Gateway_HTTP.thy ===== *)
theory Gateway_HTTP
  imports Evaluator Naming
begin

text \<open>
  The HTTP side of the gateway: \<open>src/cmd/gateway/server.go\<close> (context values, responses) and
  \<open>oidc.go\<close> (roles and the two authentication middlewares).

  A handler maps a request to a program that returns the response.  The path value, the query
  parameters and the headers are functions; \<open>ReqBody\<close> is what \<open>json.NewDecoder(r.Body).Decode\<close> yields,
  \<open>None\<close> when it fails.  Response bodies are field lists with typed values.  Token
  verification (go-oidc) and the address functions of package \<open>net\<close> are arguments.
\<close>


section \<open>Requests and responses\<close>

record request_ctx =
  callerSub :: string
  callerGroups :: "string list"
  rawOIDCToken :: string
  callerIssuer :: string

definition background :: request_ctx where
  "background = \<lparr>callerSub = '''', callerGroups = [], rawOIDCToken = '''', callerIssuer = ''''\<rparr>"

record 'b http_request =
  UrlPath :: string
  RemoteAddr :: string
  Header :: "string \<Rightarrow> string"
  PathName :: string
  Query :: "string \<Rightarrow> string"
  ReqBody :: "'b option"
  Ctx :: request_ctx

datatype field =
    FStr string
  | FMsg message
  | FPhase phase
  | FDenial "DenialResponse option"
  | FConditions "Condition list"
  | FCPV "ControlPlaneVerification option"
  | FResult "AgentRequestResult option"
  | FLabels strmap
  | FEvents "audit_event list"
  | FObjects "object list"
  | FTime time

datatype payload =
    NoBody
  | PFields "(string \<times> field) list"
  | PObject object
  | PObjects "object list"

text \<open>\<open>EventStream\<close> is a server-sent event stream with the events written to it; \<open>NoResponse\<close>: the client is
  gone before anything was written.\<close>

datatype response =
    Response nat payload
  | EventStream "(string \<times> payload) list"
  | NoResponse

definition writeJSON :: "nat \<Rightarrow> payload \<Rightarrow> response" where
  "writeJSON status data = Response status data"

definition writeError :: "nat \<Rightarrow> message \<Rightarrow> response" where
  "writeError status msg = writeJSON status (PFields [(''error'', FMsg msg)])"

fun status_code :: "response \<Rightarrow> nat" where
  "status_code (Response c _) = c"
| "status_code (EventStream _) = 200"
| "status_code NoResponse = 0"

lemma status_code_writes [simp]:
  "status_code (writeJSON c d) = c" "status_code (writeError c m) = c"
  by (simp_all add: writeJSON_def writeError_def)

definition err_text :: "error \<Rightarrow> message" where
  "err_text e = Sprintf ''%v'' [ArgErr e]"

definition defaultNamespace :: string where
  "defaultNamespace = ''default''"

definition query_namespace :: "'b http_request \<Rightarrow> string" where
  "query_namespace r = (if Query r ''namespace'' = '''' then defaultNamespace else Query r ''namespace'')"

abbreviation sub_of :: "'b http_request \<Rightarrow> string" where
  "sub_of r \<equiv> callerSub (Ctx r)"


section \<open>White space\<close>

text \<open>The UTF-8 encodings of the code points \<open>unicode.IsSpace\<close> accepts.  An encoding at either end
  of a byte string is the rune the decoder finds there.\<close>

definition space_encodings :: "string list" where
  "space_encodings =
     [[CHR 0x09], [CHR 0x0A], [CHR 0x0B], [CHR 0x0C], [CHR 0x0D], [CHR 0x20],
      [CHR 0xC2, CHR 0x85], [CHR 0xC2, CHR 0xA0],
      [CHR 0xE1, CHR 0x9A, CHR 0x80], [CHR 0xE2, CHR 0x80, CHR 0x80], [CHR 0xE2, CHR 0x80, CHR 0x81],
      [CHR 0xE2, CHR 0x80, CHR 0x82], [CHR 0xE2, CHR 0x80, CHR 0x83], [CHR 0xE2, CHR 0x80, CHR 0x84],
      [CHR 0xE2, CHR 0x80, CHR 0x85], [CHR 0xE2, CHR 0x80, CHR 0x86], [CHR 0xE2, CHR 0x80, CHR 0x87],
      [CHR 0xE2, CHR 0x80, CHR 0x88], [CHR 0xE2, CHR 0x80, CHR 0x89], [CHR 0xE2, CHR 0x80, CHR 0x8A],
      [CHR 0xE2, CHR 0x80, CHR 0xA8], [CHR 0xE2, CHR 0x80, CHR 0xA9], [CHR 0xE2, CHR 0x80, CHR 0xAF],
      [CHR 0xE2, CHR 0x81, CHR 0x9F], [CHR 0xE3, CHR 0x80, CHR 0x80]]"

definition starts_with :: "string \<Rightarrow> string \<Rightarrow> bool" where
  "starts_with s p \<longleftrightarrow> take (length p) s = p"

function trim_left :: "string list \<Rightarrow> string \<Rightarrow> string" where
  "trim_left encs s = (case find (\<lambda>e. e \<noteq> [] \<and> starts_with s e) encs of
       None \<Rightarrow> s | Some e \<Rightarrow> trim_left encs (drop (length e) s))"
  by auto
termination
proof (relation "measure (\<lambda>(encs, s). length s)")
  fix encs s e
  assume "find (\<lambda>e. e \<noteq> [] \<and> starts_with s e) encs = Some e"
  then have "e \<noteq> []" "starts_with s e" by (auto simp: find_Some_iff)
  then show "((encs, drop (length e) s), encs, s) \<in> measure (\<lambda>(encs, s). length s)"
    by (cases s) (auto simp: starts_with_def)
qed simp

declare trim_left.simps [simp del]

definition TrimSpace :: "string \<Rightarrow> string" where
  "TrimSpace s = rev (trim_left (map rev space_encodings) (rev (trim_left space_encodings s)))"

text \<open>A trimmed string neither begins nor ends with a space.\<close>

lemma trim_left_free:
  "e \<in> set encs \<Longrightarrow> e \<noteq> [] \<Longrightarrow> \<not> starts_with (trim_left encs s) e"
proof (induction encs s rule: trim_left.induct)
  case (1 encs s)
  then show ?case
    by (subst trim_left.simps)
      (auto split: option.splits simp: find_None_iff)
qed

lemma trim_left_suffix: "\<exists>u. s = u @ trim_left encs s"
proof (induction encs s rule: trim_left.induct)
  case (1 encs s)
  show ?case
  proof (cases "find (\<lambda>e. e \<noteq> [] \<and> starts_with s e) encs")
    case (Some e)
    with 1 obtain u where "drop (length e) s = u @ trim_left encs (drop (length e) s)" by blast
    then have "s = (take (length e) s @ u) @ trim_left encs (drop (length e) s)"
      by (metis append.assoc append_take_drop_id)
    moreover have "trim_left encs s = trim_left encs (drop (length e) s)"
      using Some by (subst trim_left.simps) simp
    ultimately show ?thesis by metis
  qed (subst trim_left.simps, simp)
qed

lemma TrimSpace_substring: "\<exists>u v. s = u @ TrimSpace s @ v"
proof -
  obtain u where u: "s = u @ trim_left space_encodings s" using trim_left_suffix by blast
  obtain v where "rev (trim_left space_encodings s) = v @ rev (TrimSpace s)"
    using trim_left_suffix [of "rev (trim_left space_encodings s)" "map rev space_encodings"]
    by (auto simp: TrimSpace_def)
  then have "trim_left space_encodings s = TrimSpace s @ rev v"
    by (metis rev_append rev_rev_ident)
  with u show ?thesis by metis
qed

lemma TrimSpace_no_trailing:
  assumes "e \<in> set space_encodings" and "TrimSpace s = u @ e"
  shows False
proof -
  have "e \<noteq> []" using assms(1) by (auto simp: space_encodings_def)
  moreover have "rev (TrimSpace s) = trim_left (map rev space_encodings) (rev (trim_left space_encodings s))"
    by (simp add: TrimSpace_def)
  moreover have "starts_with (rev (TrimSpace s)) (rev e)"
    using assms(2) by (simp add: starts_with_def)
  ultimately show False
    using trim_left_free [of "rev e" "map rev space_encodings"] assms(1) by auto
qed


section \<open>Roles\<close>

definition roleAgent :: string where "roleAgent = ''agent''"
definition roleReviewer :: string where "roleReviewer = ''reviewer''"
definition roleAdmin :: string where "roleAdmin = ''admin''"

lemmas role_defs = roleAgent_def roleReviewer_def roleAdmin_def

record roleConfig =
  agentSubs :: "string set"
  reviewerSubs :: "string set"
  adminSubs :: "string set"
  agentGroups :: "string set"
  reviewerGroups :: "string set"
  adminGroups :: "string set"

definition parse_list :: "string \<Rightarrow> string set" where
  "parse_list s = set (filter (\<lambda>t. t \<noteq> '''') (map TrimSpace (split_on CHR '','' s)))"

definition newRoleConfig :: "string \<Rightarrow> string \<Rightarrow> string \<Rightarrow> string \<Rightarrow> string \<Rightarrow> string \<Rightarrow> roleConfig" where
  "newRoleConfig agentList reviewerList adminList agentGroupList reviewerGroupList adminGroupList =
     \<lparr>agentSubs = parse_list agentList, reviewerSubs = parse_list reviewerList,
      adminSubs = parse_list adminList, agentGroups = parse_list agentGroupList,
      reviewerGroups = parse_list reviewerGroupList, adminGroups = parse_list adminGroupList\<rparr>"

definition openMode :: "roleConfig \<Rightarrow> bool" where
  "openMode rc \<longleftrightarrow> agentSubs rc = {} \<and> reviewerSubs rc = {} \<and> adminSubs rc = {} \<and>
     agentGroups rc = {} \<and> reviewerGroups rc = {} \<and> adminGroups rc = {}"

definition isAgent :: "roleConfig \<Rightarrow> string \<Rightarrow> string list \<Rightarrow> bool" where
  "isAgent rc sub groups \<longleftrightarrow>
     openMode rc \<or> sub \<in> agentSubs rc \<or> list_ex (\<lambda>g. g \<in> agentGroups rc) groups"

definition isReviewer :: "roleConfig \<Rightarrow> string \<Rightarrow> string list \<Rightarrow> bool" where
  "isReviewer rc sub groups \<longleftrightarrow>
     openMode rc \<or> sub \<in> reviewerSubs rc \<or> list_ex (\<lambda>g. g \<in> reviewerGroups rc) groups"

definition isAdmin :: "roleConfig \<Rightarrow> string \<Rightarrow> string list \<Rightarrow> bool" where
  "isAdmin rc sub groups \<longleftrightarrow>
     openMode rc \<or> sub \<in> adminSubs rc \<or> list_ex (\<lambda>g. g \<in> adminGroups rc) groups"

text \<open>\<open>None\<close> is the result \<open>true\<close>; otherwise the response that was written.\<close>

definition requireRole :: "roleConfig \<Rightarrow> string \<Rightarrow> string \<Rightarrow> string list \<Rightarrow> response option" where
  "requireRole rc role sub groups =
     (if role = roleAgent then
        if \<not> isAgent rc sub groups then Some (writeError 403 (Text ''agent role required'')) else None
      else if role = roleReviewer then
        if \<not> isReviewer rc sub groups then Some (writeError 403 (Text ''reviewer role required'')) else None
      else if role = roleAdmin then
        if \<not> isAdmin rc sub groups then Some (writeError 403 (Text ''admin role required'')) else None
      else Some (writeError 403 (Text ''unknown role'')))"

definition has_role :: "roleConfig \<Rightarrow> string \<Rightarrow> string list \<Rightarrow> string \<Rightarrow> bool" where
  "has_role rc sub groups role \<longleftrightarrow>
     (role = roleAgent \<and> isAgent rc sub groups) \<or> (role = roleReviewer \<and> isReviewer rc sub groups) \<or>
     (role = roleAdmin \<and> isAdmin rc sub groups)"

fun join_with :: "string \<Rightarrow> string list \<Rightarrow> string" where
  "join_with sep [] = ''''"
| "join_with sep [x] = x"
| "join_with sep (x # y # ys) = x @ sep @ join_with sep (y # ys)"

definition requireAnyRole ::
  "roleConfig \<Rightarrow> string list \<Rightarrow> string \<Rightarrow> string list \<Rightarrow> response option" where
  "requireAnyRole rc roles sub groups =
     (if list_ex (has_role rc sub groups) roles then None
      else Some (writeError 403 (Sprintf ''%s role required'' [ArgS (join_with '' or '' roles)])))"

lemma requireRole_None [simp]:
  "requireRole rc roleAgent sub groups = None \<longleftrightarrow> isAgent rc sub groups"
  "requireRole rc roleReviewer sub groups = None \<longleftrightarrow> isReviewer rc sub groups"
  "requireRole rc roleAdmin sub groups = None \<longleftrightarrow> isAdmin rc sub groups"
  by (simp_all add: requireRole_def role_defs)

lemma requireRole_has_role: "requireRole rc role sub groups = None \<longleftrightarrow> has_role rc sub groups role"
  by (auto simp: requireRole_def has_role_def role_defs)

lemma requireRole_403: "requireRole rc role sub groups = Some resp \<Longrightarrow> status_code resp = 403"
  by (auto simp: requireRole_def split: if_splits)


section \<open>Authentication middlewares\<close>

datatype json_value =
    JNull
  | JBool bool
  | JNumber float64
  | JString string
  | JArray "json_value list"
  | JObject "(string \<times> json_value) list"

definition claimString :: "(string \<times> json_value) list \<Rightarrow> string \<Rightarrow> string" where
  "claimString claims name = (case map_of claims name of Some (JString s) \<Rightarrow> s | _ \<Rightarrow> '''')"

fun string_items :: "json_value list \<Rightarrow> string list" where
  "string_items [] = []"
| "string_items (JString s # vs) = s # string_items vs"
| "string_items (_ # vs) = string_items vs"

text \<open>Decoded JSON never holds a \<open>[]string\<close>.\<close>

definition claimStringSlice :: "(string \<times> json_value) list \<Rightarrow> string \<Rightarrow> string list" where
  "claimStringSlice claims name =
     (case map_of claims name of Some (JArray vs) \<Rightarrow> string_items vs | _ \<Rightarrow> [])"

definition unauthenticated_path :: "string \<Rightarrow> bool" where
  "unauthenticated_path p \<longleftrightarrow> p = ''/healthz'' \<or> p = ''/readyz'' \<or> p = ''/metrics''"

type_synonym 'b handler = "'b http_request \<Rightarrow> response prog"

definition oidc_handler ::
  "(string \<Rightarrow> 'tok result) \<Rightarrow> ('tok \<Rightarrow> (string \<times> json_value) list result) \<Rightarrow> string \<Rightarrow> string \<Rightarrow>
   'b handler \<Rightarrow> 'b handler" where
  "oidc_handler verify claims_of identityClaim groupsClaim next' r =
     (if unauthenticated_path (UrlPath r) then next' r
      else
        (let raw = TrimPrefix (Header r ''Authorization'') ''Bearer ''
         in if raw = '''' then Ret (writeError 401 (Text ''missing Bearer token''))
            else (case verify raw of
                Inl _ \<Rightarrow> Ret (writeError 401 (Text ''invalid token''))
              | Inr idToken \<Rightarrow>
                  (case claims_of idToken of
                     Inl _ \<Rightarrow> Ret (writeError 401 (Text ''token missing claims''))
                   | Inr allClaims \<Rightarrow>
                       (let identity = claimString allClaims identityClaim;
                            identity = (if identity = '''' then claimString allClaims ''sub'' else identity)
                        in if identity = '''' then Ret (writeError 401 (Text ''token missing identity claim''))
                           else next' (r\<lparr>Ctx := (Ctx r)\<lparr>callerSub := identity,
                             callerGroups := claimStringSlice allClaims groupsClaim,
                             rawOIDCToken := raw,
                             callerIssuer := claimString allClaims ''iss''\<rparr>\<rparr>))))))"

text \<open>\<open>provider\<close> is the outcome of \<open>oidc.NewProvider\<close>: the verifier of the issuer.\<close>

definition newOIDCMiddleware ::
  "(string \<Rightarrow> 'tok result) result \<Rightarrow> ('tok \<Rightarrow> (string \<times> json_value) list result) \<Rightarrow> string \<Rightarrow> string \<Rightarrow>
   ('b handler \<Rightarrow> 'b handler) result" where
  "newOIDCMiddleware provider claims_of identityClaim groupsClaim =
     (case provider of
        Inl e \<Rightarrow> Inl (Wrapped ''oidc provider'' e)
      | Inr verify \<Rightarrow> Inr (oidc_handler verify claims_of identityClaim groupsClaim))"

text \<open>Functions of package \<open>net\<close>; an address range is its \<open>Contains\<close> function.\<close>

record 'ip net_lib =
  ParseCIDR :: "string \<Rightarrow> ('ip \<Rightarrow> bool) result"
  SplitHostPort :: "string \<Rightarrow> string result"
  ParseIP :: "string \<Rightarrow> 'ip option"

fun parse_cidrs :: "'ip net_lib \<Rightarrow> string list \<Rightarrow> ('ip \<Rightarrow> bool) list result" where
  "parse_cidrs N [] = Inr []"
| "parse_cidrs N (part # parts) =
     (let cidr = TrimSpace part
      in if cidr = '''' then parse_cidrs N parts
         else (case ParseCIDR N cidr of
             Inl e \<Rightarrow> Inl (Wrapped ''invalid --trusted-proxy-cidrs entry'' e)
           | Inr n \<Rightarrow> (case parse_cidrs N parts of Inl e \<Rightarrow> Inl e | Inr ns \<Rightarrow> Inr (n # ns))))"

definition header_user :: "'b http_request \<Rightarrow> string" where
  "header_user r = (if Header r ''X-Remote-User'' = '''' then Header r ''X-Forwarded-User''
     else Header r ''X-Remote-User'')"

definition trusted_source :: "'ip net_lib \<Rightarrow> ('ip \<Rightarrow> bool) list \<Rightarrow> string \<Rightarrow> bool" where
  "trusted_source N nets addr =
     (let host = (case SplitHostPort N addr of Inl _ \<Rightarrow> addr | Inr h \<Rightarrow> h)
      in case ParseIP N host of None \<Rightarrow> False | Some ip \<Rightarrow> list_ex (\<lambda>n. n ip) nets)"

definition proxy_handler :: "'ip net_lib \<Rightarrow> ('ip \<Rightarrow> bool) list \<Rightarrow> 'b handler \<Rightarrow> 'b handler" where
  "proxy_handler N nets next' r =
     (if unauthenticated_path (UrlPath r) then next' r
      else
        (let caller = (if nets = [] then header_user r
                       else if trusted_source N nets (RemoteAddr r) then header_user r else '''')
         in if caller \<noteq> '''' then next' (r\<lparr>Ctx := (Ctx r)\<lparr>callerSub := caller\<rparr>\<rparr>) else next' r))"

text \<open>The error is \<open>log.Fatalf\<close>, which ends the process.\<close>

definition newProxyHeaderMiddleware ::
  "'ip net_lib \<Rightarrow> string \<Rightarrow> ('b handler \<Rightarrow> 'b handler) result" where
  "newProxyHeaderMiddleware N trustedCIDRs =
     (case parse_cidrs N (split_on CHR '','' trustedCIDRs) of
        Inl e \<Rightarrow> Inl e | Inr nets \<Rightarrow> Inr (proxy_handler N nets))"

end
