(* ===== verification/Governed_Resource.thy ===== *)
theory Governed_Resource
  imports Gateway_HTTP OpsLock API_Server
begin

text \<open>
  Governed resources: matching and the trust gate of the gateway
  (\<open>src/cmd/gateway/governed_resource.go\<close>) and the controller that guards their deletion with a
  finalizer (\<open>src/internal/controller/governedresource_controller.go\<close>).

  The cache of compiled patterns is explicit state, an association list with distinct keys.
  Compiling a pattern is \<open>GlobCompile\<close>; the finalizer functions of controller-runtime are the
  parameters of the locale \<open>finalizer_lib\<close>.
\<close>


section \<open>Matching\<close>

text \<open>Go compares strings byte by byte.\<close>

fun str_less :: "string \<Rightarrow> string \<Rightarrow> bool" where
  "str_less s [] \<longleftrightarrow> False"
| "str_less [] (y # ys) \<longleftrightarrow> True"
| "str_less (x # xs) (y # ys) \<longleftrightarrow> (of_char x :: nat) < of_char y \<or> (x = y \<and> str_less xs ys)"

lemma str_less_irrefl [simp]: "\<not> str_less s s"
  by (induction s) auto

lemma str_less_Nil [simp]: "str_less [] s \<longleftrightarrow> s \<noteq> []"
  by (cases s) auto

lemma str_less_linear: "str_less s t \<or> s = t \<or> str_less t s"
  by (induction s t rule: str_less.induct) auto

lemma str_less_trans: "str_less s t \<Longrightarrow> str_less t u \<Longrightarrow> str_less s u"
proof (induction s u arbitrary: t rule: str_less.induct)
  case (1 s)
  then show ?case by (cases t) auto
next
  case (3 x xs y ys)
  then show ?case by (cases t) auto
qed simp

type_synonym glob = "string \<Rightarrow> bool"
type_synonym glob_cache = "(string \<times> glob) list"

definition glob_for :: "libs \<Rightarrow> glob_cache \<Rightarrow> string \<Rightarrow> glob option \<times> glob_cache" where
  "glob_for L cache pat = (case map_of cache pat of
       Some g \<Rightarrow> (Some g, cache)
     | None \<Rightarrow> (case GlobCompile L pat of
           Inl _ \<Rightarrow> (None, cache)
         | Inr g \<Rightarrow> (Some g, map_put pat g (if length cache > 1000 then [] else cache))))"

definition more_specific :: "GovernedResource \<Rightarrow> GovernedResource \<Rightarrow> bool" where
  "more_specific gr best \<longleftrightarrow> length (URIPattern gr) > length (URIPattern best) \<or>
     (length (URIPattern gr) = length (URIPattern best) \<and>
      str_less (Name (GRMeta gr)) (Name (GRMeta best)))"

definition excludes_action :: "string \<Rightarrow> GovernedResource \<Rightarrow> bool" where
  "excludes_action action gr \<longleftrightarrow>
     action \<noteq> '''' \<and> GRPermittedActions gr \<noteq> [] \<and> action \<notin> set (GRPermittedActions gr)"

definition better :: "GovernedResource option \<Rightarrow> GovernedResource \<Rightarrow> GovernedResource option" where
  "better best gr = (case best of
       None \<Rightarrow> Some gr | Some b \<Rightarrow> if more_specific gr b then Some gr else best)"

fun match_loop ::
  "libs \<Rightarrow> string \<Rightarrow> string \<Rightarrow> glob_cache \<Rightarrow> GovernedResource option \<Rightarrow> GovernedResource list \<Rightarrow>
   GovernedResource option \<times> glob_cache" where
  "match_loop L targetURI action cache best [] = (best, cache)"
| "match_loop L targetURI action cache best (gr # items) =
     (if excludes_action action gr then match_loop L targetURI action cache best items
      else (case glob_for L cache (URIPattern gr) of
          (None, cache) \<Rightarrow> match_loop L targetURI action cache best items
        | (Some g, cache) \<Rightarrow>
            if \<not> g targetURI then match_loop L targetURI action cache best items
            else match_loop L targetURI action cache (better best gr) items))"

definition matchGovernedResource ::
  "libs \<Rightarrow> glob_cache \<Rightarrow> GovernedResource list \<Rightarrow> string \<Rightarrow> string \<Rightarrow> GovernedResource option \<times> glob_cache" where
  "matchGovernedResource L cache items targetURI action = match_loop L targetURI action cache None items"

text \<open>What the loop computes: the most specific of the resources that govern the target.\<close>

definition governs :: "libs \<Rightarrow> string \<Rightarrow> string \<Rightarrow> GovernedResource \<Rightarrow> bool" where
  "governs L targetURI action gr \<longleftrightarrow> \<not> excludes_action action gr \<and>
     (case GlobCompile L (URIPattern gr) of Inl _ \<Rightarrow> False | Inr g \<Rightarrow> g targetURI)"

definition globs_ok :: "libs \<Rightarrow> glob_cache \<Rightarrow> bool" where
  "globs_ok L cache \<longleftrightarrow> distinct (map fst cache) \<and> length cache \<le> 1001 \<and>
     (\<forall>(p, g)\<in>set cache. GlobCompile L p = Inr g)"

lemma globs_ok_Nil [simp]: "globs_ok L []"
  by (simp add: globs_ok_def)

lemma map_put_fresh: "k \<notin> fst ` set m \<Longrightarrow> map_put k v m = m @ [(k, v)]"
  by (induction k v m rule: map_put.induct) auto

lemma glob_for_ok:
  assumes "globs_ok L cache" and "glob_for L cache pat = (r, cache')"
  shows "globs_ok L cache' \<and>
    r = (case GlobCompile L pat of Inl _ \<Rightarrow> None | Inr g \<Rightarrow> Some g)"
proof (cases "map_of cache pat")
  case None
  then have "pat \<notin> fst ` set cache" by (simp add: map_of_eq_None_iff)
  with None assms show ?thesis
    by (auto simp: glob_for_def globs_ok_def map_put_fresh split: sum.splits if_splits)
next
  case (Some g)
  then have "(pat, g) \<in> set cache" by (rule map_of_SomeD)
  with Some assms show ?thesis by (auto simp: glob_for_def globs_ok_def)
qed

lemma match_loop_fold:
  "globs_ok L cache \<Longrightarrow>
   fst (match_loop L uri action cache best items) = foldl better best (filter (governs L uri action) items) \<and>
   globs_ok L (snd (match_loop L uri action cache best items))"
proof (induction items arbitrary: cache best)
  case (Cons gr items)
  obtain r cache' where r: "glob_for L cache (URIPattern gr) = (r, cache')" by fastforce
  with glob_for_ok [OF Cons.prems] have "globs_ok L cache'"
    and "r = (case GlobCompile L (URIPattern gr) of Inl _ \<Rightarrow> None | Inr g \<Rightarrow> Some g)" by auto
  with Cons r show ?case
    by (auto simp: governs_def split: sum.splits)
qed simp

text \<open>\<open>more_specific\<close> is a strict order that is linear on resources with different names.\<close>

lemma more_specific_irrefl [simp]: "\<not> more_specific gr gr"
  by (simp add: more_specific_def)

lemma more_specific_trans: "more_specific a b \<Longrightarrow> more_specific b c \<Longrightarrow> more_specific a c"
  by (auto simp: more_specific_def intro: str_less_trans)

lemma more_specific_neg_trans: "more_specific a c \<Longrightarrow> more_specific a b \<or> more_specific b c"
  using str_less_linear [of "Name (GRMeta a)" "Name (GRMeta b)"]
  by (auto simp: more_specific_def intro: str_less_trans)

lemma better_Some [simp]: "better (Some b) gr = Some (if more_specific gr b then gr else b)"
  by (simp add: better_def)

lemma more_specific_linear:
  "Name (GRMeta a) \<noteq> Name (GRMeta b) \<Longrightarrow> more_specific a b \<or> more_specific b a"
  using str_less_linear [of "Name (GRMeta a)" "Name (GRMeta b)"]
  by (auto simp: more_specific_def)

lemma foldl_better_Some:
  "foldl better (Some b) items = Some m \<Longrightarrow>
   (m = b \<or> m \<in> set items) \<and> (\<forall>x\<in>insert b (set items). \<not> more_specific x m)"
proof (induction items arbitrary: b)
  case (Cons a items)
  show ?case
  proof (cases "more_specific a b")
    case True
    with Cons.prems have "foldl better (Some a) items = Some m" by simp
    from Cons.IH [OF this] True show ?thesis by (auto dest: more_specific_trans)
  next
    case False
    with Cons.prems have "foldl better (Some b) items = Some m" by simp
    from Cons.IH [OF this] False show ?thesis
      using more_specific_neg_trans [of a m b] by auto
  qed
qed simp

lemma foldl_better_not_None: "foldl better (Some b) items \<noteq> None"
  by (induction items arbitrary: b) auto

lemma foldl_better:
  "case foldl better None items of
     None \<Rightarrow> items = []
   | Some m \<Rightarrow> m \<in> set items \<and> (\<forall>x\<in>set items. \<not> more_specific x m)"
proof (cases items)
  case (Cons a rest)
  then show ?thesis
    using foldl_better_Some [of a rest] foldl_better_not_None [of a rest]
    by (simp add: better_def split: option.splits)
qed simp

lemma match_is_fold:
  assumes "globs_ok L cache"
  shows "fst (matchGovernedResource L cache items uri action) = foldl better None (filter (governs L uri action) items)"
    and "globs_ok L (snd (matchGovernedResource L cache items uri action))"
  using match_loop_fold [OF assms] by (simp_all add: matchGovernedResource_def)

lemma fold_most_specific:
  "case foldl better None (filter (governs L uri action) items) of
     None \<Rightarrow> \<forall>gr\<in>set items. \<not> governs L uri action gr
   | Some gr \<Rightarrow> gr \<in> set items \<and> governs L uri action gr \<and>
       (\<forall>gr'\<in>set items. governs L uri action gr' \<longrightarrow> \<not> more_specific gr' gr)"
  using foldl_better [of "filter (governs L uri action) items"]
  by (cases "foldl better None (filter (governs L uri action) items)") (simp_all add: filter_empty_conv)

text \<open>C7. The gateway picks the right governed resource.  From any cache of correctly compiled patterns
  the match is a resource that governs the target, and no resource that governs it has a longer
  pattern, or an equally long one and a smaller name; there is none exactly when no resource
  governs the target.  The result does not depend on the cache, on its being reset when it is
  full, or (names being unique) on the order of the list, and the cache stays correct and bounded.\<close>

theorem matchGovernedResource_most_specific:
  assumes "globs_ok L cache" and "matchGovernedResource L cache items uri action = (best, cache')"
  shows "globs_ok L cache' \<and>
    (case best of
       None \<Rightarrow> \<forall>gr\<in>set items. \<not> governs L uri action gr
     | Some gr \<Rightarrow> gr \<in> set items \<and> governs L uri action gr \<and>
         (\<forall>gr'\<in>set items. governs L uri action gr' \<longrightarrow> \<not> more_specific gr' gr)) \<and>
    (\<forall>cache2 items2. globs_ok L cache2 \<longrightarrow> set items2 = set items \<longrightarrow>
       inj_on (\<lambda>gr. Name (GRMeta gr)) (set items) \<longrightarrow>
       fst (matchGovernedResource L cache2 items2 uri action) = best)"
proof -
  let ?f = "\<lambda>items. foldl better None (filter (governs L uri action) items)"
  note eq = match_is_fold(1) and max = fold_most_specific [where L = L and uri = uri and action = action]
  have best: "best = ?f items" using eq [OF assms(1), of items uri action] assms(2) by simp
  have ok: "globs_ok L cache'" using match_is_fold(2) [OF assms(1), of items uri action] assms(2) by simp
  have same: "?f items2 = ?f items"
    if "set items2 = set items" "inj_on (\<lambda>gr. Name (GRMeta gr)) (set items)" for items2
  proof (cases "?f items")
    case None
    with max [of items] max [of items2] that(1) show ?thesis by (cases "?f items2") auto
  next
    case (Some m)
    with max [of items] max [of items2] that(1) obtain m2 where m2: "?f items2 = Some m2"
      by (cases "?f items2") auto
    with Some max [of items] max [of items2] that(1)
    have "m \<in> set items" "m2 \<in> set items" "\<not> more_specific m m2" "\<not> more_specific m2 m" by auto
    with more_specific_linear [of m m2] that(2) have "m = m2" by (auto dest: inj_onD)
    with Some m2 show ?thesis by simp
  qed
  show ?thesis
  proof (intro conjI allI impI)
    show "globs_ok L cache'" by (rule ok)
    show "case best of
       None \<Rightarrow> \<forall>gr\<in>set items. \<not> governs L uri action gr
     | Some gr \<Rightarrow> gr \<in> set items \<and> governs L uri action gr \<and>
         (\<forall>gr'\<in>set items. governs L uri action gr' \<longrightarrow> \<not> more_specific gr' gr)"
      unfolding best by (rule max)
    show "fst (matchGovernedResource L cache2 items2 uri action) = best"
      if "globs_ok L cache2" "set items2 = set items" "inj_on (\<lambda>gr. Name (GRMeta gr)) (set items)"
      for cache2 items2
      unfolding eq [OF that(1)] best by (rule same [OF that(2,3)])
  qed
qed

section \<open>The trust gate\<close>

record trustGateResult =
  rejected :: bool
  gate_message :: string
  gate_annotations :: "strmap option"

definition gate_passed :: trustGateResult where
  "gate_passed = \<lparr>rejected = False, gate_message = '''', gate_annotations = None\<rparr>"

definition gate_rejected :: "string \<Rightarrow> trustGateResult" where
  "gate_rejected msg = \<lparr>rejected = True, gate_message = msg, gate_annotations = None\<rparr>"

definition boolToStr :: "bool \<Rightarrow> string" where
  "boolToStr b = (if b then ''true'' else ''false'')"

definition gateGraduationPolicyName :: string where
  "gateGraduationPolicyName = ''default''"

definition min_level_error :: "TrustRequirements \<Rightarrow> string \<Rightarrow> string option" where
  "min_level_error tr effectiveLevel =
     (if MinTrustLevel tr = '''' then None
      else (let (minRank, minOk) = TrustLevelRank (MinTrustLevel tr)
        in if \<not> minOk then Some (''GovernedResource has unknown MinTrustLevel: '' @ MinTrustLevel tr)
           else if fst (TrustLevelRank effectiveLevel) < minRank
           then Some (''agent trust level '' @ effectiveLevel @ '' does not meet resource minimum '' @
             MinTrustLevel tr)
           else None))"

definition autonomy :: "TrustRequirements \<Rightarrow> string \<Rightarrow> string" where
  "autonomy tr effectiveLevel =
     (let (maxRank, maxOk) = TrustLevelRank (MaxAutonomyLevel tr)
      in if maxOk \<and> fst (TrustLevelRank effectiveLevel) > maxRank then MaxAutonomyLevel tr
         else effectiveLevel)"

text \<open>\<open>canExecute\<close> and \<open>requiresApproval\<close> of the first level with the name, fail-closed.\<close>

definition level_rights :: "string \<Rightarrow> GraduationLevel list \<Rightarrow> bool \<times> bool" where
  "level_rights name levels = (case find (\<lambda>l. LevelName l = name) levels of
       None \<Rightarrow> (False, True) | Some l \<Rightarrow> (CanExecute l, RequiresHumanApproval l))"

definition gate_annotate :: "string \<Rightarrow> bool \<times> bool \<Rightarrow> trustGateResult" where
  "gate_annotate effectiveAutonomy rights =
     (let annotations = [(AnnotationEffectiveTrustLevel, effectiveAutonomy)]
      in \<lparr>rejected = False, gate_message = '''',
          gate_annotations = Some (if \<not> fst rights
            then map_put AnnotationCanExecute (boolToStr False) annotations
            else map_put AnnotationRequiresHumanApproval (boolToStr (snd rights)) annotations)\<rparr>)"

definition gate_at :: "string \<Rightarrow> TrustRequirements \<Rightarrow> string \<Rightarrow> trustGateResult result prog" where
  "gate_at ns tr level =
     (let effectiveLevel = (if level = '''' then TrustLevelObserver else level)
      in case min_level_error tr effectiveLevel of
           Some msg \<Rightarrow> Ret (Inr (gate_rejected msg))
         | None \<Rightarrow>
             (let effectiveAutonomy = autonomy tr effectiveLevel
              in Get Cached KAgentGraduationPolicy (ns, gateGraduationPolicyName) (\<lambda>g.
                   case as_AgentGraduationPolicy g of
                     Inl e \<Rightarrow> if \<not> IsNotFound e
                       then Ret (Inl (Wrapped ''getting AgentGraduationPolicy default'' e))
                       else Ret (Inr (gate_annotate effectiveAutonomy (False, True)))
                   | Inr policy \<Rightarrow>
                       Ret (Inr (gate_annotate effectiveAutonomy
                         (level_rights effectiveAutonomy (Levels policy)))))))"

definition evaluateTrustGate ::
  "libs \<Rightarrow> string \<Rightarrow> string \<Rightarrow> string \<Rightarrow> GovernedResource \<Rightarrow> trustGateResult result prog" where
  "evaluateTrustGate L ns agentIdentity mode gr = (case TrustReqs gr of
       None \<Rightarrow> Ret (Inr gate_passed)
     | Some tr \<Rightarrow>
         if mode = ModeObserve then Ret (Inr gate_passed)
         else Get Direct KAgentTrustProfile (ns, ProfileNameForAgent L agentIdentity) (\<lambda>g.
           case as_AgentTrustProfile g of
             Inl e \<Rightarrow> if \<not> IsNotFound e then Ret (Inl (Wrapped (''getting AgentTrustProfile '' @ ProfileNameForAgent L agentIdentity) e))
               else gate_at ns tr TrustLevelObserver
           | Inr profile \<Rightarrow> gate_at ns tr (TrustLevel (ProfileStatus profile))))"


section \<open>What the gate lets through\<close>

text \<open>The trust level a trace shows for an agent: that of the profile read, Observer when there is
  none or its level is empty.\<close>

definition shown_level :: "libs \<Rightarrow> string \<Rightarrow> string \<Rightarrow> event list \<Rightarrow> string \<Rightarrow> bool" where
  "shown_level L ns agent es level \<longleftrightarrow> (\<exists>g.
     EGet Direct KAgentTrustProfile (ns, ProfileNameForAgent L agent) g \<in> set es \<and>
     (case as_AgentTrustProfile g of
        Inl e \<Rightarrow> IsNotFound e \<and> level = TrustLevelObserver
      | Inr profile \<Rightarrow> level = (if TrustLevel (ProfileStatus profile) = '''' then TrustLevelObserver
          else TrustLevel (ProfileStatus profile))))"

definition shown_rights :: "string \<Rightarrow> event list \<Rightarrow> string \<Rightarrow> bool \<times> bool \<Rightarrow> bool" where
  "shown_rights ns es level rights \<longleftrightarrow> (\<exists>g.
     EGet Cached KAgentGraduationPolicy (ns, ''default'') g \<in> set es \<and>
     (case as_AgentGraduationPolicy g of
        Inl e \<Rightarrow> IsNotFound e \<and> rights = (False, True)
      | Inr policy \<Rightarrow> rights = level_rights level (Levels policy)))"

abbreviation level_rank :: "string \<Rightarrow> int" where
  "level_rank l \<equiv> fst (TrustLevelRank l)"

definition gate_sound ::
  "libs \<Rightarrow> string \<Rightarrow> string \<Rightarrow> TrustRequirements \<Rightarrow> event list \<Rightarrow> trustGateResult \<Rightarrow> bool" where
  "gate_sound L ns agent tr es res \<longleftrightarrow> (\<exists>level. shown_level L ns agent es level \<and>
     (if rejected res
      then MinTrustLevel tr \<noteq> '''' \<and>
        (snd (TrustLevelRank (MinTrustLevel tr)) \<longrightarrow> level_rank level < level_rank (MinTrustLevel tr))
      else (MinTrustLevel tr \<noteq> '''' \<longrightarrow> snd (TrustLevelRank (MinTrustLevel tr)) \<and>
             level_rank (MinTrustLevel tr) \<le> level_rank level) \<and>
        (\<exists>auto rights as. shown_rights ns es auto rights \<and> gate_annotations res = Some as \<and>
           level_rank auto \<le> level_rank level \<and>
           (snd (TrustLevelRank (MaxAutonomyLevel tr)) \<longrightarrow>
              level_rank auto \<le> level_rank (MaxAutonomyLevel tr)) \<and>
           lookup_str as AnnotationEffectiveTrustLevel = auto \<and>
           (lookup_str as AnnotationCanExecute = ''false'' \<longleftrightarrow> \<not> fst rights) \<and>
           (lookup_str as AnnotationRequiresHumanApproval = ''false'' \<longleftrightarrow> fst rights \<and> \<not> snd rights))))"

lemma annotation_keys_distinct [simp]:
  "AnnotationCanExecute \<noteq> AnnotationEffectiveTrustLevel"
  "AnnotationRequiresHumanApproval \<noteq> AnnotationEffectiveTrustLevel"
  "AnnotationCanExecute \<noteq> AnnotationRequiresHumanApproval"
  "AnnotationEffectiveTrustLevel \<noteq> AnnotationCanExecute"
  "AnnotationEffectiveTrustLevel \<noteq> AnnotationRequiresHumanApproval"
  "AnnotationRequiresHumanApproval \<noteq> AnnotationCanExecute"
  by (simp_all add: type_defs)

lemma gate_annotate_sel:
  assumes "gate_annotations (gate_annotate auto rights) = Some as"
  shows "lookup_str as AnnotationEffectiveTrustLevel = auto"
    and "lookup_str as AnnotationCanExecute = ''false'' \<longleftrightarrow> \<not> fst rights"
    and "lookup_str as AnnotationRequiresHumanApproval = ''false'' \<longleftrightarrow> fst rights \<and> \<not> snd rights"
  using assms
  by (auto simp: gate_annotate_def Let_def lookup_str_def boolToStr_def split: if_splits)

lemma autonomy_rank:
  "level_rank (autonomy tr level) \<le> level_rank level"
  "snd (TrustLevelRank (MaxAutonomyLevel tr)) \<Longrightarrow>
   level_rank (autonomy tr level) \<le> level_rank (MaxAutonomyLevel tr)"
  by (auto simp: autonomy_def Let_def split: prod.splits)

lemma min_level_error_cases:
  "min_level_error tr level = None \<longleftrightarrow>
     (MinTrustLevel tr \<noteq> '''' \<longrightarrow> snd (TrustLevelRank (MinTrustLevel tr)) \<and>
        level_rank (MinTrustLevel tr) \<le> level_rank level)"
  by (auto simp: min_level_error_def Let_def not_less split: prod.splits if_splits)

lemma shown_mono:
  "shown_level L ns agent es level \<Longrightarrow> set es \<subseteq> set es' \<Longrightarrow> shown_level L ns agent es' level"
  "shown_rights ns es auto rights \<Longrightarrow> set es \<subseteq> set es' \<Longrightarrow> shown_rights ns es' auto rights"
  unfolding shown_level_def shown_rights_def by blast+

lemma gate_sound_rejected:
  assumes "shown_level L ns agent es level" and "min_level_error tr level = Some msg"
  shows "gate_sound L ns agent tr es (gate_rejected msg)"
  unfolding gate_sound_def
  by (rule exI [of _ level])
    (use assms in \<open>auto simp: gate_rejected_def min_level_error_def Let_def split: prod.splits if_splits\<close>)

lemma gate_sound_annotated:
  assumes "shown_level L ns agent es level" and "min_level_error tr level = None"
    and "shown_rights ns es (autonomy tr level) rights"
  shows "gate_sound L ns agent tr es (gate_annotate (autonomy tr level) rights)"
proof -
  let ?res = "gate_annotate (autonomy tr level) rights"
  have not: "\<not> rejected ?res" by (simp add: gate_annotate_def Let_def)
  obtain as where as: "gate_annotations ?res = Some as" by (simp add: gate_annotate_def Let_def)
  have "\<exists>auto rights as. shown_rights ns es auto rights \<and> gate_annotations ?res = Some as \<and>
      level_rank auto \<le> level_rank level \<and>
      (snd (TrustLevelRank (MaxAutonomyLevel tr)) \<longrightarrow> level_rank auto \<le> level_rank (MaxAutonomyLevel tr)) \<and>
      lookup_str as AnnotationEffectiveTrustLevel = auto \<and>
      (lookup_str as AnnotationCanExecute = ''false'' \<longleftrightarrow> \<not> fst rights) \<and>
      (lookup_str as AnnotationRequiresHumanApproval = ''false'' \<longleftrightarrow> fst rights \<and> \<not> snd rights)"
    using assms(3) as autonomy_rank [of tr level] gate_annotate_sel [OF as] by blast
  then show ?thesis
    unfolding gate_sound_def
    using assms(1,2) not by (intro exI [of _ level]) (simp add: min_level_error_cases)
qed

lemma gate_at_sound:
  assumes "shown_level L ns agent h (if level = '''' then TrustLevelObserver else level)"
  shows "wlp (gate_at ns tr level) (\<lambda>es x. \<forall>res. x = Inr res \<longrightarrow> gate_sound L ns agent tr (h @ es) res)"
proof -
  define lv where "lv = (if level = '''' then TrustLevelObserver else level)"
  have shown: "shown_level L ns agent h lv" using assms by (simp add: lv_def)
  have more: "shown_level L ns agent (h @ es) lv" for es
    using shown by (rule shown_mono) auto
  show ?thesis
  proof (cases "min_level_error tr lv")
    case None
    have "shown_rights ns (h @ [EGet Cached KAgentGraduationPolicy (ns, gateGraduationPolicyName) g])
        (autonomy tr lv) (case as_AgentGraduationPolicy g of Inl _ \<Rightarrow> (False, True)
          | Inr policy \<Rightarrow> level_rights (autonomy tr lv) (Levels policy))"
      if "\<forall>e. as_AgentGraduationPolicy g = Inl e \<longrightarrow> IsNotFound e" for g
      unfolding shown_rights_def gateGraduationPolicyName_def
      by (rule exI [of _ g]) (use that in \<open>auto split: sum.splits\<close>)
    note sound = gate_sound_annotated [OF more None this]
    show ?thesis
      unfolding gate_at_def Let_def lv_def [symmetric] None option.case wlp.simps
    proof
      fix g
      show "wlp (case as_AgentGraduationPolicy g of
             Inl e \<Rightarrow> if \<not> IsNotFound e then Ret (Inl (Wrapped ''getting AgentGraduationPolicy default'' e))
               else Ret (Inr (gate_annotate (autonomy tr lv) (False, True)))
           | Inr policy \<Rightarrow> Ret (Inr (gate_annotate (autonomy tr lv)
               (level_rights (autonomy tr lv) (Levels policy)))))
          (\<lambda>es x. \<forall>res. x = Inr res \<longrightarrow> gate_sound L ns agent tr
             (h @ EGet Cached KAgentGraduationPolicy (ns, gateGraduationPolicyName) g # es) res)"
        using sound [of g] by (cases "as_AgentGraduationPolicy g") auto
    qed
  next
    case (Some msg)
    then show ?thesis
      unfolding gate_at_def Let_def lv_def [symmetric]
      by (simp add: gate_sound_rejected [OF shown])
  qed
qed

lemma evaluateTrustGate_wlp:
  assumes "TrustReqs gr = Some tr" and "mode \<noteq> ModeObserve"
  shows "wlp (evaluateTrustGate L ns agent mode gr)
    (\<lambda>es x. \<forall>res. x = Inr res \<longrightarrow> gate_sound L ns agent tr es res)"
proof -
  let ?e = "\<lambda>g. EGet Direct KAgentTrustProfile (ns, ProfileNameForAgent L agent) g"
  have "wlp (case as_AgentTrustProfile g of
           Inl e \<Rightarrow> if \<not> IsNotFound e then Ret (Inl (Wrapped (''getting AgentTrustProfile '' @ ProfileNameForAgent L agent) e))
             else gate_at ns tr TrustLevelObserver
         | Inr profile \<Rightarrow> gate_at ns tr (TrustLevel (ProfileStatus profile)))
      (\<lambda>es x. \<forall>res. x = Inr res \<longrightarrow> gate_sound L ns agent tr (?e g # es) res)" for g
  proof (cases "as_AgentTrustProfile g")
    case (Inl e)
    have "shown_level L ns agent [?e g] TrustLevelObserver" if "IsNotFound e"
      unfolding shown_level_def by (rule exI [of _ g]) (simp add: Inl that)
    from gate_at_sound [of L ns agent "[?e g]" TrustLevelObserver tr] this Inl show ?thesis
      by (simp add: type_defs)
  next
    case (Inr profile)
    have "shown_level L ns agent [?e g] (if TrustLevel (ProfileStatus profile) = '''' then TrustLevelObserver
        else TrustLevel (ProfileStatus profile))"
      unfolding shown_level_def by (rule exI [of _ g]) (simp add: Inr)
    from gate_at_sound [OF this] Inr show ?thesis by simp
  qed
  then show ?thesis using assms by (simp add: evaluateTrustGate_def)
qed

text \<open>The gate only reads, and lets a request pass by annotating it.\<close>

lemma gate_at_annotates:
  "wlp (gate_at ns tr level) (\<lambda>es x. list_all is_read es \<and>
     (\<forall>res. x = Inr res \<longrightarrow> \<not> rejected res \<longrightarrow> res \<in> range (\<lambda>(auto, rights). gate_annotate auto rights)))"
proof -
  have *: "gate_annotate auto rights \<in> range (\<lambda>(auto, rights). gate_annotate auto rights)" for auto rights
    by (rule range_eqI [of _ _ "(auto, rights)"]) simp
  show ?thesis
    by (auto simp: gate_at_def Let_def gate_rejected_def * split: option.splits sum.splits)
qed

lemma evaluateTrustGate_annotates:
  assumes "TrustReqs gr = Some tr" and "mode \<noteq> ModeObserve"
  shows "wlp (evaluateTrustGate L ns agent mode gr) (\<lambda>es x. list_all is_read es \<and>
     (\<forall>res. x = Inr res \<longrightarrow> \<not> rejected res \<longrightarrow> res \<in> range (\<lambda>(auto, rights). gate_annotate auto rights)))"
  using assms gate_at_annotates by (simp add: evaluateTrustGate_def split: sum.splits)


section \<open>The controller\<close>

text \<open>Functions of controller-runtime's \<open>controllerutil\<close>.\<close>

record finalizer_fns =
  ContainsFinalizer :: "ObjectMeta \<Rightarrow> string \<Rightarrow> bool"
  AddFinalizer :: "ObjectMeta \<Rightarrow> string \<Rightarrow> ObjectMeta"
  RemoveFinalizer :: "ObjectMeta \<Rightarrow> string \<Rightarrow> ObjectMeta"

locale finalizer_lib =
  fixes F :: finalizer_fns
  assumes contains: "ContainsFinalizer F m f \<longleftrightarrow> f \<in> set (Finalizers m)"
    and add: "\<exists>fs. AddFinalizer F m f = m\<lparr>Finalizers := fs\<rparr> \<and> set fs = insert f (set (Finalizers m))"
    and remove: "\<exists>fs. RemoveFinalizer F m f = m\<lparr>Finalizers := fs\<rparr> \<and> set fs = set (Finalizers m) - {f}"
begin

lemma contains_add: "ContainsFinalizer F (AddFinalizer F m f) f' \<longleftrightarrow> f' = f \<or> ContainsFinalizer F m f'"
  using add [of m f] by (elim exE conjE) (simp add: contains)

lemma contains_remove:
  "ContainsFinalizer F (RemoveFinalizer F m f) f' \<longleftrightarrow> f' \<noteq> f \<and> ContainsFinalizer F m f'"
  using remove [of m f] by (elim exE conjE) (simp add: contains conj_commute)

end

definition ref_finalizers :: finalizer_fns where
  "ref_finalizers = \<lparr>ContainsFinalizer = (\<lambda>m f. f \<in> set (Finalizers m)),
     AddFinalizer = (\<lambda>m f. if f \<in> set (Finalizers m) then m else m\<lparr>Finalizers := Finalizers m @ [f]\<rparr>),
     RemoveFinalizer = (\<lambda>m f. m\<lparr>Finalizers := removeAll f (Finalizers m)\<rparr>)\<rparr>"

interpretation ref_fin: finalizer_lib ref_finalizers
proof
  fix m f
  show "\<exists>fs. AddFinalizer ref_finalizers m f = m\<lparr>Finalizers := fs\<rparr> \<and> set fs = insert f (set (Finalizers m))"
    by (cases "f \<in> set (Finalizers m)")
      (rule exI [of _ "Finalizers m"], simp add: ref_finalizers_def insert_absorb,
       rule exI [of _ "Finalizers m @ [f]"], simp add: ref_finalizers_def)
  show "\<exists>fs. RemoveFinalizer ref_finalizers m f = m\<lparr>Finalizers := fs\<rparr> \<and> set fs = set (Finalizers m) - {f}"
    by (rule exI [of _ "removeAll f (Finalizers m)"]) (simp add: ref_finalizers_def)
qed (simp add: ref_finalizers_def)

text \<open>\<open>DeletionTimestamp.IsZero()\<close> is true of no timestamp and of the zero time.\<close>

definition deleting :: "ObjectMeta \<Rightarrow> bool" where
  "deleting m = (case DeletionTimestamp m of None \<Rightarrow> False | Some t \<Rightarrow> t \<noteq> zero_time)"

definition active_for :: "string \<Rightarrow> AgentRequest \<Rightarrow> bool" where
  "active_for grName ar = (case SpecGovernedResourceRef (Spec ar) of
       None \<Rightarrow> False
     | Some ref \<Rightarrow> RefName ref = grName \<and> Phase (Status ar) \<noteq> PhaseCompleted \<and>
         Phase (Status ar) \<noteq> PhaseFailed \<and> Phase (Status ar) \<noteq> PhaseDenied)"

definition hasActiveRequests :: "string \<Rightarrow> bool result prog" where
  "hasActiveRequests grName = ListObjects Cached KAgentRequest list_all_objects (\<lambda>l. case l of
       Inl e \<Rightarrow> Ret (Inl (Wrapped ''failed to list AgentRequests'' e))
     | Inr (items, _) \<Rightarrow> Ret (Inr (list_ex (active_for grName) (pick_AgentRequests items))))"

definition updateFinalizers ::
  "(ObjectMeta \<Rightarrow> string \<Rightarrow> ObjectMeta) \<Rightarrow> GovernedResource \<Rightarrow> ctrl_result result prog" where
  "updateFinalizers change gr =
     Update MainResource (OGovernedResource (gr\<lparr>GRMeta := change (GRMeta gr) GovernedResourceFinalizer\<rparr>)) (\<lambda>u.
       case u of Inl e \<Rightarrow> Ret (Inl e) | Inr _ \<Rightarrow> Ret (Inr Done))"

definition ReconcileGovernedResource :: "finalizer_fns \<Rightarrow> objkey \<Rightarrow> ctrl_result result prog" where
  "ReconcileGovernedResource F key =
     Get Cached KGovernedResource key (\<lambda>g. case as_GovernedResource g of
       Inl e \<Rightarrow> Ret (if IsNotFound e then Inr Done else Inl e)
     | Inr gr \<Rightarrow> bind (hasActiveRequests (Name (GRMeta gr))) (\<lambda>a. case a of
         Inl e \<Rightarrow> Ret (Inl e)
       | Inr activeRequests \<Rightarrow>
           if deleting (GRMeta gr) then
             if \<not> activeRequests then
               if ContainsFinalizer F (GRMeta gr) GovernedResourceFinalizer
               then updateFinalizers (RemoveFinalizer F) gr
               else Ret (Inr Done)
             else Ret (Inr Done)
           else if \<not> ContainsFinalizer F (GRMeta gr) GovernedResourceFinalizer
           then updateFinalizers (AddFinalizer F) gr
           else Ret (Inr Done)))"

text \<open>The write a reconciliation may make after the reads in \<open>es\<close>.\<close>

definition finalizer_update :: "objkey \<Rightarrow> event list \<Rightarrow> event \<Rightarrow> bool" where
  "finalizer_update key es e \<longleftrightarrow> (\<exists>gr items c fs r.
     EGet Cached KGovernedResource key (Inr (OGovernedResource gr)) \<in> set es \<and>
     EList Cached KAgentRequest list_all_objects (Inr (items, c)) \<in> set es \<and>
     e = EUpdate MainResource (OGovernedResource (gr\<lparr>GRMeta := (GRMeta gr)\<lparr>Finalizers := fs\<rparr>\<rparr>)) r \<and>
     (if deleting (GRMeta gr)
      then set fs = set (Finalizers (GRMeta gr)) - {GovernedResourceFinalizer} \<and>
        (\<forall>ar\<in>set (pick_AgentRequests items). \<not> active_for (Name (GRMeta gr)) ar)
      else set fs = insert GovernedResourceFinalizer (set (Finalizers (GRMeta gr)))))"

lemma as_GovernedResource_Inr: "as_GovernedResource g = Inr gr \<Longrightarrow> g = Inr (OGovernedResource gr)"
  by (cases g rule: as_GovernedResource.cases) auto

context finalizer_lib
begin

lemma update_after:
  assumes "EGet Cached KGovernedResource key (Inr (OGovernedResource gr)) \<in> set es"
    and "EList Cached KAgentRequest list_all_objects (Inr (items, c)) \<in> set es"
  shows "\<not> deleting (GRMeta gr) \<Longrightarrow> finalizer_update key es (EUpdate MainResource
      (OGovernedResource (gr\<lparr>GRMeta := AddFinalizer F (GRMeta gr) GovernedResourceFinalizer\<rparr>)) r)"
    and "deleting (GRMeta gr) \<Longrightarrow>
      \<not> list_ex (active_for (Name (GRMeta gr))) (pick_AgentRequests items) \<Longrightarrow>
      finalizer_update key es (EUpdate MainResource
        (OGovernedResource (gr\<lparr>GRMeta := RemoveFinalizer F (GRMeta gr) GovernedResourceFinalizer\<rparr>)) r)"
proof -
  obtain fs where fs: "AddFinalizer F (GRMeta gr) GovernedResourceFinalizer = (GRMeta gr)\<lparr>Finalizers := fs\<rparr>"
    "set fs = insert GovernedResourceFinalizer (set (Finalizers (GRMeta gr)))"
    using add by blast
  then show "finalizer_update key es (EUpdate MainResource
      (OGovernedResource (gr\<lparr>GRMeta := AddFinalizer F (GRMeta gr) GovernedResourceFinalizer\<rparr>)) r)"
    if "\<not> deleting (GRMeta gr)"
    unfolding finalizer_update_def
    by (intro exI [of _ gr] exI [of _ items] exI [of _ c] exI [of _ fs] exI [of _ r])
      (simp add: assms that)
  obtain fs' where
    "RemoveFinalizer F (GRMeta gr) GovernedResourceFinalizer = (GRMeta gr)\<lparr>Finalizers := fs'\<rparr>"
    "set fs' = set (Finalizers (GRMeta gr)) - {GovernedResourceFinalizer}"
    using remove by blast
  then show "finalizer_update key es (EUpdate MainResource
        (OGovernedResource (gr\<lparr>GRMeta := RemoveFinalizer F (GRMeta gr) GovernedResourceFinalizer\<rparr>)) r)"
    if "deleting (GRMeta gr)" "\<not> list_ex (active_for (Name (GRMeta gr))) (pick_AgentRequests items)"
    unfolding finalizer_update_def
    by (intro exI [of _ gr] exI [of _ items] exI [of _ c] exI [of _ fs'] exI [of _ r])
      (use that in \<open>simp add: assms list_ex_iff\<close>)
qed

lemma reconcile_monitored:
  "with_history (\<lambda>_. True) (\<lambda>h e. is_read e \<or> finalizer_update key h e) (\<lambda>_. True)
     (ReconcileGovernedResource F key) []"
proof -
  have "finalizer_update key
      [EGet Cached KGovernedResource key g, EList Cached KAgentRequest list_all_objects (Inr (items, c))]
      (EUpdate MainResource (OGovernedResource (gr\<lparr>GRMeta := AddFinalizer F (GRMeta gr) GovernedResourceFinalizer\<rparr>)) r)"
    if "as_GovernedResource g = Inr gr" "\<not> deleting (GRMeta gr)" for g gr items c r
    using that(2) by (intro update_after(1)) (simp_all add: as_GovernedResource_Inr [OF that(1)])
  moreover have "finalizer_update key
      [EGet Cached KGovernedResource key g, EList Cached KAgentRequest list_all_objects (Inr (items, c))]
      (EUpdate MainResource (OGovernedResource (gr\<lparr>GRMeta := RemoveFinalizer F (GRMeta gr) GovernedResourceFinalizer\<rparr>)) r)"
    if "as_GovernedResource g = Inr gr" "deleting (GRMeta gr)"
      "\<not> list_ex (active_for (Name (GRMeta gr))) (pick_AgentRequests items)" for g gr items c r
    using that(2,3) by (intro update_after(2)) (simp_all add: as_GovernedResource_Inr [OF that(1)])
  ultimately show ?thesis
    unfolding ReconcileGovernedResource_def hasActiveRequests_def updateFinalizers_def
    by (auto simp: Let_def split: sum.splits)
qed

lemma reconcile_adds:
  "wlp (ReconcileGovernedResource F key) (\<lambda>es x. x = Inr Done \<longrightarrow>
     (\<forall>gr. EGet Cached KGovernedResource key (Inr (OGovernedResource gr)) \<in> set es \<longrightarrow>
        \<not> deleting (GRMeta gr) \<longrightarrow> GovernedResourceFinalizer \<notin> set (Finalizers (GRMeta gr)) \<longrightarrow>
        (\<exists>obj r. EUpdate MainResource obj (Inr r) \<in> set es)))"
  unfolding ReconcileGovernedResource_def hasActiveRequests_def updateFinalizers_def
  by (auto simp: contains split: sum.splits)

end

text \<open>C40. The finalizer protocol.  A reconciliation of a governed resource only reads, except for one kind of
  update: it adds the finalizer to a resource that is not being deleted, or removes it from one
  that is, after a list of the requests that shows no active one referring to it; every other
  field and finalizer is kept.  A successful reconciliation of a resource that is not being
  deleted and lacks the finalizer has written it.\<close>

theorem ReconcileGovernedResource_guards:
  assumes "finalizer_lib F" and "exec (ReconcileGovernedResource F key) es x"
  shows "(\<forall>es1 e es2. es = es1 @ e # es2 \<longrightarrow> is_read e \<or> finalizer_update key es1 e) \<and>
    (x = Inr Done \<longrightarrow>
     (\<forall>gr. EGet Cached KGovernedResource key (Inr (OGovernedResource gr)) \<in> set es \<longrightarrow>
        \<not> deleting (GRMeta gr) \<longrightarrow> GovernedResourceFinalizer \<notin> set (Finalizers (GRMeta gr)) \<longrightarrow>
        (\<exists>obj r. EUpdate MainResource obj (Inr r) \<in> set es)))"
proof (intro conjI allI impI)
  fix es1 e es2
  assume "es = es1 @ e # es2"
  with with_history_sound [OF finalizer_lib.reconcile_monitored [OF assms(1)], of key es1 e es2 x] assms(2)
  show "is_read e \<or> finalizer_update key es1 e" by (simp add: list_all_iff)
next
  fix gr
  assume "x = Inr Done" "EGet Cached KGovernedResource key (Inr (OGovernedResource gr)) \<in> set es"
    "\<not> deleting (GRMeta gr)" "GovernedResourceFinalizer \<notin> set (Finalizers (GRMeta gr))"
  with wlpD [OF finalizer_lib.reconcile_adds [OF assms(1)] assms(2)]
  show "\<exists>obj r. EUpdate MainResource obj (Inr r) \<in> set es" by blast
qed


section \<open>Concrete runs\<close>

definition trust_gr :: GovernedResource where
  "trust_gr = sample_gr\<lparr>TrustReqs := Some \<lparr>MinTrustLevel = ''Advisor'', MaxAutonomyLevel = ''Supervised''\<rparr>\<rparr>"

definition gate_profile :: "string \<Rightarrow> AgentTrustProfile" where
  "gate_profile level = \<lparr>ProfileMeta = sample_meta (ProfileNameForAgent ref_libs ''bot''),
     ProfileAgentIdentity = ''bot'',
     ProfileStatus = \<lparr>TrustLevel = level, ProfileDiagnosticAccuracy = None, RecentAccuracy = None,
       ProfileTotalReviewed = 0, TotalExecutions = 0, SuccessRate = None, LastPromotedAt = None,
       LastDemotedAt = None, LastEvaluatedAt = None\<rparr>\<rparr>"

theorem matchGovernedResource_most_specific_witness:
  "fst (matchGovernedResource ref_libs [] [sample_gr, sample_gr\<lparr>URIPattern := ''k8s://prod/default/*''\<rparr>]
     ''k8s://prod/default/deployment/api'' ''scale'') =
   Some (sample_gr\<lparr>URIPattern := ''k8s://prod/default/*''\<rparr>) \<and>
   \<not> more_specific sample_gr (sample_gr\<lparr>URIPattern := ''k8s://prod/default/*''\<rparr>)"
proof -
  let ?items = "[sample_gr, sample_gr\<lparr>URIPattern := ''k8s://prod/default/*''\<rparr>]"
  let ?m = "matchGovernedResource ref_libs [] ?items ''k8s://prod/default/deployment/api'' ''scale''"
  have "fst ?m = Some (sample_gr\<lparr>URIPattern := ''k8s://prod/default/*''\<rparr>)"
    "governs ref_libs ''k8s://prod/default/deployment/api'' ''scale'' sample_gr" by code_simp+
  moreover obtain best cache' where m: "?m = (best, cache')" by fastforce
  ultimately show ?thesis
    using matchGovernedResource_most_specific [OF globs_ok_Nil m] by simp
qed


theorem ReconcileGovernedResource_guards_witness:
  "\<exists>obj r. EUpdate MainResource obj (Inr r) \<in>
     set (trace_of srv_env (ReconcileGovernedResource ref_finalizers (''ns'', ''gr'')) (world 5 [OGovernedResource sample_gr]))"
proof -
  let ?p = "ReconcileGovernedResource ref_finalizers (''ns'', ''gr'')"
  let ?w = "world 5 [OGovernedResource sample_gr]"
  have "result_of srv_env ?p ?w = Inr Done"
    "EGet Cached KGovernedResource (''ns'', ''gr'') (Inr (OGovernedResource sample_gr)) \<in> set (trace_of srv_env ?p ?w)"
    "\<not> deleting (GRMeta sample_gr)" "GovernedResourceFinalizer \<notin> set (Finalizers (GRMeta sample_gr))"
    by code_simp+
  with ReconcileGovernedResource_guards [OF ref_fin.finalizer_lib_axioms exec_run [of ?p srv_env ?w]]
  show ?thesis by blast
qed

text \<open>A terminal request can block deletion: an expired request counts as active, so the finalizer
  of a resource that is being deleted stays as long as the request exists.\<close>

theorem expired_request_blocks_deletion:
  "let gr = sample_gr\<lparr>GRMeta := (sample_meta ''gr'')\<lparr>DeletionTimestamp := Some 7,
         Finalizers := [GovernedResourceFinalizer]\<rparr>\<rparr>;
       ar = sample_request\<lparr>Spec := sample_spec\<lparr>SpecGovernedResourceRef := Some \<lparr>RefName = ''gr'', RefGeneration = 1\<rparr>\<rparr>,
         Status := sample_status\<lparr>Phase := PhaseExpired\<rparr>\<rparr>
   in result_of srv_env (ReconcileGovernedResource ref_finalizers (''ns'', ''gr''))
        (world 9 [OGovernedResource gr, OAgentRequest ar]) = Inr Done \<and>
      list_all is_read (trace_of srv_env (ReconcileGovernedResource ref_finalizers (''ns'', ''gr''))
        (world 9 [OGovernedResource gr, OAgentRequest ar]))"
  by code_simp

end
