(* ===== verification/Registration_Cache.thy ===== *)
theory Registration_Cache
  imports Gateway_HTTP API_Server Client_Retry
begin

text \<open>
  The gateway's cache of agent registrations: \<open>src/cmd/gateway/registration_watch.go\<close>, and the identity
  check \<open>validateOIDCIdentity\<close> of \<open>agent_request_lifecycle_handlers.go\<close>.

  Go maps are association lists with distinct keys; their order stands for the iteration order,
  and no result depends on it.  A credential provider is the data its constructor takes.  The
  watch is an argument: the error of opening it or the events it delivers before it ends.
\<close>


section \<open>The cache\<close>

datatype provider =
    StaticSecretProvider string string string
  | AzureWorkloadIdentityProvider string string string
  | AWSWebIdentityProvider string string string "int option" string
  | KubernetesOIDCProvider string string string string
  | KubernetesTokenRequestProvider string string "int option" "string list"

record registrationCache =
  oidcClientID :: string
  oidcClientSecret :: string
  byAgent :: "(string \<times> AgentRegistration) list"
  providers :: "(string \<times> (string \<times> provider) list) list"

definition newRegistrationCache :: registrationCache where
  "newRegistrationCache = \<lparr>oidcClientID = '''', oidcClientSecret = '''', byAgent = [], providers = []\<rparr>"

definition withOIDCCredentials :: "string \<Rightarrow> string \<Rightarrow> registrationCache \<Rightarrow> registrationCache" where
  "withOIDCCredentials clientID clientSecret c =
     c\<lparr>oidcClientID := clientID, oidcClientSecret := clientSecret\<rparr>"

definition allowed_subjects :: "AgentRegistration \<Rightarrow> string list" where
  "allowed_subjects reg = (case OIDC (RegSpec reg) of None \<Rightarrow> [] | Some o' \<Rightarrow> AllowedSubjects o')"

text \<open>The scan for a registration that lists the subject; the outer \<open>None\<close> is the early return.\<close>

fun subject_scan ::
  "string \<Rightarrow> AgentRegistration option \<Rightarrow> AgentRegistration list \<Rightarrow> AgentRegistration option" where
  "subject_scan sub match [] = match"
| "subject_scan sub match (reg # regs) =
     (if sub \<in> set (allowed_subjects reg) then
        if match \<noteq> None then None else subject_scan sub (Some reg) regs
      else subject_scan sub match regs)"

definition getForSubject :: "registrationCache \<Rightarrow> string \<Rightarrow> string \<Rightarrow> AgentRegistration option" where
  "getForSubject c agentIdentity sub =
     (case (if agentIdentity \<noteq> '''' then map_of (byAgent c) agentIdentity else None) of
        Some reg \<Rightarrow>
          if allowed_subjects reg \<noteq> [] then
            if sub \<in> set (allowed_subjects reg) then Some reg else None
          else if sub = '''' \<or> sub = agentIdentity then Some reg else None
      | None \<Rightarrow>
          if sub = '''' then None else subject_scan sub None (map snd (byAgent c)))"

definition get_reg :: "registrationCache \<Rightarrow> string \<Rightarrow> AgentRegistration option" where
  "get_reg c agentIdentity = map_of (byAgent c) agentIdentity"

definition exists_reg :: "registrationCache \<Rightarrow> string \<Rightarrow> bool" where
  "exists_reg c agentIdentity \<longleftrightarrow> map_of (byAgent c) agentIdentity \<noteq> None"

definition providerFor :: "registrationCache \<Rightarrow> string \<Rightarrow> string \<Rightarrow> provider option" where
  "providerFor c agentIdentity service = (case map_of (providers c) agentIdentity of
       None \<Rightarrow> None | Some svcProviders \<Rightarrow> map_of svcProviders service)"

definition listAgents :: "registrationCache \<Rightarrow> string list" where
  "listAgents c = map fst (byAgent c)"

definition binding_provider :: "string \<Rightarrow> string \<Rightarrow> ExternalIdentityBinding \<Rightarrow> provider option" where
  "binding_provider clientID clientSecret b = (case BindingType b of
       ExternalIdentityStaticSecret \<Rightarrow> map_option (\<lambda>s.
         StaticSecretProvider (StaticName s) (StaticNamespace s) (StaticKey s)) (StaticSecret b)
     | ExternalIdentityAzureWorkloadIdentity \<Rightarrow> map_option (\<lambda>a.
         AzureWorkloadIdentityProvider (AzureTenantID a) (AzureClientID a) (AzureScope a)) (AzureWorkloadIdentity b)
     | ExternalIdentityAWSWebIdentity \<Rightarrow> map_option (\<lambda>a.
         AWSWebIdentityProvider (RoleARN a) (RoleSessionName a) (Region a) (DurationSeconds a) (STSEndpoint a))
         (AWSWebIdentity b)
     | ExternalIdentityKubernetesOIDC \<Rightarrow> map_option (\<lambda>k.
         KubernetesOIDCProvider (TokenExchangeURL k) (OIDCAudience k) clientID clientSecret) (KubernetesOIDC b)
     | ExternalIdentityKubernetesTokenRequest \<Rightarrow> map_option (\<lambda>k.
         KubernetesTokenRequestProvider (ServiceAccountName k) (ServiceAccountNamespace k)
           (ExpirationSeconds k) (Audiences k)) (KubernetesTokenRequest b)
     | ExternalIdentityOther _ \<Rightarrow> None)"

fun build_providers ::
  "string \<Rightarrow> string \<Rightarrow> ExternalIdentityBinding list \<Rightarrow> (string \<times> provider) list \<Rightarrow> (string \<times> provider) list" where
  "build_providers clientID clientSecret [] svc = svc"
| "build_providers clientID clientSecret (b # bs) svc =
     build_providers clientID clientSecret bs (case binding_provider clientID clientSecret b of
       None \<Rightarrow> svc | Some p \<Rightarrow> map_put (Service b) p svc)"

definition map_delete :: "'k \<Rightarrow> ('k \<times> 'v) list \<Rightarrow> ('k \<times> 'v) list" where
  "map_delete k m = filter (\<lambda>(k', _). k' \<noteq> k) m"

definition same_generation :: "registrationCache \<Rightarrow> AgentRegistration \<Rightarrow> bool" where
  "same_generation c reg = (case map_of (byAgent c) (RegAgentIdentity (RegSpec reg)) of
       None \<Rightarrow> False | Some existing \<Rightarrow> Generation (RegMeta existing) = Generation (RegMeta reg))"

definition upsert :: "AgentRegistration \<Rightarrow> registrationCache \<Rightarrow> registrationCache" where
  "upsert reg c =
     (let agentID = RegAgentIdentity (RegSpec reg)
      in if agentID = '''' then c
         else if same_generation c reg then c
         else c\<lparr>byAgent := map_put agentID reg (byAgent c),
           providers := map_put agentID
             (build_providers (oidcClientID c) (oidcClientSecret c) (ExternalIdentities (RegSpec reg)) [])
             (providers c)\<rparr>)"

definition remove_reg :: "string \<Rightarrow> registrationCache \<Rightarrow> registrationCache" where
  "remove_reg agentIdentity c =
     c\<lparr>byAgent := map_delete agentIdentity (byAgent c), providers := map_delete agentIdentity (providers c)\<rparr>"


section \<open>List and watch\<close>

datatype watch_event =
    Added object
  | Modified object
  | Deleted object
  | Bookmark object
  | WatchError

definition load_listed :: "AgentRegistration list \<Rightarrow> registrationCache \<Rightarrow> registrationCache" where
  "load_listed items c = fold (\<lambda>reg c. if RegAgentIdentity (RegSpec reg) \<noteq> '''' then upsert reg c else c) items c"

definition evict_stale :: "AgentRegistration list \<Rightarrow> registrationCache \<Rightarrow> registrationCache" where
  "evict_stale items c = fold (\<lambda>agentID c.
     if agentID \<in> set (filter (\<lambda>a. a \<noteq> '''') (map (\<lambda>reg. RegAgentIdentity (RegSpec reg)) items)) then c
     else remove_reg agentID c)
     (listAgents c) c"

fun watch_loop :: "watch_event list \<Rightarrow> registrationCache \<Rightarrow> unit result \<times> registrationCache" where
  "watch_loop [] c = (Inr (), c)"
| "watch_loop (Added (OAgentRegistration reg) # evs) c =
     watch_loop evs (if RegAgentIdentity (RegSpec reg) \<noteq> '''' then upsert reg c else c)"
| "watch_loop (Modified (OAgentRegistration reg) # evs) c =
     watch_loop evs (if RegAgentIdentity (RegSpec reg) \<noteq> '''' then upsert reg c else c)"
| "watch_loop (Deleted (OAgentRegistration reg) # evs) c =
     watch_loop evs (if RegAgentIdentity (RegSpec reg) \<noteq> ''''
       then remove_reg (RegAgentIdentity (RegSpec reg)) c else c)"
| "watch_loop (WatchError # evs) c = (Inl (Plain ''watch error''), c)"
| "watch_loop (_ # evs) c = watch_loop evs c"

text \<open>\<open>retry\<close> is \<open>retry.OnError\<close> with the default back-off.\<close>

definition watchAgentRegistrationsOnce ::
  "((object list \<times> string) result prog \<Rightarrow> (object list \<times> string) result prog) \<Rightarrow>
   watch_event list result \<Rightarrow> registrationCache \<Rightarrow> (unit result \<times> registrationCache) prog" where
  "watchAgentRegistrationsOnce retry watch cache =
     bind (retry (ListObjects Direct KAgentRegistration list_all_objects Ret)) (\<lambda>l. case l of
       Inl e \<Rightarrow> Ret (Inl e, cache)
     | Inr (items, _) \<Rightarrow>
         (let initialList = pick_AgentRegistrations items;
              cache = evict_stale initialList (load_listed initialList cache)
          in case watch of Inl e \<Rightarrow> Ret (Inl e, cache) | Inr evs \<Rightarrow> Ret (watch_loop evs cache)))"

text \<open>The background loop over the list-and-watch cycles until the context is cancelled.\<close>

primrec watchAgentRegistrations ::
  "((object list \<times> string) result prog \<Rightarrow> (object list \<times> string) result prog) \<Rightarrow>
   watch_event list result list \<Rightarrow> registrationCache \<Rightarrow> registrationCache prog" where
  "watchAgentRegistrations retry [] cache = Ret cache"
| "watchAgentRegistrations retry (watch # watches) cache =
     bind (watchAgentRegistrationsOnce retry watch cache) (\<lambda>(_, cache).
       watchAgentRegistrations retry watches cache)"


section \<open>The identity check\<close>

definition validateOIDCIdentity :: "AgentRegistration \<Rightarrow> string \<Rightarrow> string \<Rightarrow> message option" where
  "validateOIDCIdentity reg issuer sub = (case OIDC (RegSpec reg) of
       None \<Rightarrow> None
     | Some o' \<Rightarrow>
         if issuer \<noteq> Issuer o' then
           Some (Sprintf ''token issuer %q does not match registered issuer %q for agent %q''
             [ArgS issuer, ArgS (Issuer o'), ArgS (RegAgentIdentity (RegSpec reg))])
         else if AllowedSubjects o' \<noteq> [] then
           if sub \<in> set (AllowedSubjects o') then None
           else Some (Sprintf ''token subject %q not in allowedSubjects for agent %q''
             [ArgS sub, ArgS (RegAgentIdentity (RegSpec reg))])
         else if sub = '''' \<or> sub = RegAgentIdentity (RegSpec reg) then None
         else Some (Sprintf ''token subject %q does not match agentIdentity %q''
             [ArgS sub, ArgS (RegAgentIdentity (RegSpec reg))]))"

section \<open>The invariant\<close>

abbreviation identity_of :: "AgentRegistration \<Rightarrow> string" where
  "identity_of reg \<equiv> RegAgentIdentity (RegSpec reg)"

text \<open>Entries are filed under their own, non-empty identity, and the providers of an agent are those
  of its cached registration.\<close>

definition reg_cache_ok :: "registrationCache \<Rightarrow> bool" where
  "reg_cache_ok c \<longleftrightarrow> distinct (map fst (byAgent c)) \<and>
     (\<forall>(a, reg)\<in>set (byAgent c). a = identity_of reg \<and> a \<noteq> '''') \<and>
     (\<forall>a. map_of (providers c) a = map_option (\<lambda>reg.
        build_providers (oidcClientID c) (oidcClientSecret c) (ExternalIdentities (RegSpec reg)) [])
        (map_of (byAgent c) a))"

lemma map_put_keys: "set (map_put k v m) \<subseteq> insert (k, v) (set m)"
  by (induction k v m rule: map_put.induct) auto

lemma map_put_dom: "fst ` set (map_put k v m) = insert k (fst ` set m)"
  by (induction k v m rule: map_put.induct) auto

lemma map_put_distinct: "distinct (map fst m) \<Longrightarrow> distinct (map fst (map_put k v m))"
  by (induction k v m rule: map_put.induct) (auto simp: map_put_dom [unfolded image_image] image_iff)

lemma map_of_delete [simp]: "map_of (map_delete k m) = (map_of m)(k := None)"
  by (induction m) (auto simp: map_delete_def fun_eq_iff)

lemma map_delete_distinct: "distinct (map fst m) \<Longrightarrow> distinct (map fst (map_delete k m))"
  by (induction m) (auto simp: map_delete_def)

lemma newRegistrationCache_ok: "reg_cache_ok newRegistrationCache"
  by (simp add: reg_cache_ok_def newRegistrationCache_def)

lemma upsert_ok: "reg_cache_ok c \<Longrightarrow> reg_cache_ok (upsert reg c)"
  using map_put_keys [of "identity_of reg" reg "byAgent c"]
  by (auto simp: reg_cache_ok_def upsert_def Let_def map_put_distinct)

lemma remove_ok: "reg_cache_ok c \<Longrightarrow> reg_cache_ok (remove_reg a c)"
  by (auto simp: reg_cache_ok_def remove_reg_def map_delete_distinct) (auto simp: map_delete_def)

lemma fold_invariant: "I c \<Longrightarrow> (\<And>x c. x \<in> set xs \<Longrightarrow> I c \<Longrightarrow> I (f x c)) \<Longrightarrow> I (fold f xs c)"
  by (induction xs arbitrary: c) auto

lemma load_listed_ok: "reg_cache_ok c \<Longrightarrow> reg_cache_ok (load_listed items c)"
  unfolding load_listed_def by (rule fold_invariant) (auto intro: upsert_ok)

lemma evict_stale_ok: "reg_cache_ok c \<Longrightarrow> reg_cache_ok (evict_stale items c)"
  unfolding evict_stale_def by (rule fold_invariant) (auto intro: remove_ok)

lemma watch_loop_ok: "reg_cache_ok c \<Longrightarrow> reg_cache_ok (snd (watch_loop evs c))"
  by (induction evs c rule: watch_loop.induct) (simp_all add: upsert_ok remove_ok)


section \<open>Lookups\<close>

lemma subject_scan_Some:
  "subject_scan sub (Some m) regs = Some r \<Longrightarrow> r = m \<and> (\<forall>x\<in>set regs. sub \<notin> set (allowed_subjects x))"
  by (induction sub "Some m" regs rule: subject_scan.induct) (auto split: if_splits)

lemma subject_scan_unique:
  "subject_scan sub None regs = Some r \<longleftrightarrow> filter (\<lambda>x. sub \<in> set (allowed_subjects x)) regs = [r]"
proof (induction regs)
  case (Cons x regs)
  have "subject_scan sub (Some x) regs = Some r \<longleftrightarrow> r = x \<and> (\<forall>x\<in>set regs. sub \<notin> set (allowed_subjects x))"
    by (induction sub "Some x" regs rule: subject_scan.induct) auto
  with Cons show ?case by (auto simp: filter_empty_conv)
qed simp

lemma byAgent_entry:
  "reg_cache_ok c \<Longrightarrow> map_of (byAgent c) a = Some reg \<Longrightarrow> identity_of reg = a \<and> a \<noteq> ''''"
  unfolding reg_cache_ok_def by (auto dest: map_of_SomeD)

text \<open>A registration found for a subject names the subject or is the subject's own, and no other
  cached registration names it when the identity was not given.\<close>

lemma getForSubject_sound:
  assumes "reg_cache_ok c" and "getForSubject c '''' sub = Some reg"
  shows "sub \<noteq> '''' \<and> sub \<in> set (allowed_subjects reg) \<and> get_reg c (identity_of reg) = Some reg \<and>
    (\<forall>a r. get_reg c a = Some r \<longrightarrow> sub \<in> set (allowed_subjects r) \<longrightarrow> r = reg)"
proof -
  from assms(2) have scan: "sub \<noteq> ''''" "filter (\<lambda>x. sub \<in> set (allowed_subjects x)) (map snd (byAgent c)) = [reg]"
    by (auto simp: getForSubject_def subject_scan_unique split: if_splits)
  from arg_cong [OF scan(2), of set]
  have mem: "x \<in> snd ` set (byAgent c) \<and> sub \<in> set (allowed_subjects x) \<longleftrightarrow> x = reg" for x
    by auto
  then obtain a where a: "(a, reg) \<in> set (byAgent c)" by force
  with assms(1) have "get_reg c (identity_of reg) = Some reg"
    by (auto simp: reg_cache_ok_def get_reg_def)
  moreover have "r = reg" if "get_reg c b = Some r" "sub \<in> set (allowed_subjects r)" for b r
    using mem [of r] that map_of_SomeD [of "byAgent c" b r] by (force simp: get_reg_def)
  ultimately show ?thesis using scan(1) mem [of reg] by blast
qed


section \<open>Refinement\<close>

text \<open>The contract: the cache shows the specification of the registration of every agent.  It is kept
  when a generation determines the specification, as for one object over its life.\<close>

definition specs :: "registrationCache \<Rightarrow> string \<rightharpoonup> AgentRegistrationSpec" where
  "specs c a = map_option RegSpec (map_of (byAgent c) a)"

definition coherent :: "AgentRegistration set \<Rightarrow> bool" where
  "coherent R \<longleftrightarrow> (\<forall>r\<in>R. \<forall>r'\<in>R. identity_of r = identity_of r' \<longrightarrow>
     Generation (RegMeta r) = Generation (RegMeta r') \<longrightarrow> RegSpec r = RegSpec r')"

definition from_set :: "AgentRegistration set \<Rightarrow> registrationCache \<Rightarrow> bool" where
  "from_set R c \<longleftrightarrow> snd ` set (byAgent c) \<subseteq> R"

definition put_spec ::
  "AgentRegistration \<Rightarrow> (string \<rightharpoonup> AgentRegistrationSpec) \<Rightarrow> string \<rightharpoonup> AgentRegistrationSpec" where
  "put_spec reg m = (if identity_of reg = '''' then m else m(identity_of reg \<mapsto> RegSpec reg))"

fun spec_event ::
  "watch_event \<Rightarrow> (string \<rightharpoonup> AgentRegistrationSpec) \<Rightarrow> string \<rightharpoonup> AgentRegistrationSpec" where
  "spec_event (Added (OAgentRegistration reg)) m = put_spec reg m"
| "spec_event (Modified (OAgentRegistration reg)) m = put_spec reg m"
| "spec_event (Deleted (OAgentRegistration reg)) m =
     (if identity_of reg = '''' then m else m(identity_of reg := None))"
| "spec_event _ m = m"

fun regs_of :: "watch_event \<Rightarrow> AgentRegistration set" where
  "regs_of (Added (OAgentRegistration reg)) = {reg}"
| "regs_of (Modified (OAgentRegistration reg)) = {reg}"
| "regs_of _ = {}"

lemma upsert_refines:
  assumes "reg_cache_ok c" and "coherent R" and "from_set R c" and "reg \<in> R"
  shows "specs (upsert reg c) = put_spec reg (specs c)" and "from_set R (upsert reg c)"
proof -
  show "from_set R (upsert reg c)"
    using assms(3,4) map_put_keys [of "identity_of reg" reg "byAgent c"]
    by (force simp: from_set_def upsert_def Let_def)
  have "specs c (identity_of reg) = Some (RegSpec reg)" if same: "same_generation c reg"
  proof -
    from same obtain old where old: "map_of (byAgent c) (identity_of reg) = Some old"
      "Generation (RegMeta old) = Generation (RegMeta reg)"
      by (auto simp: same_generation_def split: option.splits)
    then have "old \<in> R" "identity_of old = identity_of reg"
      using assms(3) byAgent_entry [OF assms(1) old(1)] map_of_SomeD [OF old(1)]
      by (force simp: from_set_def)+
    with old assms(2,4) show ?thesis by (auto simp: coherent_def specs_def)
  qed
  then show "specs (upsert reg c) = put_spec reg (specs c)"
    by (auto simp: upsert_def Let_def put_spec_def specs_def fun_eq_iff)
qed

lemma remove_refines:
  "specs (remove_reg a c) = (specs c)(a := None)"
  "from_set R c \<Longrightarrow> from_set R (remove_reg a c)"
  by (auto simp: specs_def remove_reg_def from_set_def map_delete_def fun_eq_iff)
    (auto simp: map_delete_def [symmetric])

lemma load_refines:
  assumes "reg_cache_ok c" and "coherent R" and "from_set R c" and "set items \<subseteq> R"
  shows "specs (load_listed items c) = fold put_spec items (specs c) \<and> from_set R (load_listed items c)"
  using assms
proof (induction items arbitrary: c)
  case (Cons reg items)
  let ?c = "if identity_of reg \<noteq> '''' then upsert reg c else c"
  have step: "reg_cache_ok ?c" "from_set R ?c" "specs ?c = put_spec reg (specs c)"
    using Cons.prems upsert_refines [of c R reg] upsert_ok [of c reg] by (auto simp: put_spec_def)
  have "load_listed (reg # items) c = load_listed items ?c" by (simp add: load_listed_def)
  with Cons.IH [OF step(1) Cons.prems(2) step(2)] Cons.prems(4) step(3) show ?case by simp
qed (simp add: load_listed_def)

lemma fold_put_spec:
  "fold put_spec items m a =
     (if a \<in> identity_of ` set items \<and> a \<noteq> '''' then fold put_spec items Map.empty a else m a)"
proof (induction items arbitrary: m rule: rev_induct)
  case (snoc reg items)
  show ?case
  proof (cases "identity_of reg = a \<and> a \<noteq> ''''")
    case True
    then show ?thesis by (simp add: put_spec_def)
  next
    case False
    then have "fold put_spec (items @ [reg]) m' a = fold put_spec items m' a" for m'
      by (auto simp: put_spec_def)
    moreover from False have "a \<in> identity_of ` set (items @ [reg]) \<and> a \<noteq> '''' \<longleftrightarrow>
        a \<in> identity_of ` set items \<and> a \<noteq> ''''" by auto
    ultimately show ?thesis using snoc.IH [of m] by presburger
  qed
qed simp

lemma specs_evict:
  "specs (evict_stale items c) a =
     (if a \<in> set (listAgents c) \<and> \<not> (a \<noteq> '''' \<and> a \<in> identity_of ` set items) then None else specs c a)"
proof -
  have "specs (fold (\<lambda>agentID c.
       if agentID \<in> set (filter (\<lambda>a. a \<noteq> '''') (map identity_of items)) then c else remove_reg agentID c) as c) a =
     (if a \<in> set as \<and> \<not> (a \<noteq> '''' \<and> a \<in> identity_of ` set items) then None else specs c a)" for as
    by (induction as arbitrary: c) (auto simp: remove_refines)
  then show ?thesis by (simp add: evict_stale_def)
qed

text \<open>A list cycle forgets everything but what was listed.\<close>

lemma relist_refines:
  assumes "reg_cache_ok c" and "coherent R" and "from_set R c" and "set items \<subseteq> R"
  shows "specs (evict_stale items (load_listed items c)) = fold put_spec items Map.empty"
proof
  fix a
  have agents: "a \<in> set (listAgents d) \<longleftrightarrow> specs d a \<noteq> None" for d
    by (auto simp: listAgents_def specs_def map_of_eq_None_iff)
  show "specs (evict_stale items (load_listed items c)) a = fold put_spec items Map.empty a"
    using load_refines [OF assms] fold_put_spec [of items "specs c" a] fold_put_spec [of items Map.empty a]
    by (auto simp: specs_evict agents split: if_splits)
qed

lemma evict_from_set: "from_set R c \<Longrightarrow> from_set R (evict_stale items c)"
  unfolding evict_stale_def by (rule fold_invariant) (auto intro: remove_refines)

text \<open>Events up to the first watch error.\<close>

definition before_error :: "watch_event list \<Rightarrow> watch_event list" where
  "before_error evs = takeWhile (\<lambda>e. e \<noteq> WatchError) evs"

lemma watch_refines:
  "reg_cache_ok c \<Longrightarrow> coherent R \<Longrightarrow> from_set R c \<Longrightarrow> (\<Union>e\<in>set evs. regs_of e) \<subseteq> R \<Longrightarrow>
   specs (snd (watch_loop evs c)) = fold spec_event (before_error evs) (specs c)"
proof (induction evs c rule: watch_loop.induct)
  case (2 reg evs c)
  then show ?case
    using upsert_refines [of c R reg] upsert_ok [of c reg] by (simp add: before_error_def put_spec_def)
next
  case (3 reg evs c)
  then show ?case
    using upsert_refines [of c R reg] upsert_ok [of c reg] by (simp add: before_error_def put_spec_def)
next
  case (4 reg evs c)
  then show ?case
    using remove_refines(2) [of R c "identity_of reg"] remove_ok [of c "identity_of reg"]
    by (simp add: before_error_def remove_refines(1))
qed (simp_all add: before_error_def)

text \<open>The documented behaviour of \<open>retry.OnError\<close> the cycle relies on.\<close>

definition ends_with_attempt :: "('a prog \<Rightarrow> 'a prog) \<Rightarrow> bool" where
  "ends_with_attempt retry \<longleftrightarrow>
     (\<forall>p es x. exec (retry p) es x \<longrightarrow> (\<exists>es1 es2. es = es1 @ es2 \<and> exec p es2 x))"


section \<open>Concrete runs\<close>

definition sample_registration :: "string \<Rightarrow> string \<Rightarrow> string list \<Rightarrow> AgentRegistration" where
  "sample_registration n identity subjects = \<lparr>RegMeta = sample_meta n,
     RegSpec = \<lparr>RegAgentIdentity = identity, RegMode = ''Standing'', RequestedServices = [],
       OIDC = Some \<lparr>Issuer = ''https://idp'', SubjectClaim = ''sub'', AllowedSubjects = subjects\<rparr>,
       ExternalIdentities = []\<rparr>,
     RegStatus = \<lparr>RegPhase = '''', RegisteredBy = '''', ApprovedServices = [], ApprovedAt = None,
       RegConditions = []\<rparr>\<rparr>"

lemma from_set_new: "from_set R newRegistrationCache"
  by (simp add: from_set_def newRegistrationCache_def)

lemma single_attempt: "ends_with_attempt (\<lambda>p. p)"
  unfolding ends_with_attempt_def by (metis append_Nil)


text \<open>A generation need not determine the specification.  When a registration is deleted and created again while the watch is
  down, its generation starts again at 1, the list cycle takes it for the cached one, and the
  old subjects stay authorised while the new ones are not.\<close>

theorem recreated_registration_ignored:
  "let old = sample_registration ''r1'' ''bot'' [''alice'']; new = sample_registration ''r1'' ''bot'' [''bob''];
       c' = snd (result_of srv_env (watchAgentRegistrationsOnce (\<lambda>p. p) (Inr []) (upsert old newRegistrationCache))
         (world 5 [OAgentRegistration new]))
   in getForSubject c' '''' ''alice'' = Some old \<and> getForSubject c' '''' ''bob'' = None"
  by code_simp

text \<open>Changing the identity of a registration adds the new identity and leaves the old one in the
  cache until the next list cycle.\<close>

theorem renamed_registration_keeps_identity:
  "let old = sample_registration ''r1'' ''bot'' [''alice'']; new = sample_registration ''r1'' ''bot2'' [''bob''];
       c' = snd (watch_loop [Modified (OAgentRegistration new)] (upsert old newRegistrationCache))
   in get_reg c' ''bot'' = Some old \<and> get_reg c' ''bot2'' = Some new"
  by code_simp

end
