(* ===== verification/JWT_Manager.thy ===== *)
theory JWT_Manager
  imports Gateway_HTTP
begin

text \<open>
  The signed tokens of approved requests: \<open>src/internal/jwt/manager.go\<close>.

  Ed25519, PEM decoding and the JWT package are the fields of \<open>jwt_lib\<close>; what the manager relies on is
  the locale \<open>jwt_scheme\<close>: a signed token parses under the public key of its private key until it
  expires, a token that parses was signed, and the date of a claim loses less than a second.
  The key file is its contents, an argument, as is a generated key.
\<close>


section \<open>Tokens\<close>

record Claims =
  ExpiresAt :: time
  IssuedAt :: time
  IssuerClaim :: string
  Subject :: string
  TokenID :: string
  ClaimAction :: string
  Resource :: string
  RequestClaim :: string

record ('priv, 'pub) jwt_lib =
  PublicOf :: "'priv \<Rightarrow> 'pub"
  SignedString :: "'priv \<Rightarrow> Claims \<Rightarrow> string result"
  ParseWithClaims :: "'pub \<Rightarrow> time \<Rightarrow> string \<Rightarrow> Claims result"
  NewNumericDate :: "time \<Rightarrow> time"
  PemDecode :: "string \<Rightarrow> string option"
  PemEncode :: "string \<Rightarrow> string \<Rightarrow> string result"
  ParsePKCS8PrivateKey :: "string \<Rightarrow> 'priv option result"
  MarshalPKCS8PrivateKey :: "'priv \<Rightarrow> string result"
  MarshalPKIXPublicKey :: "'pub \<Rightarrow> string result"

text \<open>\<open>ParseWithClaims\<close> is called with the current public key, the clock and the issuer \<open>aip-gateway\<close> to require.
  \<open>ParsePKCS8PrivateKey\<close> gives \<open>None\<close> for a key that is not Ed25519.\<close>

locale jwt_scheme =
  fixes J :: "('priv, 'pub) jwt_lib"
  assumes accepts: "SignedString J k cl = Inr tok \<Longrightarrow> now < ExpiresAt cl \<Longrightarrow> IssuerClaim cl = ''aip-gateway'' \<Longrightarrow>
      ParseWithClaims J (PublicOf J k) now tok = Inr cl"
    and sound: "ParseWithClaims J pub now tok = Inr cl \<Longrightarrow>
      (\<exists>k. PublicOf J k = pub \<and> SignedString J k cl = Inr tok) \<and> now < ExpiresAt cl \<and>
      IssuerClaim cl = ''aip-gateway''"
    and binding: "SignedString J k cl = Inr tok \<Longrightarrow> SignedString J k' cl' = Inr tok \<Longrightarrow>
      cl = cl' \<and> PublicOf J k = PublicOf J k'"
    and date: "t - second < NewNumericDate J t \<and> NewNumericDate J t \<le> t"

definition keyRotationGracePeriod :: duration where
  "keyRotationGracePeriod = 5 * minute"

definition tokenTTL :: duration where
  "tokenTTL = 30 * minute"

text \<open>\<open>prevPublic\<close> is empty before the first rotation.\<close>

record ('priv, 'pub) Manager =
  privateKey :: 'priv
  publicKey :: 'pub
  prevPublic :: "'pub option"
  lastRotate :: time

text \<open>The Ed25519 key in a PEM block; the error texts depend on where the data comes from.\<close>

definition parse_key :: "('priv, 'pub) jwt_lib \<Rightarrow> string \<Rightarrow> string \<Rightarrow> string \<Rightarrow> string \<Rightarrow> 'priv result" where
  "parse_key J source_name from_name in_name pemData = (case PemDecode J pemData of
       None \<Rightarrow> Inl (Plain (''no PEM block found in '' @ source_name))
     | Some block \<Rightarrow> (case ParsePKCS8PrivateKey J block of
         Inl e \<Rightarrow> Inl (Wrapped (''parse private key'' @ from_name) e)
       | Inr None \<Rightarrow> Inl (Plain (''not an Ed25519 key'' @ in_name))
       | Inr (Some pk) \<Rightarrow> Inr pk))"

definition NewManagerFromPEM ::
  "('priv, 'pub) jwt_lib \<Rightarrow> string \<Rightarrow> time \<Rightarrow> ('priv, 'pub) Manager result" where
  "NewManagerFromPEM J pemData now = (case parse_key J ''key data'' '''' '''' pemData of
       Inl e \<Rightarrow> Inl e
     | Inr pk \<Rightarrow> Inr \<lparr>privateKey = pk, publicKey = PublicOf J pk, prevPublic = None, lastRotate = now\<rparr>)"

text \<open>The file is read first; \<open>file\<close> is the outcome.\<close>

definition NewManager ::
  "('priv, 'pub) jwt_lib \<Rightarrow> string \<Rightarrow> string result \<Rightarrow> time \<Rightarrow> ('priv, 'pub) Manager result" where
  "NewManager J keyPath file now = (case file of
       Inl e \<Rightarrow> Inl (Wrapped (''read key file '' @ keyPath) e) | Inr data \<Rightarrow> NewManagerFromPEM J data now)"

text \<open>A fresh private key as PEM texts of the pair; \<open>priv\<close> is the outcome of the generator.\<close>

definition GenerateKeyPair :: "('priv, 'pub) jwt_lib \<Rightarrow> 'priv result \<Rightarrow> (string \<times> string) result" where
  "GenerateKeyPair J priv = (case priv of
       Inl e \<Rightarrow> Inl (Wrapped ''generate key'' e)
     | Inr priv \<Rightarrow> (case MarshalPKCS8PrivateKey J priv of
         Inl e \<Rightarrow> Inl (Wrapped ''marshal private key'' e)
       | Inr pkcs8 \<Rightarrow> (case PemEncode J ''PRIVATE KEY'' pkcs8 of
           Inl e \<Rightarrow> Inl (Wrapped ''encode private key'' e)
         | Inr privPEM \<Rightarrow> (case MarshalPKIXPublicKey J (PublicOf J priv) of
             Inl e \<Rightarrow> Inl (Wrapped ''marshal public key'' e)
           | Inr pkix \<Rightarrow> (case PemEncode J ''PUBLIC KEY'' pkix of
               Inl e \<Rightarrow> Inl (Wrapped ''encode public key'' e)
             | Inr pubPEM \<Rightarrow> Inr (privPEM, pubPEM))))))"

definition PublicKeyPEM :: "('priv, 'pub) jwt_lib \<Rightarrow> ('priv, 'pub) Manager \<Rightarrow> string result" where
  "PublicKeyPEM J m = (case MarshalPKIXPublicKey J (publicKey m) of
       Inl e \<Rightarrow> Inl (Wrapped ''marshal public key'' e)
     | Inr keyData \<Rightarrow> (case PemEncode J ''PUBLIC KEY'' keyData of
         Inl e \<Rightarrow> Inl (Wrapped ''encode PEM'' e) | Inr pem \<Rightarrow> Inr pem))"

definition ReloadKey ::
  "('priv, 'pub) jwt_lib \<Rightarrow> string \<Rightarrow> string result \<Rightarrow> time \<Rightarrow> ('priv, 'pub) Manager \<Rightarrow>
   unit result \<times> ('priv, 'pub) Manager" where
  "ReloadKey J keyPath file now m = (case file of
       Inl e \<Rightarrow> (Inl (Wrapped (''read key file '' @ keyPath) e), m)
     | Inr data \<Rightarrow> (case parse_key J keyPath ('' from '' @ keyPath) ('' in '' @ keyPath) data of
         Inl e \<Rightarrow> (Inl e, m)
       | Inr pk \<Rightarrow>
           (let newPub = PublicOf J pk
            in if newPub = publicKey m then (Inr (), m)
               else (Inr (), m\<lparr>prevPublic := Some (publicKey m), privateKey := pk, publicKey := newPub,
                 lastRotate := now\<rparr>))))"

text \<open>The watcher: at every tick the file is read and a failed reload keeps the key.\<close>

definition key_watcher ::
  "('priv, 'pub) jwt_lib \<Rightarrow> string \<Rightarrow> (time \<times> string result) list \<Rightarrow> ('priv, 'pub) Manager \<Rightarrow>
   ('priv, 'pub) Manager" where
  "key_watcher J keyPath ticks m = fold (\<lambda>(now, file) m. snd (ReloadKey J keyPath file now m)) ticks m"

definition token_claims ::
  "('priv, 'pub) jwt_lib \<Rightarrow> time \<Rightarrow> string \<Rightarrow> string \<Rightarrow> string \<Rightarrow> string \<Rightarrow> Claims" where
  "token_claims J now agentID action resource requestName =
     \<lparr>ExpiresAt = NewNumericDate J (now + tokenTTL), IssuedAt = NewNumericDate J now,
      IssuerClaim = ''aip-gateway'', Subject = agentID,
      TokenID = requestName @ ''-'' @ FormatInt now,
      ClaimAction = action, Resource = resource, RequestClaim = requestName\<rparr>"

definition MintToken ::
  "('priv, 'pub) jwt_lib \<Rightarrow> ('priv, 'pub) Manager \<Rightarrow> time \<Rightarrow> string \<Rightarrow> string \<Rightarrow> string \<Rightarrow> string \<Rightarrow>
   (string \<times> time) result" where
  "MintToken J m now agentID action resource requestName =
     (case SignedString J (privateKey m) (token_claims J now agentID action resource requestName) of
        Inl e \<Rightarrow> Inl (Wrapped ''sign token'' e)
      | Inr tok \<Rightarrow> Inr (tok, now + tokenTTL))"

definition validateWithKey :: "('priv, 'pub) jwt_lib \<Rightarrow> time \<Rightarrow> string \<Rightarrow> 'pub \<Rightarrow> Claims result" where
  "validateWithKey J now tokenString pubKey = (case ParseWithClaims J pubKey now tokenString of
       Inl e \<Rightarrow> Inl (Wrapped ''parse token'' e) | Inr claims \<Rightarrow> Inr claims)"

definition ValidateToken ::
  "('priv, 'pub) jwt_lib \<Rightarrow> ('priv, 'pub) Manager \<Rightarrow> time \<Rightarrow> string \<Rightarrow> Claims result" where
  "ValidateToken J m now tokenString = (case validateWithKey J now tokenString (publicKey m) of
       Inr claims \<Rightarrow> Inr claims
     | Inl err \<Rightarrow> (case prevPublic m of
           None \<Rightarrow> Inl err
         | Some prevPub \<Rightarrow>
             if now - lastRotate m \<le> keyRotationGracePeriod then
               (case validateWithKey J now tokenString prevPub of Inr claims \<Rightarrow> Inr claims | Inl _ \<Rightarrow> Inl err)
             else Inl err))"


section \<open>Life of a token\<close>

definition manager_ok :: "('priv, 'pub) jwt_lib \<Rightarrow> ('priv, 'pub) Manager \<Rightarrow> bool" where
  "manager_ok J m \<longleftrightarrow> publicKey m = PublicOf J (privateKey m) \<and> prevPublic m \<noteq> Some (publicKey m)"

lemma NewManager_ok: "NewManager J keyPath file now = Inr m \<Longrightarrow> manager_ok J m"
  by (auto simp: NewManager_def NewManagerFromPEM_def manager_ok_def split: sum.splits)

lemma ReloadKey_ok: "manager_ok J m \<Longrightarrow> manager_ok J (snd (ReloadKey J keyPath file now m))"
  by (auto simp: ReloadKey_def manager_ok_def Let_def split: sum.splits)

lemma key_watcher_ok: "manager_ok J m \<Longrightarrow> manager_ok J (key_watcher J keyPath ticks m)"
  unfolding key_watcher_def by (induction ticks arbitrary: m) (auto intro: ReloadKey_ok)

text \<open>The public keys a token may be checked with at a time.\<close>

definition trusted_keys :: "('priv, 'pub) Manager \<Rightarrow> time \<Rightarrow> 'pub set" where
  "trusted_keys m now = insert (publicKey m)
     (if now - lastRotate m \<le> keyRotationGracePeriod then set_option (prevPublic m) else {})"

context jwt_scheme
begin

lemma validate_iff:
  "ValidateToken J m now tok = Inr cl \<longleftrightarrow> (\<exists>pub\<in>trusted_keys m now. ParseWithClaims J pub now tok = Inr cl)"
proof -
  have same: "cl = cl'" if "ParseWithClaims J pub now tok = Inr cl" "ParseWithClaims J pub' now tok = Inr cl'"
    for pub pub' cl cl'
    using sound [OF that(1)] sound [OF that(2)] binding by blast
  show ?thesis
    by (auto simp: ValidateToken_def validateWithKey_def trusted_keys_def dest: same
        split: sum.splits option.splits if_splits)
qed

lemma minted_parses_iff:
  assumes "MintToken J m t agent action resource request = Inr (tok, expiry)" and "manager_ok J m"
  shows "ParseWithClaims J pub now tok = Inr cl \<longleftrightarrow> pub = publicKey m \<and>
      now < NewNumericDate J expiry \<and> cl = token_claims J t agent action resource request"
proof -
  let ?cl = "token_claims J t agent action resource request"
  have minted: "SignedString J (privateKey m) ?cl = Inr tok" "expiry = t + tokenTTL"
    using assms(1) by (auto simp: MintToken_def split: sum.splits)
  have pub: "publicKey m = PublicOf J (privateKey m)" using assms(2) by (simp add: manager_ok_def)
  have cl: "ExpiresAt ?cl = NewNumericDate J expiry" "IssuerClaim ?cl = ''aip-gateway''"
    using minted(2) by (simp_all add: token_claims_def)
  show ?thesis
    using accepts [OF minted(1)] sound [of pub now tok cl] binding [OF minted(1)] cl unfolding pub
    by metis
qed

lemma minted_validates_iff:
  assumes "MintToken J m t agent action resource request = Inr (tok, expiry)" and "manager_ok J m"
  shows "ValidateToken J m' now tok = Inr cl \<longleftrightarrow> publicKey m \<in> trusted_keys m' now \<and>
      now < NewNumericDate J expiry \<and> cl = token_claims J t agent action resource request"
  unfolding validate_iff minted_parses_iff [OF assms] by blast

end

text \<open>C13. The life of a token.  A token minted by a gateway validates, with exactly the agent, action, resource and
  request it was minted for, up to a second before its expiry after thirty minutes, as
  long as the signing key is the current one or was replaced by the last rotation at most five
  minutes ago.  It never validates after its expiry, nor under any other keys, and never
  with other claims.  A rotation to a new key keeps it valid for the grace period; a failed or
  unchanged reload changes nothing.\<close>

theorem token_lifetime:
  fixes J :: "('priv, 'pub) jwt_lib"
  assumes "jwt_scheme J" and "manager_ok J m"
    and "MintToken J m t agent action resource request = Inr (tok, expiry)"
  shows "expiry = t + 30 * minute \<and>
    (\<forall>m' now cl. ValidateToken J m' now tok = Inr cl \<longrightarrow> now < expiry \<and>
       Subject cl = agent \<and> ClaimAction cl = action \<and> Resource cl = resource \<and> RequestClaim cl = request \<and>
       (publicKey m' = publicKey m \<or>
        prevPublic m' = Some (publicKey m) \<and> now - lastRotate m' \<le> 5 * minute)) \<and>
    (\<forall>now. now \<le> expiry - second \<longrightarrow> (\<exists>cl. ValidateToken J m now tok = Inr cl)) \<and>
    (\<forall>keyPath file tr r m' now. ReloadKey J keyPath file tr m = (r, m') \<longrightarrow> now \<le> expiry - second \<longrightarrow>
       now - tr \<le> 5 * minute \<longrightarrow> (\<exists>cl. ValidateToken J m' now tok = Inr cl)) \<and>
    (\<forall>keyPath file tr e m'. ReloadKey J keyPath file tr m = (Inl e, m') \<longrightarrow> m' = m)"
proof -
  note iff = jwt_scheme.minted_validates_iff [OF assms(1,3,2)]
  have expiry: "expiry = t + 30 * minute"
    using assms(3) by (auto simp: MintToken_def tokenTTL_def split: sum.splits)
  have date: "expiry - second < NewNumericDate J expiry" "NewNumericDate J expiry \<le> expiry"
    using jwt_scheme.date [OF assms(1), of expiry] by auto
  have trusted: "publicKey m \<in> trusted_keys m' now \<longleftrightarrow> publicKey m' = publicKey m \<or>
      prevPublic m' = Some (publicKey m) \<and> now - lastRotate m' \<le> 5 * minute"
    for m' :: "('priv, 'pub) Manager" and now
    by (auto simp: trusted_keys_def keyRotationGracePeriod_def elem_set)
  have reload: "publicKey m \<in> trusted_keys m' now"
    if "ReloadKey J keyPath f tr m = (r, m')" "now - tr \<le> 5 * minute" for keyPath f tr r m' now
    using that by (auto simp: trusted ReloadKey_def Let_def split: sum.splits if_splits)
  have "ReloadKey J keyPath f tr m = (Inl e, m') \<Longrightarrow> m' = m" for keyPath f tr e m'
    by (auto simp: ReloadKey_def Let_def split: sum.splits if_splits)
  moreover have "now < expiry \<and> Subject cl = agent \<and> ClaimAction cl = action \<and> Resource cl = resource \<and>
      RequestClaim cl = request \<and> (publicKey m' = publicKey m \<or>
        prevPublic m' = Some (publicKey m) \<and> now - lastRotate m' \<le> 5 * minute)"
    if "ValidateToken J m' now tok = Inr cl" for m' now cl
    using that date unfolding iff trusted by (auto simp: token_claims_def)
  moreover have "\<exists>cl. ValidateToken J m' now tok = Inr cl"
    if "publicKey m \<in> trusted_keys m' now" "now \<le> expiry - second" for m' now
    using that date unfolding iff by auto
  ultimately show ?thesis
    using expiry reload trusted [of m] by blast
qed


section \<open>A signature scheme\<close>

text \<open>Tokens that carry the key and the claims in a self-delimiting code.\<close>

fun enc_str :: "string \<Rightarrow> string" where
  "enc_str [] = ''b''"
| "enc_str (c # s) = CHR ''a'' # c # enc_str s"

fun dec_str :: "string \<Rightarrow> string \<times> string" where
  "dec_str (x # c # r) = (if x = CHR ''a'' then (let (s, r') = dec_str r in (c # s, r')) else ([], c # r))"
| "dec_str _ = ([], [])"

lemma dec_enc: "dec_str (enc_str s @ r) = (s, r)"
  by (induction s) (auto, cases r, auto)

fun bits_of :: "nat \<Rightarrow> string" where
  "bits_of n = (if n = 0 then [] else (if n mod 2 = 1 then CHR ''1'' else CHR ''0'') # bits_of (n div 2))"

fun val_of :: "string \<Rightarrow> nat" where
  "val_of [] = 0"
| "val_of (c # s) = (if c = CHR ''1'' then 1 else 0) + 2 * val_of s"

declare bits_of.simps [simp del]

lemma val_bits: "val_of (bits_of n) = n"
proof (induction n rule: bits_of.induct)
  case (1 n)
  show ?case
  proof (cases "n = 0")
    case False
    with 1 have "val_of (bits_of (n div 2)) = n div 2" by simp
    with False show ?thesis by (simp add: bits_of.simps [of n]) presburger
  qed (simp add: bits_of.simps)
qed

text \<open>Dates in binary.\<close>

function int_bits :: "int \<Rightarrow> string" where
  "int_bits n = (if n \<le> 0 then [] else (if n mod 2 = 1 then CHR ''1'' else CHR ''0'') # int_bits (n div 2))"
  by auto
termination by (relation "measure nat") auto

declare int_bits.simps [simp del]

fun int_val :: "string \<Rightarrow> int" where
  "int_val [] = 0"
| "int_val (c # s) = (if c = CHR ''1'' then 1 else 0) + 2 * int_val s"

lemma int_val_bits: "0 \<le> n \<Longrightarrow> int_val (int_bits n) = n"
proof (induction n rule: int_bits.induct)
  case (1 n)
  show ?case
  proof (cases "n = 0")
    case False
    with 1 have "int_val (int_bits (n div 2)) = n div 2" by simp
    with False 1 show ?thesis by (simp add: int_bits.simps [of n]) presburger
  qed (simp add: int_bits.simps)
qed

definition enc_int :: "int \<Rightarrow> string" where
  "enc_int n = (if n < 0 then CHR ''n'' else CHR ''p'') # int_bits \<bar>n\<bar>"

definition dec_int :: "string \<Rightarrow> int" where
  "dec_int s = (if hd s = CHR ''n'' then - int_val (tl s) else int_val (tl s))"

lemma dec_enc_int [simp]: "dec_int (enc_int n) = n"
  by (simp add: dec_int_def enc_int_def int_val_bits)

definition enc_token :: "nat \<Rightarrow> Claims \<Rightarrow> string" where
  "enc_token k cl = concat (map enc_str [bits_of k, enc_int (ExpiresAt cl), enc_int (IssuedAt cl), IssuerClaim cl,
     Subject cl, TokenID cl, ClaimAction cl, Resource cl, RequestClaim cl])"

definition dec_token :: "string \<Rightarrow> nat \<times> Claims" where
  "dec_token s0 =
     (let (k, s1) = dec_str s0; (e, s2) = dec_str s1; (i, s3) = dec_str s2; (iss, s4) = dec_str s3;
          (sub, s5) = dec_str s4; (tid, s6) = dec_str s5; (act, s7) = dec_str s6; (res, s8) = dec_str s7;
          (req, s9) = dec_str s8
      in (val_of k, \<lparr>ExpiresAt = dec_int e, IssuedAt = dec_int i, IssuerClaim = iss, Subject = sub, TokenID = tid,
        ClaimAction = act, Resource = res, RequestClaim = req\<rparr>))"

lemma dec_enc_token: "dec_token (enc_token k cl) = (k, cl)"
proof -
  have "dec_str (enc_str s) = (s, [])" for s using dec_enc [of s "[]"] by simp
  then show ?thesis by (simp add: dec_token_def enc_token_def dec_enc val_bits Let_def)
qed

definition ref_jwt :: "(nat, nat) jwt_lib" where
  "ref_jwt = \<lparr>PublicOf = (\<lambda>k. k), SignedString = (\<lambda>k cl. Inr (enc_token k cl)),
     ParseWithClaims = (\<lambda>pub now tok. let (k, cl) = dec_token tok
       in if enc_token k cl = tok \<and> k = pub \<and> now < ExpiresAt cl \<and> IssuerClaim cl = ''aip-gateway''
          then Inr cl else Inl (Plain ''invalid token'')),
     NewNumericDate = (\<lambda>t. t div second * second),
     PemDecode = (\<lambda>s. if s = [] then None else Some s), PemEncode = (\<lambda>_ s. Inr s),
     ParsePKCS8PrivateKey = (\<lambda>s. Inr (Some (val_of s))), MarshalPKCS8PrivateKey = (\<lambda>k. Inr (bits_of k)),
     MarshalPKIXPublicKey = (\<lambda>k. Inr (bits_of k))\<rparr>"

interpretation ref_scheme: jwt_scheme ref_jwt
proof
  fix t
  have "t div second * second = t - t mod second" by (rule minus_mod_eq_div_mult [symmetric])
  moreover have "0 \<le> t mod second" "t mod second < second" by (simp_all add: second_def)
  ultimately show "t - second < NewNumericDate ref_jwt t \<and> NewNumericDate ref_jwt t \<le> t"
    unfolding ref_jwt_def by simp
next
  fix k cl tok k' cl'
  assume "SignedString ref_jwt k cl = Inr tok" "SignedString ref_jwt k' cl' = Inr tok"
  then have "enc_token k cl = enc_token k' cl'" by (simp add: ref_jwt_def)
  then have "dec_token (enc_token k cl) = dec_token (enc_token k' cl')" by simp
  then show "cl = cl' \<and> PublicOf ref_jwt k = PublicOf ref_jwt k'"
    unfolding dec_enc_token by (simp add: ref_jwt_def)
next
  fix pub now tok cl
  assume "ParseWithClaims ref_jwt pub now tok = Inr cl"
  then show "(\<exists>k. PublicOf ref_jwt k = pub \<and> SignedString ref_jwt k cl = Inr tok) \<and> now < ExpiresAt cl \<and>
      IssuerClaim cl = ''aip-gateway''"
    by (cases "dec_token tok") (simp add: ref_jwt_def split: if_splits)
qed (auto simp: ref_jwt_def dec_enc_token)

definition sample_manager :: "(nat, nat) Manager" where
  "sample_manager = \<lparr>privateKey = 5, publicKey = 5, prevPublic = None, lastRotate = 0\<rparr>"

theorem token_lifetime_witness:
  "\<exists>tok cl m'. MintToken ref_jwt sample_manager 7 ''bot'' ''scale'' ''k8s://prod'' ''req-1'' = Inr (tok, 7 + 30 * minute) \<and>
     ReloadKey ref_jwt ''key'' (Inr ''11'') (20 * minute) sample_manager = (Inr (), m') \<and> publicKey m' = 3 \<and>
     ValidateToken ref_jwt m' (25 * minute) tok = Inr cl \<and> Subject cl = ''bot'' \<and> ClaimAction cl = ''scale'' \<and>
     (\<forall>cl. ValidateToken ref_jwt m' (31 * minute) tok \<noteq> Inr cl)"
proof -
  let ?cl = "token_claims ref_jwt 7 ''bot'' ''scale'' ''k8s://prod'' ''req-1''"
  define m' where "m' = sample_manager\<lparr>prevPublic := Some 5, privateKey := 3, publicKey := 3, lastRotate := 20 * minute\<rparr>"
  have mint: "MintToken ref_jwt sample_manager 7 ''bot'' ''scale'' ''k8s://prod'' ''req-1'' =
      Inr (enc_token 5 ?cl, 7 + 30 * minute)"
    by (simp add: MintToken_def ref_jwt_def sample_manager_def tokenTTL_def)
  have reload: "ReloadKey ref_jwt ''key'' (Inr ''11'') (20 * minute) sample_manager = (Inr (), m')"
    by (simp add: ReloadKey_def parse_key_def ref_jwt_def sample_manager_def m'_def)
  have ok: "manager_ok ref_jwt sample_manager" by (simp add: manager_ok_def ref_jwt_def sample_manager_def)
  note life = token_lifetime [OF ref_scheme.jwt_scheme_axioms ok mint]
  have "25 * minute \<le> 7 + 30 * minute - second" "25 * minute - 20 * minute \<le> 5 * minute"
    by (simp_all add: time_units)
  with life reload obtain cl where valid: "ValidateToken ref_jwt m' (25 * minute) (enc_token 5 ?cl) = Inr cl"
    by blast
  moreover have "\<not> 31 * minute < 7 + 30 * minute" by (simp add: time_units)
  with life have "ValidateToken ref_jwt m' (31 * minute) (enc_token 5 ?cl) \<noteq> Inr cl'" for cl' by blast
  moreover have "Subject cl = ''bot''" "ClaimAction cl = ''scale''" using life valid by blast+
  moreover have "publicKey m' = 3" by (simp add: m'_def)
  ultimately show ?thesis using mint reload by blast
qed

end
