(* ===== verification/Gateway_Submit.thy ===== *)
theory Gateway_Submit
  imports Governed_Resource Registration_Cache JWT_Manager
begin

text \<open>
  Submission of agent requests through the gateway: \<open>handleCreateAgentRequest\<close> and
  \<open>pollAgentRequestPhase\<close> of \<open>src/cmd/gateway/agent_request_handlers.go\<close>, the event stream of
  \<open>sse.go\<close>, and the body helpers of \<open>server.go\<close>.

  The gateway's client reads from the manager's cache (\<open>Cached\<close>), its \<open>apiReader\<close> from the server
  (\<open>Direct\<close>).  What happens while a handler waits is an argument: the ticks, the timeout, the client
  going away, the outcome of the watch.  A response of \<open>None\<close> means the handler is still waiting
  when the given steps are used up.
\<close>


section \<open>The server\<close>

record ('priv, 'pub) Server =
  dedupWindow :: duration
  roles :: roleConfig
  authRequired :: bool
  requireGovernedResource :: bool
  jwtManager :: "('priv, 'pub) Manager option"
  regCache :: "registrationCache option"
  unregisteredAgentPolicy :: string

fun terminalPhases :: "phase \<Rightarrow> bool" where
  "terminalPhases PhaseDenied = True"
| "terminalPhases PhaseCompleted = True"
| "terminalPhases PhaseFailed = True"
| "terminalPhases PhaseExpired = True"
| "terminalPhases _ = False"

record affectedTargetBody =
  body_URI :: string
  body_EffectType :: string

record cascadeModelBody =
  body_AffectedTargets :: "affectedTargetBody list"
  body_ModelSourceTrust :: string
  body_ModelSourceID :: string

record reasoningTraceBody =
  body_ConfidenceScore :: float64
  body_ComponentConfidence :: "(string \<times> float64) list"
  body_TraceReference :: string
  body_Alternatives :: "string list"

record createAgentRequestBody =
  body_AgentIdentity :: string
  body_Action :: string
  body_TargetURI :: string
  body_Reason :: string
  body_Namespace :: string
  body_CorrelationID :: string
  body_Classification :: string
  body_DedupKey :: string
  body_CascadeModel :: "cascadeModelBody option"
  body_ReasoningTrace :: "reasoningTraceBody option"
  body_Parameters :: raw_json
  body_ExecutionMode :: "string option"
  body_ScopeBounds :: "ScopeBounds option"

definition non_empty :: "string \<Rightarrow> string option" where
  "non_empty s = (if s = '''' then None else Some s)"

definition buildCascadeModel :: "createAgentRequestBody \<Rightarrow> CascadeModel option" where
  "buildCascadeModel body = (case body_CascadeModel body of
       None \<Rightarrow> None
     | Some cm \<Rightarrow>
         if body_AffectedTargets cm = [] then None
         else Some \<lparr>AffectedTargets = map (\<lambda>t. \<lparr>AffectedURI = body_URI t, EffectType = body_EffectType t\<rparr>)
                      (body_AffectedTargets cm),
                    ModelSourceTrust = non_empty (body_ModelSourceTrust cm),
                    ModelSourceID = non_empty (body_ModelSourceID cm)\<rparr>)"

definition buildReasoningTrace :: "createAgentRequestBody \<Rightarrow> ReasoningTrace option" where
  "buildReasoningTrace body = (case body_ReasoningTrace body of
       None \<Rightarrow> None
     | Some rt \<Rightarrow> Some
         \<lparr>ConfidenceScore = (if body_ConfidenceScore rt > 0 then Some (body_ConfidenceScore rt) else None),
          ComponentConfidence = body_ComponentConfidence rt, CalibrationEvidence = None,
          TraceReference = non_empty (body_TraceReference rt), Alternatives = body_Alternatives rt\<rparr>)"


section \<open>Waiting for a decision\<close>

definition agentRequestPayload :: "AgentRequest \<Rightarrow> strmap \<Rightarrow> payload" where
  "agentRequestPayload ar labels = PFields
     [(''name'', FStr (Name (Meta ar))), (''labels'', FLabels labels), (''phase'', FPhase (Phase (Status ar))),
      (''denial'', FDenial (Denial (Status ar))), (''conditions'', FConditions (Conditions (Status ar))),
      (''controlPlaneVerification'', FCPV (CPV (Status ar))), (''result'', FResult (ResultOf (Status ar)))]"

datatype poll_step = PollTick | PollTimeout | PollGone

definition poll_resolved :: "phase \<Rightarrow> bool" where
  "poll_resolved p \<longleftrightarrow> p = PhaseApproved \<or> p = PhaseDenied \<or> p = PhaseCompleted \<or> p = PhaseFailed \<or>
     p = PhaseAwaitingVerdict"

fun pollAgentRequestPhase ::
  "libs \<Rightarrow> poll_step list \<Rightarrow> string \<Rightarrow> string \<Rightarrow> strmap \<Rightarrow> response option prog" where
  "pollAgentRequestPhase L [] name ns reqLabels = Ret None"
| "pollAgentRequestPhase L (PollTimeout # steps) name ns reqLabels =
     Ret (Some (writeError 504 (Text ''timed out waiting for AgentRequest resolution'')))"
| "pollAgentRequestPhase L (PollGone # steps) name ns reqLabels = Ret (Some NoResponse)"
| "pollAgentRequestPhase L (PollTick # steps) name ns reqLabels =
     Get Cached KAgentRequest (ns, name) (\<lambda>g. case as_AgentRequest g of
       Inl _ \<Rightarrow> pollAgentRequestPhase L steps name ns reqLabels
     | Inr current \<Rightarrow>
         if poll_resolved (Phase (Status current))
         then Ret (Some (writeJSON 201 (agentRequestPayload current reqLabels)))
         else if Phase (Status current) = PhasePending \<and>
           IsStatusConditionTrue L (Conditions (Status current)) ConditionRequiresApproval
         then Ret (Some (writeJSON 201 (PFields
           [(''name'', FStr (Name (Meta current))), (''labels'', FLabels reqLabels),
            (''phase'', FPhase (Phase (Status current))), (''conditions'', FConditions (Conditions (Status current))),
            (''controlPlaneVerification'', FCPV (CPV (Status current)))])))
         else pollAgentRequestPhase L steps name ns reqLabels)"

definition sse_media :: "string \<Rightarrow> bool" where
  "sse_media part = (let part = TrimSpace part in
     TrimSpace (case Cut CHR '';'' part of None \<Rightarrow> part | Some (m, _) \<Rightarrow> m) = ''text/event-stream'')"

definition acceptsSSE :: "'b http_request \<Rightarrow> bool" where
  "acceptsSSE r = list_ex sse_media (split_on CHR '','' (Header r ''Accept''))"

definition isTerminalOrActionable :: "libs \<Rightarrow> AgentRequest \<Rightarrow> bool" where
  "isTerminalOrActionable L ar \<longleftrightarrow>
     Phase (Status ar) = PhaseApproved \<or> Phase (Status ar) = PhaseDenied \<or>
     Phase (Status ar) = PhaseCompleted \<or> Phase (Status ar) = PhaseFailed \<or>
     Phase (Status ar) = PhaseExpired \<or> Phase (Status ar) = PhaseAwaitingVerdict \<or>
     (Phase (Status ar) = PhasePending \<and>
      IsStatusConditionTrue L (Conditions (Status ar)) ConditionRequiresApproval)"

text \<open>\<open>writes\<close>: how many writes to the stream succeed before the connection breaks; \<open>flushed\<close>: the headers
  reach the client; \<open>watch\<close>: the error of opening the watch or what the select statement receives.\<close>

datatype sse_step = SseTimeout | SseGone | SseClosed | SseEvent watch_event

record wait_input =
  polls :: "poll_step list"
  flushed :: bool
  writes :: nat
  sse_watch :: "sse_step list result"
  marshal_status :: "AgentRequestStatus \<Rightarrow> string result"

type_synonym sse_out = "(string \<times> payload) list"

definition sse_error :: "string \<Rightarrow> string \<times> payload" where
  "sse_error msg = (''error'', PFields [(''error'', FMsg (Text msg))])"

text \<open>An event that can be written is added to the stream.\<close>

definition sse_write :: "nat \<Rightarrow> sse_out \<Rightarrow> string \<times> payload \<Rightarrow> sse_out" where
  "sse_write n out ev = (if n = 0 then out else out @ [ev])"

definition changed_request :: "string \<Rightarrow> watch_event \<Rightarrow> AgentRequest option" where
  "changed_request name e = (case e of
       Added (OAgentRequest ar) \<Rightarrow> if Name (Meta ar) = name then Some ar else None
     | Modified (OAgentRequest ar) \<Rightarrow> if Name (Meta ar) = name then Some ar else None
     | _ \<Rightarrow> None)"

fun sse_loop ::
  "libs \<Rightarrow> wait_input \<Rightarrow> string \<Rightarrow> strmap \<Rightarrow> sse_step list \<Rightarrow> nat \<Rightarrow> sse_out \<Rightarrow> string \<Rightarrow> sse_out option" where
  "sse_loop L i name labels [] n out lastStatus = None"
| "sse_loop L i name labels (SseTimeout # steps) n out lastStatus =
     Some (sse_write n out (sse_error ''timed out waiting for AgentRequest resolution''))"
| "sse_loop L i name labels (SseGone # steps) n out lastStatus = Some out"
| "sse_loop L i name labels (SseClosed # steps) n out lastStatus =
     Some (sse_write n out (sse_error ''watch channel closed unexpectedly''))"
| "sse_loop L i name labels (SseEvent WatchError # steps) n out lastStatus =
     Some (sse_write n out (sse_error ''watch error from API server''))"
| "sse_loop L i name labels (SseEvent (Deleted obj) # steps) n out lastStatus =
     Some (sse_write n out (sse_error ''AgentRequest was deleted''))"
| "sse_loop L i name labels (SseEvent e # steps) n out lastStatus = (case changed_request name e of
       None \<Rightarrow> sse_loop L i name labels steps n out lastStatus
     | Some ar \<Rightarrow>
         if isTerminalOrActionable L ar
         then Some (sse_write n out (''result'', agentRequestPayload ar labels))
         else (case marshal_status i (Status ar) of
             Inl _ \<Rightarrow> if n = 0 then Some out
               else sse_loop L i name labels steps (n - 1)
                 (sse_write n out (''update'', agentRequestPayload ar labels)) lastStatus
           | Inr statusJSON \<Rightarrow>
               if statusJSON = lastStatus then sse_loop L i name labels steps n out lastStatus
               else if n = 0 then Some out
               else sse_loop L i name labels steps (n - 1)
                 (sse_write n out (''update'', agentRequestPayload ar labels)) statusJSON))"

definition sse_wait ::
  "libs \<Rightarrow> wait_input \<Rightarrow> string \<Rightarrow> strmap \<Rightarrow> nat \<Rightarrow> sse_out \<Rightarrow> response option" where
  "sse_wait L i name labels n out = (case sse_watch i of
       Inl e \<Rightarrow> Some (EventStream (sse_write n out (''error'', PFields [(''error'',
         FMsg (Sprintf ''failed to watch AgentRequest: %v'' [ArgErr e]))])))
     | Inr steps \<Rightarrow> map_option EventStream (sse_loop L i name labels steps n out ''''))"

definition streamAgentRequestPhase ::
  "libs \<Rightarrow> wait_input \<Rightarrow> string \<Rightarrow> string \<Rightarrow> strmap \<Rightarrow> response option prog" where
  "streamAgentRequestPhase L i name ns reqLabels =
     (if \<not> flushed i then Ret (Some (EventStream []))
      else Metric SseAPIReaderGetTotal (Get Direct KAgentRequest (ns, name) (\<lambda>g. case as_AgentRequest g of
          Inl e \<Rightarrow> Ret (Some (EventStream (sse_write (writes i) [] (''error'', PFields [(''error'',
            FMsg (Sprintf ''failed to get AgentRequest: %v'' [ArgErr e]))]))))
        | Inr current \<Rightarrow>
            if isTerminalOrActionable L current
            then Ret (Some (EventStream (sse_write (writes i) [] (''result'', agentRequestPayload current reqLabels))))
            else if Phase (Status current) \<noteq> PhaseUnset then
              if writes i = 0 then Ret (Some (EventStream []))
              else Ret (sse_wait L i name reqLabels (writes i - 1)
                [(''update'', agentRequestPayload current reqLabels)])
            else Ret (sse_wait L i name reqLabels (writes i) []))))"

definition handleWatchAgentRequest ::
  "libs \<Rightarrow> ('priv, 'pub) Server \<Rightarrow> wait_input \<Rightarrow> 'b http_request \<Rightarrow> response option prog" where
  "handleWatchAgentRequest L s i r =
     (if authRequired s \<and> sub_of r = '''' then Ret (Some (writeError 401 (Text ''caller identity required'')))
      else if PathName r = '''' then Ret (Some (writeError 400 (Text ''name is required'')))
      else if \<not> acceptsSSE r
      then Ret (Some (writeError 400 (Text ''Accept header must include text/event-stream'')))
      else Get Cached KAgentRequest (query_namespace r, PathName r) (\<lambda>g. case as_AgentRequest g of
          Inl e \<Rightarrow> Ret (Some (if IsNotFound e
            then writeError 404 (Sprintf ''AgentRequest %s not found'' [ArgS (PathName r)])
            else writeError 500 (Sprintf ''failed to get AgentRequest %s: %v'' [ArgS (PathName r), ArgErr e])))
        | Inr ar \<Rightarrow>
            if isTerminalOrActionable L ar
            then Ret (Some (if \<not> flushed i then EventStream []
              else EventStream (sse_write (writes i) [] (''result'', agentRequestPayload ar (Labels (Meta ar))))))
            else streamAgentRequestPhase L i (PathName r) (query_namespace r) (Labels (Meta ar))))"


section \<open>Building the request\<close>

definition lookup_registration ::
  "('priv, 'pub) Server \<Rightarrow> string \<Rightarrow> createAgentRequestBody \<Rightarrow> AgentRegistration option" where
  "lookup_registration s sub body = (case regCache s of
       None \<Rightarrow> None
     | Some c \<Rightarrow>
         if authRequired s then
           if sub \<noteq> '''' then (case get_reg c sub of Some reg \<Rightarrow> Some reg | None \<Rightarrow> getForSubject c '''' sub)
           else None
         else if body_AgentIdentity body \<noteq> '''' then get_reg c (body_AgentIdentity body) else None)"

definition request_labels :: "libs \<Rightarrow> string \<Rightarrow> createAgentRequestBody \<Rightarrow> strmap" where
  "request_labels L agentIdentity body =
     [(''aip.io/agentIdentity'', sanitizeLabelValue agentIdentity),
      (''aip.io/profileName'', ProfileNameForAgent L agentIdentity)] @
     (if body_CorrelationID body \<noteq> ''''
      then [(''aip.io/correlationID'', sanitizeLabelValue (body_CorrelationID body))] else []) @
     (if body_Classification body \<noteq> ''''
      then [(''aip.io/classification'', sanitizeLabelValue (body_Classification body))] else [])"

definition empty_request_status :: AgentRequestStatus where
  "empty_request_status = \<lparr>Phase = PhaseUnset, Conditions = [], Denial = None, LeaseName = '''',
     EvaluationGeneration = 0, CPV = None, ProviderContext = None, Verdict = '''',
     VerdictReasonCode = '''', VerdictNote = '''', VerdictBy = '''', VerdictAt = None,
     StatusGovernedResourceRef = None, ResultOf = None\<rparr>"

definition new_request ::
  "libs \<Rightarrow> string \<Rightarrow> string \<Rightarrow> createAgentRequestBody \<Rightarrow> AgentRequest" where
  "new_request L agentIdentity ns body =
     \<lparr>Meta = empty_meta\<lparr>GenerateName := sanitizeDNSSegment agentIdentity 57 @ ''-'', Namespace := ns,
        Labels := request_labels L agentIdentity body\<rparr>,
      Spec = \<lparr>AgentIdentity = agentIdentity, Action = body_Action body,
        TargetOf = \<lparr>URI = body_TargetURI body, ResourceType = None, Attributes = []\<rparr>,
        Reason = body_Reason body, Mode = '''',
        Classification = normalizeClassification (body_Classification body), DedupKey = '''',
        IntentPlanRef = None, Priority = None, Cascade = buildCascadeModel body,
        Reasoning = buildReasoningTrace body, Interruptibility = None,
        Parameters = (if body_Parameters body \<noteq> '''' \<and> body_Parameters body \<noteq> ''null''
          then Some (body_Parameters body) else None),
        ExecutionMode = body_ExecutionMode body, Scope = body_ScopeBounds body, Approval = None,
        SpecGovernedResourceRef = None\<rparr>,
      Status = empty_request_status\<rparr>"

definition annotate :: "strmap \<Rightarrow> AgentRequest \<Rightarrow> AgentRequest" where
  "annotate as req = req\<lparr>Meta := (Meta req)\<lparr>Annotations :=
     fold (\<lambda>(k, v) m. map_put k v m) as (Annotations (Meta req))\<rparr>\<rparr>"

definition gr_ref :: "GovernedResource \<Rightarrow> GovernedResourceRef" where
  "gr_ref gr = \<lparr>RefName = Name (GRMeta gr), RefGeneration = Generation (GRMeta gr)\<rparr>"

definition refer :: "GovernedResource \<Rightarrow> AgentRequest \<Rightarrow> AgentRequest" where
  "refer gr req = req\<lparr>Spec := (Spec req)\<lparr>SpecGovernedResourceRef := Some (gr_ref gr)\<rparr>\<rparr>"


section \<open>Submission\<close>

fun prefix_msg :: "string \<Rightarrow> message \<Rightarrow> message" where
  "prefix_msg p (Text t) = Text (p @ t)"
| "prefix_msg p (Sprintf f as) = Sprintf (p @ f) as"

text \<open>The registration policy: a response ends the request.\<close>

definition registration_check ::
  "('priv, 'pub) Server \<Rightarrow> AgentRegistration option \<Rightarrow> string \<Rightarrow> string \<Rightarrow> AgentRequest \<Rightarrow> response + AgentRequest" where
  "registration_check s reg issuer sub req = (case regCache s of
       None \<Rightarrow> Inr req
     | Some _ \<Rightarrow> (case reg of
         None \<Rightarrow>
           if unregisteredAgentPolicy s = ''strict'' then
             Inl (writeError 403 (Sprintf ''AGENT_NOT_REGISTERED: agent %q has no AgentRegistration''
               [ArgS (AgentIdentity (Spec req))]))
           else if unregisteredAgentPolicy s = ''warn'' then
             Inr (annotate [(''governance.aip.io/unregistered'', ''true'')] req)
           else Inr req
       | Some rg \<Rightarrow> (case validateOIDCIdentity rg issuer sub of
             Some msg \<Rightarrow> Inl (writeError 403 (prefix_msg ''IDENTITY_MISMATCH: '' msg))
           | None \<Rightarrow> Inr req)))"

text \<open>The status of a created request gets the reference; a failed patch is only logged.\<close>

definition mirror_ref :: "GovernedResource \<Rightarrow> AgentRequest \<Rightarrow> AgentRequest prog" where
  "mirror_ref gr req =
     (let req' = req\<lparr>Status := (Status req)\<lparr>StatusGovernedResourceRef := Some (gr_ref gr)\<rparr>\<rparr>
      in Patch StatusSubresource MergeFrom (OAgentRequest req) (OAgentRequest req') (\<lambda>p.
           case as_AgentRequest p of Inl _ \<Rightarrow> Ret req' | Inr a \<Rightarrow> Ret a))"

definition record_denied :: "GovernedResource \<Rightarrow> AgentRequest \<Rightarrow> unit prog" where
  "record_denied gr req =
     (let req = annotate [(AnnotationGatewayDenied, DenialCodeActionNotPermitted)] (refer gr req)
      in Create (OAgentRequest req) (\<lambda>c. case as_AgentRequest c of
           Inl _ \<Rightarrow> Ret ()
         | Inr created \<Rightarrow> bind (mirror_ref gr created) (\<lambda>_. Ret ())))"

text \<open>Admission: the matched resource, or the response.  An uninstalled resource type is an empty list.\<close>

definition admit_among ::
  "libs \<Rightarrow> ('priv, 'pub) Server \<Rightarrow> glob_cache \<Rightarrow> AgentRequest \<Rightarrow> GovernedResource list \<Rightarrow>
   ((response + GovernedResource option) \<times> glob_cache) prog" where
  "admit_among L s globs req items =
     (if items = [] \<and> \<not> requireGovernedResource s then Ret (Inr None, globs)
      else (case matchGovernedResource L globs items (URI (TargetOf (Spec req))) '''' of
          (None, globs) \<Rightarrow> Ret (Inl (writeError 403 (Text DenialCodeActionNotPermitted)), globs)
        | (Some gr, globs) \<Rightarrow>
            if PermittedAgents gr \<noteq> [] \<and> AgentIdentity (Spec req) \<notin> set (PermittedAgents gr)
            then Ret (Inl (writeError 403 (Text DenialCodeIdentityInvalid)), globs)
            else if Action (Spec req) \<notin> set (GRPermittedActions gr)
            then bind (record_denied gr req) (\<lambda>_.
              Ret (Inl (writeError 403 (Text DenialCodeActionNotPermitted)), globs))
            else Ret (Inr (Some gr), globs)))"

definition admission ::
  "libs \<Rightarrow> ('priv, 'pub) Server \<Rightarrow> glob_cache \<Rightarrow> AgentRequest \<Rightarrow>
   ((response + GovernedResource option) \<times> glob_cache) prog" where
  "admission L s globs req =
     ListObjects Cached KGovernedResource list_all_objects (\<lambda>l. case l of
       Inl e \<Rightarrow> if e = NoMatch then admit_among L s globs req []
         else Ret (Inl (writeError 500 (Sprintf ''failed to list GovernedResources: %v'' [ArgErr e])), globs)
     | Inr (items, _) \<Rightarrow> admit_among L s globs req (pick_GovernedResources items))"

definition trust_check ::
  "libs \<Rightarrow> string \<Rightarrow> GovernedResource option \<Rightarrow> AgentRequest \<Rightarrow> (response + AgentRequest) prog" where
  "trust_check L ns matchedGR req = (case matchedGR of
       None \<Rightarrow> Ret (Inr req)
     | Some gr \<Rightarrow>
         if TrustReqs gr = None then Ret (Inr req)
         else bind (evaluateTrustGate L ns (AgentIdentity (Spec req)) (Mode (Spec req)) gr) (\<lambda>t. case t of
             Inl e \<Rightarrow> Ret (Inl (writeError 500 (Sprintf ''trust gate error: %v'' [ArgErr e])))
           | Inr res \<Rightarrow>
               if rejected res
               then Ret (Inl (writeError 403 (Text (''INSUFFICIENT_TRUST: '' @ gate_message res))))
               else Ret (Inr (case gate_annotations res of None \<Rightarrow> req | Some as \<Rightarrow> annotate as req))))"

definition dedup_name ::
  "libs \<Rightarrow> ('priv, 'pub) Server \<Rightarrow> createAgentRequestBody \<Rightarrow> AgentRequest \<Rightarrow> AgentRequest prog" where
  "dedup_name L s body req =
     (if dedupWindow s > 0 then Now (\<lambda>now.
        let agentIdentity = AgentIdentity (Spec req);
            dedupKey = computeDedupKey L agentIdentity (body_Action body) (body_TargetURI body)
              (Classification (Spec req)) (body_DedupKey body);
            name = deterministicRequestName L agentIdentity dedupKey (dedupWindow s) now
        in Ret (req\<lparr>Meta := (Meta req)\<lparr>Name := name, GenerateName := ''''\<rparr>,
             Spec := (if body_DedupKey body \<noteq> '''' then (Spec req)\<lparr>DedupKey := body_DedupKey body\<rparr> else Spec req)\<rparr>))
      else Ret req)"

definition duplicate_payload :: "AgentRequest \<Rightarrow> strmap \<Rightarrow> payload" where
  "duplicate_payload existing labels = PFields
     [(''name'', FStr (Name (Meta existing))), (''labels'', FLabels labels), (''phase'', FPhase (Phase (Status existing))),
      (''denial'', FDenial (Denial (Status existing))), (''conditions'', FConditions (Conditions (Status existing))),
      (''controlPlaneVerification'', FCPV (CPV (Status existing)))]"

definition stale_deleted :: string where
  "stale_deleted = ''previous request for this key is terminal (Completed/Failed/Denied/Expired) '' @
     [CHR 0xE2, CHR 0x80, CHR 0x94] @ '' stale object deleted, please retry''"

definition duplicate_response ::
  "wait_input \<Rightarrow> 'b http_request \<Rightarrow> string \<Rightarrow> AgentRequest \<Rightarrow> strmap \<Rightarrow> response prog" where
  "duplicate_response i r ns req reqLabels =
     Get Cached KAgentRequest (ns, Name (Meta req)) (\<lambda>g. case as_AgentRequest g of
       Inl e \<Rightarrow> Ret (writeError 500 (Sprintf ''duplicate detected but failed to fetch existing: %v'' [ArgErr e]))
     | Inr existing \<Rightarrow>
         if terminalPhases (Phase (Status existing)) then
           Delete (OAgentRequest existing) None (\<lambda>d. case d of
             Inl e \<Rightarrow> if \<not> IsNotFound e
               then Ret (writeError 500 (Sprintf ''dedup: failed to delete stale terminal request %s: %v''
                 [ArgS (Name (Meta existing)), ArgErr e]))
               else Ret (writeError 409 (Text stale_deleted))
           | Inr _ \<Rightarrow> Ret (writeError 409 (Text stale_deleted)))
         else if acceptsSSE r then
           Ret (if \<not> flushed i then EventStream []
             else EventStream (sse_write (writes i) [] (''result'', duplicate_payload existing reqLabels)))
         else Ret (writeJSON 200 (duplicate_payload existing reqLabels)))"

definition create_request ::
  "libs \<Rightarrow> wait_input \<Rightarrow> 'b http_request \<Rightarrow> string \<Rightarrow> GovernedResource option \<Rightarrow> strmap \<Rightarrow> AgentRequest \<Rightarrow>
   response option prog" where
  "create_request L i r ns matchedGR reqLabels req =
     Create (OAgentRequest req) (\<lambda>c. case as_AgentRequest c of
       Inl e \<Rightarrow>
         if IsAlreadyExists e then bind (duplicate_response i r ns req reqLabels) (\<lambda>resp. Ret (Some resp))
         else if IsInvalid e \<or> IsBadRequest e
         then Ret (Some (writeError 400 (Sprintf ''invalid AgentRequest: %v'' [ArgErr e])))
         else Ret (Some (writeError 500 (Sprintf ''failed to create AgentRequest: %v'' [ArgErr e])))
     | Inr created \<Rightarrow>
         bind (case matchedGR of None \<Rightarrow> Ret created | Some gr \<Rightarrow> mirror_ref gr created) (\<lambda>req.
           if acceptsSSE r then streamAgentRequestPhase L i (Name (Meta req)) ns reqLabels
           else pollAgentRequestPhase L (polls i) (Name (Meta req)) ns reqLabels))"

definition submit_admitted ::
  "libs \<Rightarrow> ('priv, 'pub) Server \<Rightarrow> wait_input \<Rightarrow> createAgentRequestBody http_request \<Rightarrow>
   createAgentRequestBody \<Rightarrow> GovernedResource option \<Rightarrow> AgentRequest \<Rightarrow> response option prog" where
  "submit_admitted L s i r body matchedGR req =
     (let ns = Namespace (Meta req)
      in bind (trust_check L ns matchedGR req) (\<lambda>t. case t of
           Inl resp \<Rightarrow> Ret (Some resp)
         | Inr req \<Rightarrow> bind (dedup_name L s body req) (\<lambda>req.
             create_request L i r ns matchedGR (Labels (Meta req)) req)))"

definition submit ::
  "libs \<Rightarrow> ('priv, 'pub) Server \<Rightarrow> wait_input \<Rightarrow> glob_cache \<Rightarrow> createAgentRequestBody http_request \<Rightarrow>
   createAgentRequestBody \<Rightarrow> AgentRequest \<Rightarrow> (response option \<times> glob_cache) prog" where
  "submit L s i globs r body req =
     bind (admission L s globs req) (\<lambda>(adm, globs). case adm of
       Inl resp \<Rightarrow> Ret (Some resp, globs)
     | Inr matchedGR \<Rightarrow>
         bind (submit_admitted L s i r body matchedGR
             (case matchedGR of None \<Rightarrow> req | Some gr \<Rightarrow> refer gr req))
           (\<lambda>resp. Ret (resp, globs)))"

text \<open>The identity of the caller: that of the registration, otherwise the token subject, or the
  body's when authentication is off.\<close>

definition caller_identity ::
  "('priv, 'pub) Server \<Rightarrow> AgentRegistration option \<Rightarrow> string \<Rightarrow> createAgentRequestBody \<Rightarrow> string option" where
  "caller_identity s reg sub body = (case reg of
       Some rg \<Rightarrow> Some (RegAgentIdentity (RegSpec rg))
     | None \<Rightarrow> if authRequired s then Some sub else non_empty (body_AgentIdentity body))"

definition handleCreateAgentRequest ::
  "libs \<Rightarrow> ('priv, 'pub) Server \<Rightarrow> wait_input \<Rightarrow> glob_cache \<Rightarrow> createAgentRequestBody http_request \<Rightarrow>
   (response option \<times> glob_cache) prog" where
  "handleCreateAgentRequest L s i globs r =
     (let sub = sub_of r
      in if authRequired s \<and> sub = '''' then Ret (Some (writeError 401 (Text ''caller identity required'')), globs)
         else (case ReqBody r of
             None \<Rightarrow> Ret (Some (writeError 400 (Text ''invalid request body'')), globs)
           | Some body \<Rightarrow>
               if body_Action body = '''' \<or> body_TargetURI body = ''''
               then Ret (Some (writeError 400 (Text ''action and targetURI are required'')), globs)
               else (case (if authRequired s then requireRole (roles s) roleAgent sub (callerGroups (Ctx r)) else None) of
                   Some resp \<Rightarrow> Ret (Some resp, globs)
                 | None \<Rightarrow>
                     (let reg = lookup_registration s sub body
                      in case caller_identity s reg sub body of
                           None \<Rightarrow> Ret (Some (writeError 400
                             (Text ''agentIdentity is required when running without authentication'')), globs)
                         | Some agentIdentity \<Rightarrow>
                             (let ns = (if body_Namespace body = '''' then defaultNamespace else body_Namespace body)
                              in case registration_check s reg (callerIssuer (Ctx r)) sub
                                   (new_request L agentIdentity ns body) of
                                   Inl resp \<Rightarrow> Ret (Some resp, globs)
                                 | Inr req \<Rightarrow> submit L s i globs r body req)))))"

section \<open>What is submitted\<close>

text \<open>The caller may act as the agent of the request.\<close>

definition authentic :: "('priv, 'pub) Server \<Rightarrow> request_ctx \<Rightarrow> string \<Rightarrow> bool" where
  "authentic s ctx agent \<longleftrightarrow>
     (authRequired s \<longrightarrow> callerSub ctx \<noteq> '''' \<and> isAgent (roles s) (callerSub ctx) (callerGroups ctx) \<and>
        (agent = callerSub ctx \<or> (\<exists>c reg. regCache s = Some c \<and> get_reg c agent = Some reg \<and>
           callerSub ctx \<in> set (allowed_subjects reg)))) \<and>
     (\<forall>c. regCache s = Some c \<longrightarrow> (case get_reg c agent of
        Some reg \<Rightarrow> validateOIDCIdentity reg (callerIssuer ctx) (callerSub ctx) = None
      | None \<Rightarrow> unregisteredAgentPolicy s \<noteq> ''strict''))"

text \<open>The resources the history shows; an uninstalled type is an empty list.\<close>

definition shown_resources :: "event list \<Rightarrow> GovernedResource list \<Rightarrow> bool" where
  "shown_resources h items \<longleftrightarrow>
     (\<exists>objs c. EList Cached KGovernedResource list_all_objects (Inr (objs, c)) \<in> set h \<and>
        items = pick_GovernedResources objs) \<or>
     (EList Cached KGovernedResource list_all_objects (Inl NoMatch) \<in> set h \<and> items = [])"

definition most_specific :: "libs \<Rightarrow> string \<Rightarrow> GovernedResource list \<Rightarrow> GovernedResource \<Rightarrow> bool" where
  "most_specific L uri items gr \<longleftrightarrow> gr \<in> set items \<and> governs L uri '''' gr \<and>
     (\<forall>gr'\<in>set items. governs L uri '''' gr' \<longrightarrow> \<not> more_specific gr' gr)"

text \<open>A resource, or its absence, admits a request.\<close>

definition admits ::
  "libs \<Rightarrow> ('priv, 'pub) Server \<Rightarrow> event list \<Rightarrow> AgentRequest \<Rightarrow> GovernedResource option \<Rightarrow> bool" where
  "admits L s h req matchedGR \<longleftrightarrow> (\<exists>items. shown_resources h items \<and> (case matchedGR of
       None \<Rightarrow> items = [] \<and> \<not> requireGovernedResource s
     | Some gr \<Rightarrow> most_specific L (URI (TargetOf (Spec req))) items gr \<and>
         (PermittedAgents gr = [] \<or> AgentIdentity (Spec req) \<in> set (PermittedAgents gr)) \<and>
         Action (Spec req) \<in> set (GRPermittedActions gr)))"

text \<open>The trust gate let the request pass, and its annotations are on it.\<close>

definition trusted :: "libs \<Rightarrow> event list \<Rightarrow> AgentRequest \<Rightarrow> GovernedResource option \<Rightarrow> bool" where
  "trusted L h req matchedGR \<longleftrightarrow> (\<forall>gr tr. matchedGR = Some gr \<longrightarrow> TrustReqs gr = Some tr \<longrightarrow>
     gate_sound L (Namespace (Meta req)) (AgentIdentity (Spec req)) tr h
       \<lparr>rejected = False, gate_message = '''', gate_annotations = Some (Annotations (Meta req))\<rparr>)"

definition accepted_request ::
  "libs \<Rightarrow> ('priv, 'pub) Server \<Rightarrow> request_ctx \<Rightarrow> event list \<Rightarrow> AgentRequest \<Rightarrow> bool" where
  "accepted_request L s ctx h req \<longleftrightarrow> authentic s ctx (AgentIdentity (Spec req)) \<and>
     (\<exists>matchedGR. admits L s h req matchedGR \<and> trusted L h req matchedGR \<and>
        SpecGovernedResourceRef (Spec req) = map_option gr_ref matchedGR)"

definition denied_record ::
  "libs \<Rightarrow> ('priv, 'pub) Server \<Rightarrow> request_ctx \<Rightarrow> event list \<Rightarrow> AgentRequest \<Rightarrow> bool" where
  "denied_record L s ctx h req \<longleftrightarrow> authentic s ctx (AgentIdentity (Spec req)) \<and>
     lookup_str (Annotations (Meta req)) AnnotationGatewayDenied = DenialCodeActionNotPermitted \<and>
     (\<exists>items gr. shown_resources h items \<and> most_specific L (URI (TargetOf (Spec req))) items gr \<and>
        Action (Spec req) \<notin> set (GRPermittedActions gr) \<and>
        SpecGovernedResourceRef (Spec req) = Some (gr_ref gr))"

definition submission_write ::
  "libs \<Rightarrow> ('priv, 'pub) Server \<Rightarrow> request_ctx \<Rightarrow> event list \<Rightarrow> event \<Rightarrow> bool" where
  "submission_write L s ctx h e = (case e of
       ECreate (OAgentRequest req) _ \<Rightarrow> accepted_request L s ctx h req \<or> denied_record L s ctx h req
     | EPatch sub pk (OAgentRequest b) (OAgentRequest m) _ \<Rightarrow> sub = StatusSubresource \<and> pk = MergeFrom \<and>
         (\<exists>obj gr. ECreate obj (Inr (OAgentRequest b)) \<in> set h \<and>
            m = b\<lparr>Status := (Status b)\<lparr>StatusGovernedResourceRef := Some (gr_ref gr)\<rparr>\<rparr>)
     | EDelete (OAgentRequest a) None _ \<Rightarrow> terminalPhases (Phase (Status a)) \<and>
         (\<exists>key. EGet Cached KAgentRequest key (Inr (OAgentRequest a)) \<in> set h)
     | _ \<Rightarrow> is_read e)"

lemma submission_write_read: "is_read e \<Longrightarrow> submission_write L s ctx h e"
  by (cases e) (auto simp: submission_write_def is_read_def)

lemma shown_resources_mono: "shown_resources h items \<Longrightarrow> set h \<subseteq> set h' \<Longrightarrow> shown_resources h' items"
  unfolding shown_resources_def by blast

lemma admits_mono: "admits L s h req gr \<Longrightarrow> set h \<subseteq> set h' \<Longrightarrow> admits L s h' req gr"
  unfolding admits_def using shown_resources_mono by blast

lemma gate_sound_mono:
  "gate_sound L ns agent tr h res \<Longrightarrow> set h \<subseteq> set h' \<Longrightarrow> gate_sound L ns agent tr h' res"
  unfolding gate_sound_def using shown_mono by (smt (verit, best))

lemma trusted_mono: "trusted L h req gr \<Longrightarrow> set h \<subseteq> set h' \<Longrightarrow> trusted L h' req gr"
  unfolding trusted_def using gate_sound_mono by blast

subsection \<open>The stages\<close>

lemma lookup_put_all:
  "distinct (map fst as) \<Longrightarrow> lookup_str (fold (\<lambda>(k, v) m. map_put k v m) as m) k =
     (case map_of as k of Some v \<Rightarrow> v | None \<Rightarrow> lookup_str m k)"
proof (induction as arbitrary: m)
  case (Cons a as)
  then show ?case
    by (cases a; cases "map_of as k") (auto dest: map_of_SomeD simp: image_iff)
qed simp

lemma annotate_sel [simp]:
  "Spec (annotate as req) = Spec req" "Status (annotate as req) = Status req"
  "Namespace (Meta (annotate as req)) = Namespace (Meta req)"
  by (simp_all add: annotate_def)

lemma refer_sel [simp]:
  "Meta (refer gr req) = Meta req" "AgentIdentity (Spec (refer gr req)) = AgentIdentity (Spec req)"
  "Action (Spec (refer gr req)) = Action (Spec req)" "TargetOf (Spec (refer gr req)) = TargetOf (Spec req)"
  "Mode (Spec (refer gr req)) = Mode (Spec req)"
  "SpecGovernedResourceRef (Spec (refer gr req)) = Some (gr_ref gr)"
  by (simp_all add: refer_def)

definition unannotated :: "AgentRequest \<Rightarrow> bool" where
  "unannotated req \<longleftrightarrow> lookup_str (Annotations (Meta req)) AnnotationCanExecute = '''' \<and>
     lookup_str (Annotations (Meta req)) AnnotationRequiresHumanApproval = ''''"

lemma trusted_annotate:
  assumes "gate_sound L (Namespace (Meta req)) (AgentIdentity (Spec req)) tr h (gate_annotate auto rights)"
    and "unannotated req" and "TrustReqs gr = Some tr"
    and "gate_annotations (gate_annotate auto rights) = Some as"
  shows "trusted L h (annotate as req) (Some gr)"
proof -
  let ?as = "Annotations (Meta (annotate as req))"
  have as: "as = (AnnotationEffectiveTrustLevel, auto) # (if \<not> fst rights then [(AnnotationCanExecute, ''false'')]
      else [(AnnotationRequiresHumanApproval, boolToStr (snd rights))])"
    using assms(4) by (auto simp: gate_annotate_def Let_def boolToStr_def split: if_splits)
  have "distinct (map fst as)" by (simp add: as)
  note look = lookup_put_all [OF this, of "Annotations (Meta req)"]
  have eff: "lookup_str ?as AnnotationEffectiveTrustLevel = lookup_str as AnnotationEffectiveTrustLevel"
    by (simp add: annotate_def look) (simp add: as lookup_str_def)
  have exe: "lookup_str ?as AnnotationCanExecute = lookup_str as AnnotationCanExecute"
    using assms(2) by (simp add: annotate_def look unannotated_def) (simp add: as lookup_str_def)
  have app: "lookup_str ?as AnnotationRequiresHumanApproval = lookup_str as AnnotationRequiresHumanApproval"
    using assms(2) by (simp add: annotate_def look unannotated_def) (simp add: as lookup_str_def)
  have no: "\<not> rejected (gate_annotate auto rights)" by (simp add: gate_annotate_def Let_def)
  show ?thesis
    using assms(1) unfolding trusted_def gate_sound_def assms(4)
    by (simp add: no assms(3) eff exe app)
qed

lemma read_only_hist:
  "read_only p \<Longrightarrow> (\<And>h e. is_read e \<Longrightarrow> W h e) \<Longrightarrow> hist W (\<lambda>_ _. True) p h"
  by (rule monitored_mono [OF monitored_read_only [where I = "\<lambda>_. True"]]) auto

lemma mirror_ref_hist:
  assumes "ECreate obj (Inr (OAgentRequest req)) \<in> set h"
  shows "hist (submission_write L s ctx) (\<lambda>_ _. True) (mirror_ref gr req) h"
  using assms
  by (auto simp: mirror_ref_def Let_def submission_write_def split: sum.splits)

lemma record_denied_hist:
  assumes "denied_record L s ctx h (annotate [(AnnotationGatewayDenied, DenialCodeActionNotPermitted)] (refer gr req))"
  shows "hist (submission_write L s ctx) (\<lambda>_ _. True) (record_denied gr req) h"
  unfolding record_denied_def Let_def monitored.simps
proof (intro allI impI conjI)
  fix c
  let ?e = "ECreate (OAgentRequest (annotate [(AnnotationGatewayDenied, DenialCodeActionNotPermitted)] (refer gr req))) c"
  show "submission_write L s ctx h ?e" using assms by (simp add: submission_write_def)
  show "hist (submission_write L s ctx) (\<lambda>_ _. True) (case as_AgentRequest c of
      Inl _ \<Rightarrow> Ret () | Inr created \<Rightarrow> bind (mirror_ref gr created) (\<lambda>_. Ret ())) (h @ [?e])"
  proof (cases "as_AgentRequest c")
    case (Inr created)
    then have "c = Inr (OAgentRequest created)" by (simp add: as_AgentRequest_Inr)
    then show ?thesis
      by (auto simp: Inr intro!: monitored_bindI [OF mirror_ref_hist])
  qed simp
qed

lemma admit_among_hist:
  assumes "globs_ok L globs" and "authentic s ctx (AgentIdentity (Spec req))" and "shown_resources h items"
  shows "hist (submission_write L s ctx) (\<lambda>(adm, _) h'. \<forall>m. adm = Inr m \<longrightarrow> admits L s h' req m)
    (admit_among L s globs req items) h"
proof (cases "items = [] \<and> \<not> requireGovernedResource s")
  case True
  with assms(3) have "admits L s h req None" by (auto simp: admits_def)
  with True show ?thesis by (simp add: admit_among_def)
next
  case False
  let ?uri = "URI (TargetOf (Spec req))"
  obtain best globs' where m: "matchGovernedResource L globs items ?uri '''' = (best, globs')" by fastforce
  show ?thesis
  proof (cases best)
    case None
    with m False show ?thesis by (auto simp: admit_among_def)
  next
    case (Some gr)
    have best: "most_specific L ?uri items gr"
      using fold_most_specific [of items L ?uri "''''"]
      unfolding match_is_fold(1) [OF assms(1), of items ?uri "''''", symmetric] m Some
      by (simp add: most_specific_def)
    let ?denied = "annotate [(AnnotationGatewayDenied, DenialCodeActionNotPermitted)] (refer gr req)"
    have "denied_record L s ctx h ?denied" if "Action (Spec req) \<notin> set (GRPermittedActions gr)"
      using assms(2,3) best that
      by (auto simp: denied_record_def annotate_def)
    note denied = record_denied_hist [OF this]
    have "admits L s h req (Some gr)"
      if "PermittedAgents gr = [] \<or> AgentIdentity (Spec req) \<in> set (PermittedAgents gr)"
        "Action (Spec req) \<in> set (GRPermittedActions gr)"
      using assms(3) best that by (auto simp: admits_def)
    with m False Some denied show ?thesis
      by (auto simp: admit_among_def intro!: monitored_bindI [OF denied])
  qed
qed

lemma admission_hist:
  assumes "globs_ok L globs" and "authentic s ctx (AgentIdentity (Spec req))"
  shows "hist (submission_write L s ctx) (\<lambda>(adm, _) h'. \<forall>m. adm = Inr m \<longrightarrow> admits L s h' req m)
    (admission L s globs req) h"
  unfolding admission_def monitored.simps Let_def
proof (intro allI impI conjI)
  fix r
  let ?e = "EList Cached KGovernedResource list_all_objects r"
  show "submission_write L s ctx h ?e" by (simp add: submission_write_read)
  show "hist (submission_write L s ctx) (\<lambda>(adm, _) h'. \<forall>m. adm = Inr m \<longrightarrow> admits L s h' req m)
    (case r of
       Inl e \<Rightarrow> if e = NoMatch then admit_among L s globs req []
         else Ret (Inl (writeError 500 (Sprintf ''failed to list GovernedResources: %v'' [ArgErr e])), globs)
     | Inr (items, _) \<Rightarrow> admit_among L s globs req (pick_GovernedResources items)) (h @ [?e])"
  proof (cases r)
    case (Inl e)
    have "shown_resources (h @ [?e]) []" if "e = NoMatch" by (simp add: shown_resources_def Inl that)
    from admit_among_hist [OF assms this] show ?thesis by (simp add: Inl)
  next
    case (Inr b)
    obtain objs c where b: "b = (objs, c)" by fastforce
    have "shown_resources (h @ [?e]) (pick_GovernedResources objs)" by (auto simp: shown_resources_def Inr b)
    from admit_among_hist [OF assms this] show ?thesis by (simp add: Inr b)
  qed
qed

lemma trust_check_hist:
  assumes "admits L s h req matchedGR" and "unannotated req" and "Mode (Spec req) \<noteq> ModeObserve"
  shows "hist (submission_write L s ctx)
    (\<lambda>x h'. \<forall>req'. x = Inr req' \<longrightarrow> Spec req' = Spec req \<and> admits L s h' req' matchedGR \<and> trusted L h' req' matchedGR)
    (trust_check L (Namespace (Meta req)) matchedGR req) h"
proof (cases "\<exists>gr tr. matchedGR = Some gr \<and> TrustReqs gr = Some tr")
  case False
  then have "trusted L h req matchedGR" by (auto simp: trusted_def)
  with False assms(1) show ?thesis by (auto simp: trust_check_def split: option.splits)
next
  case True
  then obtain gr tr where gr: "matchedGR = Some gr" "TrustReqs gr = Some tr" by blast
  let ?ns = "Namespace (Meta req)" and ?agent = "AgentIdentity (Spec req)"
  let ?p = "evaluateTrustGate L ?ns ?agent (Mode (Spec req)) gr"
  let ?R = "\<lambda>es x. \<forall>res. x = Inr res \<longrightarrow> gate_sound L ?ns ?agent tr es res \<and>
      (\<not> rejected res \<longrightarrow> res \<in> range (\<lambda>(auto, rights). gate_annotate auto rights))"
  have "wlp ?p (\<lambda>es x. list_all is_read es \<and> ?R es x)"
    using evaluateTrustGate_wlp [OF gr(2) assms(3), of L ?ns ?agent]
      evaluateTrustGate_annotates [OF gr(2) assms(3), of L ?ns ?agent]
    by (rule wlp_mono [OF conjI [THEN wlp_conj [THEN iffD2]]]) auto
  note gate = hist_of_wlp [OF this, of "submission_write L s ctx", OF submission_write_read]
  show ?thesis
    unfolding trust_check_def gr option.case if_not_P [OF option.distinct(2)]
  proof (rule monitored_bindI [OF gate])
    fix x :: "trustGateResult result" and h'
    assume "\<exists>es. h' = h @ es \<and> ?R es x"
    then obtain es where es: "h' = h @ es" "?R es x" by blast
    have ad: "admits L s h' req matchedGR" using assms(1) by (rule admits_mono) (simp add: es)
    show "hist (submission_write L s ctx)
      (\<lambda>x h'. \<forall>req'. x = Inr req' \<longrightarrow> Spec req' = Spec req \<and> admits L s h' req' (Some gr) \<and> trusted L h' req' (Some gr))
      (case x of
         Inl e \<Rightarrow> Ret (Inl (writeError 500 (Sprintf ''trust gate error: %v'' [ArgErr e])))
       | Inr res \<Rightarrow> if rejected res
           then Ret (Inl (writeError 403 (Text (''INSUFFICIENT_TRUST: '' @ gate_message res))))
           else Ret (Inr (case gate_annotations res of None \<Rightarrow> req | Some as \<Rightarrow> annotate as req))) h'"
    proof (cases "\<exists>res. x = Inr res \<and> \<not> rejected res")
      case True
      then obtain res auto rights where x: "x = Inr res" "\<not> rejected res" and res: "res = gate_annotate auto rights"
        using es(2) by auto
      obtain as where as: "gate_annotations (gate_annotate auto rights) = Some as"
        by (simp add: gate_annotate_def Let_def)
      have "gate_sound L ?ns ?agent tr h' (gate_annotate auto rights)"
        by (rule gate_sound_mono [where h = es]) (use es x res in auto)
      from trusted_annotate [OF this assms(2) gr(2) as] ad gr x show ?thesis
        by (simp add: res as admits_def)
    qed (auto split: sum.splits)
  qed
qed

text \<open>What is accepted is decided by the fields that the later stages keep.\<close>

lemma accepted_request_cong:
  assumes "accepted_request L s ctx h req" and "set h \<subseteq> set h'"
    and "AgentIdentity (Spec req') = AgentIdentity (Spec req)" and "Action (Spec req') = Action (Spec req)"
    and "TargetOf (Spec req') = TargetOf (Spec req)" and "Namespace (Meta req') = Namespace (Meta req)"
    and "Annotations (Meta req') = Annotations (Meta req)"
    and "SpecGovernedResourceRef (Spec req') = SpecGovernedResourceRef (Spec req)"
  shows "accepted_request L s ctx h' req'"
proof -
  from assms(1) obtain m where m: "authentic s ctx (AgentIdentity (Spec req))"
      "admits L s h req m" "trusted L h req m" "SpecGovernedResourceRef (Spec req) = map_option gr_ref m"
    unfolding accepted_request_def by blast
  have "admits L s h' req' m"
    using admits_mono [OF m(2) assms(2)] by (cases m) (simp_all add: admits_def assms(3-5))
  moreover have "trusted L h' req' m"
    using trusted_mono [OF m(3) assms(2)] by (simp add: trusted_def assms(3,6,7))
  ultimately show ?thesis
    unfolding accepted_request_def using m(1,4) assms(3,8) by auto
qed

lemma dedup_name_hist:
  assumes "accepted_request L s ctx h req"
  shows "hist (submission_write L s ctx) (\<lambda>req' h'. accepted_request L s ctx h' req') (dedup_name L s' body req) h"
  using assms
  by (auto simp: dedup_name_def Let_def submission_write_read intro: accepted_request_cong)

lemma poll_read_only: "read_only (pollAgentRequestPhase L steps name ns labels)"
  by (induction L steps name ns labels rule: pollAgentRequestPhase.induct) (auto split: sum.splits)

lemma stream_read_only: "read_only (streamAgentRequestPhase L i name ns labels)"
  by (auto simp: streamAgentRequestPhase_def split: sum.splits)

lemma duplicate_response_hist:
  "hist (submission_write L s ctx) (\<lambda>_ _. True) (duplicate_response i r ns req labels) h"
  by (auto simp: duplicate_response_def Let_def submission_write_def as_AgentRequest_Inr split: sum.splits)

lemma create_request_hist:
  assumes "accepted_request L s ctx h req"
  shows "hist (submission_write L s ctx) (\<lambda>_ _. True) (create_request L i r ns matchedGR labels req) h"
  unfolding create_request_def Let_def monitored.simps
proof (intro allI impI conjI)
  fix c
  let ?e = "ECreate (OAgentRequest req) c"
  show "submission_write L s ctx h ?e" using assms by (simp add: submission_write_def)
  have wait: "hist (submission_write L s ctx) (\<lambda>_ _. True)
      (if acceptsSSE r then streamAgentRequestPhase L i (Name (Meta q)) ns labels
       else pollAgentRequestPhase L (polls i) (Name (Meta q)) ns labels) h'" for q h'
    by (rule read_only_hist) (simp_all add: poll_read_only stream_read_only submission_write_read)
  have mirror: "hist (submission_write L s ctx) (\<lambda>_ _. True)
      (case matchedGR of None \<Rightarrow> Ret created | Some gr \<Rightarrow> mirror_ref gr created) (h @ [?e])"
    if "c = Inr (OAgentRequest created)" for created
    by (cases matchedGR) (auto simp: that intro!: mirror_ref_hist)
  show "hist (submission_write L s ctx) (\<lambda>_ _. True) (case as_AgentRequest c of
      Inl e \<Rightarrow> if IsAlreadyExists e then bind (duplicate_response i r ns req labels) (\<lambda>resp. Ret (Some resp))
        else if IsInvalid e \<or> IsBadRequest e
        then Ret (Some (writeError 400 (Sprintf ''invalid AgentRequest: %v'' [ArgErr e])))
        else Ret (Some (writeError 500 (Sprintf ''failed to create AgentRequest: %v'' [ArgErr e])))
    | Inr created \<Rightarrow> bind (case matchedGR of None \<Rightarrow> Ret created | Some gr \<Rightarrow> mirror_ref gr created) (\<lambda>q.
        if acceptsSSE r then streamAgentRequestPhase L i (Name (Meta q)) ns labels
        else pollAgentRequestPhase L (polls i) (Name (Meta q)) ns labels)) (h @ [?e])"
  proof (cases "as_AgentRequest c")
    case (Inl e)
    then show ?thesis by (auto intro!: monitored_bindI [OF duplicate_response_hist])
  next
    case (Inr created)
    then have "c = Inr (OAgentRequest created)" by (simp add: as_AgentRequest_Inr)
    from monitored_bindI [OF mirror [OF this] wait] Inr show ?thesis by simp
  qed
qed

lemma submit_admitted_hist:
  assumes "authentic s ctx (AgentIdentity (Spec req))" and "admits L s h req m"
    and "unannotated req" and "Mode (Spec req) \<noteq> ModeObserve"
    and "SpecGovernedResourceRef (Spec req) = map_option gr_ref m"
  shows "hist (submission_write L s ctx) (\<lambda>_ _. True) (submit_admitted L s i r body m req) h"
  unfolding submit_admitted_def Let_def
proof (rule monitored_bindI [OF trust_check_hist [OF assms(2-4)]])
  fix t :: "response + AgentRequest" and h'
  assume t: "\<forall>req'. t = Inr req' \<longrightarrow> Spec req' = Spec req \<and> admits L s h' req' m \<and> trusted L h' req' m"
  have "accepted_request L s ctx h' req'" if "t = Inr req'" for req'
    using t that assms(1,5) by (auto simp: accepted_request_def)
  then show "hist (submission_write L s ctx) (\<lambda>_ _. True) (case t of
           Inl resp \<Rightarrow> Ret (Some resp)
         | Inr req' \<Rightarrow> bind (dedup_name L s body req') (\<lambda>q.
             create_request L i r (Namespace (Meta req)) m (Labels (Meta q)) q)) h'"
    by (cases t) (auto intro!: monitored_bindI [OF dedup_name_hist] create_request_hist)
qed

lemma submit_hist:
  assumes "globs_ok L globs" and "authentic s ctx (AgentIdentity (Spec req))"
    and "unannotated req" and "Mode (Spec req) \<noteq> ModeObserve" and "SpecGovernedResourceRef (Spec req) = None"
  shows "hist (submission_write L s ctx) (\<lambda>_ _. True) (submit L s i globs r body req) h"
proof -
  have "hist (submission_write L s ctx) (\<lambda>_ _. True)
      (submit_admitted L s i r body m (case m of None \<Rightarrow> req | Some gr \<Rightarrow> refer gr req)) h'"
    if "admits L s h' req m" for m h'
    by (rule submit_admitted_hist)
      (use that assms in \<open>auto simp: admits_def unannotated_def split: option.splits\<close>)
  then show ?thesis
    unfolding submit_def
    by (intro monitored_bindI [OF admission_hist [OF assms(1,2)]])
      (auto split: sum.splits intro!: monitored_bindI [where R = "\<lambda>_ _. True"])
qed

text \<open>The identity the handler derives may be used by the caller.\<close>

lemma lookup_registration_identity:
  assumes "\<forall>c. regCache s = Some c \<longrightarrow> reg_cache_ok c"
    and "caller_identity s (lookup_registration s sub body) sub body = Some agent"
    and "regCache s = Some c"
  shows "get_reg c agent = lookup_registration s sub body"
    and "authRequired s \<Longrightarrow> sub \<noteq> '''' \<Longrightarrow>
      agent = sub \<or> (\<exists>reg. get_reg c agent = Some reg \<and> sub \<in> set (allowed_subjects reg))"
proof -
  have ok: "reg_cache_ok c" using assms(1,3) by blast
  note entry = byAgent_entry [OF ok, folded get_reg_def]
  have found: "agent = identity_of reg" if "lookup_registration s sub body = Some reg" for reg
    using assms(2) that by (simp add: caller_identity_def)
  have own: "identity_of reg = a" if "get_reg c a = Some reg" for a reg
    using entry that by (simp add: get_reg_def)
  show "get_reg c agent = lookup_registration s sub body"
  proof (cases "lookup_registration s sub body")
    case None
    have "map_of (byAgent c) [] = None" using byAgent_entry [OF ok, of "[]"] by (cases "map_of (byAgent c) []") auto
    with None assms(2,3) show ?thesis
      by (auto simp: caller_identity_def lookup_registration_def non_empty_def get_reg_def
          split: if_splits option.splits dest: entry)
  next
    case (Some reg)
    from Some assms(3) have "get_reg c (identity_of reg) = Some reg"
      by (auto simp: lookup_registration_def own getForSubject_sound [OF ok] split: if_splits option.splits)
    with found [OF Some] Some show ?thesis by simp
  qed
  then show "agent = sub \<or> (\<exists>reg. get_reg c agent = Some reg \<and> sub \<in> set (allowed_subjects reg))"
    if "authRequired s" "sub \<noteq> ''''"
    using assms(2,3) that own getForSubject_sound [OF ok]
    by (auto simp: caller_identity_def lookup_registration_def split: option.splits)
qed

lemma caller_authentic:
  assumes "\<forall>c. regCache s = Some c \<longrightarrow> reg_cache_ok c"
    and "authRequired s \<Longrightarrow> callerSub ctx \<noteq> '''' \<and> isAgent (roles s) (callerSub ctx) (callerGroups ctx)"
    and "caller_identity s (lookup_registration s (callerSub ctx) body) (callerSub ctx) body = Some agent"
    and "registration_check s (lookup_registration s (callerSub ctx) body) (callerIssuer ctx) (callerSub ctx) req = Inr req'"
  shows "authentic s ctx agent"
proof (cases "regCache s")
  case None
  with assms(2,3) show ?thesis
    by (auto simp: authentic_def caller_identity_def lookup_registration_def)
next
  case (Some c)
  note id = lookup_registration_identity [OF assms(1,3) Some]
  have "case get_reg c agent of
      Some reg \<Rightarrow> validateOIDCIdentity reg (callerIssuer ctx) (callerSub ctx) = None
    | None \<Rightarrow> unregisteredAgentPolicy s \<noteq> ''strict''"
    using assms(4) by (auto simp: registration_check_def Some id(1) split: option.splits if_splits)
  with id(2) assms(2) Some show ?thesis by (auto simp: authentic_def)
qed

lemma registration_check_keeps:
  assumes "registration_check s reg issuer sub (new_request L agent ns body) = Inr req"
  shows "Spec req = Spec (new_request L agent ns body)" and "unannotated req"
  using assms
  by (auto simp: registration_check_def unannotated_def new_request_def empty_meta_def annotate_def
      lookup_str_def type_defs split: option.splits if_splits)

text \<open>C6. Nothing is submitted unless it was admitted.  On every execution of the create handler, whatever
  the API server answers, a created request is authentic: with authentication on, its agent is the
  token subject or a registration whose allowed subjects name the token subject, the caller has the agent
  role, the registration of the agent accepts the issuer and subject, and an unregistered agent only
  passes when the policy is not strict.  It either is the record of a denial, of a request whose
  action the most specific matching resource does not permit, or was admitted: by the most specific
  matching resource, which permits the agent and the action and is referenced by the request, or
  by the absence of resources when none is required; and where the resource has trust
  requirements, the trust gate passed and the request carries its annotations.  Besides, the handler
  patches only the status reference of the request just created, and deletes only a terminal duplicate it has read.\<close>

theorem handleCreateAgentRequest_submits:
  assumes "globs_ok L globs" and "\<forall>c. regCache s = Some c \<longrightarrow> reg_cache_ok c"
    and "exec (handleCreateAgentRequest L s i globs r) (es1 @ e # es2) x"
  shows "submission_write L s (Ctx r) es1 e"
proof -
  have submit: "hist (submission_write L s (Ctx r)) (\<lambda>_ _. True) (submit L s i globs r body req) []"
    if "authRequired s \<Longrightarrow> sub_of r \<noteq> '''' \<and> isAgent (roles s) (sub_of r) (callerGroups (Ctx r))"
      and "caller_identity s (lookup_registration s (sub_of r) body) (sub_of r) body = Some agent"
      and "registration_check s (lookup_registration s (sub_of r) body) (callerIssuer (Ctx r)) (sub_of r)
        (new_request L agent ns body) = Inr req" for body agent ns req
    using caller_authentic [OF assms(2) that] registration_check_keeps [OF that(3)]
    by (intro submit_hist [OF assms(1)]) (simp_all add: new_request_def type_defs)
  have "hist (submission_write L s (Ctx r)) (\<lambda>_ _. True) (handleCreateAgentRequest L s i globs r) []"
    unfolding handleCreateAgentRequest_def Let_def
    by (auto intro!: submit split: option.splits sum.splits if_splits)
  from with_history_sound [OF this assms(3)] show ?thesis by (simp add: list_all_iff)
qed

section \<open>Concrete runs\<close>

definition sample_body :: createAgentRequestBody where
  "sample_body = \<lparr>body_AgentIdentity = '''', body_Action = ''scale'',
     body_TargetURI = ''k8s://prod/default/deployment/api'', body_Reason = ''load'', body_Namespace = ''ns'',
     body_CorrelationID = '''', body_Classification = '''', body_DedupKey = '''', body_CascadeModel = None,
     body_ReasoningTrace = None, body_Parameters = '''', body_ExecutionMode = None, body_ScopeBounds = None\<rparr>"

definition sample_server :: "(nat, nat) Server" where
  "sample_server = \<lparr>dedupWindow = 0, roles = newRoleConfig ''bot'' ''alice'' '''' '''' '''' '''', authRequired = True,
     requireGovernedResource = True, jwtManager = Some sample_manager, regCache = None,
     unregisteredAgentPolicy = ''allow''\<rparr>"

definition sample_http :: "string \<Rightarrow> 'b option \<Rightarrow> 'b http_request" where
  "sample_http sub body = \<lparr>UrlPath = ''/agent-requests'', RemoteAddr = ''10.0.0.7:4711'', Header = (\<lambda>_. ''''),
     PathName = ''req'', Query = (\<lambda>k. if k = ''namespace'' then ''ns'' else ''''), ReqBody = body,
     Ctx = background\<lparr>callerSub := sub\<rparr>\<rparr>"

definition sample_wait :: wait_input where
  "sample_wait = \<lparr>polls = [PollTick, PollTimeout], flushed = True, writes = 3, sse_watch = Inr [],
     marshal_status = (\<lambda>_. Inr '''')\<rparr>"

definition submit_run :: "event list" where
  "submit_run = trace_of srv_env
     (handleCreateAgentRequest ref_libs sample_server sample_wait [] (sample_http ''bot'' (Some sample_body)))
     (world 5 [OGovernedResource trust_gr, OAgentTrustProfile (gate_profile ''Trusted'')])"

definition submits_at :: "nat \<Rightarrow> event list \<Rightarrow> bool" where
  "submits_at n es \<longleftrightarrow> n < length es \<and> (case es ! n of
     ECreate (OAgentRequest req) _ \<Rightarrow> lookup_str (Annotations (Meta req)) AnnotationGatewayDenied = '''' \<and>
       SpecGovernedResourceRef (Spec req) = Some (gr_ref trust_gr)
   | _ \<Rightarrow> False)"

theorem handleCreateAgentRequest_submits_witness:
  "\<exists>es1 req c es2. submit_run = es1 @ ECreate (OAgentRequest req) c # es2 \<and>
     accepted_request ref_libs sample_server (background\<lparr>callerSub := ''bot''\<rparr>) es1 req \<and>
     SpecGovernedResourceRef (Spec req) = Some (gr_ref trust_gr)"
proof -
  have "submits_at 3 submit_run" by code_simp
  then obtain req c where at: "3 < length submit_run" "submit_run ! 3 = ECreate (OAgentRequest req) c"
      "lookup_str (Annotations (Meta req)) AnnotationGatewayDenied = ''''"
      "SpecGovernedResourceRef (Spec req) = Some (gr_ref trust_gr)"
    unfolding submits_at_def by (auto split: event.splits object.splits)
  let ?p = "handleCreateAgentRequest ref_libs sample_server sample_wait [] (sample_http ''bot'' (Some sample_body))"
  let ?w = "world 5 [OGovernedResource trust_gr, OAgentTrustProfile (gate_profile ''Trusted'')]"
  have run: "submit_run = take 3 submit_run @ ECreate (OAgentRequest req) c # drop 4 submit_run"
    using id_take_nth_drop [OF at(1)] at(2) by simp
  have "exec ?p (take 3 submit_run @ ECreate (OAgentRequest req) c # drop 4 submit_run) (result_of srv_env ?p ?w)"
    using exec_run [of ?p srv_env ?w] by (subst run [symmetric]) (simp only: submit_run_def)
  from handleCreateAgentRequest_submits [OF _ _ this]
  have "submission_write ref_libs sample_server (background\<lparr>callerSub := ''bot''\<rparr>) (take 3 submit_run)
      (ECreate (OAgentRequest req) c)"
    by (simp add: sample_server_def sample_http_def)
  with at(3) have "accepted_request ref_libs sample_server (background\<lparr>callerSub := ''bot''\<rparr>) (take 3 submit_run) req"
    by (simp add: submission_write_def denied_record_def type_defs)
  with run at(4) show ?thesis by blast
qed

end
