(* ===== verification/Gateway_Lifecycle.thy ===== *)
theory Gateway_Lifecycle
  imports Gateway_Submit Accuracy
begin

text \<open>
  The handlers for a submitted request: \<open>src/cmd/gateway/agent_request_lifecycle_handlers.go\<close> (get, executing,
  completed, result, list), \<open>agent_request_review_handlers.go\<close> (verdict, approve, deny) and
  \<open>agent_request_token_handlers.go\<close>.

  \<open>retry.RetryOnConflict\<close> is an argument.  Where a retried closure stores the wrong phase in a captured
  variable and fails with an error that is not a conflict, the model's closure ends with that phase as
  its value: the retry returns at once in both.  The credential of a service is resolved by the argument
  \<open>token_of\<close>.
\<close>


section \<open>Common steps\<close>

definition em_dash :: string where
  "em_dash = [CHR 0xE2, CHR 0x80, CHR 0x94]"

text \<open>The identity and role checks every handler starts with; a response ends the request.\<close>

definition caller_check :: "('priv, 'pub) Server \<Rightarrow> string \<Rightarrow> 'b http_request \<Rightarrow> response option" where
  "caller_check s role r =
     (if authRequired s \<and> sub_of r = '''' then Some (writeError 401 (Text ''caller identity required''))
      else requireRole (roles s) role (sub_of r) (callerGroups (Ctx r)))"

abbreviation request_key :: "'b http_request \<Rightarrow> objkey" where
  "request_key r \<equiv> (query_namespace r, PathName r)"

definition not_found_or :: "error \<Rightarrow> message \<Rightarrow> response" where
  "not_found_or e msg = (if IsNotFound e then writeError 404 (Text ''AgentRequest not found'') else writeError 500 msg)"

fun errors_Is :: "error \<Rightarrow> error \<Rightarrow> bool" where
  "errors_Is (Wrapped s e) t \<longleftrightarrow> Wrapped s e = t \<or> errors_Is e t"
| "errors_Is (Joined e1 e2) t \<longleftrightarrow> Joined e1 e2 = t \<or> errors_Is e1 t \<or> errors_Is e2 t"
| "errors_Is e t \<longleftrightarrow> e = t"


section \<open>Reading\<close>

definition handleGetAgentRequest :: "('priv, 'pub) Server \<Rightarrow> 'b http_request \<Rightarrow> response prog" where
  "handleGetAgentRequest s r =
     (if authRequired s \<and> sub_of r = '''' then Ret (writeError 401 (Text ''caller identity required''))
      else Get Cached KAgentRequest (request_key r) (\<lambda>g. case as_AgentRequest g of
          Inl e \<Rightarrow> Ret (not_found_or e (err_text e))
        | Inr current \<Rightarrow>
            ListObjects Cached KAuditRecord (list_all_objects\<lparr>InNamespace := query_namespace r\<rparr>) (\<lambda>l.
              let auditEvents = (case l of
                  Inl _ \<Rightarrow> []
                | Inr (items, _) \<Rightarrow> map (\<lambda>a. Event (AuditSpec a))
                    (filter (\<lambda>a. AgentRequestRef (AuditSpec a) = PathName r) (pick_AuditRecords items)))
              in Ret (writeJSON 200 (PFields
                [(''name'', FStr (Name (Meta current))), (''phase'', FPhase (Phase (Status current))),
                 (''denial'', FDenial (Denial (Status current))), (''conditions'', FConditions (Conditions (Status current))),
                 (''controlPlaneVerification'', FCPV (CPV (Status current))), (''auditEvents'', FEvents auditEvents),
                 (''result'', FResult (ResultOf (Status current)))])))))"

text \<open>The phase names in sorted order, as the error message lists them.\<close>

definition validPhases :: "string list" where
  "validPhases = map phase_str [PhaseApproved, PhaseAwaitingVerdict, PhaseCompleted, PhaseDenied, PhaseExecuting,
     PhaseExpired, PhaseFailed, PhaseObserved, PhasePending]"

text \<open>\<open>strconv.ParseInt(s, 10, 64)\<close>.\<close>

fun parse_digits :: "int \<Rightarrow> string \<Rightarrow> int option" where
  "parse_digits n [] = Some n"
| "parse_digits n (c # s) =
     (if is_digit (of_char c) then parse_digits (10 * n + (of_char c - 48)) s else None)"

definition ParseInt64 :: "string \<Rightarrow> int option" where
  "ParseInt64 s =
     (let (sign, ds) = (case s of
          c # ds \<Rightarrow> if c = CHR ''-'' then (- 1, ds) else if c = CHR ''+'' then (1, ds) else (1, s)
        | [] \<Rightarrow> (1, []))
      in if ds = [] then None
         else (case parse_digits 0 ds of
             None \<Rightarrow> None
           | Some n \<Rightarrow> if - (2 ^ 63) \<le> sign * n \<and> sign * n < 2 ^ 63 then Some (sign * n) else None))"

fun requested_phases :: "string list \<Rightarrow> string list \<Rightarrow> string + string list" where
  "requested_phases [] acc = Inr acc"
| "requested_phases (p # ps) acc =
     (let p = TrimSpace p
      in if p = '''' then requested_phases ps acc
         else if p \<notin> set validPhases then Inl p
         else requested_phases ps (acc @ [p]))"

definition label_filters :: "'b http_request \<Rightarrow> strmap" where
  "label_filters r =
     (if Query r ''agentIdentity'' \<noteq> ''''
      then [(''aip.io/agentIdentity'', sanitizeLabelValue (Query r ''agentIdentity''))] else []) @
     (if Query r ''correlationID'' \<noteq> ''''
      then [(''aip.io/correlationID'', sanitizeLabelValue (Query r ''correlationID''))] else []) @
     (if Query r ''classification'' \<noteq> ''''
      then [(''aip.io/classification'', sanitizeLabelValue (Query r ''classification''))] else [])"

definition request_list_options :: "'b http_request \<Rightarrow> string list \<Rightarrow> int \<Rightarrow> list_options" where
  "request_list_options r phases limit =
     list_all_objects\<lparr>InNamespace := query_namespace r, MatchingLabels := label_filters r,
       MatchingFields := (case phases of [p] \<Rightarrow> [(''status.phase'', p)] | _ \<Rightarrow> []),
       Limit := limit, Continue := Query r ''continue''\<rparr>"

definition list_requests :: "'b http_request \<Rightarrow> string list \<Rightarrow> int \<Rightarrow> response prog" where
  "list_requests r phases limit =
     ListObjects Cached KAgentRequest (request_list_options r phases limit) (\<lambda>l. case l of
       Inl e \<Rightarrow> Ret (writeError (if IsBadRequest e \<or> IsInvalid e then 400 else 500) (err_text e))
     | Inr (objs, cont) \<Rightarrow>
         (let items = (if length phases > 1
              then filter (\<lambda>a. phase_str (Phase (Status a)) \<in> set phases) (pick_AgentRequests objs)
              else pick_AgentRequests objs)
          in Ret (writeJSON 200
               (if Query r ''limit'' \<noteq> '''' \<or> Query r ''continue'' \<noteq> ''''
                then PFields [(''items'', FObjects (map OAgentRequest items)), (''continue'', FStr cont)]
                else PObjects (map OAgentRequest items)))))"

definition handleListAgentRequests :: "('priv, 'pub) Server \<Rightarrow> 'b http_request \<Rightarrow> response prog" where
  "handleListAgentRequests s r =
     (if authRequired s \<and> sub_of r = '''' then Ret (writeError 401 (Text ''caller identity required''))
      else (case requested_phases
              (if Query r ''phase'' = '''' then [] else split_on CHR '','' (Query r ''phase'')) [] of
          Inl p \<Rightarrow> Ret (writeError 400 (Sprintf (''invalid phase %q: must be one of '' @ join_with '', '' validPhases) [ArgS p]))
        | Inr phases \<Rightarrow>
            if Query r ''limit'' = '''' then list_requests r phases 0
            else (case ParseInt64 (Query r ''limit'') of
                None \<Rightarrow> Ret (writeError 400 (Text ''invalid limit: must be a positive integer''))
              | Some limit \<Rightarrow>
                  if limit \<le> 0 then Ret (writeError 400 (Text ''invalid limit: must be a positive integer''))
                  else list_requests r phases limit)))"


section \<open>The agent's transitions\<close>

fun cond_str :: "cond_type \<Rightarrow> string" where
  "cond_str ConditionPolicyEvaluated = ''PolicyEvaluated''"
| "cond_str ConditionApproved = ''Approved''"
| "cond_str ConditionLockAcquired = ''LockAcquired''"
| "cond_str ConditionRequiresApproval = ''RequiresApproval''"
| "cond_str ConditionExecuting = ''Executing''"
| "cond_str ConditionCompleted = ''Completed''"
| "cond_str ConditionFailed = ''Failed''"
| "cond_str (ConditionOther t) = t"

type_synonym 'a retry = "'a result prog \<Rightarrow> 'a result prog"

definition set_condition :: "libs \<Rightarrow> objkey \<Rightarrow> Condition \<Rightarrow> unit result prog" where
  "set_condition L key c =
     Get Cached KAgentRequest key (\<lambda>g. case as_AgentRequest g of
       Inl e \<Rightarrow> Ret (Inl e)
     | Inr current \<Rightarrow> setCond L c current (\<lambda>req. patchStatus current req (\<lambda>p. case p of
         Inl e \<Rightarrow> Ret (Inl e) | Inr _ \<Rightarrow> Ret (Inr ()))))"

definition patchAgentRequestCondition ::
  "libs \<Rightarrow> unit retry \<Rightarrow> 'b http_request \<Rightarrow> cond_type \<Rightarrow> string \<Rightarrow> string \<Rightarrow> response prog" where
  "patchAgentRequestCondition L retry r conditionType reason msg =
     bind (retry (set_condition L (request_key r) (mk_cond conditionType CondTrue reason (Text msg)))) (\<lambda>x. case x of
       Inl e \<Rightarrow> Ret (not_found_or e (Sprintf ''failed to update status: %v'' [ArgErr e]))
     | Inr _ \<Rightarrow> Ret (writeJSON 200 (PFields [(''message'',
         FMsg (Sprintf ''successfully patched condition %s'' [ArgS (cond_str conditionType)]))])))"

text \<open>The common body of the two transition handlers.\<close>

definition transition ::
  "libs \<Rightarrow> ('priv, 'pub) Server \<Rightarrow> unit retry \<Rightarrow> 'b http_request \<Rightarrow> phase \<Rightarrow> string \<Rightarrow> cond_type \<Rightarrow> string \<Rightarrow> string \<Rightarrow>
   response prog" where
  "transition L s retry r from conflict conditionType reason msg = (case caller_check s roleAgent r of
       Some resp \<Rightarrow> Ret resp
     | None \<Rightarrow> Get Cached KAgentRequest (request_key r) (\<lambda>g. case as_AgentRequest g of
         Inl e \<Rightarrow> Ret (not_found_or e (err_text e))
       | Inr req \<Rightarrow>
           if authRequired s \<and> AgentIdentity (Spec req) \<noteq> sub_of r
           then Ret (writeError 403 (Text ''forbidden: only the creating agent may transition this request''))
           else if Phase (Status req) \<noteq> from
           then Ret (writeError 409 (Sprintf (''request is in phase %q '' @ em_dash @ conflict)
             [ArgS (phase_str (Phase (Status req)))]))
           else patchAgentRequestCondition L retry r conditionType reason msg))"

definition handleExecutingAgentRequest ::
  "libs \<Rightarrow> ('priv, 'pub) Server \<Rightarrow> unit retry \<Rightarrow> 'b http_request \<Rightarrow> response prog" where
  "handleExecutingAgentRequest L s retry r =
     transition L s retry r PhaseApproved '' can only transition to Executing from Approved''
       ConditionExecuting ''AgentStarted'' ''Agent is now executing action''"

definition handleCompletedAgentRequest ::
  "libs \<Rightarrow> ('priv, 'pub) Server \<Rightarrow> unit retry \<Rightarrow> 'b http_request \<Rightarrow> response prog" where
  "handleCompletedAgentRequest L s retry r =
     transition L s retry r PhaseExecuting '' can only transition to Completed from Executing''
       ConditionCompleted ''ActionSuccess'' ''Agent successfully completed the action''"

record resultBody =
  body_ResultURL :: string
  body_Summary :: string

text \<open>The retried closure; \<open>Some p\<close> when the request is in the wrong phase \<open>p\<close>.\<close>

definition record_result :: "objkey \<Rightarrow> resultBody \<Rightarrow> phase option result prog" where
  "record_result key body =
     Get Direct KAgentRequest key (\<lambda>g. case as_AgentRequest g of
       Inl e \<Rightarrow> Ret (Inl e)
     | Inr current \<Rightarrow>
         if Phase (Status current) \<noteq> PhaseExecuting \<and> Phase (Status current) \<noteq> PhaseCompleted
         then Ret (Inr (Some (Phase (Status current))))
         else patchStatus current (current\<lparr>Status := (Status current)\<lparr>ResultOf :=
             Some \<lparr>ResultURL = body_ResultURL body, ResultSummary = body_Summary body\<rparr>\<rparr>\<rparr>) (\<lambda>p. case p of
           Inl e \<Rightarrow> Ret (Inl e) | Inr _ \<Rightarrow> Ret (Inr None)))"

text \<open>An empty phase leaves \<open>wrongPhase\<close> empty, so the failure is reported as an internal error.\<close>

definition result_response :: "phase option result \<Rightarrow> response" where
  "result_response x = (case x of
       Inl e \<Rightarrow> not_found_or e (Sprintf ''failed to record result: %v'' [ArgErr e])
     | Inr (Some p) \<Rightarrow>
         if phase_str p \<noteq> ''''
         then writeError 409 (Sprintf (''request is in phase %q '' @ em_dash @
           '' result can only be recorded in Executing or Completed'') [ArgS (phase_str p)])
         else not_found_or (Plain ''wrong phase'') (Sprintf ''failed to record result: %v'' [ArgErr (Plain ''wrong phase'')])
     | Inr None \<Rightarrow> writeJSON 200 (PFields [(''status'', FStr ''result recorded'')]))"

definition handlePutAgentRequestResult ::
  "('priv, 'pub) Server \<Rightarrow> phase option retry \<Rightarrow> resultBody http_request \<Rightarrow> response prog" where
  "handlePutAgentRequestResult s retry r = (case caller_check s roleAgent r of
       Some resp \<Rightarrow> Ret resp
     | None \<Rightarrow> (case ReqBody r of
         None \<Rightarrow> Ret (writeError 400 (Text ''invalid request body''))
       | Some body \<Rightarrow>
           if body_ResultURL body = '''' \<or> \<not> starts_with (body_ResultURL body) ''https://'' \<or> length (body_ResultURL body) < 9
           then Ret (writeError 400 (Text ''url must be a valid https URL''))
           else if length (runes_of (body_Summary body)) > 512
           then Ret (writeError 400 (Text ''summary must be at most 512 characters''))
           else Get Direct KAgentRequest (request_key r) (\<lambda>g. case as_AgentRequest g of
               Inl e \<Rightarrow> Ret (not_found_or e (err_text e))
             | Inr req \<Rightarrow>
                 if authRequired s \<and> AgentIdentity (Spec req) \<noteq> sub_of r
                 then Ret (writeError 403 (Text ''forbidden: only the creating agent may record a result''))
                 else bind (retry (record_result (request_key r) body)) (\<lambda>x. Ret (result_response x)))))"


section \<open>Review\<close>

definition errVerdictWrongPhase :: error where
  "errVerdictWrongPhase = Plain ''verdict only allowed in AwaitingVerdict phase''"

record verdictBody =
  body_Verdict :: string
  body_ReasonCode :: string
  body_Note :: string

definition validReasonCodes :: "string list" where
  "validReasonCodes = [''wrong_diagnosis'', ''bad_timing'', ''scope_too_broad'', ''precautionary'', ''policy_block'']"

definition verdict_error :: "verdictBody \<Rightarrow> message option" where
  "verdict_error body =
     (if body_Verdict body \<noteq> verdictCorrect \<and> body_Verdict body \<noteq> verdictIncorrect \<and> body_Verdict body \<noteq> verdictPartial
      then Some (Text ''invalid verdict'')
      else if body_Verdict body \<noteq> verdictCorrect \<and> body_ReasonCode body = ''''
      then Some (Text (''reasonCode is required when verdict is not '' @ [CHR 0x27] @ ''correct'' @ [CHR 0x27]))
      else if body_ReasonCode body \<noteq> '''' \<and> body_ReasonCode body \<notin> set validReasonCodes
      then Some (Sprintf (''invalid reasonCode %q; must be one of: '' @ join_with '', '' validReasonCodes)
        [ArgS (body_ReasonCode body)])
      else None)"

definition quoted :: "string \<Rightarrow> string" where
  "quoted s = [CHR 0x22] @ s @ [CHR 0x22]"

definition record_verdict :: "objkey \<Rightarrow> verdictBody \<Rightarrow> string \<Rightarrow> unit result prog" where
  "record_verdict key body sub =
     Get Cached KAgentRequest key (\<lambda>g. case as_AgentRequest g of
       Inl e \<Rightarrow> Ret (Inl e)
     | Inr agentReq \<Rightarrow>
         if Phase (Status agentReq) \<noteq> PhaseAwaitingVerdict
         then Ret (Inl (Wrapped (''request is in phase '' @ quoted (phase_str (Phase (Status agentReq)))) errVerdictWrongPhase))
         else if Verdict (Status agentReq) \<noteq> ''''
         then Ret (Inl (Wrapped (''request already graded as '' @ quoted (Verdict (Status agentReq))) errVerdictWrongPhase))
         else Now (\<lambda>now. Patch StatusSubresource OptimisticLock (OAgentRequest agentReq)
             (OAgentRequest (agentReq\<lparr>Status := (Status agentReq)\<lparr>Verdict := body_Verdict body,
                VerdictReasonCode := body_ReasonCode body, VerdictNote := body_Note body, VerdictBy := sub,
                VerdictAt := Some now\<rparr>\<rparr>))
             (\<lambda>p. case p of Inl e \<Rightarrow> Ret (Inl e) | Inr _ \<Rightarrow> Ret (Inr ()))))"

definition handleVerdictAgentRequest ::
  "('priv, 'pub) Server \<Rightarrow> unit retry \<Rightarrow> verdictBody http_request \<Rightarrow> response prog" where
  "handleVerdictAgentRequest s retry r = (case caller_check s roleReviewer r of
       Some resp \<Rightarrow> Ret resp
     | None \<Rightarrow> (case ReqBody r of
         None \<Rightarrow> Ret (writeError 400 (Text ''invalid request body''))
       | Some body \<Rightarrow> (case verdict_error body of
           Some msg \<Rightarrow> Ret (writeError 400 msg)
         | None \<Rightarrow> bind (retry (record_verdict (request_key r) body (sub_of r))) (\<lambda>x. case x of
             Inl e \<Rightarrow> Ret (if IsNotFound e then writeError 404 (Text ''AgentRequest not found'')
               else if errors_Is e errVerdictWrongPhase then writeError 409 (err_text e)
               else writeError 500 (Sprintf ''failed to submit verdict: %v'' [ArgErr e]))
           | Inr _ \<Rightarrow> Ret (writeJSON 200 (PFields [(''message'', FStr ''verdict submitted'')]))))))"

text \<open>The body, a reason, counts only when it is declared as JSON; a failing decoder leaves it empty.\<close>

definition body_reason :: "string http_request \<Rightarrow> string" where
  "body_reason r = (if Header r ''Content-Type'' = ''application/json''
     then (case ReqBody r of None \<Rightarrow> '''' | Some reason \<Rightarrow> reason) else '''')"

definition human_reason :: "string \<Rightarrow> string \<Rightarrow> string" where
  "human_reason reason decision =
     (if TrimSpace reason = '''' \<and> decision = ''denied'' then ''denied via dashboard'' else TrimSpace reason)"

definition persist_decision ::
  "('priv, 'pub) Server \<Rightarrow> string http_request \<Rightarrow> string \<Rightarrow> AgentRequest \<Rightarrow> (string \<times> field) list \<Rightarrow> response prog" where
  "persist_decision s r decision agentReq resp =
     (let reviewer = (if sub_of r = '''' then ''unknown (admin)'' else sub_of r);
          req = agentReq\<lparr>Spec := (Spec agentReq)\<lparr>Approval := Some \<lparr>Decision = decision,
            DecisionReason = human_reason (body_reason r) decision,
            ForGeneration = EvaluationGeneration (Status agentReq), ApprovedBy = reviewer\<rparr>\<rparr>\<rparr>
      in Patch MainResource MergeFrom (OAgentRequest agentReq) (OAgentRequest req) (\<lambda>p. case as_AgentRequest p of
           Inl e \<Rightarrow> Ret (writeError 500 (err_text e))
         | Inr stored \<Rightarrow> Ret (writeJSON 200 (PFields (resp @ [(''phase'', FPhase (Phase (Status stored)))])))))"

definition decide ::
  "('priv, 'pub) jwt_lib \<Rightarrow> ('priv, 'pub) Server \<Rightarrow> string http_request \<Rightarrow> string \<Rightarrow> AgentRequest \<Rightarrow> response prog" where
  "decide J s r decision agentReq = (case (if decision = ''approved'' then jwtManager s else None) of
       None \<Rightarrow> persist_decision s r decision agentReq [(''name'', FStr (Name (Meta agentReq)))]
     | Some m \<Rightarrow> Now (\<lambda>now.
         case MintToken J m now (AgentIdentity (Spec agentReq)) (Action (Spec agentReq))
             (URI (TargetOf (Spec agentReq))) (Name (Meta agentReq)) of
           Inl _ \<Rightarrow> Ret (writeJSON 500 (PFields [(''error'', FStr ''approval failed: could not mint token'')]))
         | Inr (token, expiresAt) \<Rightarrow> persist_decision s r decision agentReq
             [(''name'', FStr (Name (Meta agentReq))), (''token'', FStr token), (''token_expires_at'', FTime expiresAt)]))"

definition override_unexplained :: "AgentRequest \<Rightarrow> string \<Rightarrow> string \<Rightarrow> bool" where
  "override_unexplained agentReq decision reason \<longleftrightarrow> decision = ''approved'' \<and>
     (case CPV (Status agentReq) of None \<Rightarrow> False | Some cpv \<Rightarrow> HasActiveEndpoints cpv) \<and> TrimSpace reason = ''''"

definition handleHumanDecision ::
  "('priv, 'pub) jwt_lib \<Rightarrow> ('priv, 'pub) Server \<Rightarrow> string http_request \<Rightarrow> string \<Rightarrow> response prog" where
  "handleHumanDecision J s r decision = (case caller_check s roleReviewer r of
       Some resp \<Rightarrow> Ret resp
     | None \<Rightarrow> Get Cached KAgentRequest (request_key r) (\<lambda>g. case as_AgentRequest g of
         Inl e \<Rightarrow> Ret (writeError 404 (err_text e))
       | Inr agentReq \<Rightarrow>
           if AgentIdentity (Spec agentReq) = sub_of r
           then Ret (writeError 403 (Text ''forbidden: self-approval not permitted''))
           else if Phase (Status agentReq) \<noteq> PhasePending
           then Ret (writeError 409 (Sprintf (''request is in phase %q '' @ em_dash @ '' can only approve/deny when Pending'')
             [ArgS (phase_str (Phase (Status agentReq)))]))
           else if override_unexplained agentReq decision (body_reason r)
           then Ret (writeError 400 (Text (''reason required: control plane verified active endpoints '' @ em_dash @
             '' explain why this override is safe'')))
           else decide J s r decision agentReq))"

definition handleApproveAgentRequest ::
  "('priv, 'pub) jwt_lib \<Rightarrow> ('priv, 'pub) Server \<Rightarrow> string http_request \<Rightarrow> response prog" where
  "handleApproveAgentRequest J s r = handleHumanDecision J s r ''approved''"

definition handleDenyAgentRequest ::
  "('priv, 'pub) jwt_lib \<Rightarrow> ('priv, 'pub) Server \<Rightarrow> string http_request \<Rightarrow> response prog" where
  "handleDenyAgentRequest J s r = handleHumanDecision J s r ''denied''"


section \<open>Credentials of approved requests\<close>

definition ErrOIDCTokenRequired :: error where
  "ErrOIDCTokenRequired =
     Plain ''KubernetesOIDC credential requires OIDC authentication on the gateway (--oidc-issuer-url)''"

text \<open>The body is the requested service; \<open>token_of\<close> resolves a provider with the caller's raw token.\<close>

definition handleGetAgentRequestToken ::
  "(provider \<Rightarrow> string \<Rightarrow> string result prog) \<Rightarrow> ('priv, 'pub) Server \<Rightarrow> string http_request \<Rightarrow> response prog" where
  "handleGetAgentRequestToken token_of s r =
     (case requireRole (roles s) roleAgent (sub_of r) (callerGroups (Ctx r)) of
        Some resp \<Rightarrow> Ret resp
      | None \<Rightarrow> (case ReqBody r of
          None \<Rightarrow> Ret (writeError 400 (Text ''invalid request body''))
        | Some service \<Rightarrow>
            if service = '''' then Ret (writeError 400 (Text ''service is required''))
            else Get Direct KAgentRequest (request_key r) (\<lambda>g. case as_AgentRequest g of
                Inl e \<Rightarrow> Ret (not_found_or e (err_text e))
              | Inr agentReq \<Rightarrow>
                  if AgentIdentity (Spec agentReq) \<noteq> sub_of r
                  then Ret (writeError 403 (Text ''caller does not own this AgentRequest''))
                  else if Phase (Status agentReq) \<noteq> PhaseApproved
                  then Ret (writeError 409 (Text ''AgentRequest is not in Approved state''))
                  else (case Option.bind (regCache s) (\<lambda>c. get_reg c (AgentIdentity (Spec agentReq))) of
                      None \<Rightarrow> Ret (writeError 404 (Text ''no AgentRegistration found for agent''))
                    | Some _ \<Rightarrow> (case Option.bind (regCache s) (\<lambda>c. providerFor c (AgentIdentity (Spec agentReq)) service) of
                        None \<Rightarrow> Ret (writeError 404 (Text ''no credential binding for service''))
                      | Some prov \<Rightarrow> bind (token_of prov (rawOIDCToken (Ctx r))) (\<lambda>t. case t of
                          Inl e \<Rightarrow> Ret (if errors_Is e ErrOIDCTokenRequired then writeError 400 (err_text e)
                            else writeError 500 (Text ''credential resolution failed''))
                        | Inr bearerToken \<Rightarrow> Ret (writeJSON 200 (PFields
                            [(''token'', FStr bearerToken), (''service'', FStr service)]))))))))"


section \<open>Who may change a request\<close>

text \<open>The request the path names was read and shows the agent as its creator.\<close>

definition creator_read ::
  "reader \<Rightarrow> ('priv, 'pub) Server \<Rightarrow> 'b http_request \<Rightarrow> event list \<Rightarrow> AgentRequest \<Rightarrow> bool" where
  "creator_read rd s r h req \<longleftrightarrow> EGet rd KAgentRequest (request_key r) (Inr (OAgentRequest req)) \<in> set h \<and>
     isAgent (roles s) (sub_of r) (callerGroups (Ctx r)) \<and>
     (authRequired s \<longrightarrow> sub_of r \<noteq> '''' \<and> AgentIdentity (Spec req) = sub_of r)"

definition transition_write ::
  "libs \<Rightarrow> ('priv, 'pub) Server \<Rightarrow> 'b http_request \<Rightarrow> phase \<Rightarrow> cond_type \<Rightarrow> event list \<Rightarrow> event \<Rightarrow> bool" where
  "transition_write L s r from ty h e = (case e of
       EPatch sub pk (OAgentRequest b) (OAgentRequest m) _ \<Rightarrow> sub = StatusSubresource \<and> pk = MergeFrom \<and>
         (\<exists>req. creator_read Cached s r h req \<and> Phase (Status req) = from) \<and>
         EGet Cached KAgentRequest (request_key r) (Inr (OAgentRequest b)) \<in> set h \<and>
         (\<exists>t reason msg. m = set_conditions
            (SetStatusCondition L t (Conditions (Status b)) (mk_cond ty CondTrue reason msg)) b)
     | _ \<Rightarrow> is_read e)"

definition result_write ::
  "('priv, 'pub) Server \<Rightarrow> resultBody http_request \<Rightarrow> event list \<Rightarrow> event \<Rightarrow> bool" where
  "result_write s r h e = (case e of
       EPatch sub pk (OAgentRequest b) (OAgentRequest m) _ \<Rightarrow> sub = StatusSubresource \<and> pk = MergeFrom \<and>
         (\<exists>req. creator_read Direct s r h req) \<and>
         EGet Direct KAgentRequest (request_key r) (Inr (OAgentRequest b)) \<in> set h \<and>
         Phase (Status b) \<in> {PhaseExecuting, PhaseCompleted} \<and>
         (\<exists>url summary. starts_with url ''https://'' \<and> length (runes_of summary) \<le> 512 \<and>
            m = b\<lparr>Status := (Status b)\<lparr>ResultOf := Some \<lparr>ResultURL = url, ResultSummary = summary\<rparr>\<rparr>\<rparr>)
     | _ \<Rightarrow> is_read e)"

lemma writes_read [simp]:
  "is_read e \<Longrightarrow> transition_write L s r from ty h e" "is_read e \<Longrightarrow> result_write s r' h e"
  by (cases e; simp add: transition_write_def result_write_def)+

lemma caller_check_None:
  "caller_check s role r = None \<longleftrightarrow> (authRequired s \<longrightarrow> sub_of r \<noteq> '''') \<and>
     has_role (roles s) (sub_of r) (callerGroups (Ctx r)) role"
  by (simp add: caller_check_def requireRole_has_role)

lemma has_role_simps [simp]:
  "has_role rc sub groups roleAgent \<longleftrightarrow> isAgent rc sub groups"
  "has_role rc sub groups roleReviewer \<longleftrightarrow> isReviewer rc sub groups"
  by (simp_all add: has_role_def role_defs)

lemma creator_read_mono: "creator_read rd s r h req \<Longrightarrow> set h \<subseteq> set h' \<Longrightarrow> creator_read rd s r h' req"
  unfolding creator_read_def by blast

lemma set_condition_hist:
  assumes "creator_read Cached s r h req" and "Phase (Status req) = from"
  shows "hist (transition_write L s r from ty) (\<lambda>_ _. True)
    (set_condition L (request_key r) (mk_cond ty CondTrue reason msg)) h"
  using assms
  by (auto simp: set_condition_def setCond_def patchStatus_def Let_def as_AgentRequest_Inr
      transition_write_def split: sum.splits intro!: exI [of _ req] creator_read_mono [OF assms(1)])

lemma transition_hist:
  assumes "retries_on_conflict R"
  shows "hist (transition_write L s r from ty) (\<lambda>_ _. True) (transition L s R r from conflict ty reason msg) []"
proof (cases "caller_check s roleAgent r")
  case None
  have "hist (transition_write L s r from ty) (\<lambda>_ _. True) (patchAgentRequestCondition L R r ty reason msg) h"
    if "creator_read Cached s r h req" "Phase (Status req) = from" for h req
    unfolding patchAgentRequestCondition_def
    by (rule retry_then_hist [OF assms])
      (auto split: sum.splits intro: set_condition_hist creator_read_mono [OF that(1)] that(2))
  then show ?thesis
    using None [unfolded caller_check_None]
    by (auto simp: transition_def None Let_def as_AgentRequest_Inr creator_read_def split: sum.splits)
qed (simp add: transition_def)

lemma record_result_hist:
  assumes "creator_read Direct s r h req" and "starts_with (body_ResultURL body) ''https://''"
    and "length (runes_of (body_Summary body)) \<le> 512"
  shows "hist (result_write s r) (\<lambda>_ _. True) (record_result (request_key r) body) h"
  using assms
  by (auto simp: record_result_def patchStatus_def Let_def as_AgentRequest_Inr result_write_def
      split: sum.splits intro!: exI [of _ req] creator_read_mono [OF assms(1)])

lemma handlePutAgentRequestResult_hist:
  assumes "retries_on_conflict R"
  shows "hist (result_write s r) (\<lambda>_ _. True) (handlePutAgentRequestResult s R r) []"
proof (cases "caller_check s roleAgent r")
  case None
  have "hist (result_write s r) (\<lambda>_ _. True) (bind (R (record_result (request_key r) body)) (\<lambda>x. Ret (result_response x))) h"
    if "creator_read Direct s r h req" "starts_with (body_ResultURL body) ''https://''"
      "length (runes_of (body_Summary body)) \<le> 512" for h req body
    by (rule retry_then_hist [OF assms])
      (auto intro: record_result_hist creator_read_mono [OF that(1)] that(2,3))
  then show ?thesis
    using None [unfolded caller_check_None]
    by (auto simp: handlePutAgentRequestResult_def None Let_def as_AgentRequest_Inr creator_read_def
        split: sum.splits option.splits)
qed (simp add: handlePutAgentRequestResult_def)

text \<open>C10. Only the creating agent moves its request, and only from the right phase.  On every execution,
  whatever the server answers and however often the closures are retried, a write of the executing
  (completed) handler sets just the condition Executing (Completed) on a version of the named request that was
  read, after the request was read in phase Approved (Executing); a write of the result handler sets
  just an https result of bounded length on a version read in phase Executing or Completed; and each is made by a
  caller with the agent role who, with authentication on, is the agent of the request read.\<close>

theorem lifecycle_writes_guarded:
  assumes "retries_on_conflict R" and "retries_on_conflict R'"
  shows "(exec (handleExecutingAgentRequest L s R r) (es1 @ e # es2) x \<longrightarrow>
            transition_write L s r PhaseApproved ConditionExecuting es1 e) \<and>
    (exec (handleCompletedAgentRequest L s R r) (es1 @ e # es2) x \<longrightarrow>
            transition_write L s r PhaseExecuting ConditionCompleted es1 e) \<and>
    (exec (handlePutAgentRequestResult s R' r') (es1 @ e # es2) x \<longrightarrow> result_write s r' es1 e)"
  unfolding handleExecutingAgentRequest_def handleCompletedAgentRequest_def
  by (intro conjI impI)
    (use with_history_sound [OF transition_hist [OF assms(1)]]
       with_history_sound [OF handlePutAgentRequestResult_hist [OF assms(2)]] in \<open>fastforce simp: list_all_iff\<close>)+



section \<open>Who may review a request\<close>

definition decision_write ::
  "('priv, 'pub) Server \<Rightarrow> string http_request \<Rightarrow> string \<Rightarrow> event list \<Rightarrow> event \<Rightarrow> bool" where
  "decision_write s r decision h e = (case e of
       EPatch sub pk (OAgentRequest b) (OAgentRequest m) _ \<Rightarrow> sub = MainResource \<and> pk = MergeFrom \<and>
         isReviewer (roles s) (sub_of r) (callerGroups (Ctx r)) \<and> (authRequired s \<longrightarrow> sub_of r \<noteq> '''') \<and>
         EGet Cached KAgentRequest (request_key r) (Inr (OAgentRequest b)) \<in> set h \<and>
         Phase (Status b) = PhasePending \<and> AgentIdentity (Spec b) \<noteq> sub_of r \<and>
         (\<exists>reason. m = b\<lparr>Spec := (Spec b)\<lparr>Approval := Some \<lparr>Decision = decision, DecisionReason = reason,
            ForGeneration = EvaluationGeneration (Status b),
            ApprovedBy = (if sub_of r = '''' then ''unknown (admin)'' else sub_of r)\<rparr>\<rparr>\<rparr>)
     | _ \<Rightarrow> is_read e)"

definition verdict_write ::
  "('priv, 'pub) Server \<Rightarrow> verdictBody http_request \<Rightarrow> event list \<Rightarrow> event \<Rightarrow> bool" where
  "verdict_write s r h e = (case e of
       EPatch sub pk (OAgentRequest b) (OAgentRequest m) _ \<Rightarrow> sub = StatusSubresource \<and> pk = OptimisticLock \<and>
         isReviewer (roles s) (sub_of r) (callerGroups (Ctx r)) \<and> (authRequired s \<longrightarrow> sub_of r \<noteq> '''') \<and>
         EGet Cached KAgentRequest (request_key r) (Inr (OAgentRequest b)) \<in> set h \<and>
         Phase (Status b) = PhaseAwaitingVerdict \<and> Verdict (Status b) = '''' \<and>
         (\<exists>body now. ReqBody r = Some body \<and> verdict_error body = None \<and>
            m = b\<lparr>Status := (Status b)\<lparr>Verdict := body_Verdict body, VerdictReasonCode := body_ReasonCode body,
              VerdictNote := body_Note body, VerdictBy := sub_of r, VerdictAt := Some now\<rparr>\<rparr>)
     | _ \<Rightarrow> is_read e)"

lemma review_writes_read [simp]:
  "is_read e \<Longrightarrow> decision_write s r decision h e" "is_read e \<Longrightarrow> verdict_write s r' h e"
  by (cases e; simp add: decision_write_def verdict_write_def)+

lemma decide_hist:
  assumes "EGet Cached KAgentRequest (request_key r) (Inr (OAgentRequest b)) \<in> set h"
    and "Phase (Status b) = PhasePending" "AgentIdentity (Spec b) \<noteq> sub_of r"
    and "isReviewer (roles s) (sub_of r) (callerGroups (Ctx r))" "authRequired s \<longrightarrow> sub_of r \<noteq> ''''"
  shows "hist (decision_write s r decision) (\<lambda>_ _. True) (decide J s r decision b) h"
proof -
  have "hist (decision_write s r decision) (\<lambda>_ _. True) (persist_decision s r decision b resp) h'"
    if "set h \<subseteq> set h'" for h' resp
    using assms that
    by (auto simp: persist_decision_def Let_def decision_write_def split: sum.splits)
  then have persist: "hist (decision_write s r decision) (\<lambda>_ _. True) (persist_decision s r decision b resp) (h @ h')" for h' resp
    by simp
  show ?thesis
  proof (cases "if decision = ''approved'' then jwtManager s else None")
    case None
    show ?thesis unfolding decide_def None option.case using persist [of _ "[]"] by simp
  next
    case (Some m)
    show ?thesis
      unfolding decide_def Some option.case by (auto simp: Let_def persist split: sum.splits)
  qed
qed

lemma handleHumanDecision_hist:
  "hist (decision_write s r decision) (\<lambda>_ _. True) (handleHumanDecision J s r decision) []"
proof (cases "caller_check s roleReviewer r")
  case None
  then show ?thesis
    using None [unfolded caller_check_None]
    by (auto simp: handleHumanDecision_def None Let_def as_AgentRequest_Inr split: sum.splits intro!: decide_hist)
qed (simp add: handleHumanDecision_def)

lemma verdict_write_patch:
  assumes "isReviewer (roles s) (sub_of r) (callerGroups (Ctx r))" "authRequired s \<longrightarrow> sub_of r \<noteq> ''''"
    and "EGet Cached KAgentRequest (request_key r) (Inr (OAgentRequest b)) \<in> set h"
    and "Phase (Status b) = PhaseAwaitingVerdict" "Verdict (Status b) = ''''"
    and "ReqBody r = Some body" "verdict_error body = None"
  shows "verdict_write s r h (EPatch StatusSubresource OptimisticLock (OAgentRequest b)
    (OAgentRequest (b\<lparr>Status := (Status b)\<lparr>Verdict := body_Verdict body, VerdictReasonCode := body_ReasonCode body,
       VerdictNote := body_Note body, VerdictBy := sub_of r, VerdictAt := Some now\<rparr>\<rparr>)) p)"
  unfolding verdict_write_def event.case object.case
  by (intro conjI exI [of _ body] exI [of _ now] refl assms)

lemma record_verdict_hist:
  assumes "isReviewer (roles s) (sub_of r) (callerGroups (Ctx r))" "authRequired s \<longrightarrow> sub_of r \<noteq> ''''"
    and "ReqBody r = Some body" "verdict_error body = None"
  shows "hist (verdict_write s r) (\<lambda>_ _. True) (record_verdict (request_key r) body (sub_of r)) h"
  unfolding record_verdict_def monitored.simps Let_def
proof (intro allI impI conjI)
  fix g
  show "verdict_write s r h (EGet Cached KAgentRequest (request_key r) g)" by simp
  show "hist (verdict_write s r) (\<lambda>_ _. True) (case as_AgentRequest g of
       Inl e \<Rightarrow> Ret (Inl e)
     | Inr agentReq \<Rightarrow>
         if Phase (Status agentReq) \<noteq> PhaseAwaitingVerdict
         then Ret (Inl (Wrapped (''request is in phase '' @ quoted (phase_str (Phase (Status agentReq)))) errVerdictWrongPhase))
         else if Verdict (Status agentReq) \<noteq> ''''
         then Ret (Inl (Wrapped (''request already graded as '' @ quoted (Verdict (Status agentReq))) errVerdictWrongPhase))
         else Now (\<lambda>now. Patch StatusSubresource OptimisticLock (OAgentRequest agentReq)
             (OAgentRequest (agentReq\<lparr>Status := (Status agentReq)\<lparr>Verdict := body_Verdict body,
                VerdictReasonCode := body_ReasonCode body, VerdictNote := body_Note body, VerdictBy := sub_of r,
                VerdictAt := Some now\<rparr>\<rparr>))
             (\<lambda>p. case p of Inl e \<Rightarrow> Ret (Inl e) | Inr _ \<Rightarrow> Ret (Inr ()))))
     (h @ [EGet Cached KAgentRequest (request_key r) g])"
    using assms
    by (cases "as_AgentRequest g")
      (auto simp: Let_def as_AgentRequest_Inr intro!: verdict_write_patch split: sum.splits)
qed

lemma handleVerdictAgentRequest_hist:
  assumes "retries_on_conflict R"
  shows "hist (verdict_write s r) (\<lambda>_ _. True) (handleVerdictAgentRequest s R r) []"
proof (cases "caller_check s roleReviewer r")
  case None
  note role = None [unfolded caller_check_None, simplified]
  show ?thesis
    unfolding handleVerdictAgentRequest_def None option.case
    using role by (auto split: option.splits sum.splits intro!: retry_then_hist [OF assms] record_verdict_hist)
qed (simp add: handleVerdictAgentRequest_def)

text \<open>C9. Reviews are guarded.  On every execution a write of the approve and deny handlers records just
  the decision, with its reviewer, on a version of the named request that was read in phase Pending,
  by a caller with the reviewer role who is not the agent of the request.  A write of the verdict handler records
  just the grade, valid and with its reviewer, by a caller with the reviewer role; its patch is locked to
  the version read, which awaits a verdict and has none, so a grade is never replaced.\<close>

theorem reviews_guarded:
  assumes "retries_on_conflict R"
  shows "(exec (handleHumanDecision J s r decision) (es1 @ e # es2) x \<longrightarrow> decision_write s r decision es1 e) \<and>
    (exec (handleVerdictAgentRequest s R r') (es1 @ e # es2) x \<longrightarrow> verdict_write s r' es1 e)"
  by (intro conjI impI)
    (use with_history_sound [OF handleHumanDecision_hist]
       with_history_sound [OF handleVerdictAgentRequest_hist [OF assms]] in \<open>fastforce simp: list_all_iff\<close>)+


section \<open>The token of an approval\<close>

definition token_of_response :: "response \<Rightarrow> string option" where
  "token_of_response resp = (case resp of
       Response _ (PFields fs) \<Rightarrow> (case map_of fs ''token'' of Some (FStr tok) \<Rightarrow> Some tok | _ \<Rightarrow> None)
     | _ \<Rightarrow> None)"

definition decision_recorded :: "event list \<Rightarrow> AgentRequest \<Rightarrow> string \<Rightarrow> bool" where
  "decision_recorded es req decision \<longleftrightarrow>
     (\<exists>m p. EPatch MainResource MergeFrom (OAgentRequest req) (OAgentRequest m) (Inr p) \<in> set es \<and>
        map_option Decision (Approval (Spec m)) = Some decision)"

definition approved_in :: "string http_request \<Rightarrow> event list \<Rightarrow> AgentRequest \<Rightarrow> bool" where
  "approved_in r es req \<longleftrightarrow>
     EGet Cached KAgentRequest (request_key r) (Inr (OAgentRequest req)) \<in> set es \<and>
     Phase (Status req) = PhasePending \<and> AgentIdentity (Spec req) \<noteq> sub_of r \<and>
     decision_recorded es req ''approved''"

definition minted_for :: "('priv, 'pub) jwt_lib \<Rightarrow> ('priv, 'pub) Server \<Rightarrow> AgentRequest \<Rightarrow> string \<Rightarrow> bool" where
  "minted_for J s req tok \<longleftrightarrow> (\<exists>mg now expiry. jwtManager s = Some mg \<and>
     MintToken J mg now (AgentIdentity (Spec req)) (Action (Spec req)) (URI (TargetOf (Spec req))) (Name (Meta req)) =
       Inr (tok, expiry))"

lemma decision_recorded_Cons: "decision_recorded es req decision \<Longrightarrow> decision_recorded (e # es) req decision"
  unfolding decision_recorded_def by auto

lemma token_of_errors [simp]:
  "token_of_response (writeError c msg) = None"
  "token_of_response (writeJSON c (PFields [(''error'', f)])) = None"
  by (simp_all add: token_of_response_def writeError_def writeJSON_def)

lemma persist_token:
  "wlp (persist_decision s r decision req resp) (\<lambda>es x. \<forall>tok. token_of_response x = Some tok \<longrightarrow>
     map_of resp ''token'' = Some (FStr tok) \<and> decision_recorded es req decision)"
  by (auto simp: persist_decision_def Let_def token_of_response_def writeJSON_def writeError_def as_AgentRequest_Inr
      map_add_def decision_recorded_def split: sum.splits option.splits field.splits)

lemma decide_token:
  "wlp (decide J s r decision req) (\<lambda>es x. \<forall>tok. token_of_response x = Some tok \<longrightarrow>
     decision = ''approved'' \<and> decision_recorded es req decision \<and> minted_for J s req tok)"
proof (cases "if decision = ''approved'' then jwtManager s else None")
  case None
  show ?thesis
    unfolding decide_def None option.case by (rule wlp_mono [OF persist_token]) simp
next
  case (Some mg)
  then have mg: "decision = ''approved''" "jwtManager s = Some mg" by (auto split: if_splits)
  show ?thesis
    unfolding decide_def Some option.case wlp.simps
  proof (intro allI)
    fix now
    let ?mint = "MintToken J mg now (AgentIdentity (Spec req)) (Action (Spec req)) (URI (TargetOf (Spec req))) (Name (Meta req))"
    have minted: "minted_for J s req tok" if "?mint = Inr (tok, expiry)" for tok expiry
      using mg(2) that unfolding minted_for_def by blast
    show "wlp (case ?mint of
           Inl _ \<Rightarrow> Ret (writeJSON 500 (PFields [(''error'', FStr ''approval failed: could not mint token'')]))
         | Inr (token, expiresAt) \<Rightarrow> persist_decision s r decision req
             [(''name'', FStr (Name (Meta req))), (''token'', FStr token), (''token_expires_at'', FTime expiresAt)])
        (\<lambda>es x. \<forall>tok. token_of_response x = Some tok \<longrightarrow>
           decision = ''approved'' \<and> decision_recorded (ENow now # es) req decision \<and> minted_for J s req tok)"
      by (cases ?mint)
        (auto simp: mg(1) minted intro: decision_recorded_Cons
          intro!: wlp_mono [OF persist_token])
  qed
qed

text \<open>C11. The token of an approval is bound to what was approved.  When a response of the decision handler
  carries a token, the decision was an approval, recorded in the same execution on a request that was read
  in phase Pending and is not the reviewer's own; and whenever and wherever the token
  validates, it names exactly the agent, the action, the target and the name of that request.\<close>

theorem approval_token_bound:
  fixes J :: "('priv, 'pub) jwt_lib"
  assumes "jwt_scheme J" and "\<forall>mg. jwtManager s = Some mg \<longrightarrow> manager_ok J mg"
    and "exec (handleHumanDecision J s r decision) es resp" and "token_of_response resp = Some tok"
  shows "decision = ''approved'' \<and> (\<exists>req. approved_in r es req \<and>
    (\<forall>m' now cl. ValidateToken J m' now tok = Inr cl \<longrightarrow>
       Subject cl = AgentIdentity (Spec req) \<and> ClaimAction cl = Action (Spec req) \<and>
       Resource cl = URI (TargetOf (Spec req)) \<and> RequestClaim cl = Name (Meta req)))"
proof -
  have "wlp (handleHumanDecision J s r decision) (\<lambda>es x. \<forall>tok. token_of_response x = Some tok \<longrightarrow>
      decision = ''approved'' \<and> (\<exists>req. approved_in r es req \<and> minted_for J s req tok))"
  proof (cases "caller_check s roleReviewer r")
    case None
    have "wlp (decide J s r decision ar) (\<lambda>es x. \<forall>tok. token_of_response x = Some tok \<longrightarrow>
        decision = ''approved'' \<and> (\<exists>req. approved_in r
          (EGet Cached KAgentRequest (request_key r) (Inr (OAgentRequest ar)) # es) req \<and> minted_for J s req tok))"
      if "Phase (Status ar) = PhasePending" "AgentIdentity (Spec ar) \<noteq> sub_of r" for ar
      by (rule wlp_mono [OF decide_token])
        (use that in \<open>auto simp: approved_in_def intro!: exI [of _ ar] intro: decision_recorded_Cons\<close>)
    then show ?thesis
      unfolding handleHumanDecision_def None option.case wlp.simps
      by (auto simp: as_AgentRequest_Inr split: sum.splits)
  next
    case (Some resp)
    then have "token_of_response resp = None"
      by (auto simp: caller_check_def requireRole_def split: if_splits)
    with Some show ?thesis by (simp add: handleHumanDecision_def)
  qed
  from wlpD [OF this assms(3)] assms(4) obtain req where
    req: "decision = ''approved''" "approved_in r es req" "minted_for J s req tok" by blast
  from req(3) obtain mg now expiry where mint: "jwtManager s = Some mg"
      "MintToken J mg now (AgentIdentity (Spec req)) (Action (Spec req)) (URI (TargetOf (Spec req))) (Name (Meta req)) =
         Inr (tok, expiry)"
    unfolding minted_for_def by blast
  have "manager_ok J mg" using assms(2) mint(1) by blast
  note valid = jwt_scheme.minted_validates_iff [OF assms(1) mint(2) this]
  show ?thesis
    using req(1,2) unfolding valid by (intro conjI exI [of _ req]) (simp_all add: token_claims_def)
qed



section \<open>Concrete runs\<close>

definition sample_ar :: "phase \<Rightarrow> AgentRequest" where
  "sample_ar p = sample_request\<lparr>Meta := sample_meta ''req'', Status := sample_status\<lparr>Phase := p\<rparr>\<rparr>"

definition sample_verdict :: verdictBody where
  "sample_verdict = \<lparr>body_Verdict = ''partial'', body_ReasonCode = ''bad_timing'', body_Note = ''''\<rparr>"

definition executing_call :: "response prog" where
  "executing_call = handleExecutingAgentRequest ref_libs sample_server (retry_conflict 5) (sample_http ''bot'' (None :: unit option))"

definition approve_call :: "response prog" where
  "approve_call = handleHumanDecision ref_jwt sample_server (sample_http ''alice'' None) ''approved''"

definition verdict_call :: "response prog" where
  "verdict_call = handleVerdictAgentRequest sample_server (retry_conflict 5) (sample_http ''alice'' (Some sample_verdict))"

definition writes_at :: "nat \<Rightarrow> event list \<Rightarrow> bool" where
  "writes_at n es \<longleftrightarrow> n < length es \<and> \<not> is_read (es ! n)"

lemma exec_at:
  assumes "writes_at n (trace_of E p w)"
  shows "exec p (take n (trace_of E p w) @ trace_of E p w ! n # drop (Suc n) (trace_of E p w)) (result_of E p w)"
  using exec_run [of p E w] assms by (simp add: writes_at_def id_take_nth_drop [symmetric])

theorem lifecycle_writes_guarded_witness:
  "let es = trace_of srv_env executing_call (world 5 [OAgentRequest (sample_ar PhaseApproved)])
   in writes_at 3 es \<and> transition_write ref_libs sample_server (sample_http ''bot'' (None :: unit option))
        PhaseApproved ConditionExecuting (take 3 es) (es ! 3)"
proof -
  have w: "writes_at 3 (trace_of srv_env executing_call (world 5 [OAgentRequest (sample_ar PhaseApproved)]))"
    by code_simp
  show ?thesis
    using w exec_at [OF w] lifecycle_writes_guarded [OF retry_conflict_retries retry_conflict_retries]
    unfolding executing_call_def Let_def by blast
qed

theorem reviews_guarded_witness:
  "let es = trace_of srv_env approve_call (world 5 [OAgentRequest (sample_ar PhasePending)]);
       es' = trace_of srv_env verdict_call (world 5 [OAgentRequest (sample_ar PhaseAwaitingVerdict)])
   in writes_at 2 es \<and> decision_write sample_server (sample_http ''alice'' None) ''approved'' (take 2 es) (es ! 2) \<and>
      writes_at 2 es' \<and> verdict_write sample_server (sample_http ''alice'' (Some sample_verdict)) (take 2 es') (es' ! 2)"
proof -
  have w: "writes_at 2 (trace_of srv_env approve_call (world 5 [OAgentRequest (sample_ar PhasePending)]))"
    "writes_at 2 (trace_of srv_env verdict_call (world 5 [OAgentRequest (sample_ar PhaseAwaitingVerdict)]))"
    by code_simp+
  show ?thesis
    using w exec_at [OF w(1)] exec_at [OF w(2)] reviews_guarded [OF retry_conflict_retries]
    unfolding approve_call_def verdict_call_def Let_def by blast
qed

theorem approval_token_bound_witness:
  "\<exists>tok req. token_of_response (result_of srv_env approve_call (world 5 [OAgentRequest (sample_ar PhasePending)])) = Some tok \<and>
     approved_in (sample_http ''alice'' None)
       (trace_of srv_env approve_call (world 5 [OAgentRequest (sample_ar PhasePending)])) req"
proof -
  let ?w = "world 5 [OAgentRequest (sample_ar PhasePending)]"
  have "token_of_response (result_of srv_env approve_call ?w) \<noteq> None" by code_simp
  then obtain tok where tok: "token_of_response (result_of srv_env approve_call ?w) = Some tok" by blast
  have ok: "\<forall>mg. jwtManager sample_server = Some mg \<longrightarrow> manager_ok ref_jwt mg"
    by (simp add: sample_server_def sample_manager_def manager_ok_def ref_jwt_def)
  from approval_token_bound [OF ref_scheme.jwt_scheme_axioms ok exec_run [of approve_call srv_env ?w, unfolded approve_call_def]]
    tok show ?thesis unfolding approve_call_def by blast
qed


text \<open>An agent whose token subject is only listed in its registration's allowed subjects submits requests under the
  registered identity, but the later handlers compare that identity with the token subject: the agent
  cannot start its own approved request, and the self-approval check does not recognise it.\<close>

definition mapped_server :: "(nat, nat) Server" where
  "mapped_server = sample_server\<lparr>roles := newRoleConfig ''svc'' ''svc'' '''' '''' '''' '''', requireGovernedResource := False,
     regCache := Some (upsert (sample_registration ''r1'' ''bot'' [''svc'']) newRegistrationCache)\<rparr>"

definition svc_http :: "'b option \<Rightarrow> 'b http_request" where
  "svc_http body = (sample_http ''svc'' body)\<lparr>Ctx := background\<lparr>callerSub := ''svc'', callerIssuer := ''https://idp''\<rparr>\<rparr>"

definition creates_for :: "string \<Rightarrow> event \<Rightarrow> bool" where
  "creates_for agent e = (case e of ECreate (OAgentRequest req) _ \<Rightarrow> AgentIdentity (Spec req) = agent | _ \<Rightarrow> False)"

theorem mapped_agent_mistaken:
  "list_ex (creates_for ''bot'') (trace_of srv_env
     (handleCreateAgentRequest ref_libs mapped_server sample_wait [] (svc_http (Some sample_body))) (world 5 []))"
  "status_code (result_of srv_env (handleExecutingAgentRequest ref_libs mapped_server (retry_conflict 5) (svc_http (None :: unit option)))
     (world 5 [OAgentRequest (sample_ar PhaseApproved)])) = 403"
  "status_code (result_of srv_env (handleHumanDecision ref_jwt mapped_server (svc_http None) ''approved'')
     (world 5 [OAgentRequest (sample_ar PhasePending)])) = 200"
  by code_simp+

text \<open>The approval response carries the token while the request is still Pending: the controller has
  neither processed the decision nor taken the lock of the target.\<close>

theorem approval_token_while_pending:
  "let x = result_of srv_env approve_call (world 5 [OAgentRequest (sample_ar PhasePending)])
   in token_of_response x \<noteq> None \<and> (case x of Response c (PFields fs) \<Rightarrow> map_of fs ''phase'' = Some (FPhase PhasePending) | _ \<Rightarrow> False)"
  by code_simp

text \<open>A result for a request whose phase is still empty is refused with an internal error.\<close>

theorem result_before_first_phase:
  "status_code (result_of srv_env (handlePutAgentRequestResult sample_server (retry_conflict 5)
     (sample_http ''bot'' (Some \<lparr>body_ResultURL = ''https://x'', body_Summary = ''''\<rparr>)))
     (world 5 [OAgentRequest (sample_ar PhaseUnset)])) = 500"
  by code_simp

end
