(* ===== verification/Context_Schema.thy ===== *)
theory Context_Schema
  imports Gateway_HTTP
begin

text \<open>
  The context schemas of governed resources: \<open>src/cmd/gateway/schema_validation.go\<close> (which schemas are accepted),
  the evolution checks of \<open>governed_resource_handlers.go\<close> and the type check of policy expressions in
  \<open>cel_validation.go\<close>.

  A decoded JSON object is an association list in the order in which the loops visit it; Go leaves that order open
  and the keys are distinct.  \<open>json.Unmarshal\<close> into a \<open>map[string]any\<close> is the argument \<open>unmarshal\<close>: an
  error, no map (for \<open>null\<close>), or the map.  The CEL and schema libraries are the record \<open>cel_checker\<close>.
\<close>

type_synonym json_map = "(string \<times> json_value) list"

type_synonym unmarshal = "raw_json \<Rightarrow> json_map option result"


section \<open>Which schemas are accepted\<close>

definition allowedSchemaKeywords :: "string list" where
  "allowedSchemaKeywords = [''type'', ''properties'', ''items'', ''required'', ''nullable'', ''description'']"

definition allowedTypes :: "string list" where
  "allowedTypes = [''object'', ''string'', ''integer'', ''number'', ''boolean'', ''array'']"

fun is_JString :: "json_value \<Rightarrow> bool" where
  "is_JString (JString s) \<longleftrightarrow> True"
| "is_JString _ \<longleftrightarrow> False"

definition quote :: "string \<Rightarrow> string" where
  "quote s = [CHR 0x22] @ s @ [CHR 0x22]"

fun required_error :: "nat \<Rightarrow> json_value list \<Rightarrow> error option" where
  "required_error i [] = None"
| "required_error i (v # vs) =
     (if is_JString v then required_error (Suc i) vs
      else Some (Plain (''required['' @ digits i @ ''] must be a string'')))"

text \<open>The checks of one keyword that do not descend into another schema.  The message for a type leaves out
  how the value prints.\<close>

definition keyword_error :: "string \<Rightarrow> json_value \<Rightarrow> error option" where
  "keyword_error k v =
     (if k \<notin> set allowedSchemaKeywords then Some (Plain (''disallowed keyword: '' @ quote k))
      else if k = ''type'' then
        (case v of
           JString t \<Rightarrow> if t \<in> set allowedTypes then None else Some (Plain ''disallowed or invalid type'')
         | _ \<Rightarrow> Some (Plain ''disallowed or invalid type''))
      else if k = ''properties'' then
        (case v of JObject _ \<Rightarrow> None | _ \<Rightarrow> Some (Plain ''properties must be an object''))
      else if k = ''items'' then
        (case v of JObject _ \<Rightarrow> None | _ \<Rightarrow> Some (Plain ''items must be a schema object''))
      else if k = ''required'' then
        (case v of JArray vs \<Rightarrow> required_error 0 vs | _ \<Rightarrow> Some (Plain ''required must be an array of strings''))
      else if k = ''nullable'' then
        (case v of JBool _ \<Rightarrow> None | _ \<Rightarrow> Some (Plain ''nullable must be a boolean''))
      else (case v of JString _ \<Rightarrow> None | _ \<Rightarrow> Some (Plain ''description must be a string'')))"

text \<open>\<open>validate_nested\<close> is the descent of one keyword, \<open>validate_properties\<close> the loop over the properties.\<close>

fun validateSubSchema :: "json_map \<Rightarrow> error option"
  and validate_nested :: "string \<Rightarrow> json_value \<Rightarrow> error option"
  and validate_properties :: "json_map \<Rightarrow> error option" where
  "validateSubSchema [] = None"
| "validateSubSchema ((k, v) # m) = (case keyword_error k v of
       Some e \<Rightarrow> Some e
     | None \<Rightarrow> (case validate_nested k v of Some e \<Rightarrow> Some e | None \<Rightarrow> validateSubSchema m))"
| "validate_nested k (JObject m) =
     (if k = ''properties'' then validate_properties m
      else if k = ''items'' then map_option (Wrapped ''items'') (validateSubSchema m)
      else None)"
| "validate_nested k _ = None"
| "validate_properties [] = None"
| "validate_properties ((name, JObject m) # ps) = (case validateSubSchema m of
       Some e \<Rightarrow> Some (Wrapped (''property '' @ quote name) e)
     | None \<Rightarrow> validate_properties ps)"
| "validate_properties ((name, _) # ps) = Some (Plain (''property '' @ quote name @ '' must be a schema object''))"

definition validateContextSchema :: "unmarshal \<Rightarrow> raw_json \<Rightarrow> error option" where
  "validateContextSchema unmarshal raw = (case unmarshal raw of
       Inl e \<Rightarrow> Some (Wrapped ''invalid JSON'' e)
     | Inr None \<Rightarrow> Some (Plain ''schema must not be null'')
     | Inr (Some m) \<Rightarrow> validateSubSchema m)"

text \<open>The schemas inside a schema, and what each of them must satisfy by itself.\<close>

inductive subschema :: "json_map \<Rightarrow> json_map \<Rightarrow> bool" where
  itself: "subschema m m"
| property: "(''properties'', JObject ps) \<in> set m \<Longrightarrow> (name, JObject m') \<in> set ps \<Longrightarrow>
    subschema m' m'' \<Longrightarrow> subschema m m''"
| items: "(''items'', JObject m') \<in> set m \<Longrightarrow> subschema m' m'' \<Longrightarrow> subschema m m''"

fun is_schema :: "json_value \<Rightarrow> bool" where
  "is_schema (JObject m) \<longleftrightarrow> True"
| "is_schema _ \<longleftrightarrow> False"

definition keyword_ok :: "string \<Rightarrow> json_value \<Rightarrow> bool" where
  "keyword_ok k v \<longleftrightarrow>
     (k = ''type'' \<and> (\<exists>t \<in> set allowedTypes. v = JString t)) \<or>
     (k = ''properties'' \<and> (\<exists>ps. v = JObject ps \<and> (\<forall>p \<in> set ps. is_schema (snd p)))) \<or>
     (k = ''items'' \<and> is_schema v) \<or>
     (k = ''required'' \<and> (\<exists>vs. v = JArray vs \<and> (\<forall>x \<in> set vs. is_JString x))) \<or>
     (k = ''nullable'' \<and> (\<exists>b. v = JBool b)) \<or>
     (k = ''description'' \<and> is_JString v)"

definition schema_ok :: "json_map \<Rightarrow> bool" where
  "schema_ok m \<longleftrightarrow> (\<forall>m'. subschema m m' \<longrightarrow> (\<forall>(k, v) \<in> set m'. keyword_ok k v))"

lemma required_error_None: "required_error i vs = None \<longleftrightarrow> (\<forall>x \<in> set vs. is_JString x)"
  by (induction vs arbitrary: i) auto

lemma is_schema_iff: "is_schema v \<longleftrightarrow> (\<exists>m. v = JObject m)"
  by (cases v) auto

lemma is_JString_iff: "is_JString v \<longleftrightarrow> (\<exists>s. v = JString s)"
  by (cases v) auto

lemma keyword_ok_split:
  "keyword_ok k v \<longleftrightarrow> keyword_error k v = None \<and>
     (k = ''properties'' \<longrightarrow> (\<forall>ps. v = JObject ps \<longrightarrow> (\<forall>p \<in> set ps. is_schema (snd p))))"
  unfolding keyword_ok_def keyword_error_def allowedSchemaKeywords_def
  by (cases v) (auto simp: required_error_None)

text \<open>\<open>schema_ok\<close> by one step of descent.\<close>

lemma schema_ok_iff:
  "schema_ok m \<longleftrightarrow> (\<forall>(k, v) \<in> set m. keyword_ok k v) \<and>
     (\<forall>ps name m'. (''properties'', JObject ps) \<in> set m \<longrightarrow> (name, JObject m') \<in> set ps \<longrightarrow> schema_ok m') \<and>
     (\<forall>m'. (''items'', JObject m') \<in> set m \<longrightarrow> schema_ok m')"
  (is "?l \<longleftrightarrow> ?r")
proof
  show "?l \<Longrightarrow> ?r" unfolding schema_ok_def by (blast intro: subschema.intros)
next
  assume r: ?r
  have "\<forall>(k, v) \<in> set m'. keyword_ok k v" if "subschema m m'" for m'
    using that
  proof cases
    case itself
    with r show ?thesis by blast
  next
    case (property ps name m1)
    with r have "schema_ok m1" by blast
    with property(3) show ?thesis unfolding schema_ok_def by blast
  next
    case (items m1)
    with r have "schema_ok m1" by blast
    with items(2) show ?thesis unfolding schema_ok_def by blast
  qed
  then show ?l unfolding schema_ok_def by blast
qed

definition nested_ok :: "string \<Rightarrow> json_value \<Rightarrow> bool" where
  "nested_ok k v \<longleftrightarrow>
     (k = ''properties'' \<longrightarrow> (\<forall>ps. v = JObject ps \<longrightarrow> (\<forall>p \<in> set ps. \<exists>m. snd p = JObject m \<and> schema_ok m))) \<and>
     (k = ''items'' \<longrightarrow> (\<forall>m. v = JObject m \<longrightarrow> schema_ok m))"

lemma schema_ok_nested:
  "schema_ok m \<longleftrightarrow> (\<forall>(k, v) \<in> set m. keyword_error k v = None \<and> nested_ok k v)"
  by (subst schema_ok_iff) (fastforce simp: keyword_ok_split nested_ok_def is_schema_iff split: prod.splits)

lemma schema_ok_simps [simp]:
  "schema_ok []"
  "schema_ok ((k, v) # m) \<longleftrightarrow> keyword_error k v = None \<and> nested_ok k v \<and> schema_ok m"
  by (simp_all add: schema_ok_nested [of "[]"] schema_ok_nested [of "(k, v) # m"] schema_ok_nested [of m])

lemma nested_ok_simps [simp]:
  "nested_ok k (JObject m) \<longleftrightarrow>
     (k = ''properties'' \<longrightarrow> (\<forall>p \<in> set m. \<exists>m'. snd p = JObject m' \<and> schema_ok m')) \<and>
     (k = ''items'' \<longrightarrow> schema_ok m)"
  "nested_ok k JNull" "nested_ok k (JBool b)" "nested_ok k (JNumber x)" "nested_ok k (JString s)"
  "nested_ok k (JArray vs)"
  by (simp_all add: nested_ok_def)

lemma validateSubSchema_iff:
  shows "validateSubSchema m = None \<longleftrightarrow> schema_ok m"
    and "validate_nested k v = None \<longleftrightarrow> nested_ok k v"
    and "validate_properties ps = None \<longleftrightarrow> (\<forall>p \<in> set ps. \<exists>m. snd p = JObject m \<and> schema_ok m)"
  by (induction m and k v and ps rule: validateSubSchema_validate_nested_validate_properties.induct)
    (auto split: option.splits)

text \<open>C15. The schema validation accepts exactly the schemas in which every schema, at any depth, uses only the
  six keywords, each with a value of its form, whatever the order in which the maps are visited.\<close>

theorem validateContextSchema_iff:
  "validateContextSchema unmarshal raw = None \<longleftrightarrow> (\<exists>m. unmarshal raw = Inr (Some m) \<and> schema_ok m)"
  by (auto simp: validateContextSchema_def validateSubSchema_iff(1) split: sum.splits option.splits)


section \<open>How a schema may change\<close>

definition schema_props :: "unmarshal \<Rightarrow> raw_json \<Rightarrow> json_map" where
  "schema_props unmarshal raw = (case unmarshal raw of
       Inr (Some m) \<Rightarrow> (case map_of m ''properties'' of Some (JObject ps) \<Rightarrow> ps | _ \<Rightarrow> [])
     | _ \<Rightarrow> [])"

text \<open>\<open>field["type"]\<close> of what may not be a map: \<open>nil\<close> unless present.\<close>

definition field_type :: "json_value \<Rightarrow> json_value" where
  "field_type v = (case v of
       JObject f \<Rightarrow> (case map_of f ''type'' of Some t \<Rightarrow> t | None \<Rightarrow> JNull)
     | _ \<Rightarrow> JNull)"

text \<open>Comparing two interface values that both hold a slice, or both a map, panics.\<close>

fun incomparable :: "json_value \<Rightarrow> json_value \<Rightarrow> bool" where
  "incomparable (JArray _) (JArray _) \<longleftrightarrow> True"
| "incomparable (JObject _) (JObject _) \<longleftrightarrow> True"
| "incomparable _ _ \<longleftrightarrow> False"

fun append_only_props :: "json_map \<Rightarrow> json_map \<Rightarrow> error option" where
  "append_only_props [] newProps = None"
| "append_only_props ((k, v) # oldProps) newProps = (case map_of newProps k of
       None \<Rightarrow> Some (Plain (''contextSchema is append-only: field '' @ quote k @ '' was removed''))
     | Some v' \<Rightarrow>
         if incomparable (field_type v) (field_type v') then Some Panic
         else if field_type v \<noteq> field_type v'
         then Some (Plain (''contextSchema is append-only: field '' @ quote k @ '' was removed or changed type''))
         else append_only_props oldProps newProps)"

definition checkContextSchemaAppendOnly ::
  "unmarshal \<Rightarrow> raw_json option \<Rightarrow> raw_json option \<Rightarrow> error option" where
  "checkContextSchemaAppendOnly unmarshal oldSchema newSchema = (case oldSchema of
       None \<Rightarrow> None
     | Some old \<Rightarrow> (case newSchema of
         None \<Rightarrow>
           if schema_props unmarshal old \<noteq> []
           then Some (Plain (''contextSchema is append-only: field '' @ quote ''any'' @ '' was removed''))
           else None
       | Some new \<Rightarrow> append_only_props (schema_props unmarshal old) (schema_props unmarshal new)))"

text \<open>The declared top-level fields of a schema with their types; no schema declares none.\<close>

definition declares :: "unmarshal \<Rightarrow> raw_json option \<Rightarrow> string \<Rightarrow> json_value \<Rightarrow> bool" where
  "declares unmarshal schema k t \<longleftrightarrow>
     (\<exists>raw v. schema = Some raw \<and> map_of (schema_props unmarshal raw) k = Some v \<and> field_type v = t)"

lemma append_only_props_keeps:
  "append_only_props old new = None \<Longrightarrow> (k, v) \<in> set old \<Longrightarrow>
     \<exists>v'. map_of new k = Some v' \<and> field_type v' = field_type v"
  by (induction old) (auto split: option.splits if_splits)

lemma append_only_keeps:
  assumes "checkContextSchemaAppendOnly unmarshal old new = None" and "declares unmarshal old k t"
  shows "declares unmarshal new k t"
proof -
  from assms(2) obtain raw v where old: "old = Some raw" "map_of (schema_props unmarshal raw) k = Some v" "field_type v = t"
    unfolding declares_def by blast
  from old(2) have mem: "(k, v) \<in> set (schema_props unmarshal raw)" by (rule map_of_SomeD)
  with assms(1) old(1) obtain raw' where new: "new = Some raw'"
      "append_only_props (schema_props unmarshal raw) (schema_props unmarshal raw') = None"
    by (cases new) (auto simp: checkContextSchemaAppendOnly_def split: if_splits)
  from append_only_props_keeps [OF new(2) mem] new(1) old(3) show ?thesis
    unfolding declares_def by blast
qed

text \<open>The types of a validated schema are strings, so the comparison does not panic.\<close>

lemma schema_ok_field_type:
  assumes "schema_ok m" and "(''properties'', JObject ps) \<in> set m" and "(k, v) \<in> set ps"
  shows "\<not> incomparable x (field_type v)"
proof -
  from assms have "\<exists>f. v = JObject f \<and> schema_ok f"
    by (induction m) fastforce+
  then obtain f where f: "v = JObject f" "schema_ok f" by blast
  have "t = JNull \<or> is_JString t" if "field_type v = t" for t
  proof (cases "map_of f ''type''")
    case None
    with that f show ?thesis by (simp add: field_type_def)
  next
    case (Some t')
    then have "(''type'', t') \<in> set f" by (rule map_of_SomeD)
    with f(2) have "keyword_error ''type'' t' = None" by (induction f) auto
    then have "is_JString t'"
      by (auto simp: keyword_error_def allowedSchemaKeywords_def split: json_value.splits)
    with Some that f(1) show ?thesis by (simp add: field_type_def)
  qed
  then show ?thesis by (cases x; cases "field_type v") auto
qed

lemma append_only_props_no_panic:
  "(\<And>k v x. map_of new k = Some v \<Longrightarrow> \<not> incomparable x (field_type v)) \<Longrightarrow> append_only_props old new \<noteq> Some Panic"
  by (induction old) (auto split: option.splits if_splits)

lemma append_only_no_panic:
  assumes "\<And>raw. new = Some raw \<Longrightarrow> validateContextSchema unmarshal raw = None"
  shows "checkContextSchemaAppendOnly unmarshal old new \<noteq> Some Panic"
proof (cases new)
  case (Some raw)
  with assms obtain m where m: "unmarshal raw = Inr (Some m)" "schema_ok m"
    by (auto simp: validateContextSchema_def validateSubSchema_iff(1) split: sum.splits option.splits)
  have "\<not> incomparable x (field_type v)" if "map_of (schema_props unmarshal raw) k = Some v" for k v x
    using that schema_ok_field_type [OF m(2)] m(1)
    by (auto simp: schema_props_def dest!: map_of_SomeD split: option.splits json_value.splits)
  then show ?thesis
    using append_only_props_no_panic Some
    by (auto simp: checkContextSchemaAppendOnly_def split: option.splits)
qed (auto simp: checkContextSchemaAppendOnly_def split: option.splits)

text \<open>Only the top level is compared: a field of a nested object may disappear, so an expression that reads it
  stops compiling.\<close>

definition nested_schema :: "json_map \<Rightarrow> json_map" where
  "nested_schema fs = [(''type'', JString ''object''), (''properties'', JObject [(''service'',
     JObject [(''type'', JString ''object''), (''properties'', JObject fs)])])]"

definition nested_unmarshal :: unmarshal where
  "nested_unmarshal raw = Inr (Some (nested_schema
     (if raw = ''old'' then [(''replicas'', JObject [(''type'', JString ''integer'')])] else [])))"

theorem nested_field_removable:
  "validateContextSchema nested_unmarshal ''old'' = None \<and> validateContextSchema nested_unmarshal ''new'' = None \<and>
   checkContextSchemaAppendOnly nested_unmarshal (Some ''old'') (Some ''new'') = None \<and>
   nested_unmarshal ''old'' \<noteq> nested_unmarshal ''new''"
  by code_simp

text \<open>The peers of a governed resource: those with its fetcher and a schema, other than itself.\<close>

fun peers_error :: "unmarshal \<Rightarrow> GovernedResource \<Rightarrow> GovernedResource list \<Rightarrow> error option" where
  "peers_error unmarshal new [] = None"
| "peers_error unmarshal new (gr # grs) =
     (if Name (GRMeta gr) = Name (GRMeta new) then peers_error unmarshal new grs
      else if ContextFetcher gr = ContextFetcher new \<and> ContextSchema gr \<noteq> None then
        (case checkContextSchemaAppendOnly unmarshal (ContextSchema gr) (ContextSchema new) of
           Some e \<Rightarrow> Some (Wrapped (''contextSchema evolution incompatible with GovernedResource '' @
             quote (Name (GRMeta gr))) e)
         | None \<Rightarrow> peers_error unmarshal new grs)
      else peers_error unmarshal new grs)"

definition checkContextSchemaConsistency :: "unmarshal \<Rightarrow> GovernedResource \<Rightarrow> error option prog" where
  "checkContextSchemaConsistency unmarshal new =
     (if ContextFetcher new = ''none'' \<or> ContextSchema new = None then Ret None
      else ListObjects Cached KGovernedResource list_all_objects (\<lambda>l. case l of
          Inl e \<Rightarrow> Ret (Some e)
        | Inr (items, _) \<Rightarrow> Ret (peers_error unmarshal new (pick_GovernedResources items))))"

lemma peers_error_keeps:
  "peers_error unmarshal new grs = None \<Longrightarrow> gr \<in> set grs \<Longrightarrow> Name (GRMeta gr) \<noteq> Name (GRMeta new) \<Longrightarrow>
   ContextFetcher gr = ContextFetcher new \<Longrightarrow> declares unmarshal (ContextSchema gr) k t \<Longrightarrow>
   declares unmarshal (ContextSchema new) k t"
proof (induction grs)
  case (Cons g grs)
  have "ContextSchema gr \<noteq> None" using Cons.prems(5) by (auto simp: declares_def)
  with Cons show ?case
    by (auto split: if_splits option.splits intro: append_only_keeps)
qed simp


section \<open>The type check of policy expressions\<close>

text \<open>What the type check uses of cel-go and the schema packages: the environment with \<open>request\<close> and
  \<open>target\<close>; decoding a schema; the environment that adds \<open>ctxData\<close> with the type of a schema, the errors
  of its steps included; compiling.\<close>

record ('schema, 'env) cel_checker =
  BaseEnv :: "'env result"
  DecodeSchema :: "raw_json \<Rightarrow> 'schema result"
  SchemaEnv :: "'schema \<Rightarrow> 'env result"
  CompileIn :: "'env \<Rightarrow> string \<Rightarrow> error option"

fun policy_env :: "('schema, 'env) cel_checker \<Rightarrow> string \<Rightarrow> 'env \<Rightarrow> GovernedResource list \<Rightarrow> 'env result" where
  "policy_env C ctxType base [] = Inr base"
| "policy_env C ctxType base (gr # grs) = (case ContextSchema gr of
       Some raw \<Rightarrow>
         if ContextFetcher gr = ctxType then
           (case DecodeSchema C raw of
              Inl e \<Rightarrow> Inl (Wrapped (''invalid contextSchema on GovernedResource '' @ quote (Name (GRMeta gr))) e)
            | Inr schema \<Rightarrow> SchemaEnv C schema)
         else policy_env C ctxType base grs
     | None \<Rightarrow> policy_env C ctxType base grs)"

definition rule_errors :: "('schema, 'env) cel_checker \<Rightarrow> 'env \<Rightarrow> Rule list \<Rightarrow> error list" where
  "rule_errors C env rules = List.map_filter (\<lambda>rule. map_option (Wrapped (''rule '' @ quote (RuleNameOf rule)))
     (CompileIn C env (Expression rule))) rules"

fun join_errors :: "error \<Rightarrow> error list \<Rightarrow> error" where
  "join_errors e [] = e"
| "join_errors e (e' # es) = Joined e (join_errors e' es)"

definition validateSafetypolicyCEL ::
  "('schema, 'env) cel_checker \<Rightarrow> SafetyPolicy \<Rightarrow> GovernedResource list \<Rightarrow> error option" where
  "validateSafetypolicyCEL C policy grList = (case BaseEnv C of
       Inl e \<Rightarrow> Some (Wrapped ''failed to create base CEL environment'' e)
     | Inr baseEnv \<Rightarrow>
         (case (if ContextType policy \<noteq> '''' then policy_env C (ContextType policy) baseEnv grList else Inr baseEnv) of
            Inl e \<Rightarrow> Some e
          | Inr env \<Rightarrow> (case rule_errors C env (Rules policy) of
              [] \<Rightarrow> None
            | e # es \<Rightarrow> Some (Wrapped ''CEL type-check failed'' (join_errors e es)))))"

text \<open>The environment the expressions of a policy are checked in.\<close>

definition checking_env ::
  "('schema, 'env) cel_checker \<Rightarrow> SafetyPolicy \<Rightarrow> GovernedResource list \<Rightarrow> 'env \<Rightarrow> bool" where
  "checking_env C policy grs env \<longleftrightarrow>
     (case find (\<lambda>gr. ContextType policy \<noteq> '''' \<and> ContextFetcher gr = ContextType policy \<and> ContextSchema gr \<noteq> None) grs of
        None \<Rightarrow> BaseEnv C = Inr env
      | Some gr \<Rightarrow> \<exists>schema. DecodeSchema C (the (ContextSchema gr)) = Inr schema \<and> SchemaEnv C schema = Inr env)"

lemma policy_env_find:
  "policy_env C ctxType base grs = Inr env \<Longrightarrow>
   (case find (\<lambda>gr. ContextFetcher gr = ctxType \<and> ContextSchema gr \<noteq> None) grs of
      None \<Rightarrow> env = base
    | Some gr \<Rightarrow> \<exists>schema. DecodeSchema C (the (ContextSchema gr)) = Inr schema \<and> SchemaEnv C schema = Inr env)"
  by (induction grs) (auto split: option.splits if_splits sum.splits)

lemma rule_errors_Nil: "rule_errors C env rules = [] \<longleftrightarrow> (\<forall>rule \<in> set rules. CompileIn C env (Expression rule) = None)"
  by (induction rules) (auto simp: rule_errors_def map_filter_def)

lemma find_False: "find (\<lambda>x. False) xs = None"
  by (induction xs) auto

text \<open>An accepted policy compiles: every expression, in the environment of the first governed resource that
  supplies its context, or without one in the base environment.\<close>

lemma accepted_policy_compiles:
  assumes "validateSafetypolicyCEL C policy grs = None"
  shows "\<exists>env. checking_env C policy grs env \<and> (\<forall>rule \<in> set (Rules policy). CompileIn C env (Expression rule) = None)"
proof -
  from assms obtain base env where base: "BaseEnv C = Inr base"
      and env: "(if ContextType policy \<noteq> '''' then policy_env C (ContextType policy) base grs else Inr base) = Inr env"
      and rules: "rule_errors C env (Rules policy) = []"
    by (auto simp: validateSafetypolicyCEL_def split: sum.splits list.splits)
  have "checking_env C policy grs env"
  proof (cases "ContextType policy = ''''")
    case True
    with base env show ?thesis by (simp add: checking_env_def find_False)
  next
    case False
    with env policy_env_find [of C "ContextType policy" base grs env] base show ?thesis
      by (simp add: checking_env_def split: option.splits)
  qed
  with rules show ?thesis by (auto simp: rule_errors_Nil)
qed

end
