(* ===== verification/Gateway_Resources.thy ===== *)
theory Gateway_Resources
  imports Gateway_Lifecycle Context_Schema
begin

text \<open>
  The handlers of the configuration and reporting resources in \<open>src/cmd/gateway\<close>: \<open>governed_resource_handlers.go\<close>,
  \<open>safety_policy_handlers.go\<close>, \<open>agent_graduation_policy_handlers.go\<close>, \<open>agent_registration_handlers.go\<close>,
  \<open>trust_profile_handlers.go\<close>, \<open>audit_handlers.go\<close> and the handlers of \<open>accuracy_handlers.go\<close>, with their
  routes in \<open>main.go\<close>.

  The steps the handlers repeat word for word are shared definitions.  The request carries the value the
  decoder makes of the body; \<open>retry.RetryOnConflict\<close>, JSON decoding and the CEL library are arguments.
\<close>


section \<open>Common steps\<close>

definition admin_check :: "('priv, 'pub) Server \<Rightarrow> 'b http_request \<Rightarrow> response option" where
  "admin_check s r = requireRole (roles s) roleAdmin (sub_of r) (callerGroups (Ctx r))"

definition bad_body :: response where
  "bad_body = writeError 400 (Text ''invalid request body'')"

definition create_failure :: "error \<Rightarrow> response" where
  "create_failure e =
     (if IsAlreadyExists e then writeError 409 (err_text e)
      else if IsInvalid e \<or> IsBadRequest e then writeError 400 (err_text e)
      else writeError 500 (err_text e))"

definition create_object :: "object \<Rightarrow> response prog" where
  "create_object obj = Create obj (\<lambda>c. case c of
       Inl e \<Rightarrow> Ret (create_failure e)
     | Inr created \<Rightarrow> Ret (writeJSON 201 (PObject created)))"

definition missing_or :: "string \<Rightarrow> error \<Rightarrow> response" where
  "missing_or msg e = (if IsNotFound e then writeError 404 (Text msg) else writeError 500 (err_text e))"

text \<open>The client decodes into a variable of the requested kind.\<close>

definition typed :: "kind \<Rightarrow> object result \<Rightarrow> object result" where
  "typed k g = (case g of
       Inl e \<Rightarrow> Inl e
     | Inr obj \<Rightarrow> if kind_of obj = k then Inr obj else Inl decode_error)"

definition get_object :: "kind \<Rightarrow> objkey \<Rightarrow> string \<Rightarrow> response prog" where
  "get_object k key msg = Get Cached k key (\<lambda>g. case typed k g of
       Inl e \<Rightarrow> Ret (missing_or msg e)
     | Inr obj \<Rightarrow> Ret (writeJSON 200 (PObject obj)))"

definition list_objects :: "kind \<Rightarrow> list_options \<Rightarrow> (object list \<Rightarrow> payload) \<Rightarrow> response prog" where
  "list_objects k opts body = ListObjects Cached k opts (\<lambda>l. case l of
       Inl e \<Rightarrow> Ret (writeError 500 (err_text e))
     | Inr (items, _) \<Rightarrow> Ret (writeJSON 200 (body (filter (\<lambda>obj. kind_of obj = k) items))))"

text \<open>A list object, written whole, has its items in a field.\<close>

definition list_payload :: "object list \<Rightarrow> payload" where
  "list_payload items = PFields [(''items'', FObjects items)]"

definition namespaced :: "'b http_request \<Rightarrow> list_options" where
  "namespaced r = list_all_objects\<lparr>InNamespace := query_namespace r\<rparr>"

text \<open>The closure of the replacing handlers.\<close>

definition replace_object ::
  "kind \<Rightarrow> objkey \<Rightarrow> (object result \<Rightarrow> 'o result) \<Rightarrow> ('o \<Rightarrow> object result) \<Rightarrow> object result prog" where
  "replace_object k key decode change = Get Cached k key (\<lambda>g. case decode g of
       Inl e \<Rightarrow> Ret (Inl e)
     | Inr current \<Rightarrow> (case change current of
         Inl e \<Rightarrow> Ret (Inl e)
       | Inr updated \<Rightarrow> Update MainResource updated Ret))"

definition replaced_response :: "(error \<Rightarrow> response) \<Rightarrow> object result \<Rightarrow> response prog" where
  "replaced_response failure x = (case x of
       Inl e \<Rightarrow> Ret (failure e)
     | Inr updated \<Rightarrow> Ret (writeJSON 200 (PObject updated)))"

text \<open>After the delete the object is read again: it remains while finalizers block its removal.\<close>

definition delete_object :: "object \<Rightarrow> kind \<Rightarrow> objkey \<Rightarrow> (error \<Rightarrow> response) \<Rightarrow> response prog" where
  "delete_object obj k key failure = Delete obj None (\<lambda>d. case d of
       Inl e \<Rightarrow> Ret (failure e)
     | Inr _ \<Rightarrow> Get Direct k key (\<lambda>g. case typed k g of
         Inl e \<Rightarrow> Ret (if IsNotFound e then Response 204 NoBody else writeError 500 (err_text e))
       | Inr _ \<Rightarrow> Ret (Response 202 NoBody)))"

definition named_meta :: "objkey \<Rightarrow> ObjectMeta" where
  "named_meta key = empty_meta\<lparr>Namespace := fst key, Name := snd key\<rparr>"

definition with_labels_of :: "ObjectMeta \<Rightarrow> ObjectMeta \<Rightarrow> ObjectMeta" where
  "with_labels_of new current = current\<lparr>Labels := Labels new, Annotations := Annotations new\<rparr>"


section \<open>Governed resources\<close>

definition contextSchema_error :: "unmarshal \<Rightarrow> GovernedResource \<Rightarrow> response option" where
  "contextSchema_error unmarshal gr = (case ContextSchema gr of
       None \<Rightarrow> None
     | Some raw \<Rightarrow> map_option (\<lambda>e. writeError 422 (Sprintf ''invalid contextSchema: %v'' [ArgErr e]))
         (validateContextSchema unmarshal raw))"

definition handleCreateGovernedResource ::
  "unmarshal \<Rightarrow> ('priv, 'pub) Server \<Rightarrow> GovernedResource http_request \<Rightarrow> response prog" where
  "handleCreateGovernedResource unmarshal s r = (case admin_check s r of
       Some resp \<Rightarrow> Ret resp
     | None \<Rightarrow> (case ReqBody r of
         None \<Rightarrow> Ret bad_body
       | Some gr \<Rightarrow> (case contextSchema_error unmarshal gr of
           Some resp \<Rightarrow> Ret resp
         | None \<Rightarrow> bind (checkContextSchemaConsistency unmarshal gr) (\<lambda>c. case c of
             Some e \<Rightarrow> Ret (writeError 409 (err_text e))
           | None \<Rightarrow> create_object (OGovernedResource gr)))))"

definition handleListGovernedResources :: "('priv, 'pub) Server \<Rightarrow> 'b http_request \<Rightarrow> response prog" where
  "handleListGovernedResources s r = (case admin_check s r of
       Some resp \<Rightarrow> Ret resp
     | None \<Rightarrow> list_objects KGovernedResource list_all_objects list_payload)"

definition handleGetGovernedResource :: "('priv, 'pub) Server \<Rightarrow> 'b http_request \<Rightarrow> response prog" where
  "handleGetGovernedResource s r = (case admin_check s r of
       Some resp \<Rightarrow> Ret resp
     | None \<Rightarrow> get_object KGovernedResource ('''', PathName r) ''not found'')"

definition INVALID_EVOLUTION :: string where
  "INVALID_EVOLUTION = ''INVALID_EVOLUTION''"

definition replaced_GovernedResource :: "GovernedResource \<Rightarrow> GovernedResource \<Rightarrow> GovernedResource" where
  "replaced_GovernedResource new current = new\<lparr>GRMeta := with_labels_of (GRMeta new) (GRMeta current)\<rparr>"

definition evolve_GovernedResource :: "unmarshal \<Rightarrow> GovernedResource \<Rightarrow> GovernedResource \<Rightarrow> object result" where
  "evolve_GovernedResource unmarshal new current =
     (case checkContextSchemaAppendOnly unmarshal (ContextSchema current) (ContextSchema new) of
        Some e \<Rightarrow> Inl (Wrapped INVALID_EVOLUTION e)
      | None \<Rightarrow> Inr (OGovernedResource (replaced_GovernedResource new current)))"

text \<open>The marker is recognised in the text of the error, where only the closure puts it.\<close>

definition replace_GovernedResource_failure :: "error \<Rightarrow> response" where
  "replace_GovernedResource_failure e =
     (if IsNotFound e then writeError 404 (Text ''not found'')
      else (case e of
          Wrapped marker e' \<Rightarrow> if marker = INVALID_EVOLUTION then writeError 409 (err_text e') else writeError 500 (err_text e)
        | _ \<Rightarrow> writeError 500 (err_text e)))"

definition handleReplaceGovernedResource ::
  "unmarshal \<Rightarrow> ('priv, 'pub) Server \<Rightarrow> object retry \<Rightarrow> GovernedResource http_request \<Rightarrow> response prog" where
  "handleReplaceGovernedResource unmarshal s retry r = (case admin_check s r of
       Some resp \<Rightarrow> Ret resp
     | None \<Rightarrow> (case ReqBody r of
         None \<Rightarrow> Ret bad_body
       | Some body \<Rightarrow>
           (let newGR = body\<lparr>GRMeta := (GRMeta body)\<lparr>Name := PathName r\<rparr>\<rparr>
            in case contextSchema_error unmarshal newGR of
                 Some resp \<Rightarrow> Ret resp
               | None \<Rightarrow> bind (checkContextSchemaConsistency unmarshal newGR) (\<lambda>c. case c of
                   Some e \<Rightarrow> Ret (writeError 409 (err_text e))
                 | None \<Rightarrow> bind (retry (replace_object KGovernedResource ('''', PathName r) as_GovernedResource
                       (evolve_GovernedResource unmarshal newGR)))
                     (replaced_response replace_GovernedResource_failure)))))"

definition named_GovernedResource :: "string \<Rightarrow> GovernedResource" where
  "named_GovernedResource name = \<lparr>GRMeta = named_meta ('''', name), URIPattern = '''', GRPermittedActions = [],
     PermittedAgents = [], ContextFetcher = '''', ContextSchema = None, Description = '''', SoakMode = False,
     TrustReqs = None\<rparr>"

definition handleDeleteGovernedResource :: "('priv, 'pub) Server \<Rightarrow> 'b http_request \<Rightarrow> response prog" where
  "handleDeleteGovernedResource s r = (case admin_check s r of
       Some resp \<Rightarrow> Ret resp
     | None \<Rightarrow> delete_object (OGovernedResource (named_GovernedResource (PathName r))) KGovernedResource ('''', PathName r)
         (\<lambda>e. if IsNotFound e then writeError 404 (Text ''not found'')
           else if IsConflict e
           then writeError 409 (Text ''active requests are blocking deletion (finalizer present)'')
           else writeError 500 (err_text e)))"


section \<open>Safety policies\<close>

fun as_SafetyPolicy :: "object result \<Rightarrow> SafetyPolicy result" where
  "as_SafetyPolicy (Inr (OSafetyPolicy a)) = Inr a"
| "as_SafetyPolicy (Inl e) = Inl e"
| "as_SafetyPolicy _ = Inl decode_error"

text \<open>Both writing handlers type-check the policy against the governed resources first.\<close>

definition checked_policy ::
  "('schema, 'env) cel_checker \<Rightarrow> SafetyPolicy \<Rightarrow> response prog \<Rightarrow> response prog" where
  "checked_policy C sp proceed = ListObjects Cached KGovernedResource list_all_objects (\<lambda>l. case l of
       Inl e \<Rightarrow> Ret (writeError 500 (err_text e))
     | Inr (items, _) \<Rightarrow> (case validateSafetypolicyCEL C sp (pick_GovernedResources items) of
         Some e \<Rightarrow> Ret (writeError 422 (err_text e))
       | None \<Rightarrow> proceed))"

definition handleCreateSafetyPolicy ::
  "('schema, 'env) cel_checker \<Rightarrow> ('priv, 'pub) Server \<Rightarrow> SafetyPolicy http_request \<Rightarrow> response prog" where
  "handleCreateSafetyPolicy C s r = (case admin_check s r of
       Some resp \<Rightarrow> Ret resp
     | None \<Rightarrow> (case ReqBody r of
         None \<Rightarrow> Ret bad_body
       | Some body \<Rightarrow>
           (let sp = body\<lparr>PolicyMeta := (PolicyMeta body)\<lparr>Namespace := query_namespace r\<rparr>\<rparr>
            in checked_policy C sp (create_object (OSafetyPolicy sp)))))"

definition handleListSafetyPolicies :: "('priv, 'pub) Server \<Rightarrow> 'b http_request \<Rightarrow> response prog" where
  "handleListSafetyPolicies s r = (case admin_check s r of
       Some resp \<Rightarrow> Ret resp
     | None \<Rightarrow> list_objects KSafetyPolicy (namespaced r) list_payload)"

definition handleGetSafetyPolicy :: "('priv, 'pub) Server \<Rightarrow> 'b http_request \<Rightarrow> response prog" where
  "handleGetSafetyPolicy s r = (case admin_check s r of
       Some resp \<Rightarrow> Ret resp
     | None \<Rightarrow> get_object KSafetyPolicy (request_key r) ''not found'')"

definition replaced_SafetyPolicy :: "SafetyPolicy \<Rightarrow> SafetyPolicy \<Rightarrow> SafetyPolicy" where
  "replaced_SafetyPolicy new current = new\<lparr>PolicyMeta := with_labels_of (PolicyMeta new) (PolicyMeta current)\<rparr>"

definition handleReplaceSafetyPolicy ::
  "('schema, 'env) cel_checker \<Rightarrow> ('priv, 'pub) Server \<Rightarrow> object retry \<Rightarrow> SafetyPolicy http_request \<Rightarrow> response prog" where
  "handleReplaceSafetyPolicy C s retry r = (case admin_check s r of
       Some resp \<Rightarrow> Ret resp
     | None \<Rightarrow> (case ReqBody r of
         None \<Rightarrow> Ret bad_body
       | Some newSP \<Rightarrow> checked_policy C newSP
           (bind (retry (replace_object KSafetyPolicy (request_key r) as_SafetyPolicy
               (\<lambda>current. Inr (OSafetyPolicy (replaced_SafetyPolicy newSP current)))))
             (replaced_response (missing_or ''not found'')))))"

definition named_SafetyPolicy :: "objkey \<Rightarrow> SafetyPolicy" where
  "named_SafetyPolicy key = \<lparr>PolicyMeta = named_meta key, GovernedResourceSelector = LabelSelector [] [],
     ContextType = '''', Rules = [], FailureMode = None\<rparr>"

definition handleDeleteSafetyPolicy :: "('priv, 'pub) Server \<Rightarrow> 'b http_request \<Rightarrow> response prog" where
  "handleDeleteSafetyPolicy s r = (case admin_check s r of
       Some resp \<Rightarrow> Ret resp
     | None \<Rightarrow> delete_object (OSafetyPolicy (named_SafetyPolicy (request_key r))) KSafetyPolicy (request_key r)
         (missing_or ''not found''))"


section \<open>Graduation policies\<close>

definition defaultAgentGraduationPolicyName :: string where
  "defaultAgentGraduationPolicyName = ''default''"

definition graduation_name_error :: "string \<Rightarrow> response" where
  "graduation_name_error name = writeError 400 (Sprintf ''AgentGraduationPolicy name must be %q, got %q''
     [ArgS defaultAgentGraduationPolicyName, ArgS name])"

definition name_required :: response where
  "name_required = writeError 400 (Text ''name is required'')"

definition handleCreateAgentGraduationPolicy ::
  "('priv, 'pub) Server \<Rightarrow> AgentGraduationPolicy http_request \<Rightarrow> response prog" where
  "handleCreateAgentGraduationPolicy s r = (case admin_check s r of
       Some resp \<Rightarrow> Ret resp
     | None \<Rightarrow> (case ReqBody r of
         None \<Rightarrow> Ret bad_body
       | Some policy \<Rightarrow>
           if Name (GradMeta policy) \<noteq> '''' \<and> Name (GradMeta policy) \<noteq> defaultAgentGraduationPolicyName
           then Ret (graduation_name_error (Name (GradMeta policy)))
           else create_object (OAgentGraduationPolicy (policy\<lparr>GradMeta := (GradMeta policy)\<lparr>
             Name := defaultAgentGraduationPolicyName, Namespace := query_namespace r\<rparr>\<rparr>))))"

definition handleListAgentGraduationPolicies :: "('priv, 'pub) Server \<Rightarrow> 'b http_request \<Rightarrow> response prog" where
  "handleListAgentGraduationPolicies s r = (case admin_check s r of
       Some resp \<Rightarrow> Ret resp
     | None \<Rightarrow> list_objects KAgentGraduationPolicy (namespaced r) PObjects)"

definition handleGetAgentGraduationPolicy :: "('priv, 'pub) Server \<Rightarrow> 'b http_request \<Rightarrow> response prog" where
  "handleGetAgentGraduationPolicy s r = (case admin_check s r of
       Some resp \<Rightarrow> Ret resp
     | None \<Rightarrow>
         if PathName r = '''' then Ret name_required
         else get_object KAgentGraduationPolicy (request_key r) ''AgentGraduationPolicy not found'')"

definition replaced_AgentGraduationPolicy ::
  "AgentGraduationPolicy \<Rightarrow> AgentGraduationPolicy \<Rightarrow> AgentGraduationPolicy" where
  "replaced_AgentGraduationPolicy new current = new\<lparr>GradMeta := with_labels_of (GradMeta new) (GradMeta current)\<rparr>"

text \<open>The name and namespace the handler sets on the body are not used afterwards.\<close>

definition handleReplaceAgentGraduationPolicy ::
  "('priv, 'pub) Server \<Rightarrow> object retry \<Rightarrow> AgentGraduationPolicy http_request \<Rightarrow> response prog" where
  "handleReplaceAgentGraduationPolicy s retry r = (case admin_check s r of
       Some resp \<Rightarrow> Ret resp
     | None \<Rightarrow>
         if PathName r = '''' then Ret name_required
         else if PathName r \<noteq> defaultAgentGraduationPolicyName then Ret (graduation_name_error (PathName r))
         else (case ReqBody r of
             None \<Rightarrow> Ret bad_body
           | Some newPolicy \<Rightarrow>
               if Name (GradMeta newPolicy) \<noteq> '''' \<and> Name (GradMeta newPolicy) \<noteq> defaultAgentGraduationPolicyName
               then Ret (graduation_name_error (Name (GradMeta newPolicy)))
               else bind (retry (replace_object KAgentGraduationPolicy (request_key r) as_AgentGraduationPolicy
                   (\<lambda>current. Inr (OAgentGraduationPolicy (replaced_AgentGraduationPolicy newPolicy current)))))
                 (replaced_response (missing_or ''AgentGraduationPolicy not found''))))"

definition named_AgentGraduationPolicy :: "objkey \<Rightarrow> AgentGraduationPolicy" where
  "named_AgentGraduationPolicy key = \<lparr>GradMeta = named_meta key, EvaluationWindowCount = 0, AwaitingVerdictTTL = '''',
     Levels = [], Demotion = \<lparr>AccuracyDropThreshold = 0, WindowSize = 0, GracePeriod = ''''\<rparr>\<rparr>"

definition handleDeleteAgentGraduationPolicy :: "('priv, 'pub) Server \<Rightarrow> 'b http_request \<Rightarrow> response prog" where
  "handleDeleteAgentGraduationPolicy s r = (case admin_check s r of
       Some resp \<Rightarrow> Ret resp
     | None \<Rightarrow>
         if PathName r = '''' then Ret name_required
         else delete_object (OAgentGraduationPolicy (named_AgentGraduationPolicy (request_key r))) KAgentGraduationPolicy
           (request_key r) (missing_or ''AgentGraduationPolicy not found''))"


section \<open>Agent registrations\<close>

definition identity_required :: response where
  "identity_required = writeError 400 (Text ''agentIdentity is required'')"

definition handleCreateAgentRegistration ::
  "('priv, 'pub) Server \<Rightarrow> AgentRegistration http_request \<Rightarrow> response prog" where
  "handleCreateAgentRegistration s r = (case admin_check s r of
       Some resp \<Rightarrow> Ret resp
     | None \<Rightarrow> (case ReqBody r of
         None \<Rightarrow> Ret bad_body
       | Some reg \<Rightarrow>
           if RegAgentIdentity (RegSpec reg) = '''' then Ret identity_required
           else create_object (OAgentRegistration (reg\<lparr>RegMeta := (RegMeta reg)\<lparr>Namespace := query_namespace r\<rparr>\<rparr>))))"

text \<open>The check of the handlers that admins and reviewers may call.\<close>

definition staff_check :: "('priv, 'pub) Server \<Rightarrow> 'b http_request \<Rightarrow> response option" where
  "staff_check s r =
     (if authRequired s \<and> sub_of r = '''' then Some (writeError 401 (Text ''caller identity required''))
      else requireAnyRole (roles s) [roleAdmin, roleReviewer] (sub_of r) (callerGroups (Ctx r)))"

definition handleListAgentRegistrations :: "('priv, 'pub) Server \<Rightarrow> 'b http_request \<Rightarrow> response prog" where
  "handleListAgentRegistrations s r = (case staff_check s r of
       Some resp \<Rightarrow> Ret resp
     | None \<Rightarrow> list_objects KAgentRegistration (namespaced r) list_payload)"

definition handleGetAgentRegistration :: "('priv, 'pub) Server \<Rightarrow> 'b http_request \<Rightarrow> response prog" where
  "handleGetAgentRegistration s r = (case staff_check s r of
       Some resp \<Rightarrow> Ret resp
     | None \<Rightarrow> get_object KAgentRegistration (request_key r) ''not found'')"

definition replaced_AgentRegistration :: "AgentRegistration \<Rightarrow> AgentRegistration \<Rightarrow> AgentRegistration" where
  "replaced_AgentRegistration new current =
     current\<lparr>RegMeta := with_labels_of (RegMeta new) (RegMeta current), RegSpec := RegSpec new\<rparr>"

definition handleReplaceAgentRegistration ::
  "('priv, 'pub) Server \<Rightarrow> object retry \<Rightarrow> AgentRegistration http_request \<Rightarrow> response prog" where
  "handleReplaceAgentRegistration s retry r = (case admin_check s r of
       Some resp \<Rightarrow> Ret resp
     | None \<Rightarrow> (case ReqBody r of
         None \<Rightarrow> Ret bad_body
       | Some newReg \<Rightarrow>
           if Name (RegMeta newReg) \<noteq> '''' \<and> Name (RegMeta newReg) \<noteq> PathName r
           then Ret (writeError 400 (Text ''name in body must match name in path''))
           else if RegAgentIdentity (RegSpec newReg) = '''' then Ret identity_required
           else bind (retry (replace_object KAgentRegistration (request_key r) as_AgentRegistration
               (\<lambda>current. Inr (OAgentRegistration (replaced_AgentRegistration newReg current)))))
             (replaced_response (missing_or ''not found''))))"

definition new_registration :: "ObjectMeta \<Rightarrow> AgentRegistrationSpec \<Rightarrow> AgentRegistration" where
  "new_registration m spec = \<lparr>RegMeta = m, RegSpec = spec, RegStatus = \<lparr>RegPhase = '''', RegisteredBy = '''',
     ApprovedServices = [], ApprovedAt = None, RegConditions = []\<rparr>\<rparr>"

definition named_AgentRegistration :: "objkey \<Rightarrow> AgentRegistration" where
  "named_AgentRegistration key = new_registration (named_meta key) \<lparr>RegAgentIdentity = '''', RegMode = '''',
     RequestedServices = [], OIDC = None, ExternalIdentities = []\<rparr>"

definition handleDeleteAgentRegistration :: "('priv, 'pub) Server \<Rightarrow> 'b http_request \<Rightarrow> response prog" where
  "handleDeleteAgentRegistration s r = (case admin_check s r of
       Some resp \<Rightarrow> Ret resp
     | None \<Rightarrow> delete_object (OAgentRegistration (named_AgentRegistration (request_key r))) KAgentRegistration (request_key r)
         (missing_or ''not found''))"

record selfRegisterRequest =
  selfServices :: "string list"
  selfMode :: string

definition self_registration :: "libs \<Rightarrow> request_ctx \<Rightarrow> selfRegisterRequest \<Rightarrow> AgentRegistration" where
  "self_registration L c body = new_registration
     (named_meta (defaultNamespace, RegistrationObjectName L (callerSub c)))
     \<lparr>RegAgentIdentity = callerSub c,
      RegMode = (if selfMode body = '''' then AgentRegistrationModeStanding else selfMode body),
      RequestedServices = selfServices body,
      OIDC = Some \<lparr>Issuer = callerIssuer c, SubjectClaim = '''', AllowedSubjects = []\<rparr>,
      ExternalIdentities = []\<rparr>"

definition handleSelfRegisterAgentRegistration ::
  "libs \<Rightarrow> ('priv, 'pub) Server \<Rightarrow> selfRegisterRequest http_request \<Rightarrow> response prog" where
  "handleSelfRegisterAgentRegistration L s r =
     (if authRequired s \<and> sub_of r = '''' then Ret (writeError 401 (Text ''caller identity required''))
      else if callerIssuer (Ctx r) = '''' then Ret (writeError 400 (Text ''OIDC issuer required for self-registration''))
      else (case requireRole (roles s) roleAgent (sub_of r) (callerGroups (Ctx r)) of
          Some resp \<Rightarrow> Ret resp
        | None \<Rightarrow> (case ReqBody r of
            None \<Rightarrow> Ret bad_body
          | Some body \<Rightarrow>
              if sub_of r = '''' then Ret (writeError 400 (Text ''agent identity not available''))
              else Create (OAgentRegistration (self_registration L (Ctx r) body)) (\<lambda>c. case c of
                  Inl e \<Rightarrow> Ret (if IsAlreadyExists e
                    then writeError 409 (Sprintf ''agent %q is already registered'' [ArgS (sub_of r)])
                    else create_failure e)
                | Inr created \<Rightarrow> Ret (writeJSON 201 (PObject created))))))"


section \<open>Trust profiles, audit records, accuracy\<close>

text \<open>The common checks of the trust profile handlers; the flag says that the caller is an agent only.\<close>

definition profile_reader :: "('priv, 'pub) Server \<Rightarrow> 'b http_request \<Rightarrow> response + bool" where
  "profile_reader s r =
     (let admin = isAdmin (roles s) (sub_of r) (callerGroups (Ctx r));
          reviewer = isReviewer (roles s) (sub_of r) (callerGroups (Ctx r));
          agent = isAgent (roles s) (sub_of r) (callerGroups (Ctx r))
      in if \<not> admin \<and> \<not> reviewer \<and> \<not> agent
         then Inl (writeError 403 (Text ''agent, reviewer, or admin role required''))
         else Inr (\<not> admin \<and> \<not> reviewer \<and> agent))"

fun profile_of :: "string \<Rightarrow> object \<Rightarrow> bool" where
  "profile_of sub (OAgentTrustProfile p) \<longleftrightarrow> ProfileAgentIdentity p = sub"
| "profile_of sub _ \<longleftrightarrow> False"

definition handleListAgentTrustProfiles :: "('priv, 'pub) Server \<Rightarrow> 'b http_request \<Rightarrow> response prog" where
  "handleListAgentTrustProfiles s r =
     (if authRequired s \<and> sub_of r = '''' then Ret (writeError 401 (Text ''caller identity required''))
      else (case profile_reader s r of
          Inl resp \<Rightarrow> Ret resp
        | Inr own \<Rightarrow> list_objects KAgentTrustProfile (namespaced r)
            (\<lambda>items. PObjects (if own then filter (profile_of (sub_of r)) items else items))))"

definition handleGetAgentTrustProfile :: "('priv, 'pub) Server \<Rightarrow> 'b http_request \<Rightarrow> response prog" where
  "handleGetAgentTrustProfile s r =
     (if authRequired s \<and> sub_of r = '''' then Ret (writeError 401 (Text ''caller identity required''))
      else if PathName r = '''' then Ret name_required
      else (case profile_reader s r of
          Inl resp \<Rightarrow> Ret resp
        | Inr own \<Rightarrow> Get Cached KAgentTrustProfile (request_key r) (\<lambda>g. case as_AgentTrustProfile g of
            Inl e \<Rightarrow> Ret (missing_or ''AgentTrustProfile not found'' e)
          | Inr profile \<Rightarrow>
              if own \<and> ProfileAgentIdentity profile \<noteq> sub_of r
              then Ret (writeError 403 (Text (''cannot read another agent'' @ [CHR 0x27] @ ''s trust profile'')))
              else Ret (writeJSON 200 (PObject (OAgentTrustProfile profile))))))"

definition list_audit_records :: "'b http_request \<Rightarrow> int \<Rightarrow> response prog" where
  "list_audit_records r limit =
     ListObjects Cached KAuditRecord ((namespaced r)\<lparr>
         MatchingLabels := (if Query r ''agentRequest'' \<noteq> ''''
           then [(''aip.io/agentRequestRef'', Query r ''agentRequest'')] else []),
         Limit := limit, Continue := Query r ''continue''\<rparr>) (\<lambda>l. case l of
       Inl e \<Rightarrow> Ret (writeError (if IsBadRequest e \<or> IsInvalid e then 400 else 500) (err_text e))
     | Inr (objs, cont) \<Rightarrow>
         (let items = map OAuditRecord (pick_AuditRecords objs)
          in Ret (writeJSON 200
               (if Query r ''limit'' \<noteq> '''' \<or> Query r ''continue'' \<noteq> ''''
                then PFields [(''items'', FObjects items), (''continue'', FStr cont)]
                else PObjects items))))"

definition handleListAuditRecords :: "('priv, 'pub) Server \<Rightarrow> 'b http_request \<Rightarrow> response prog" where
  "handleListAuditRecords s r =
     (if authRequired s \<and> sub_of r = '''' then Ret (writeError 401 (Text ''caller identity required''))
      else if Query r ''limit'' = '''' then list_audit_records r 0
      else (case ParseInt64 (Query r ''limit'') of
          None \<Rightarrow> Ret (writeError 400 (Text ''invalid limit: must be a positive integer''))
        | Some limit \<Rightarrow>
            if limit \<le> 0 then Ret (writeError 400 (Text ''invalid limit: must be a positive integer''))
            else list_audit_records r limit))"

type_synonym summary_order = "(string \<times> DiagnosticAccuracySummary) list \<Rightarrow> (string \<times> DiagnosticAccuracySummary) list"

definition handleRecomputeAccuracy ::
  "libs \<Rightarrow> ('priv, 'pub) Server \<Rightarrow> unit retry \<Rightarrow> summary_order \<Rightarrow> 'b http_request \<Rightarrow> response prog" where
  "handleRecomputeAccuracy L s retry order r = (case caller_check s roleReviewer r of
       Some resp \<Rightarrow> Ret resp
     | None \<Rightarrow> bind (recomputeAccuracyForAgent L retry order (query_namespace r) (Query r ''agentIdentity'')) (\<lambda>x. case x of
         Inl e \<Rightarrow> Ret (writeError 500 (err_text e))
       | Inr _ \<Rightarrow> Ret (writeJSON 200 (PFields [(''message'', FStr ''recomputed accuracy summaries'')]))))"

definition handleListAccuracySummaries :: "('priv, 'pub) Server \<Rightarrow> 'b http_request \<Rightarrow> response prog" where
  "handleListAccuracySummaries s r =
     (if authRequired s \<and> sub_of r = '''' then Ret (writeError 401 (Text ''caller identity required''))
      else list_objects KDiagnosticAccuracySummary (namespaced r) PObjects)"


section \<open>The routes\<close>

datatype resource_call =
    PostGovernedResource "GovernedResource http_request"
  | ListGovernedResources "unit http_request"
  | GetGovernedResource "unit http_request"
  | PutGovernedResource "GovernedResource http_request"
  | DeleteGovernedResource "unit http_request"
  | PostSafetyPolicy "SafetyPolicy http_request"
  | ListSafetyPolicies "unit http_request"
  | GetSafetyPolicy "unit http_request"
  | PutSafetyPolicy "SafetyPolicy http_request"
  | DeleteSafetyPolicy "unit http_request"
  | PostAgentRegistration "AgentRegistration http_request"
  | ListAgentRegistrations "unit http_request"
  | GetAgentRegistration "unit http_request"
  | PutAgentRegistration "AgentRegistration http_request"
  | DeleteAgentRegistration "unit http_request"
  | PostSelfRegistration "selfRegisterRequest http_request"
  | PostAgentGraduationPolicy "AgentGraduationPolicy http_request"
  | ListAgentGraduationPolicies "unit http_request"
  | GetAgentGraduationPolicy "unit http_request"
  | PutAgentGraduationPolicy "AgentGraduationPolicy http_request"
  | DeleteAgentGraduationPolicy "unit http_request"

fun serve_resource ::
  "libs \<Rightarrow> unmarshal \<Rightarrow> ('schema, 'env) cel_checker \<Rightarrow> ('priv, 'pub) Server \<Rightarrow> object retry \<Rightarrow> resource_call \<Rightarrow> response prog" where
  "serve_resource L U C s R (PostGovernedResource r) = handleCreateGovernedResource U s r"
| "serve_resource L U C s R (ListGovernedResources q) = handleListGovernedResources s q"
| "serve_resource L U C s R (GetGovernedResource q) = handleGetGovernedResource s q"
| "serve_resource L U C s R (PutGovernedResource r) = handleReplaceGovernedResource U s R r"
| "serve_resource L U C s R (DeleteGovernedResource q) = handleDeleteGovernedResource s q"
| "serve_resource L U C s R (PostSafetyPolicy p) = handleCreateSafetyPolicy C s p"
| "serve_resource L U C s R (ListSafetyPolicies q) = handleListSafetyPolicies s q"
| "serve_resource L U C s R (GetSafetyPolicy q) = handleGetSafetyPolicy s q"
| "serve_resource L U C s R (PutSafetyPolicy p) = handleReplaceSafetyPolicy C s R p"
| "serve_resource L U C s R (DeleteSafetyPolicy q) = handleDeleteSafetyPolicy s q"
| "serve_resource L U C s R (PostAgentRegistration a) = handleCreateAgentRegistration s a"
| "serve_resource L U C s R (ListAgentRegistrations q) = handleListAgentRegistrations s q"
| "serve_resource L U C s R (GetAgentRegistration q) = handleGetAgentRegistration s q"
| "serve_resource L U C s R (PutAgentRegistration a) = handleReplaceAgentRegistration s R a"
| "serve_resource L U C s R (DeleteAgentRegistration q) = handleDeleteAgentRegistration s q"
| "serve_resource L U C s R (PostSelfRegistration b) = handleSelfRegisterAgentRegistration L s b"
| "serve_resource L U C s R (PostAgentGraduationPolicy g) = handleCreateAgentGraduationPolicy s g"
| "serve_resource L U C s R (ListAgentGraduationPolicies q) = handleListAgentGraduationPolicies s q"
| "serve_resource L U C s R (GetAgentGraduationPolicy q) = handleGetAgentGraduationPolicy s q"
| "serve_resource L U C s R (PutAgentGraduationPolicy g) = handleReplaceAgentGraduationPolicy s R g"
| "serve_resource L U C s R (DeleteAgentGraduationPolicy q) = handleDeleteAgentGraduationPolicy s q"


section \<open>Who may change the configuration\<close>

definition by_admin :: "('priv, 'pub) Server \<Rightarrow> 'b http_request \<Rightarrow> bool" where
  "by_admin s r \<longleftrightarrow> isAdmin (roles s) (sub_of r) (callerGroups (Ctx r))"

text \<open>The schema of a written governed resource is valid, and unless the resource has no fetcher it
  declares, with the same types, every field that the peers listed before declare.\<close>

definition schema_valid :: "unmarshal \<Rightarrow> GovernedResource \<Rightarrow> bool" where
  "schema_valid U gr \<longleftrightarrow> (\<forall>raw. ContextSchema gr = Some raw \<longrightarrow> validateContextSchema U raw = None)"

definition peers_kept :: "unmarshal \<Rightarrow> event list \<Rightarrow> string \<Rightarrow> GovernedResource \<Rightarrow> bool" where
  "peers_kept U h name gr \<longleftrightarrow> ContextSchema gr = None \<or> ContextFetcher gr = ''none'' \<or>
     (\<exists>items cont. EList Cached KGovernedResource list_all_objects (Inr (items, cont)) \<in> set h \<and>
        (\<forall>peer k t. OGovernedResource peer \<in> set items \<longrightarrow> Name (GRMeta peer) \<noteq> name \<longrightarrow>
           ContextFetcher peer = ContextFetcher gr \<longrightarrow> declares U (ContextSchema peer) k t \<longrightarrow>
           declares U (ContextSchema gr) k t))"

definition compiles :: "('schema, 'env) cel_checker \<Rightarrow> event list \<Rightarrow> SafetyPolicy \<Rightarrow> bool" where
  "compiles C h sp \<longleftrightarrow> (\<exists>items cont env. EList Cached KGovernedResource list_all_objects (Inr (items, cont)) \<in> set h \<and>
     checking_env C sp (pick_GovernedResources items) env \<and>
     (\<forall>rule \<in> set (Rules sp). CompileIn C env (Expression rule) = None))"

text \<open>A replacement: a version that was read under the key gets the new spec, labels and annotations and keeps the
  rest of its metadata.\<close>

definition was_read :: "kind \<Rightarrow> objkey \<Rightarrow> object \<Rightarrow> event list \<Rightarrow> bool" where
  "was_read k key obj h \<longleftrightarrow> EGet Cached k key (Inr obj) \<in> set h"

definition gr_update ::
  "unmarshal \<Rightarrow> string \<Rightarrow> GovernedResource \<Rightarrow> event list \<Rightarrow> event \<Rightarrow> bool" where
  "gr_update U name new h e \<longleftrightarrow> schema_valid U new \<and> peers_kept U h name new \<and>
     (\<exists>cur u. was_read KGovernedResource ('''', name) (OGovernedResource cur) h \<and>
        e = EUpdate MainResource (OGovernedResource (replaced_GovernedResource new cur)) u \<and>
        (\<forall>k t. declares U (ContextSchema cur) k t \<longrightarrow> declares U (ContextSchema new) k t))"

definition is_create :: "object \<Rightarrow> event \<Rightarrow> bool" where
  "is_create obj e \<longleftrightarrow> (\<exists>c. e = ECreate obj c)"

definition is_delete :: "object \<Rightarrow> event \<Rightarrow> bool" where
  "is_delete obj e \<longleftrightarrow> (\<exists>d. e = EDelete obj None d)"

definition is_replace :: "kind \<Rightarrow> objkey \<Rightarrow> ('o \<Rightarrow> object) \<Rightarrow> ('o \<Rightarrow> 'o) \<Rightarrow> event list \<Rightarrow> event \<Rightarrow> bool" where
  "is_replace k key wrap change h e \<longleftrightarrow>
     (\<exists>cur u. was_read k key (wrap cur) h \<and> e = EUpdate MainResource (wrap (change cur)) u)"

fun config_write ::
  "libs \<Rightarrow> unmarshal \<Rightarrow> ('schema, 'env) cel_checker \<Rightarrow> ('priv, 'pub) Server \<Rightarrow> resource_call \<Rightarrow> event list \<Rightarrow> event \<Rightarrow> bool" where
  "config_write L U C s (PostGovernedResource r) h e \<longleftrightarrow> by_admin s r \<and> (\<exists>gr. ReqBody r = Some gr \<and>
     schema_valid U gr \<and> peers_kept U h (Name (GRMeta gr)) gr \<and> is_create (OGovernedResource gr) e)"
| "config_write L U C s (PutGovernedResource r) h e \<longleftrightarrow> by_admin s r \<and> (\<exists>body. ReqBody r = Some body \<and>
     gr_update U (PathName r) (body\<lparr>GRMeta := (GRMeta body)\<lparr>Name := PathName r\<rparr>\<rparr>) h e)"
| "config_write L U C s (DeleteGovernedResource q) h e \<longleftrightarrow> by_admin s q \<and>
     is_delete (OGovernedResource (named_GovernedResource (PathName q))) e"
| "config_write L U C s (PostSafetyPolicy p) h e \<longleftrightarrow> by_admin s p \<and> (\<exists>body. ReqBody p = Some body \<and>
     (let sp = body\<lparr>PolicyMeta := (PolicyMeta body)\<lparr>Namespace := query_namespace p\<rparr>\<rparr>
      in compiles C h sp \<and> is_create (OSafetyPolicy sp) e))"
| "config_write L U C s (PutSafetyPolicy p) h e \<longleftrightarrow> by_admin s p \<and> (\<exists>sp. ReqBody p = Some sp \<and> compiles C h sp \<and>
     is_replace KSafetyPolicy (request_key p) OSafetyPolicy (replaced_SafetyPolicy sp) h e)"
| "config_write L U C s (DeleteSafetyPolicy q) h e \<longleftrightarrow> by_admin s q \<and>
     is_delete (OSafetyPolicy (named_SafetyPolicy (request_key q))) e"
| "config_write L U C s (PostAgentRegistration a) h e \<longleftrightarrow> by_admin s a \<and> (\<exists>reg. ReqBody a = Some reg \<and>
     RegAgentIdentity (RegSpec reg) \<noteq> '''' \<and>
     is_create (OAgentRegistration (reg\<lparr>RegMeta := (RegMeta reg)\<lparr>Namespace := query_namespace a\<rparr>\<rparr>)) e)"
| "config_write L U C s (PutAgentRegistration a) h e \<longleftrightarrow> by_admin s a \<and> (\<exists>reg. ReqBody a = Some reg \<and>
     RegAgentIdentity (RegSpec reg) \<noteq> '''' \<and>
     is_replace KAgentRegistration (request_key a) OAgentRegistration (replaced_AgentRegistration reg) h e)"
| "config_write L U C s (DeleteAgentRegistration q) h e \<longleftrightarrow> by_admin s q \<and>
     is_delete (OAgentRegistration (named_AgentRegistration (request_key q))) e"
| "config_write L U C s (PostSelfRegistration b) h e \<longleftrightarrow> isAgent (roles s) (sub_of b) (callerGroups (Ctx b)) \<and>
     sub_of b \<noteq> '''' \<and> callerIssuer (Ctx b) \<noteq> '''' \<and>
     (\<exists>body. ReqBody b = Some body \<and> is_create (OAgentRegistration (self_registration L (Ctx b) body)) e)"
| "config_write L U C s (PostAgentGraduationPolicy g) h e \<longleftrightarrow> by_admin s g \<and> (\<exists>p. ReqBody g = Some p \<and>
     is_create (OAgentGraduationPolicy (p\<lparr>GradMeta := (GradMeta p)\<lparr>
       Name := defaultAgentGraduationPolicyName, Namespace := query_namespace g\<rparr>\<rparr>)) e)"
| "config_write L U C s (PutAgentGraduationPolicy g) h e \<longleftrightarrow> by_admin s g \<and>
     PathName g = defaultAgentGraduationPolicyName \<and> (\<exists>p. ReqBody g = Some p \<and>
     is_replace KAgentGraduationPolicy (request_key g) OAgentGraduationPolicy (replaced_AgentGraduationPolicy p) h e)"
| "config_write L U C s (DeleteAgentGraduationPolicy q) h e \<longleftrightarrow> by_admin s q \<and>
     is_delete (OAgentGraduationPolicy (named_AgentGraduationPolicy (request_key q))) e"
| "config_write L U C s _ h e \<longleftrightarrow> False"

abbreviation allowed_write where
  "allowed_write W h e \<equiv> is_read e \<or> W h e"

lemma admin_check_None [simp]: "admin_check s r = None \<longleftrightarrow> by_admin s r"
  by (simp add: admin_check_def by_admin_def)

lemma as_Inr:
  "as_GovernedResource g = Inr gr \<longleftrightarrow> g = Inr (OGovernedResource gr)"
  "as_SafetyPolicy g = Inr sp \<longleftrightarrow> g = Inr (OSafetyPolicy sp)"
  "as_AgentRegistration g = Inr reg \<longleftrightarrow> g = Inr (OAgentRegistration reg)"
  "as_AgentGraduationPolicy g = Inr pol \<longleftrightarrow> g = Inr (OAgentGraduationPolicy pol)"
  subgoal by (cases g rule: as_GovernedResource.cases) auto
  subgoal by (cases g rule: as_SafetyPolicy.cases) auto
  subgoal by (cases g rule: as_AgentRegistration.cases) auto
  subgoal by (cases g rule: as_AgentGraduationPolicy.cases) auto
  done

lemma pick_GovernedResources_set: "gr \<in> set (pick_GovernedResources items) \<longleftrightarrow> OGovernedResource gr \<in> set items"
  by (induction items rule: pick_GovernedResources.induct) auto

text \<open>The shared steps against a monitor of the history.\<close>

lemma reading_hist:
  assumes "\<And>h e. is_read e \<Longrightarrow> W h e"
  shows "hist W (\<lambda>_ _. True) (list_objects k opts body) h" "hist W (\<lambda>_ _. True) (get_object k key msg) h"
  using assms by (auto simp: list_objects_def get_object_def Let_def split: sum.splits)

lemma create_object_hist:
  assumes "\<And>c. W h (ECreate obj c)"
  shows "hist (allowed_write W) (\<lambda>_ _. True) (create_object obj) h"
  using assms by (auto simp: create_object_def Let_def split: sum.splits)

lemma delete_object_hist:
  assumes "\<And>d. W h (EDelete obj None d)"
  shows "hist (allowed_write W) (\<lambda>_ _. True) (delete_object obj k key failure) h"
  using assms by (auto simp: delete_object_def Let_def split: sum.splits)

lemma replace_object_hist:
  assumes "retries_on_conflict R"
    and "\<And>g cur upd u h'. decode g = Inr cur \<Longrightarrow> change cur = Inr upd \<Longrightarrow> set h \<subseteq> set h' \<Longrightarrow>
      EGet Cached k key g \<in> set h' \<Longrightarrow> W h' (EUpdate MainResource upd u)"
  shows "hist (allowed_write W) (\<lambda>_ _. True) (bind (R (replace_object k key decode change)) (replaced_response failure)) h"
proof (rule retry_then_hist [OF assms(1)])
  fix h' assume "set h \<subseteq> set h'"
  then show "hist (allowed_write W) (\<lambda>_ _. True) (replace_object k key decode change) h'"
    by (auto simp: replace_object_def Let_def intro!: assms(2) split: sum.splits)
qed (simp add: replaced_response_def split: sum.splits)


lemma consistency_hist:
  assumes "\<And>h'. set h \<subseteq> set h' \<Longrightarrow> peers_kept U h' (Name (GRMeta gr)) gr \<Longrightarrow> hist (allowed_write W) (\<lambda>_ _. True) p h'"
  shows "hist (allowed_write W) (\<lambda>_ _. True) (bind (checkContextSchemaConsistency U gr) (\<lambda>c. case c of
      Some e \<Rightarrow> Ret (f e) | None \<Rightarrow> p)) h"
proof (cases "ContextFetcher gr = ''none'' \<or> ContextSchema gr = None")
  case True
  then have "peers_kept U h (Name (GRMeta gr)) gr" by (auto simp: peers_kept_def)
  with True assms [of h] show ?thesis by (simp add: checkContextSchemaConsistency_def)
next
  case False
  have "peers_kept U (h @ [EList Cached KGovernedResource list_all_objects (Inr (items, cont))]) (Name (GRMeta gr)) gr"
    if "peers_error U gr (pick_GovernedResources items) = None" for items cont
    unfolding peers_kept_def
    by (intro disjI2 exI [of _ items] exI [of _ cont] conjI allI impI)
      (simp, rule peers_error_keeps [OF that], simp_all add: pick_GovernedResources_set)
  then have "hist (allowed_write W) (\<lambda>_ _. True) p
      (h @ [EList Cached KGovernedResource list_all_objects (Inr (items, cont))])"
    if "peers_error U gr (pick_GovernedResources items) = None" for items cont
    using that by (intro assms) auto
  with False show ?thesis
    by (auto simp: checkContextSchemaConsistency_def Let_def split: sum.splits option.splits)
qed

lemma checked_policy_hist:
  assumes "\<And>h'. set h \<subseteq> set h' \<Longrightarrow> compiles C h' sp \<Longrightarrow> hist (allowed_write W) (\<lambda>_ _. True) p h'"
  shows "hist (allowed_write W) (\<lambda>_ _. True) (checked_policy C sp p) h"
proof -
  have "compiles C (h @ [EList Cached KGovernedResource list_all_objects (Inr (items, cont))]) sp"
    if "validateSafetypolicyCEL C sp (pick_GovernedResources items) = None" for items cont
  proof -
    from accepted_policy_compiles [OF that] obtain env where
      "checking_env C sp (pick_GovernedResources items) env \<and> (\<forall>rule \<in> set (Rules sp). CompileIn C env (Expression rule) = None)"
      by blast
    then show ?thesis
      unfolding compiles_def by (intro exI [of _ items] exI [of _ cont] exI [of _ env]) simp
  qed
  then have "hist (allowed_write W) (\<lambda>_ _. True) p
      (h @ [EList Cached KGovernedResource list_all_objects (Inr (items, cont))])"
    if "validateSafetypolicyCEL C sp (pick_GovernedResources items) = None" for items cont
    using that by (intro assms) auto
  then show ?thesis
    by (simp add: checked_policy_def Let_def split: sum.splits option.splits)
qed

lemma contextSchema_error_None: "contextSchema_error U gr = None \<longleftrightarrow> schema_valid U gr"
  by (auto simp: contextSchema_error_def schema_valid_def split: option.splits)

lemma peers_kept_mono: "peers_kept U h name gr \<Longrightarrow> set h \<subseteq> set h' \<Longrightarrow> peers_kept U h' name gr"
  unfolding peers_kept_def by blast

lemma compiles_mono: "compiles C h sp \<Longrightarrow> set h \<subseteq> set h' \<Longrightarrow> compiles C h' sp"
  unfolding compiles_def by blast

lemma gr_updateI:
  assumes "schema_valid U new" and "peers_kept U h name new" and "was_read KGovernedResource ('''', name) (OGovernedResource cur) h"
    and "evolve_GovernedResource U new cur = Inr upd"
  shows "gr_update U name new h (EUpdate MainResource upd u)"
proof -
  from assms(4) have "checkContextSchemaAppendOnly U (ContextSchema cur) (ContextSchema new) = None"
    and upd: "upd = OGovernedResource (replaced_GovernedResource new cur)"
    by (auto simp: evolve_GovernedResource_def split: option.splits)
  from append_only_keeps [OF this(1)] assms(1-3) show ?thesis
    unfolding gr_update_def upd by blast
qed

lemma is_replaceI:
  "EGet Cached k key (Inr (wrap cur)) \<in> set h \<Longrightarrow> is_replace k key wrap change h (EUpdate MainResource (wrap (change cur)) u)"
  unfolding is_replace_def was_read_def by blast

lemmas governed_resource_handlers = handleCreateGovernedResource_def handleListGovernedResources_def
  handleGetGovernedResource_def handleReplaceGovernedResource_def handleDeleteGovernedResource_def

lemmas safety_policy_handlers = handleCreateSafetyPolicy_def handleListSafetyPolicies_def
  handleGetSafetyPolicy_def handleReplaceSafetyPolicy_def handleDeleteSafetyPolicy_def

lemmas registration_handlers = handleCreateAgentRegistration_def handleListAgentRegistrations_def
  handleGetAgentRegistration_def handleReplaceAgentRegistration_def handleDeleteAgentRegistration_def
  handleSelfRegisterAgentRegistration_def

lemmas graduation_policy_handlers = handleCreateAgentGraduationPolicy_def handleListAgentGraduationPolicies_def
  handleGetAgentGraduationPolicy_def handleReplaceAgentGraduationPolicy_def handleDeleteAgentGraduationPolicy_def

lemma PutGovernedResource_hist:
  assumes "retries_on_conflict R"
  shows "hist (allowed_write (config_write L U C s (PutGovernedResource r))) (\<lambda>_ _. True)
    (handleReplaceGovernedResource U s R r) h"
proof (cases "by_admin s r")
  case True
  then have admin: "admin_check s r = None" by simp
  show ?thesis
  proof (cases "ReqBody r")
    case None
    then show ?thesis by (simp add: handleReplaceGovernedResource_def admin)
  next
    case (Some body)
    let ?new = "body\<lparr>GRMeta := (GRMeta body)\<lparr>Name := PathName r\<rparr>\<rparr>"
    show ?thesis
    proof (cases "contextSchema_error U ?new")
      case None
      then have valid: "schema_valid U ?new" by (simp add: contextSchema_error_None)
      have "hist (allowed_write (config_write L U C s (PutGovernedResource r))) (\<lambda>_ _. True)
          (bind (R (replace_object KGovernedResource ('''', PathName r) as_GovernedResource (evolve_GovernedResource U ?new)))
            (replaced_response replace_GovernedResource_failure)) h'"
        if kept: "peers_kept U h' (Name (GRMeta ?new)) ?new" for h'
        by (rule replace_object_hist [OF assms])
          (use True Some valid kept in \<open>auto simp: as_Inr was_read_def intro!: gr_updateI intro: peers_kept_mono\<close>)
      then show ?thesis
        unfolding handleReplaceGovernedResource_def admin Some option.case Let_def None
        by (intro consistency_hist)
    qed (simp add: handleReplaceGovernedResource_def admin Some Let_def)
  qed
qed (auto simp: handleReplaceGovernedResource_def split: option.splits)

lemma governed_resource_hist:
  "hist (allowed_write (config_write L U C s (PostGovernedResource r))) (\<lambda>_ _. True) (handleCreateGovernedResource U s r) h"
  "hist (allowed_write (config_write L U C s (ListGovernedResources q))) (\<lambda>_ _. True) (handleListGovernedResources s q) h"
  "hist (allowed_write (config_write L U C s (GetGovernedResource q))) (\<lambda>_ _. True) (handleGetGovernedResource s q) h"
  "hist (allowed_write (config_write L U C s (DeleteGovernedResource q))) (\<lambda>_ _. True) (handleDeleteGovernedResource s q) h"
  unfolding governed_resource_handlers
  by (auto split: option.splits simp: contextSchema_error_None is_create_def is_delete_def
      intro!: reading_hist consistency_hist create_object_hist delete_object_hist)

lemma safety_policy_hist:
  assumes "retries_on_conflict R"
  shows "hist (allowed_write (config_write L U C s (PostSafetyPolicy p))) (\<lambda>_ _. True) (handleCreateSafetyPolicy C s p) h"
    "hist (allowed_write (config_write L U C s (ListSafetyPolicies q))) (\<lambda>_ _. True) (handleListSafetyPolicies s q) h"
    "hist (allowed_write (config_write L U C s (GetSafetyPolicy q))) (\<lambda>_ _. True) (handleGetSafetyPolicy s q) h"
    "hist (allowed_write (config_write L U C s (PutSafetyPolicy p))) (\<lambda>_ _. True) (handleReplaceSafetyPolicy C s R p) h"
    "hist (allowed_write (config_write L U C s (DeleteSafetyPolicy q))) (\<lambda>_ _. True) (handleDeleteSafetyPolicy s q) h"
  unfolding safety_policy_handlers
  by (auto split: option.splits simp: is_create_def is_delete_def as_Inr Let_def
      intro!: reading_hist checked_policy_hist create_object_hist delete_object_hist replace_object_hist [OF assms] is_replaceI
      intro: compiles_mono)

lemma registration_hist:
  assumes "retries_on_conflict R"
  shows "hist (allowed_write (config_write L U C s (PostAgentRegistration a))) (\<lambda>_ _. True) (handleCreateAgentRegistration s a) h"
    "hist (allowed_write (config_write L U C s (ListAgentRegistrations q))) (\<lambda>_ _. True) (handleListAgentRegistrations s q) h"
    "hist (allowed_write (config_write L U C s (GetAgentRegistration q))) (\<lambda>_ _. True) (handleGetAgentRegistration s q) h"
    "hist (allowed_write (config_write L U C s (PutAgentRegistration a))) (\<lambda>_ _. True) (handleReplaceAgentRegistration s R a) h"
    "hist (allowed_write (config_write L U C s (DeleteAgentRegistration q))) (\<lambda>_ _. True) (handleDeleteAgentRegistration s q) h"
    "hist (allowed_write (config_write L U C s (PostSelfRegistration b))) (\<lambda>_ _. True)
       (handleSelfRegisterAgentRegistration L s b) h"
  unfolding registration_handlers
  by (auto split: option.splits sum.splits simp: is_create_def is_delete_def as_Inr Let_def
      intro!: reading_hist create_object_hist delete_object_hist replace_object_hist [OF assms] is_replaceI)

lemma graduation_policy_hist:
  assumes "retries_on_conflict R"
  shows "hist (allowed_write (config_write L U C s (PostAgentGraduationPolicy g))) (\<lambda>_ _. True)
      (handleCreateAgentGraduationPolicy s g) h"
    "hist (allowed_write (config_write L U C s (ListAgentGraduationPolicies q))) (\<lambda>_ _. True)
      (handleListAgentGraduationPolicies s q) h"
    "hist (allowed_write (config_write L U C s (GetAgentGraduationPolicy q))) (\<lambda>_ _. True)
      (handleGetAgentGraduationPolicy s q) h"
    "hist (allowed_write (config_write L U C s (PutAgentGraduationPolicy g))) (\<lambda>_ _. True)
      (handleReplaceAgentGraduationPolicy s R g) h"
    "hist (allowed_write (config_write L U C s (DeleteAgentGraduationPolicy q))) (\<lambda>_ _. True)
      (handleDeleteAgentGraduationPolicy s q) h"
  unfolding graduation_policy_handlers
  by (auto split: option.splits simp: is_create_def is_delete_def as_Inr Let_def
      intro!: reading_hist create_object_hist delete_object_hist replace_object_hist [OF assms] is_replaceI)

lemma serve_resource_hist:
  assumes "retries_on_conflict R"
  shows "hist (allowed_write (config_write L U C s call)) (\<lambda>_ _. True) (serve_resource L U C s R call) h"
  by (cases call)
    (simp_all only: serve_resource.simps PutGovernedResource_hist [OF assms] governed_resource_hist
      safety_policy_hist [OF assms] registration_hist [OF assms] graduation_policy_hist [OF assms])

text \<open>C12. The configuration changes only as its rules say.  On every execution of a configuration route, whatever the
  server answers and however often a closure is retried, each write is the one its route allows: by a caller with
  the admin role, to the object the path names, the reading routes making none.  A written governed resource has a valid
  schema that keeps, with their types, the fields of the version read and of its listed peers; the expressions
  of a written policy all compile against the listed resources; a graduation policy is named default.  Only
  self-registration is open to agents, and creates just the registration of the caller's own identity and
  issuer.\<close>

theorem configuration_writes_guarded:
  assumes "retries_on_conflict R" and "exec (serve_resource L U C s R call) (es1 @ e # es2) x"
  shows "is_read e \<or> config_write L U C s call es1 e"
  using with_history_sound [OF serve_resource_hist [OF assms(1), where h = "[]"] assms(2)] by (simp add: list_all_iff)


section \<open>Who may read trust profiles\<close>

definition shown :: "response \<Rightarrow> object list" where
  "shown resp = (case resp of Response _ (PObject obj) \<Rightarrow> [obj] | Response _ (PObjects objs) \<Rightarrow> objs | _ \<Rightarrow> [])"

lemma shown_simps [simp]:
  "shown (writeError c msg) = []" "shown (writeJSON c (PObject obj)) = [obj]" "shown (writeJSON c (PObjects objs)) = objs"
  by (simp_all add: shown_def writeError_def writeJSON_def)

definition may_see :: "('priv, 'pub) Server \<Rightarrow> 'b http_request \<Rightarrow> object \<Rightarrow> bool" where
  "may_see s r obj \<longleftrightarrow> (authRequired s \<longrightarrow> sub_of r \<noteq> '''') \<and>
     (isAdmin (roles s) (sub_of r) (callerGroups (Ctx r)) \<or> isReviewer (roles s) (sub_of r) (callerGroups (Ctx r)) \<or>
      isAgent (roles s) (sub_of r) (callerGroups (Ctx r)) \<and> profile_of (sub_of r) obj)"

lemma trust_profiles_wlp:
  "wlp (handleListAgentTrustProfiles s r) (\<lambda>_ x. \<forall>obj \<in> set (shown x). may_see s r obj)"
  "wlp (handleGetAgentTrustProfile s r) (\<lambda>_ x. \<forall>obj \<in> set (shown x). may_see s r obj)"
  by (auto simp: handleListAgentTrustProfiles_def handleGetAgentTrustProfile_def profile_reader_def list_objects_def
      Let_def may_see_def missing_or_def name_required_def split: sum.splits)

text \<open>C14. Agents see only their own trust profile.  Whatever the server answers, the profiles in a response of the
  two trust profile handlers all belong to the caller, unless the caller is an admin or a reviewer; and a
  caller with no role, or with authentication on no identity, is shown none.\<close>

theorem trust_profiles_private:
  assumes "exec (handleListAgentTrustProfiles s r) es x \<or> exec (handleGetAgentTrustProfile s r) es x"
    and "obj \<in> set (shown x)"
  shows "(authRequired s \<longrightarrow> sub_of r \<noteq> '''') \<and>
    (isAdmin (roles s) (sub_of r) (callerGroups (Ctx r)) \<or> isReviewer (roles s) (sub_of r) (callerGroups (Ctx r)) \<or>
     isAgent (roles s) (sub_of r) (callerGroups (Ctx r)) \<and> profile_of (sub_of r) obj)"
  using assms trust_profiles_wlp [of s r] unfolding may_see_def wlp_iff by blast



section \<open>Concrete runs\<close>

definition config_server :: "(nat, nat) Server" where
  "config_server = sample_server\<lparr>roles := newRoleConfig ''bot'' ''alice'' ''root'' '''' '''' ''''\<rparr>"

text \<open>Decoding of two schemas: the second has a field more.\<close>

definition sample_unmarshal :: unmarshal where
  "sample_unmarshal raw = Inr (Some [(''type'', JString ''object''), (''properties'', JObject
     ((''replicas'', JObject [(''type'', JString ''integer'')]) #
      (if raw = ''v2'' then [(''ready'', JObject [(''type'', JString ''boolean'')])] else [])))])"

definition config_cel :: "(unit, unit) cel_checker" where
  "config_cel = \<lparr>BaseEnv = Inr (), DecodeSchema = (\<lambda>_. Inr ()), SchemaEnv = (\<lambda>_. Inr ()), CompileIn = (\<lambda>_ _. None)\<rparr>"

definition schema_gr :: "string \<Rightarrow> raw_json \<Rightarrow> GovernedResource" where
  "schema_gr name raw = sample_gr\<lparr>GRMeta := empty_meta\<lparr>Name := name\<rparr>, ContextFetcher := ''karpenter'', ContextSchema := Some raw\<rparr>"

definition put_schema :: "raw_json \<Rightarrow> resource_call" where
  "put_schema raw = PutGovernedResource (sample_http ''root'' (Some (schema_gr ''req'' raw)))"

definition config_call :: "resource_call \<Rightarrow> response prog" where
  "config_call c = serve_resource ref_libs sample_unmarshal config_cel config_server (retry_conflict 5) c"

theorem configuration_writes_guarded_witness:
  "let es = trace_of srv_env (config_call (put_schema ''v2''))
         (world 5 [OGovernedResource (schema_gr ''req'' ''v1''), OGovernedResource (schema_gr ''peer'' ''v1'')])
   in writes_at 2 es \<and> config_write ref_libs sample_unmarshal config_cel config_server (put_schema ''v2'') (take 2 es) (es ! 2)"
proof -
  let ?es = "trace_of srv_env (config_call (put_schema ''v2''))
    (world 5 [OGovernedResource (schema_gr ''req'' ''v1''), OGovernedResource (schema_gr ''peer'' ''v1'')])"
  have w: "writes_at 2 ?es" by code_simp
  then have "\<not> is_read (?es ! 2)" by (simp add: writes_at_def)
  with w configuration_writes_guarded [OF retry_conflict_retries exec_at [OF w, unfolded config_call_def]]
  show ?thesis unfolding config_call_def Let_def by blast
qed

text \<open>Removing the field again is refused with a conflict, and so is a caller who is not an admin.\<close>

lemma shrinking_refused:
  "status_code (result_of srv_env (config_call (put_schema ''v1'')) (world 5 [OGovernedResource (schema_gr ''req'' ''v2'')])) = 409"
  "status_code (result_of srv_env (config_call (PutGovernedResource (sample_http ''alice'' (Some (schema_gr ''req'' ''v2'')))))
     (world 5 [OGovernedResource (schema_gr ''req'' ''v1'')])) = 403"
  by code_simp+

definition agent_profile :: "string \<Rightarrow> string \<Rightarrow> AgentTrustProfile" where
  "agent_profile n agent = \<lparr>ProfileMeta = sample_meta n, ProfileAgentIdentity = agent,
     ProfileStatus = \<lparr>TrustLevel = ''Observer'', ProfileDiagnosticAccuracy = None, RecentAccuracy = None,
       ProfileTotalReviewed = 0, TotalExecutions = 0, SuccessRate = None, LastPromotedAt = None, LastDemotedAt = None,
       LastEvaluatedAt = None\<rparr>\<rparr>"

definition list_profiles :: "string \<Rightarrow> response prog" where
  "list_profiles sub = handleListAgentTrustProfiles config_server (sample_http sub (None :: unit option))"

definition profile_world :: server where
  "profile_world = world 5 [OAgentTrustProfile (agent_profile ''p1'' ''bot''), OAgentTrustProfile (agent_profile ''p2'' ''other'')]"

theorem trust_profiles_private_witness:
  "length (shown (result_of srv_env (list_profiles ''bot'') profile_world)) = 1 \<and>
   profile_of ''bot'' (hd (shown (result_of srv_env (list_profiles ''bot'') profile_world)))"
proof -
  let ?x = "result_of srv_env (list_profiles ''bot'') profile_world"
  have len: "length (shown ?x) = 1" by code_simp
  then have "hd (shown ?x) \<in> set (shown ?x)" by (intro hd_in_set) auto
  moreover have "\<not> isAdmin (roles config_server) ''bot'' []" "\<not> isReviewer (roles config_server) ''bot'' []" by code_simp+
  ultimately show ?thesis
    using len trust_profiles_private [OF disjI1 [OF exec_run [of "list_profiles ''bot''" srv_env profile_world, unfolded list_profiles_def]]]
    unfolding list_profiles_def by (simp add: sample_http_def background_def)
qed

end
