(* ===== verification/Spec2Isabelle.thy ===== *)
theory Spec2Isabelle
  imports Controller_Gates Controller_Audit Controller_Hazards Trust_Profile GC Gateway_Resources
begin

text \<open>
  \<^bold>\<open>The Agent Intent Protocol control plane for Kubernetes.\<close>

  Agents submit \<open>AgentRequest\<close> objects through the gateway; the AgentRequest controller evaluates the
  safety policies, waits for human approval where required, takes the OpsLock of the target
  (a Lease), follows the execution and writes an audit trail.  Reviewers grade diagnoses; the
  accuracy controller counts the verdicts per agent, and the trust profile controller turns accuracy
  and executions into a trust level, which the gateway checks on admission.

  \<^bold>\<open>How the program is modelled.\<close>  Everything the program does to the outside world goes through the
  controller-runtime client, the clock and the metrics.  A handler is a value of type \<open>'a prog\<close>
  (theory \<open>K8s_Client\<close>): a tree of client calls, each continuing with the server's answer.  \<open>exec\<close>
  relates a program to its traces under arbitrary answers, so theorems about all executions hold for
  every server, every interleaving with other clients and every failure; \<open>wlp\<close>, \<open>monitored\<close>
  and \<open>guarded\<close> (theories \<open>K8s_Client\<close>, \<open>Monitors\<close>) are the proof rules.  Theorems that need the
  API server to behave as documented use the locale \<open>api_server\<close> or its interpretation, the
  reference server of theory \<open>API_Server\<close>, on which programs also run in the witnesses.  Functions of other packages
  (condition helpers, label selectors, CEL, JSON schema, globs, SHA-256, URL parsing) are
  fields of a record \<open>libs\<close> or arguments; the locale \<open>condition_lib\<close> (theory \<open>Libraries\<close>) and the
  predicates \<open>hex_digest\<close>, \<open>retries_on_conflict\<close>, \<open>sorts_entries\<close> state what is relied on.

  \<^bold>\<open>Theories.\<close>
  \<^item> \<open>AIP_Prelude\<close>: time, errors, format strings, string maps.
  \<^item> \<open>API_Types\<close>: the records and enumerations of \<open>src/api/v1alpha1\<close>.
  \<^item> \<open>K8s_Client\<close>, \<open>Monitors\<close>, \<open>Libraries\<close>, \<open>API_Server\<close>, \<open>Client_Retry\<close>, \<open>Samples\<close>: client programs, monitors,
    library contracts, the reference server, \<open>retry.RetryOnConflict\<close>, sample objects.
  \<^item> \<open>Evaluator\<close>: \<open>src/internal/evaluation/{cel,evaluator,target_context}.go\<close>.  The action is the
    most restrictive one, monotone in the policies and independent of their order and of the
    program cache.
  \<^item> \<open>Context_Fetchers\<close>: \<open>src/internal/evaluation/k8s_fetcher.go\<close>.
  \<^item> \<open>OpsLock\<close>, \<open>AgentRequest_Controller\<close>: \<open>src/internal/controller/agentrequest_controller.go\<close>, every
    phase handler.  \<open>Controller_Safety\<close>: phase edges, own leases, absorbing terminal phases.
    \<open>Controller_Gates\<close>: no lock without policy evaluation, no approval without the lock.
    \<open>Controller_Audit\<close>: successful transitions are audited.  \<open>Controller_Hazards\<close>: concrete executions
    where a lagging cache grants a lock twice and where an audit record is lost.
  \<^item> \<open>Naming\<close>: \<open>src/api/v1alpha1/naming.go\<close>, the sanitizers of \<open>src/cmd/gateway/server.go\<close>, the dedup
    key and name of \<open>src/cmd/gateway/agent_request_handlers.go\<close>.  Strings are bytes; runes are decoded as Go
    does.
  \<^item> \<open>Float64\<close>: rounding of \<open>float64\<close> to nearest even for normal numbers, monotone and exact on small
    integers and halves.
  \<^item> \<open>Accuracy\<close>: \<open>src/internal/controller/accuracy_controller.go\<close> and the rebuild in
    \<open>src/cmd/gateway/accuracy_handlers.go\<close>.
  \<^item> \<open>Trust_Profile\<close>: \<open>src/internal/controller/agenttrustprofile_controller.go\<close>.
  \<^item> \<open>GC\<close>: \<open>src/internal/gc\<close>.  Only expired terminal requests and their audit records are deleted, a
    finished scan has deleted all of them, and a scan ends.
  \<^item> \<open>Gateway_HTTP\<close>: requests, responses, roles and the authentication middlewares of
    \<open>src/cmd/gateway/{server,oidc}.go\<close>.
  \<^item> \<open>Governed_Resource\<close>: matching and trust gate of \<open>src/cmd/gateway/governed_resource.go\<close>, and
    \<open>src/internal/controller/governedresource_controller.go\<close>.
  \<^item> \<open>Registration_Cache\<close>: \<open>src/cmd/gateway/registration_watch.go\<close>.  A list-and-watch cycle refines the
    map of registrations.
  \<^item> \<open>JWT_Manager\<close>: \<open>src/internal/jwt/manager.go\<close>.  The life of a token across a key rotation.
  \<^item> \<open>Gateway_Submit\<close>: the create and watch handlers of \<open>src/cmd/gateway/{agent_request_handlers,sse}.go\<close>.
    What is submitted was authenticated, admitted and passed the trust gate.
  \<^item> \<open>Gateway_Lifecycle\<close>: \<open>src/cmd/gateway/agent_request_{lifecycle,review,token}_handlers.go\<close>.  Who may move,
    review and grade a request, and what the token of an approval authorises.
  \<^item> \<open>Context_Schema\<close>: \<open>src/cmd/gateway/{schema_validation,cel_validation}.go\<close> and the evolution checks of
    \<open>governed_resource_handlers.go\<close>.  Which schemas are accepted, and that an accepted change keeps the declared
    fields.
  \<^item> \<open>Gateway_Resources\<close>: the handlers of governed resources, safety policies, graduation policies,
    registrations, trust profiles, audit records and accuracy summaries in \<open>src/cmd/gateway\<close>, and the routes
    of the configuration resources in \<open>main.go\<close>.  Who may change the configuration and in which way, and whose trust
    profiles a caller sees.

  \<^bold>\<open>Bounds.\<close>  Counters are unbounded integers; the accuracy bounds assume fewer than \<open>2 ^ 52\<close> reviews, below
  which \<open>int64\<close> counters do not wrap and the halves are exact in \<open>float64\<close>.  Loops of the source run over
  finite lists, and the gateway's waits over the finitely many ticks or events received; they are structural recursions, except the paging loops of \<open>GC\<close>: they take fuel, and
  \<open>Run_terminates\<close> shows that one more than the number of continue tokens is enough.

  \<^bold>\<open>Not modelled.\<close>  Watch registration (\<open>SetupWithManager\<close>), process start-up and flags, logging, the
  generated deep-copy functions, the dashboard, the demos and the scripts.  Not covered either are the MCP
  gateway (\<open>src/cmd/gateway/mcp_*.go\<close>, \<open>src/internal/mcp\<close>), the credential providers (an argument of the token
  handler), the context fetchers other than \<open>k8s_fetcher.go\<close> (an argument of the controller), and the JWT key, MCP
  server and safety policy controllers.
\<close>

end
